(* ===== verification/Prelude.thy ===== *)
theory Prelude
  imports Main "HOL-Library.Word" "HOL-Library.List_Lexorder" "HOL-Library.Char_ord"
    "HOL-Library.Sublist"
begin

text \<open>
  What every component shares.  Rust's \<^verbatim>\<open>Result\<close> with the panic made explicit
  (\<open>outcome\<close>), its \<^verbatim>\<open>?\<close> operator (\<open>and_then\<close>) and the early-return loop (\<open>for_each\<close>);
  64-bit unsigned arithmetic in its checked, saturating and profile-dependent forms; the string
  operations of the standard library the sources call (a Rust string is its UTF-8 byte sequence,
  so a HOL \<open>string\<close>, whose length counts bytes); and two interfaces for step relations.
\<close>

named_theorems outcome_simps \<open>inversion of outcome-valued programs\<close>
named_theorems u64_simps \<open>moving 64-bit arithmetic to nat\<close>

section \<open>Results, early returns and panics\<close>

datatype ('e, 'a) outcome = Ok 'a | Err 'e | Panic

text \<open>The \<^verbatim>\<open>?\<close> operator: an error or a panic of the first part ends the function.\<close>

fun and_then :: "('e, 'a) outcome \<Rightarrow> ('a \<Rightarrow> ('e, 'b) outcome) \<Rightarrow> ('e, 'b) outcome" where
  "and_then (Ok a) f = f a"
| "and_then (Err e) f = Err e"
| "and_then Panic f = Panic"

lemma and_then_cong [fundef_cong]:
  "r = r' \<Longrightarrow> (\<And>a. r' = Ok a \<Longrightarrow> f a = g a) \<Longrightarrow> and_then r f = and_then r' g"
  by (cases r') auto

lemma and_then_Ok_iff [outcome_simps]:
  "and_then r f = Ok b \<longleftrightarrow> (\<exists>a. r = Ok a \<and> f a = Ok b)"
  by (cases r) auto

lemma and_then_Err_iff [outcome_simps]:
  "and_then r f = Err e \<longleftrightarrow> r = Err e \<or> (\<exists>a. r = Ok a \<and> f a = Err e)"
  by (cases r) auto

lemma and_then_Panic_iff [outcome_simps]:
  "and_then r f = Panic \<longleftrightarrow> r = Panic \<or> (\<exists>a. r = Ok a \<and> f a = Panic)"
  by (cases r) auto

definition map_ok :: "('a \<Rightarrow> 'b) \<Rightarrow> ('e, 'a) outcome \<Rightarrow> ('e, 'b) outcome" where
  "map_ok f r = and_then r (\<lambda>a. Ok (f a))"

definition map_err :: "('e \<Rightarrow> 'f) \<Rightarrow> ('e, 'a) outcome \<Rightarrow> ('f, 'a) outcome" where
  "map_err f r = (case r of Ok a \<Rightarrow> Ok a | Err e \<Rightarrow> Err (f e) | Panic \<Rightarrow> Panic)"

text \<open>\<^verbatim>\<open>Option::ok_or_else\<close>, and the guard that returns an error when its condition holds.\<close>

definition ok_or :: "'e \<Rightarrow> 'a option \<Rightarrow> ('e, 'a) outcome" where
  "ok_or e x = (case x of None \<Rightarrow> Err e | Some a \<Rightarrow> Ok a)"

definition fail_if :: "bool \<Rightarrow> 'e \<Rightarrow> ('e, unit) outcome" where
  "fail_if b e = (if b then Err e else Ok ())"

definition is_err :: "('e, 'a) outcome \<Rightarrow> bool" where
  "is_err r \<longleftrightarrow> (case r of Err e \<Rightarrow> True | _ \<Rightarrow> False)"

lemma map_ok_simps [simp]:
  "map_ok f (Ok a) = Ok (f a)" "map_ok f (Err e) = Err e" "map_ok f Panic = Panic"
  by (simp_all add: map_ok_def)

lemma map_err_simps [simp]:
  "map_err g (Ok a) = Ok a" "map_err g (Err e) = Err (g e)" "map_err g Panic = Panic"
  by (simp_all add: map_err_def)

lemma ok_or_simps [simp]: "ok_or e None = Err e" "ok_or e (Some a) = Ok a"
  by (simp_all add: ok_or_def)

lemma fail_if_simps [simp]: "fail_if True e = Err e" "fail_if False e = Ok ()"
  by (simp_all add: fail_if_def)

lemma is_err_simps [simp]: "is_err (Err e)" "\<not> is_err (Ok a)" "\<not> is_err Panic"
  by (simp_all add: is_err_def)

lemma ok_or_iff [outcome_simps]:
  "ok_or e x = Ok a \<longleftrightarrow> x = Some a" "ok_or e x = Err e' \<longleftrightarrow> x = None \<and> e' = e"
  "ok_or e x \<noteq> Panic"
  by (auto simp: ok_or_def split: option.splits)

lemma fail_if_iff [outcome_simps]:
  "fail_if b e = Ok u \<longleftrightarrow> \<not> b" "fail_if b e = Err e' \<longleftrightarrow> b \<and> e' = e" "fail_if b e \<noteq> Panic"
  by (auto simp: fail_if_def)

lemma map_ok_iff [outcome_simps]:
  "map_ok f r = Ok b \<longleftrightarrow> (\<exists>a. r = Ok a \<and> b = f a)" "map_ok f r = Err e \<longleftrightarrow> r = Err e"
  "map_ok f r = Panic \<longleftrightarrow> r = Panic"
  by (cases r; auto)+

lemma map_err_iff [outcome_simps]:
  "map_err g r = Ok b \<longleftrightarrow> r = Ok b" "map_err g r = Err e \<longleftrightarrow> (\<exists>e'. r = Err e' \<and> e = g e')"
  "map_err g r = Panic \<longleftrightarrow> r = Panic"
  by (cases r; auto)+

text \<open>A \<^verbatim>\<open>for\<close> loop whose body may return early with an error.\<close>

fun for_each :: "('a \<Rightarrow> ('e, unit) outcome) \<Rightarrow> 'a list \<Rightarrow> ('e, unit) outcome" where
  "for_each f [] = Ok ()"
| "for_each f (x # xs) = and_then (f x) (\<lambda>_. for_each f xs)"

lemma for_each_Ok_iff [outcome_simps]:
  "for_each f xs = Ok u \<longleftrightarrow> (\<forall>x\<in>set xs. f x = Ok ())"
  by (induction xs) (auto simp: outcome_simps)

lemma for_each_ErrD: "for_each f xs = Err e \<Longrightarrow> \<exists>x\<in>set xs. f x = Err e"
  by (induction xs) (auto simp: outcome_simps)

lemma for_each_PanicD: "for_each f xs = Panic \<Longrightarrow> \<exists>x\<in>set xs. f x = Panic"
  by (induction xs) (auto simp: outcome_simps)

text \<open>
  The same for parts that also update a state: the state reached so far is kept when a part fails.
\<close>

fun and_then_st ::
  "('e, 'a) outcome \<times> 's \<Rightarrow> ('a \<Rightarrow> 's \<Rightarrow> ('e, 'b) outcome \<times> 's) \<Rightarrow> ('e, 'b) outcome \<times> 's" where
  "and_then_st (Ok a, s) f = f a s"
| "and_then_st (Err e, s) f = (Err e, s)"
| "and_then_st (Panic, s) f = (Panic, s)"

lemma and_then_st_Ok_iff [outcome_simps]:
  "and_then_st r f = (Ok b, s') \<longleftrightarrow> (\<exists>a s. r = (Ok a, s) \<and> f a s = (Ok b, s'))"
  by (cases "(r, f)" rule: and_then_st.cases) auto

text \<open>
  Every failure of a checker carries the error code it promises, and it never panics: the two
  facts are preserved by the ways checkers are composed.
\<close>

definition fails_with :: "('e \<Rightarrow> bool) \<Rightarrow> ('e, 'a) outcome \<Rightarrow> bool" where
  "fails_with P r \<longleftrightarrow> r \<noteq> Panic \<and> (case r of Err e \<Rightarrow> P e | _ \<Rightarrow> True)"

lemma fails_with_Ok [simp, intro]: "fails_with P (Ok a)"
  by (simp add: fails_with_def)

lemma fails_with_Err [simp]: "fails_with P (Err e) \<longleftrightarrow> P e"
  by (simp add: fails_with_def)

lemma fails_with_Panic [simp]: "\<not> fails_with P Panic"
  by (simp add: fails_with_def)

lemma fails_with_not_Panic: "fails_with P r \<Longrightarrow> r \<noteq> Panic"
  by (simp add: fails_with_def)

lemma fails_with_ErrD: "fails_with P r \<Longrightarrow> r = Err e \<Longrightarrow> P e"
  by simp

lemma fails_with_and_then [intro]:
  "fails_with P r \<Longrightarrow> (\<And>a. r = Ok a \<Longrightarrow> fails_with P (f a)) \<Longrightarrow> fails_with P (and_then r f)"
  by (cases r) auto

lemma fails_with_for_each [intro]:
  "(\<And>x. x \<in> set xs \<Longrightarrow> fails_with P (f x)) \<Longrightarrow> fails_with P (for_each f xs)"
  by (induction xs) auto

lemma fails_with_ok_or [simp]: "fails_with P (ok_or e x) \<longleftrightarrow> x = None \<longrightarrow> P e"
  by (cases x) auto

lemma fails_with_fail_if [simp]: "fails_with P (fail_if b e) \<longleftrightarrow> b \<longrightarrow> P e"
  by (cases b) auto

lemma fails_with_map_err [intro]: "r \<noteq> Panic \<Longrightarrow> (\<And>e. P (g e)) \<Longrightarrow> fails_with P (map_err g r)"
  by (cases r) auto

section \<open>Machine integers\<close>

type_synonym u8 = "8 word"
type_synonym u32 = "32 word"
type_synonym u64 = "64 word"
type_synonym i64 = "64 word"
type_synonym bytes = "u8 list"

text \<open>The target is 64-bit, so \<^verbatim>\<open>usize\<close> is \<^verbatim>\<open>u64\<close> and the casts between them are the identity.\<close>

type_synonym usize = u64

text \<open>\<^verbatim>\<open>u64::checked_add\<close> and \<^verbatim>\<open>saturating_sub\<close>.\<close>

definition checked_add :: "u64 \<Rightarrow> u64 \<Rightarrow> u64 option" where
  "checked_add a b = (if unat a + unat b < 2 ^ 64 then Some (a + b) else None)"

definition saturating_sub :: "u64 \<Rightarrow> u64 \<Rightarrow> u64" where
  "saturating_sub a b = (if a < b then 0 else a - b)"

text \<open>
  The plain operators: with debug assertions an overflow panics, in a release build (the
  workspace sets no \<^verbatim>\<open>overflow-checks\<close>) it wraps.
\<close>

datatype profile = Debug | Release

definition plus_u64 :: "profile \<Rightarrow> u64 \<Rightarrow> u64 \<Rightarrow> ('e, u64) outcome" where
  "plus_u64 p a b = (if unat a + unat b < 2 ^ 64 \<or> p = Release then Ok (a + b) else Panic)"

definition minus_u64 :: "profile \<Rightarrow> u64 \<Rightarrow> u64 \<Rightarrow> ('e, u64) outcome" where
  "minus_u64 p a b = (if b \<le> a \<or> p = Release then Ok (a - b) else Panic)"

lemma unat_plus_u64 [u64_simps]:
  "unat a + unat b < 2 ^ 64 \<Longrightarrow> unat (a + b) = unat a + unat (b :: u64)"
  by (simp add: unat_word_ariths)

lemma unat_lt_u64 [simp]: "unat (a :: u64) < 18446744073709551616"
  using unsigned_less [of a] by simp

lemma below_u64: "n \<le> unat (a :: u64) \<Longrightarrow> n < 18446744073709551616"
  by (rule order.strict_trans1 [OF _ unat_lt_u64])

lemma checked_add_Some_iff:
  "checked_add a b = Some c \<longleftrightarrow> unat a + unat b < 2 ^ 64 \<and> c = a + b"
  by (auto simp: checked_add_def)

lemma checked_add_None_iff: "checked_add a b = None \<longleftrightarrow> 2 ^ 64 \<le> unat a + unat b"
  by (auto simp: checked_add_def)

lemma unat_of_nat_u64 [u64_simps]: "n < 2 ^ 64 \<Longrightarrow> unat (of_nat n :: u64) = n"
  by (simp add: unat_of_nat take_bit_nat_eq_self)

lemma plus_u64_exact:
  "unat a + unat b < 2 ^ 64 \<Longrightarrow> plus_u64 p a b = Ok (a + b)"
  by (simp add: plus_u64_def)

lemma minus_u64_exact: "b \<le> a \<Longrightarrow> minus_u64 p a b = Ok (a - b)"
  by (simp add: minus_u64_def)

lemma unat_minus_u64 [u64_simps]: "b \<le> a \<Longrightarrow> unat (a - b) = unat a - unat (b :: u64)"
  by (simp add: unat_sub)

text \<open>
  No allocation of a Rust program exceeds \<^verbatim>\<open>isize::MAX\<close> bytes (documented for \<^verbatim>\<open>Vec\<close> and
  \<^verbatim>\<open>Bytes\<close>), so the length of a buffer that exists fits in a \<open>usize\<close>.
\<close>

definition fits_memory :: "bytes \<Rightarrow> bool" where
  "fits_memory bs \<longleftrightarrow> length bs < 2 ^ 63"

definition len_u64 :: "'a list \<Rightarrow> u64" where
  "len_u64 xs = of_nat (length xs)"

lemma unat_len_u64 [u64_simps]: "length xs < 2 ^ 64 \<Longrightarrow> unat (len_u64 xs) = length xs"
  by (simp add: len_u64_def u64_simps)

lemma unat_len_fits [u64_simps]: "fits_memory bs \<Longrightarrow> unat (len_u64 bs) = length bs"
  by (simp add: fits_memory_def unat_len_u64)

section \<open>Lists\<close>

text \<open>\<^verbatim>\<open>slice::windows(2)\<close>.\<close>

fun windows2 :: "'a list \<Rightarrow> ('a \<times> 'a) list" where
  "windows2 (x # y # zs) = (x, y) # windows2 (y # zs)"
| "windows2 _ = []"

lemma windows2_Cons: "windows2 (x # xs) = (case xs of [] \<Rightarrow> [] | y # ys \<Rightarrow> (x, y) # windows2 xs)"
  by (cases xs) auto

text \<open>The sub-slice \<^verbatim>\<open>xs[from..to]\<close>, which panics out of range.\<close>

definition slice_of :: "'a list \<Rightarrow> u64 \<Rightarrow> u64 \<Rightarrow> ('e, 'a list) outcome" where
  "slice_of xs i j = (if i \<le> j \<and> unat j \<le> length xs
     then Ok (take (unat j - unat i) (drop (unat i) xs)) else Panic)"

end
