(* ===== verification/Identities.thy ===== *)
theory Identities
  imports Rust_Strings
begin

text \<open>
  The identity types of \<^verbatim>\<open>contracts/src/ids.rs\<close>.  The macro \<^verbatim>\<open>uuid_id!\<close> generates six
  newtypes over a UUID that differ in their name and prefix only; here one datatype with a phantom
  kind, so that the type checker still keeps a \<open>VersionId\<close> from being passed for a \<open>FileId\<close>.
  The derived orders are instances of \<open>linorder\<close>.  Parsing and printing are in theory Ids,
  since their errors are those of theory Errors, which mentions two of these types.
\<close>

type_synonym Uuid = "128 word"

datatype 'k uuid_id = UuidId (as_uuid: Uuid)

datatype file_kind = FileKind
datatype directory_kind = DirectoryKind
datatype version_kind = VersionKind
datatype manifest_kind = ManifestKind
datatype request_kind = RequestKind
datatype operation_kind = OperationKind

type_synonym FileId = "file_kind uuid_id"
type_synonym DirectoryId = "directory_kind uuid_id"
type_synonym VersionId = "version_kind uuid_id"
type_synonym ManifestId = "manifest_kind uuid_id"
type_synonym RequestId = "request_kind uuid_id"
type_synonym OperationId = "operation_kind uuid_id"

text \<open>A content address.  Deserialising one does not validate it: any string can be inside.\<close>

datatype ChunkId = ChunkId (as_str: string)

instantiation uuid_id :: (type) linorder
begin

definition less_eq_uuid_id :: "'a uuid_id \<Rightarrow> 'a uuid_id \<Rightarrow> bool" where
  "less_eq_uuid_id a b \<longleftrightarrow> as_uuid a \<le> as_uuid b"

definition less_uuid_id :: "'a uuid_id \<Rightarrow> 'a uuid_id \<Rightarrow> bool" where
  "less_uuid_id a b \<longleftrightarrow> as_uuid a < as_uuid b"

instance
  by standard (auto simp: less_eq_uuid_id_def less_uuid_id_def uuid_id.expand)

end

instantiation ChunkId :: linorder
begin

definition less_eq_ChunkId :: "ChunkId \<Rightarrow> ChunkId \<Rightarrow> bool" where
  "less_eq_ChunkId a b \<longleftrightarrow> as_str a \<le> as_str b"

definition less_ChunkId :: "ChunkId \<Rightarrow> ChunkId \<Rightarrow> bool" where
  "less_ChunkId a b \<longleftrightarrow> as_str a < as_str b"

instance
  by standard (auto simp: less_eq_ChunkId_def less_ChunkId_def ChunkId.expand)

end

end
