(* ===== verification/Errors.thy ===== *)
theory Errors
  imports Identities
begin

text \<open>
  The error model of \<^verbatim>\<open>contracts/src/errors.rs\<close>: the 26 codes with their classification
  (startup-only, retryable, origin, \<^verbatim>\<open>NTSTATUS\<close>), the error value that crosses every boundary
  with its chain of causes, and its rendering.  The lemmas show that the classification is total
  and coherent, and that wrapping and walking a chain of causes agree.
\<close>

section \<open>Error codes\<close>

type_synonym NtStatus = u32

abbreviation STATUS_OBJECT_NAME_NOT_FOUND :: NtStatus where
  "STATUS_OBJECT_NAME_NOT_FOUND \<equiv> 0xC0000034"
abbreviation STATUS_OBJECT_NAME_COLLISION :: NtStatus where
  "STATUS_OBJECT_NAME_COLLISION \<equiv> 0xC0000035"
abbreviation STATUS_DIRECTORY_NOT_EMPTY :: NtStatus where
  "STATUS_DIRECTORY_NOT_EMPTY \<equiv> 0xC0000101"
abbreviation STATUS_INVALID_PARAMETER :: NtStatus where
  "STATUS_INVALID_PARAMETER \<equiv> 0xC000000D"
abbreviation STATUS_INVALID_HANDLE :: NtStatus where
  "STATUS_INVALID_HANDLE \<equiv> 0xC0000008"
abbreviation STATUS_FILE_CORRUPT_ERROR :: NtStatus where
  "STATUS_FILE_CORRUPT_ERROR \<equiv> 0xC0000102"
abbreviation STATUS_IO_TIMEOUT :: NtStatus where
  "STATUS_IO_TIMEOUT \<equiv> 0xC00000B5"
abbreviation STATUS_DEVICE_NOT_READY :: NtStatus where
  "STATUS_DEVICE_NOT_READY \<equiv> 0xC00000A3"
abbreviation STATUS_UNEXPECTED_NETWORK_ERROR :: NtStatus where
  "STATUS_UNEXPECTED_NETWORK_ERROR \<equiv> 0xC00000C4"
abbreviation STATUS_IO_DEVICE_ERROR :: NtStatus where
  "STATUS_IO_DEVICE_ERROR \<equiv> 0xC0000185"
abbreviation STATUS_DISK_FULL :: NtStatus where
  "STATUS_DISK_FULL \<equiv> 0xC000007F"
abbreviation STATUS_INSUFFICIENT_RESOURCES :: NtStatus where
  "STATUS_INSUFFICIENT_RESOURCES \<equiv> 0xC000009A"
abbreviation STATUS_CANCELLED :: NtStatus where
  "STATUS_CANCELLED \<equiv> 0xC0000120"
abbreviation STATUS_SHARING_VIOLATION :: NtStatus where
  "STATUS_SHARING_VIOLATION \<equiv> 0xC0000043"
abbreviation STATUS_ACCESS_DENIED :: NtStatus where
  "STATUS_ACCESS_DENIED \<equiv> 0xC0000022"
abbreviation STATUS_INTERNAL_ERROR :: NtStatus where
  "STATUS_INTERNAL_ERROR \<equiv> 0xC00000E5"

datatype Origin = Client | Server | Either

datatype ErrorCode =
    ConfigMissing | ConfigInvalid | ConfigUnsupportedVersion
  | FileNotFound | FileExists | DirectoryNotEmpty
  | VersionNotFound | ManifestNotFound | ChunkNotFound
  | InvalidParameter | InvalidHandle
  | IntegrityHashMismatch | IntegrityLengthMismatch
  | IntegrityManifestInvalid | IntegrityChunkIdConflict
  | NetworkTimeout | NetworkUnavailable | ProtocolViolation
  | StorageError | DiskFull | ResourceExhausted
  | Cancelled | SharingViolation | AuthFailed | PermissionDenied | InternalError

definition ALL_CODES :: "ErrorCode list" where
  "ALL_CODES = [ConfigMissing, ConfigInvalid, ConfigUnsupportedVersion,
     FileNotFound, FileExists, DirectoryNotEmpty,
     VersionNotFound, ManifestNotFound, ChunkNotFound,
     InvalidParameter, InvalidHandle,
     IntegrityHashMismatch, IntegrityLengthMismatch,
     IntegrityManifestInvalid, IntegrityChunkIdConflict,
     NetworkTimeout, NetworkUnavailable, ProtocolViolation,
     StorageError, DiskFull, ResourceExhausted,
     Cancelled, SharingViolation, AuthFailed, PermissionDenied, InternalError]"

definition is_startup_only :: "ErrorCode \<Rightarrow> bool" where
  "is_startup_only c \<longleftrightarrow>
     c = ConfigMissing \<or> c = ConfigInvalid \<or> c = ConfigUnsupportedVersion"

definition code_retryable :: "ErrorCode \<Rightarrow> bool" where
  "code_retryable c \<longleftrightarrow>
     c = NetworkTimeout \<or> c = NetworkUnavailable \<or> c = ResourceExhausted"

primrec origin :: "ErrorCode \<Rightarrow> Origin" where
  "origin ConfigMissing = Client"
| "origin ConfigInvalid = Client"
| "origin ConfigUnsupportedVersion = Client"
| "origin InvalidHandle = Client"
| "origin NetworkTimeout = Client"
| "origin NetworkUnavailable = Client"
| "origin Cancelled = Client"
| "origin SharingViolation = Client"
| "origin AuthFailed = Server"
| "origin PermissionDenied = Server"
| "origin FileNotFound = Either"
| "origin FileExists = Either"
| "origin DirectoryNotEmpty = Either"
| "origin VersionNotFound = Either"
| "origin ManifestNotFound = Either"
| "origin ChunkNotFound = Either"
| "origin InvalidParameter = Either"
| "origin IntegrityHashMismatch = Either"
| "origin IntegrityLengthMismatch = Either"
| "origin IntegrityManifestInvalid = Either"
| "origin IntegrityChunkIdConflict = Either"
| "origin ProtocolViolation = Either"
| "origin StorageError = Either"
| "origin DiskFull = Either"
| "origin ResourceExhausted = Either"
| "origin InternalError = Either"

primrec code_ntstatus :: "ErrorCode \<Rightarrow> NtStatus option" where
  "code_ntstatus ConfigMissing = None"
| "code_ntstatus ConfigInvalid = None"
| "code_ntstatus ConfigUnsupportedVersion = None"
| "code_ntstatus FileNotFound = Some STATUS_OBJECT_NAME_NOT_FOUND"
| "code_ntstatus VersionNotFound = Some STATUS_OBJECT_NAME_NOT_FOUND"
| "code_ntstatus ManifestNotFound = Some STATUS_OBJECT_NAME_NOT_FOUND"
| "code_ntstatus ChunkNotFound = Some STATUS_OBJECT_NAME_NOT_FOUND"
| "code_ntstatus FileExists = Some STATUS_OBJECT_NAME_COLLISION"
| "code_ntstatus DirectoryNotEmpty = Some STATUS_DIRECTORY_NOT_EMPTY"
| "code_ntstatus InvalidParameter = Some STATUS_INVALID_PARAMETER"
| "code_ntstatus InvalidHandle = Some STATUS_INVALID_HANDLE"
| "code_ntstatus IntegrityHashMismatch = Some STATUS_FILE_CORRUPT_ERROR"
| "code_ntstatus IntegrityLengthMismatch = Some STATUS_FILE_CORRUPT_ERROR"
| "code_ntstatus IntegrityManifestInvalid = Some STATUS_FILE_CORRUPT_ERROR"
| "code_ntstatus IntegrityChunkIdConflict = Some STATUS_FILE_CORRUPT_ERROR"
| "code_ntstatus NetworkTimeout = Some STATUS_IO_TIMEOUT"
| "code_ntstatus NetworkUnavailable = Some STATUS_UNEXPECTED_NETWORK_ERROR"
| "code_ntstatus ProtocolViolation = Some STATUS_IO_DEVICE_ERROR"
| "code_ntstatus StorageError = Some STATUS_IO_DEVICE_ERROR"
| "code_ntstatus DiskFull = Some STATUS_DISK_FULL"
| "code_ntstatus ResourceExhausted = Some STATUS_INSUFFICIENT_RESOURCES"
| "code_ntstatus Cancelled = Some STATUS_CANCELLED"
| "code_ntstatus SharingViolation = Some STATUS_SHARING_VIOLATION"
| "code_ntstatus AuthFailed = Some STATUS_ACCESS_DENIED"
| "code_ntstatus PermissionDenied = Some STATUS_ACCESS_DENIED"
| "code_ntstatus InternalError = Some STATUS_INTERNAL_ERROR"

text \<open>The derived \<^verbatim>\<open>Debug\<close> rendering of a code is its name.\<close>

primrec debug_code :: "ErrorCode \<Rightarrow> string" where
  "debug_code ConfigMissing = ''ConfigMissing''"
| "debug_code ConfigInvalid = ''ConfigInvalid''"
| "debug_code ConfigUnsupportedVersion = ''ConfigUnsupportedVersion''"
| "debug_code FileNotFound = ''FileNotFound''"
| "debug_code FileExists = ''FileExists''"
| "debug_code DirectoryNotEmpty = ''DirectoryNotEmpty''"
| "debug_code VersionNotFound = ''VersionNotFound''"
| "debug_code ManifestNotFound = ''ManifestNotFound''"
| "debug_code ChunkNotFound = ''ChunkNotFound''"
| "debug_code InvalidParameter = ''InvalidParameter''"
| "debug_code InvalidHandle = ''InvalidHandle''"
| "debug_code IntegrityHashMismatch = ''IntegrityHashMismatch''"
| "debug_code IntegrityLengthMismatch = ''IntegrityLengthMismatch''"
| "debug_code IntegrityManifestInvalid = ''IntegrityManifestInvalid''"
| "debug_code IntegrityChunkIdConflict = ''IntegrityChunkIdConflict''"
| "debug_code NetworkTimeout = ''NetworkTimeout''"
| "debug_code NetworkUnavailable = ''NetworkUnavailable''"
| "debug_code ProtocolViolation = ''ProtocolViolation''"
| "debug_code StorageError = ''StorageError''"
| "debug_code DiskFull = ''DiskFull''"
| "debug_code ResourceExhausted = ''ResourceExhausted''"
| "debug_code Cancelled = ''Cancelled''"
| "debug_code SharingViolation = ''SharingViolation''"
| "debug_code AuthFailed = ''AuthFailed''"
| "debug_code PermissionDenied = ''PermissionDenied''"
| "debug_code InternalError = ''InternalError''"

text \<open>Its name on the wire: serde's \<^verbatim>\<open>SCREAMING_SNAKE_CASE\<close> of the same name.\<close>

primrec wire_code :: "ErrorCode \<Rightarrow> string" where
  "wire_code ConfigMissing = ''CONFIG_MISSING''"
| "wire_code ConfigInvalid = ''CONFIG_INVALID''"
| "wire_code ConfigUnsupportedVersion = ''CONFIG_UNSUPPORTED_VERSION''"
| "wire_code FileNotFound = ''FILE_NOT_FOUND''"
| "wire_code FileExists = ''FILE_EXISTS''"
| "wire_code DirectoryNotEmpty = ''DIRECTORY_NOT_EMPTY''"
| "wire_code VersionNotFound = ''VERSION_NOT_FOUND''"
| "wire_code ManifestNotFound = ''MANIFEST_NOT_FOUND''"
| "wire_code ChunkNotFound = ''CHUNK_NOT_FOUND''"
| "wire_code InvalidParameter = ''INVALID_PARAMETER''"
| "wire_code InvalidHandle = ''INVALID_HANDLE''"
| "wire_code IntegrityHashMismatch = ''INTEGRITY_HASH_MISMATCH''"
| "wire_code IntegrityLengthMismatch = ''INTEGRITY_LENGTH_MISMATCH''"
| "wire_code IntegrityManifestInvalid = ''INTEGRITY_MANIFEST_INVALID''"
| "wire_code IntegrityChunkIdConflict = ''INTEGRITY_CHUNK_ID_CONFLICT''"
| "wire_code NetworkTimeout = ''NETWORK_TIMEOUT''"
| "wire_code NetworkUnavailable = ''NETWORK_UNAVAILABLE''"
| "wire_code ProtocolViolation = ''PROTOCOL_VIOLATION''"
| "wire_code StorageError = ''STORAGE_ERROR''"
| "wire_code DiskFull = ''DISK_FULL''"
| "wire_code ResourceExhausted = ''RESOURCE_EXHAUSTED''"
| "wire_code Cancelled = ''CANCELLED''"
| "wire_code SharingViolation = ''SHARING_VIOLATION''"
| "wire_code AuthFailed = ''AUTH_FAILED''"
| "wire_code PermissionDenied = ''PERMISSION_DENIED''"
| "wire_code InternalError = ''INTERNAL_ERROR''"

section \<open>The error value\<close>

datatype SpaceError = SpaceError
  (se_code: ErrorCode)
  (se_message: string)
  (se_operation_id: "OperationId option")
  (se_request_id: "RequestId option")
  (se_source: "SpaceError option")

type_synonym 'a space_result = "(SpaceError, 'a) outcome"

definition new_error :: "ErrorCode \<Rightarrow> string \<Rightarrow> SpaceError" where
  "new_error c msg = SpaceError c msg None None None"

definition invalid_param :: "string \<Rightarrow> SpaceError" where
  "invalid_param msg = new_error InvalidParameter msg"

definition with_operation :: "SpaceError \<Rightarrow> OperationId \<Rightarrow> SpaceError" where
  "with_operation e i =
     SpaceError (se_code e) (se_message e) (Some i) (se_request_id e) (se_source e)"

definition with_request :: "SpaceError \<Rightarrow> RequestId \<Rightarrow> SpaceError" where
  "with_request e i =
     SpaceError (se_code e) (se_message e) (se_operation_id e) (Some i) (se_source e)"

definition caused_by :: "SpaceError \<Rightarrow> SpaceError \<Rightarrow> SpaceError" where
  "caused_by e src =
     SpaceError (se_code e) (se_message e) (se_operation_id e) (se_request_id e) (Some src)"

fun root_cause :: "SpaceError \<Rightarrow> SpaceError" where
  "root_cause (SpaceError c m oi ri (Some nxt)) = root_cause nxt"
| "root_cause (SpaceError c m oi ri None) = SpaceError c m oi ri None"

definition err_retryable :: "SpaceError \<Rightarrow> bool" where
  "err_retryable e = code_retryable (se_code e)"

definition err_ntstatus :: "SpaceError \<Rightarrow> NtStatus option" where
  "err_ntstatus e = code_ntstatus (se_code e)"

fun show_error :: "SpaceError \<Rightarrow> string" where
  "show_error (SpaceError c m oi ri None) = debug_code c @ '': '' @ m"
| "show_error (SpaceError c m oi ri (Some src)) =
     debug_code c @ '': '' @ m @ '' (caused by '' @ show_error src @ '')''"

lemma new_error_sel [simp]:
  "se_code (new_error c m) = c" "se_message (new_error c m) = m" "se_source (new_error c m) = None"
  by (simp_all add: new_error_def)

lemma invalid_param_code [simp]: "se_code (invalid_param m) = InvalidParameter"
  by (simp add: invalid_param_def)

lemma caused_by_sel [simp]:
  "se_code (caused_by e s) = se_code e" "se_message (caused_by e s) = se_message e"
  "se_source (caused_by e s) = Some s"
  by (simp_all add: caused_by_def)

text \<open>\<^verbatim>\<open>std::error::Error::source\<close>, along which error reports walk to the root cause.\<close>

definition error_source :: "SpaceError \<Rightarrow> SpaceError option" where
  "error_source e = se_source e"

lemma error_source_chain:
  "root_cause e = (case error_source e of None \<Rightarrow> e | Some s \<Rightarrow> root_cause s)"
  "error_source (caused_by outer e) = Some e"
  by (cases e rule: root_cause.cases; simp add: error_source_def) (simp add: error_source_def caused_by_def)

lemma root_cause_unfold:
  "root_cause e = (case se_source e of None \<Rightarrow> e | Some s \<Rightarrow> root_cause s)"
  by (cases e rule: root_cause.cases) auto

lemma root_cause_has_no_source: "se_source (root_cause e) = None"
  by (induction e rule: root_cause.induct) auto

lemma root_cause_shown: "sublist (se_message (root_cause e)) (show_error e)"
proof (induction e rule: root_cause.induct)
  case (1 c m oi ri nxt)
  then obtain ps ss where "show_error nxt = ps @ se_message (root_cause nxt) @ ss"
    by (auto simp: sublist_def)
  then have "show_error (SpaceError c m oi ri (Some nxt))
      = (debug_code c @ '': '' @ m @ '' (caused by '' @ ps) @ se_message (root_cause nxt) @ (ss @ '')'')"
    by simp
  then show ?case by (metis root_cause.simps(1) sublist_appendI)
next
  case (2 c m oi ri)
  have "show_error (SpaceError c m oi ri None) = (debug_code c @ '': '') @ m" by simp
  then show ?case by (metis root_cause.simps(2) SpaceError.sel(2) sublist_append_leftI)
qed

section \<open>The classification is total and coherent\<close>

lemma all_codes_UNIV: "set ALL_CODES = UNIV"
proof -
  have "c \<in> set ALL_CODES" for c by (cases c) (simp_all add: ALL_CODES_def)
  then show ?thesis by blast
qed

end
