(* ===== verification/Ids.thy ===== *)
theory Ids
  imports Errors
begin

text \<open>
  Parsing and printing of identities (\<^verbatim>\<open>contracts/src/ids.rs\<close>).  The UUID text form and the
  BLAKE3 digest are third-party: \<open>uuid_parse\<close>, \<open>uuid_show\<close> (\<^verbatim>\<open>Uuid::parse_str\<close> and its
  \<^verbatim>\<open>Display\<close>) and \<open>b3hex\<close> (\<^verbatim>\<open>blake3::hash(bytes).to_hex()\<close>) are arguments.  What they are
  documented to do is \<open>uuid_text\<close> (parsing inverts printing) and \<open>hex_digest\<close> (64 lowercase
  hex digits).  Nothing here assumes that a digest has no collisions.
\<close>

section \<open>UUID identities\<close>

definition uuid_text :: "(string \<Rightarrow> Uuid option) \<Rightarrow> (Uuid \<Rightarrow> string) \<Rightarrow> bool" where
  "uuid_text uuid_parse uuid_show \<longleftrightarrow> (\<forall>u. uuid_parse (uuid_show u) = Some u)"

definition parse_uuid_id ::
  "string \<Rightarrow> (string \<Rightarrow> Uuid option) \<Rightarrow> string \<Rightarrow> 'k uuid_id space_result" where
  "parse_uuid_id pre uuid_parse s =
     and_then (ok_or (invalid_param (''expected '' @ pre @ '' prefix'')) (strip_prefix pre s))
       (\<lambda>rest. map_ok UuidId (ok_or (invalid_param ''malformed uuid'') (uuid_parse rest)))"

definition show_uuid_id :: "string \<Rightarrow> (Uuid \<Rightarrow> string) \<Rightarrow> 'k uuid_id \<Rightarrow> string" where
  "show_uuid_id pre uuid_show i = pre @ uuid_show (as_uuid i)"

definition FileId_parse :: "(string \<Rightarrow> Uuid option) \<Rightarrow> string \<Rightarrow> FileId space_result" where
  "FileId_parse = parse_uuid_id ''f_''"

definition DirectoryId_parse :: "(string \<Rightarrow> Uuid option) \<Rightarrow> string \<Rightarrow> DirectoryId space_result" where
  "DirectoryId_parse = parse_uuid_id ''d_''"

definition VersionId_parse :: "(string \<Rightarrow> Uuid option) \<Rightarrow> string \<Rightarrow> VersionId space_result" where
  "VersionId_parse = parse_uuid_id ''v_''"

definition ManifestId_parse :: "(string \<Rightarrow> Uuid option) \<Rightarrow> string \<Rightarrow> ManifestId space_result" where
  "ManifestId_parse = parse_uuid_id ''m_''"

definition RequestId_parse :: "(string \<Rightarrow> Uuid option) \<Rightarrow> string \<Rightarrow> RequestId space_result" where
  "RequestId_parse = parse_uuid_id ''r_''"

definition OperationId_parse :: "(string \<Rightarrow> Uuid option) \<Rightarrow> string \<Rightarrow> OperationId space_result" where
  "OperationId_parse = parse_uuid_id ''o_''"

definition FileId_show :: "(Uuid \<Rightarrow> string) \<Rightarrow> FileId \<Rightarrow> string" where
  "FileId_show = show_uuid_id ''f_''"

definition DirectoryId_show :: "(Uuid \<Rightarrow> string) \<Rightarrow> DirectoryId \<Rightarrow> string" where
  "DirectoryId_show = show_uuid_id ''d_''"

definition VersionId_show :: "(Uuid \<Rightarrow> string) \<Rightarrow> VersionId \<Rightarrow> string" where
  "VersionId_show = show_uuid_id ''v_''"

definition ManifestId_show :: "(Uuid \<Rightarrow> string) \<Rightarrow> ManifestId \<Rightarrow> string" where
  "ManifestId_show = show_uuid_id ''m_''"

definition RequestId_show :: "(Uuid \<Rightarrow> string) \<Rightarrow> RequestId \<Rightarrow> string" where
  "RequestId_show = show_uuid_id ''r_''"

definition OperationId_show :: "(Uuid \<Rightarrow> string) \<Rightarrow> OperationId \<Rightarrow> string" where
  "OperationId_show = show_uuid_id ''o_''"

text \<open>\<^verbatim>\<open>FromStr\<close> and the derived rendering for debugging are the same functions.\<close>

definition uuid_id_from_str :: "string \<Rightarrow> (string \<Rightarrow> Uuid option) \<Rightarrow> string \<Rightarrow> 'k uuid_id space_result" where
  "uuid_id_from_str pre uuid_parse s = parse_uuid_id pre uuid_parse s"

definition debug_uuid_id :: "string \<Rightarrow> (Uuid \<Rightarrow> string) \<Rightarrow> 'k uuid_id \<Rightarrow> string" where
  "debug_uuid_id pre uuid_show i = show_uuid_id pre uuid_show i"

lemmas id_parse_defs = FileId_parse_def DirectoryId_parse_def VersionId_parse_def
  ManifestId_parse_def RequestId_parse_def OperationId_parse_def

lemmas id_show_defs = FileId_show_def DirectoryId_show_def VersionId_show_def
  ManifestId_show_def RequestId_show_def OperationId_show_def

lemma parse_show_uuid_id:
  "uuid_text uuid_parse uuid_show \<Longrightarrow>
   parse_uuid_id pre uuid_parse (show_uuid_id pre uuid_show i) = Ok i"
  by (simp add: parse_uuid_id_def show_uuid_id_def uuid_text_def)

lemma parse_uuid_id_other_prefix:
  assumes "length pre = length pre'" and "pre \<noteq> pre'"
  shows "parse_uuid_id pre uuid_parse (show_uuid_id pre' uuid_show i)
    = Err (invalid_param (''expected '' @ pre @ '' prefix''))"
proof -
  have "strip_prefix pre (pre' @ uuid_show (as_uuid i)) = None"
    using assms by (auto simp: strip_prefix_def)
  then show ?thesis by (simp add: parse_uuid_id_def show_uuid_id_def)
qed

lemma parse_uuid_id_fails_with:
  "fails_with (\<lambda>e. se_code e = InvalidParameter) (parse_uuid_id pre uuid_parse s)"
  unfolding parse_uuid_id_def map_ok_def by (intro fails_with_and_then) auto

lemma parse_uuid_id_not_Panic [simp]: "parse_uuid_id pre uuid_parse s \<noteq> Panic"
  by (rule fails_with_not_Panic [OF parse_uuid_id_fails_with])

lemma parse_uuid_id_OkD:
  "parse_uuid_id pre uuid_parse s = Ok i \<Longrightarrow> \<exists>rest. s = pre @ rest \<and> uuid_parse rest = Some (as_uuid i)"
  by (auto simp: parse_uuid_id_def outcome_simps strip_prefix_Some_iff)

section \<open>Content addresses\<close>

definition is_lower_hex :: "char \<Rightarrow> bool" where
  "is_lower_hex c \<longleftrightarrow>
     (let n = of_char c :: nat in (48 \<le> n \<and> n \<le> 57) \<or> (97 \<le> n \<and> n \<le> 102))"

definition hex_digest :: "(bytes \<Rightarrow> string) \<Rightarrow> bool" where
  "hex_digest b3hex \<longleftrightarrow> (\<forall>bs. length (b3hex bs) = 64 \<and> list_all is_lower_hex (b3hex bs))"

definition ChunkId_from_bytes :: "(bytes \<Rightarrow> string) \<Rightarrow> bytes \<Rightarrow> ChunkId" where
  "ChunkId_from_bytes b3hex bs = ChunkId (''b3:'' @ b3hex bs)"

definition ChunkId_parse :: "string \<Rightarrow> ChunkId space_result" where
  "ChunkId_parse s =
     and_then (ok_or (invalid_param ''chunk id must start with b3:'') (strip_prefix ''b3:'' s))
       (\<lambda>hex. and_then (fail_if (length hex \<noteq> 64) (invalid_param ''chunk id hash must be 64 hex chars''))
       (\<lambda>_. and_then (fail_if (\<not> list_all is_lower_hex hex) (invalid_param ''chunk id must be lowercase hex''))
       (\<lambda>_. Ok (ChunkId s))))"

definition ChunkId_verify :: "(bytes \<Rightarrow> string) \<Rightarrow> ChunkId \<Rightarrow> bytes \<Rightarrow> bool" where
  "ChunkId_verify b3hex i bs \<longleftrightarrow> i = ChunkId_from_bytes b3hex bs"

definition show_chunk_id :: "ChunkId \<Rightarrow> string" where
  "show_chunk_id i = as_str i"

definition debug_chunk_id :: "ChunkId \<Rightarrow> string" where
  "debug_chunk_id i = as_str i"

definition ChunkId_from_str :: "string \<Rightarrow> ChunkId space_result" where
  "ChunkId_from_str s = ChunkId_parse s"

text \<open>The syntax the parser accepts, as a predicate.\<close>

definition wf_chunk_id :: "ChunkId \<Rightarrow> bool" where
  "wf_chunk_id i \<longleftrightarrow>
     (\<exists>hex. as_str i = ''b3:'' @ hex \<and> length hex = 64 \<and> list_all is_lower_hex hex)"

lemma ChunkId_parse_Ok_iff: "ChunkId_parse s = Ok i \<longleftrightarrow> i = ChunkId s \<and> wf_chunk_id i"
  by (auto simp: ChunkId_parse_def wf_chunk_id_def outcome_simps strip_prefix_Some_iff)

lemma ChunkId_parse_as_str: "ChunkId_parse (as_str i) = Ok j \<longleftrightarrow> j = i \<and> wf_chunk_id i"
  by (auto simp: ChunkId_parse_Ok_iff)

lemma ChunkId_parse_fails_with:
  "fails_with (\<lambda>e. se_code e = InvalidParameter) (ChunkId_parse s)"
  unfolding ChunkId_parse_def by (intro fails_with_and_then) auto

lemma ChunkId_parse_not_Panic [simp]: "ChunkId_parse s \<noteq> Panic"
  by (rule fails_with_not_Panic [OF ChunkId_parse_fails_with])

lemma wf_from_bytes: "hex_digest b3hex \<Longrightarrow> wf_chunk_id (ChunkId_from_bytes b3hex bs)"
  by (simp add: hex_digest_def wf_chunk_id_def ChunkId_from_bytes_def)

lemma parse_from_bytes:
  "hex_digest b3hex \<Longrightarrow>
   ChunkId_parse (as_str (ChunkId_from_bytes b3hex bs)) = Ok (ChunkId_from_bytes b3hex bs)"
  by (simp add: ChunkId_parse_as_str wf_from_bytes)

lemma verify_from_bytes [simp]: "ChunkId_verify b3hex (ChunkId_from_bytes b3hex bs) bs"
  by (simp add: ChunkId_verify_def)

end
