(* ===== verification/Model.thy ===== *)
theory Model
  imports Ids
begin

text \<open>
  The domain model of \<^verbatim>\<open>contracts/src/model.rs\<close>: files, versions with their two states, chunks,
  manifest entries and manifests.  A timestamp (\<^verbatim>\<open>DateTime<Utc>\<close>) is an integer count of
  nanoseconds.  Record fields carry a letter for the struct they belong to, because Isabelle keeps
  the selectors of all records in one name space.
\<close>

type_synonym DateTime = int

datatype VersionState = Candidate | Committed

fun can_transition_to :: "VersionState \<Rightarrow> VersionState \<Rightarrow> bool" where
  "can_transition_to Candidate Committed = True"
| "can_transition_to _ _ = False"

record File =
  f_file_id :: FileId
  f_parent_id :: DirectoryId
  f_name :: string
  f_current_version_id :: "VersionId option"
  f_created_at :: DateTime
  f_modified_at :: DateTime

record Version =
  v_version_id :: VersionId
  v_file_id :: FileId
  v_parent_version_id :: "VersionId option"
  v_manifest_id :: ManifestId
  v_state :: VersionState
  v_created_at :: DateTime

record Chunk =
  c_chunk_id :: ChunkId
  c_size :: u64

record ManifestEntry =
  e_logical_offset :: u64
  e_length :: u64
  e_chunk_id :: ChunkId
  e_chunk_offset :: u64

record Manifest =
  m_manifest_id :: ManifestId
  m_total_size :: u64
  m_chunk_count :: u64
  m_entries :: "ManifestEntry list"
  m_chunks :: "Chunk list"

definition chunk_size :: "Manifest \<Rightarrow> ChunkId \<Rightarrow> u64 option" where
  "chunk_size m i = map_option c_size (find (\<lambda>c. c_chunk_id c = i) (m_chunks m))"

lemma can_transition_to_iff: "can_transition_to a b \<longleftrightarrow> a = Candidate \<and> b = Committed"
  by (cases a; cases b) auto

lemma chunk_size_Some_in: "chunk_size m i = Some n \<Longrightarrow> \<exists>c\<in>set (m_chunks m). c_chunk_id c = i \<and> c_size c = n"
  by (auto simp: chunk_size_def find_Some_iff)

lemma chunk_size_None_iff: "chunk_size m i = None \<longleftrightarrow> i \<notin> c_chunk_id ` set (m_chunks m)"
  by (auto simp: chunk_size_def find_None_iff)

lemma chunk_size_distinct:
  assumes "distinct (map c_chunk_id (m_chunks m))" and "c \<in> set (m_chunks m)"
  shows "chunk_size m (c_chunk_id c) = Some (c_size c)"
proof -
  have "find (\<lambda>d. c_chunk_id d = c_chunk_id c) cs = Some c"
    if "distinct (map c_chunk_id cs)" "c \<in> set cs" for cs
    using that by (induction cs) auto
  with assms show ?thesis by (simp add: chunk_size_def)
qed

end
