(* ===== verification/Api_Contract.thy ===== *)
theory Api_Contract
  imports Model
begin

text \<open>
  The request and response types of \<^verbatim>\<open>contracts/src/api.rs\<close>.  A message body is the value that
  serde writes or reads (\<open>Body\<close>): one of the response types as a JSON document, raw octets, or a
  plain text (what the web framework itself answers with).  Every response the macro \<^verbatim>\<open>response!\<close>
  defines carries the contract version; its \<^verbatim>\<open>new\<close> fills it in.
\<close>

definition CONTRACT_VERSION :: u32 where
  "CONTRACT_VERSION = 1"

record ErrorResponse =
  er_contract_version :: u32
  er_error :: SpaceError

definition ErrorResponse_from :: "SpaceError \<Rightarrow> ErrorResponse" where
  "ErrorResponse_from e = \<lparr>er_contract_version = CONTRACT_VERSION, er_error = e\<rparr>"

record CreateFileRequest =
  cfr_parent_id :: DirectoryId
  cfr_name :: string
  cfr_idempotency_key :: string

record FileResponse =
  fr_contract_version :: u32
  fr_file :: File

definition FileResponse_new :: "File \<Rightarrow> FileResponse" where
  "FileResponse_new f = \<lparr>fr_contract_version = CONTRACT_VERSION, fr_file = f\<rparr>"

record ListChildrenResponse =
  lcr_contract_version :: u32
  lcr_files :: "File list"

definition ListChildrenResponse_new :: "File list \<Rightarrow> ListChildrenResponse" where
  "ListChildrenResponse_new fs = \<lparr>lcr_contract_version = CONTRACT_VERSION, lcr_files = fs\<rparr>"

record CreateVersionRequest =
  cvr_version_id :: VersionId
  cvr_parent_version_id :: "VersionId option"
  cvr_manifest_id :: ManifestId

record VersionResponse =
  vr_contract_version :: u32
  vr_version :: Version

definition VersionResponse_new :: "Version \<Rightarrow> VersionResponse" where
  "VersionResponse_new v = \<lparr>vr_contract_version = CONTRACT_VERSION, vr_version = v\<rparr>"

text \<open>A commit carries an empty object.\<close>

datatype CommitVersionRequest = CommitVersionRequest

record PutManifestRequest =
  pmr_manifest :: Manifest

record ManifestResponse =
  mr_contract_version :: u32
  mr_manifest :: Manifest

definition ManifestResponse_new :: "Manifest \<Rightarrow> ManifestResponse" where
  "ManifestResponse_new m = \<lparr>mr_contract_version = CONTRACT_VERSION, mr_manifest = m\<rparr>"

record RegisterChunkRequest =
  rcr_chunk_id :: ChunkId
  rcr_size :: u64

record ChunkResponse =
  cr_contract_version :: u32
  cr_chunk :: Chunk

definition ChunkResponse_new :: "Chunk \<Rightarrow> ChunkResponse" where
  "ChunkResponse_new c = \<lparr>cr_contract_version = CONTRACT_VERSION, cr_chunk = c\<rparr>"

text \<open>Declared for the metadata half of a range read; the service sends headers and octets instead.\<close>

record ChunkRangeResponse =
  crr_contract_version :: u32
  crr_chunk_id :: ChunkId
  crr_offset :: u64
  crr_length :: u64

definition ChunkRangeResponse_new :: "ChunkId \<Rightarrow> u64 \<Rightarrow> u64 \<Rightarrow> ChunkRangeResponse" where
  "ChunkRangeResponse_new i off len =
     \<lparr>crr_contract_version = CONTRACT_VERSION, crr_chunk_id = i, crr_offset = off, crr_length = len\<rparr>"

record HealthResponse =
  hr_status :: string
  hr_service :: string
  hr_version :: string
  hr_contract_version :: u32

text \<open>\<^verbatim>\<open>CARGO_PKG_VERSION\<close> is the workspace's version.\<close>

definition HealthResponse_ok :: HealthResponse where
  "HealthResponse_ok = \<lparr>hr_status = ''ok'', hr_service = ''space-cloud'', hr_version = ''0.0.1'',
     hr_contract_version = CONTRACT_VERSION\<rparr>"

datatype Body =
    JHealth HealthResponse
  | JFile FileResponse
  | JChildren ListChildrenResponse
  | JVersion VersionResponse
  | JManifest ManifestResponse
  | JChunk ChunkResponse
  | JError ErrorResponse
  | Octets bytes
  | Plain string

text \<open>The contract version a JSON body carries.\<close>

fun body_contract_version :: "Body \<Rightarrow> u32 option" where
  "body_contract_version (JHealth r) = Some (hr_contract_version r)"
| "body_contract_version (JFile r) = Some (fr_contract_version r)"
| "body_contract_version (JChildren r) = Some (lcr_contract_version r)"
| "body_contract_version (JVersion r) = Some (vr_contract_version r)"
| "body_contract_version (JManifest r) = Some (mr_contract_version r)"
| "body_contract_version (JChunk r) = Some (cr_contract_version r)"
| "body_contract_version (JError r) = Some (er_contract_version r)"
| "body_contract_version (Octets bs) = None"
| "body_contract_version (Plain t) = None"

lemmas response_new_defs = ErrorResponse_from_def FileResponse_new_def ListChildrenResponse_new_def
  VersionResponse_new_def ManifestResponse_new_def ChunkResponse_new_def HealthResponse_ok_def

end
