(* ===== verification/Validate.thy ===== *)
theory Validate
  imports Model
begin

text \<open>
  The manifest and version invariants of \<^verbatim>\<open>contracts/src/validate.rs\<close>, one definition per
  function and in its order.  \<open>manifest_ok\<close> says what an accepted manifest is without any
  machine arithmetic: its entries tile the interval from 0 to the total size.  The main lemma is
  that the checker decides exactly that (\<open>validate_manifest_iff\<close>), whatever the 64-bit fields
  hold.
\<close>

section \<open>The checks\<close>

definition invalid :: "string \<Rightarrow> SpaceError" where
  "invalid msg = new_error IntegrityManifestInvalid msg"

definition inv01_entries_sorted :: "Manifest \<Rightarrow> unit space_result" where
  "inv01_entries_sorted m =
     fail_if (list_ex (\<lambda>(a, b). e_logical_offset a > e_logical_offset b) (windows2 (m_entries m)))
       (invalid ''inv01: entries not sorted by logical_offset'')"

definition inv02_entries_contiguous :: "Manifest \<Rightarrow> unit space_result" where
  "inv02_entries_contiguous m =
     for_each (\<lambda>(a, b).
       and_then (ok_or (invalid ''inv02: logical_offset + length overflow'')
                  (checked_add (e_logical_offset a) (e_length a)))
         (\<lambda>end'. fail_if (end' < e_logical_offset b) (invalid ''inv02: gap between entries'')))
       (windows2 (m_entries m))"

definition inv03_no_overlap :: "Manifest \<Rightarrow> unit space_result" where
  "inv03_no_overlap m =
     for_each (\<lambda>(a, b).
       and_then (ok_or (invalid ''inv03: logical_offset + length overflow'')
                  (checked_add (e_logical_offset a) (e_length a)))
         (\<lambda>end'. fail_if (end' > e_logical_offset b) (invalid ''inv03: entries overlap'')))
       (windows2 (m_entries m))"

definition inv04_starts_at_zero :: "Manifest \<Rightarrow> unit space_result" where
  "inv04_starts_at_zero m =
     (case m_entries m of
        [] \<Rightarrow> Ok ()
      | first # _ \<Rightarrow> fail_if (e_logical_offset first \<noteq> 0)
                      (invalid ''inv04: first entry does not start at 0''))"

fun sum_lengths :: "u64 \<Rightarrow> ManifestEntry list \<Rightarrow> u64 space_result" where
  "sum_lengths acc [] = Ok acc"
| "sum_lengths acc (e # es) =
     and_then (ok_or (invalid ''inv05: length sum overflow'') (checked_add acc (e_length e)))
       (\<lambda>acc'. sum_lengths acc' es)"

definition inv05_lengths_sum_to_total :: "Manifest \<Rightarrow> unit space_result" where
  "inv05_lengths_sum_to_total m =
     and_then (sum_lengths 0 (m_entries m))
       (\<lambda>acc. fail_if (acc \<noteq> m_total_size m)
                (invalid ''inv05: entry lengths do not sum to total_size''))"

definition inv06_count_matches :: "Manifest \<Rightarrow> unit space_result" where
  "inv06_count_matches m =
     fail_if (m_chunk_count m \<noteq> len_u64 (m_entries m)) (invalid ''inv06: chunk_count != entries.len()'')"

definition inv07_lengths_nonzero :: "Manifest \<Rightarrow> unit space_result" where
  "inv07_lengths_nonzero m =
     fail_if (list_ex (\<lambda>e. e_length e = 0) (m_entries m)) (invalid ''inv07: zero-length entry'')"

definition inv08_chunk_offsets_within_chunk :: "Manifest \<Rightarrow> unit space_result" where
  "inv08_chunk_offsets_within_chunk m =
     for_each (\<lambda>e.
       and_then (ok_or (invalid ''inv08: entry references unknown chunk'') (chunk_size m (e_chunk_id e)))
         (\<lambda>size'. and_then (ok_or (invalid ''inv08: chunk_offset + length overflow'')
                     (checked_add (e_chunk_offset e) (e_length e)))
         (\<lambda>end'. fail_if (end' > size') (invalid ''inv08: chunk_offset + length exceeds chunk size''))))
       (m_entries m)"

definition inv09_chunk_ids_wellformed :: "Manifest \<Rightarrow> unit space_result" where
  "inv09_chunk_ids_wellformed m =
     and_then (for_each (\<lambda>c.
         and_then (map_err (\<lambda>_. invalid ''inv09: malformed chunk id in chunks'')
                     (ChunkId_parse (as_str (c_chunk_id c))))
           (\<lambda>_. Ok ()))
         (m_chunks m))
       (\<lambda>_. and_then (for_each (\<lambda>e.
         and_then (map_err (\<lambda>_. invalid ''inv09: malformed chunk id in entry'')
                     (ChunkId_parse (as_str (e_chunk_id e))))
           (\<lambda>_. fail_if (chunk_size m (e_chunk_id e) = None)
                  (invalid ''inv09: entry chunk id has no chunk metadata'')))
         (m_entries m))
       (\<lambda>_. for_each (\<lambda>c.
         fail_if (\<not> list_ex (\<lambda>e. e_chunk_id e = c_chunk_id c) (m_entries m))
           (invalid ''inv09: unreferenced chunk metadata''))
         (m_chunks m)))"

definition inv13_empty_file_is_valid :: "Manifest \<Rightarrow> unit space_result" where
  "inv13_empty_file_is_valid m =
     fail_if (m_total_size m = 0 \<and> (m_entries m \<noteq> [] \<or> m_chunk_count m \<noteq> 0))
       (invalid ''inv13: empty file must have no entries'')"

definition validate_manifest :: "Manifest \<Rightarrow> unit space_result" where
  "validate_manifest m =
     and_then (inv13_empty_file_is_valid m) (\<lambda>_.
     and_then (inv01_entries_sorted m) (\<lambda>_.
     and_then (inv04_starts_at_zero m) (\<lambda>_.
     and_then (inv02_entries_contiguous m) (\<lambda>_.
     and_then (inv03_no_overlap m) (\<lambda>_.
     and_then (inv07_lengths_nonzero m) (\<lambda>_.
     and_then (inv05_lengths_sum_to_total m) (\<lambda>_.
     and_then (inv06_count_matches m) (\<lambda>_.
     and_then (inv09_chunk_ids_wellformed m) (\<lambda>_.
     and_then (inv08_chunk_offsets_within_chunk m) (\<lambda>_.
     Ok ()))))))))))"

primrec debug_state :: "VersionState \<Rightarrow> string" where
  "debug_state Candidate = ''Candidate''"
| "debug_state Committed = ''Committed''"

definition validate_version_transition :: "VersionState \<Rightarrow> VersionState \<Rightarrow> unit space_result" where
  "validate_version_transition from' to' =
     fail_if (\<not> can_transition_to from' to')
       (new_error IntegrityManifestInvalid
          (''inv10: illegal version transition '' @ debug_state from' @ '' -> '' @ debug_state to'))"

definition validate_file_current_version :: "File \<Rightarrow> Version \<Rightarrow> unit space_result" where
  "validate_file_current_version file current =
     and_then (fail_if (Some (v_version_id current) \<noteq> f_current_version_id file)
                 (invalid ''inv11: version is not this file's current version''))
     (\<lambda>_. and_then (fail_if (v_file_id current \<noteq> f_file_id file)
                 (invalid ''inv11: current version belongs to a different file''))
     (\<lambda>_. fail_if (v_state current \<noteq> Committed)
            (new_error VersionNotFound ''inv11: current_version_id points at a non-committed version'')))"

definition validate_version_parent :: "Version \<Rightarrow> Version \<Rightarrow> unit space_result" where
  "validate_version_parent child parent =
     and_then (fail_if (v_parent_version_id child \<noteq> Some (v_version_id parent))
                 (invalid ''inv12: parent_version_id mismatch''))
     (\<lambda>_. fail_if (v_file_id child \<noteq> v_file_id parent)
            (invalid ''inv12: parent version belongs to a different file''))"

section \<open>What an accepted manifest is\<close>

text \<open>
  \<open>tiles k es\<close>: the entries of \<open>es\<close> lie end to end from offset \<open>k\<close> on, read as natural numbers.
\<close>

fun tiles :: "nat \<Rightarrow> ManifestEntry list \<Rightarrow> bool" where
  "tiles k [] = True"
| "tiles k (e # es) \<longleftrightarrow> unat (e_logical_offset e) = k \<and> tiles (k + unat (e_length e)) es"

definition total_length :: "ManifestEntry list \<Rightarrow> nat" where
  "total_length es = sum_list (map (\<lambda>e. unat (e_length e)) es)"

definition entry_in_chunk :: "Manifest \<Rightarrow> ManifestEntry \<Rightarrow> bool" where
  "entry_in_chunk m e \<longleftrightarrow> wf_chunk_id (e_chunk_id e) \<and>
     (\<exists>n. chunk_size m (e_chunk_id e) = Some n \<and>
          unat (e_chunk_offset e) + unat (e_length e) \<le> unat n)"

definition manifest_ok :: "Manifest \<Rightarrow> bool" where
  "manifest_ok m \<longleftrightarrow>
     tiles 0 (m_entries m) \<and>
     total_length (m_entries m) = unat (m_total_size m) \<and>
     (\<forall>e\<in>set (m_entries m). 0 < e_length e) \<and>
     unat (m_chunk_count m) = length (m_entries m) \<and>
     (\<forall>e\<in>set (m_entries m). entry_in_chunk m e) \<and>
     (\<forall>c\<in>set (m_chunks m). wf_chunk_id (c_chunk_id c) \<and>
        (\<exists>e\<in>set (m_entries m). e_chunk_id e = c_chunk_id c))"

lemma total_length_simps [simp]:
  "total_length [] = 0" "total_length (e # es) = unat (e_length e) + total_length es"
  "total_length (es @ fs) = total_length es + total_length fs"
  by (simp_all add: total_length_def)

lemma tiles_append:
  "tiles k (es @ fs) \<longleftrightarrow> tiles k es \<and> tiles (k + total_length es) fs"
  by (induction es arbitrary: k) (auto simp: add.assoc)

definition adjacent :: "ManifestEntry list \<Rightarrow> bool" where
  "adjacent es \<longleftrightarrow> (\<forall>(a, b)\<in>set (windows2 es).
     unat (e_logical_offset a) + unat (e_length a) = unat (e_logical_offset b))"

lemma adjacent_simps [simp]:
  "adjacent []" "adjacent [e]"
  "adjacent (a # b # es) \<longleftrightarrow>
     unat (e_logical_offset a) + unat (e_length a) = unat (e_logical_offset b) \<and> adjacent (b # es)"
  by (auto simp: adjacent_def)

lemma tiles_adjacent: "tiles k (e # es) \<longleftrightarrow> unat (e_logical_offset e) = k \<and> adjacent (e # es)"
proof (induction es arbitrary: k e)
  case Nil
  then show ?case by simp
next
  case (Cons f fs)
  then show ?case by auto
qed

lemma checked_end_iff:
  "(\<exists>s. checked_add a l = Some s \<and> \<not> s < b) \<and> (\<exists>s. checked_add a l = Some s \<and> \<not> b < s)
    \<longleftrightarrow> unat a + unat l = unat b"
proof -
  have "unat a + unat l = unat b \<Longrightarrow> unat a + unat l < 2 ^ 64" by simp
  then show ?thesis
    by (auto simp: checked_add_Some_iff u64_simps word_less_nat_alt)
qed

lemma inv02_inv03_iff:
  "inv02_entries_contiguous m = Ok () \<and> inv03_no_overlap m = Ok () \<longleftrightarrow> adjacent (m_entries m)"
  unfolding inv02_entries_contiguous_def inv03_no_overlap_def adjacent_def
  by (simp add: outcome_simps split_beta checked_end_iff [symmetric]) blast

lemma adjacent_sorted: "adjacent (m_entries m) \<Longrightarrow> inv01_entries_sorted m = Ok ()"
  by (fastforce simp: inv01_entries_sorted_def outcome_simps adjacent_def list_ex_iff word_less_nat_alt)

lemma sum_lengths_Ok_iff:
  "sum_lengths s es = Ok t \<longleftrightarrow> unat s + total_length es = unat t"
proof (induction es arbitrary: s)
  case Nil
  then show ?case by (auto simp: word_unat_eq_iff)
next
  case (Cons e es)
  have "unat s + total_length (e # es) = unat t \<Longrightarrow> unat s + unat (e_length e) < 2 ^ 64"
    using below_u64 [of _ t] by simp
  then show ?case
    by (auto simp: outcome_simps checked_add_Some_iff Cons.IH u64_simps)
qed

lemma inv05_iff: "inv05_lengths_sum_to_total m = Ok () \<longleftrightarrow> total_length (m_entries m) = unat (m_total_size m)"
  by (auto simp: inv05_lengths_sum_to_total_def outcome_simps sum_lengths_Ok_iff)

lemma inv07_iff: "inv07_lengths_nonzero m = Ok () \<longleftrightarrow> (\<forall>e\<in>set (m_entries m). 0 < e_length e)"
  by (auto simp: inv07_lengths_nonzero_def outcome_simps list_ex_iff word_gt_0)

lemma length_le_total:
  "\<forall>e\<in>set es. 0 < e_length e \<Longrightarrow> length es \<le> total_length es"
  by (induction es) (auto simp: word_less_nat_alt)

lemma inv06_iff:
  assumes "length (m_entries m) < 2 ^ 64"
  shows "inv06_count_matches m = Ok () \<longleftrightarrow> unat (m_chunk_count m) = length (m_entries m)"
  using assms by (auto simp: inv06_count_matches_def outcome_simps unat_len_u64 word_unat_eq_iff)

lemma checked_end_within:
  "(\<exists>s. checked_add a l = Some s \<and> \<not> n < s) \<longleftrightarrow> unat a + unat l \<le> unat n"
  using below_u64 [of "unat a + unat l" n]
  by (auto simp: checked_add_Some_iff u64_simps word_less_nat_alt)

lemma inv08_iff:
  "inv08_chunk_offsets_within_chunk m = Ok () \<longleftrightarrow>
   (\<forall>e\<in>set (m_entries m). \<exists>n. chunk_size m (e_chunk_id e) = Some n \<and>
      unat (e_chunk_offset e) + unat (e_length e) \<le> unat n)"
  unfolding inv08_chunk_offsets_within_chunk_def by (simp add: outcome_simps checked_end_within)

lemma inv09_iff:
  "inv09_chunk_ids_wellformed m = Ok () \<longleftrightarrow>
   (\<forall>c\<in>set (m_chunks m). wf_chunk_id (c_chunk_id c)) \<and>
   (\<forall>e\<in>set (m_entries m). wf_chunk_id (e_chunk_id e) \<and> chunk_size m (e_chunk_id e) \<noteq> None) \<and>
   (\<forall>c\<in>set (m_chunks m). \<exists>e\<in>set (m_entries m). e_chunk_id e = c_chunk_id c)"
  unfolding inv09_chunk_ids_wellformed_def
  by (simp add: outcome_simps ChunkId_parse_as_str list_ex_iff)

lemma inv08_inv09_iff:
  "inv09_chunk_ids_wellformed m = Ok () \<and> inv08_chunk_offsets_within_chunk m = Ok () \<longleftrightarrow>
   (\<forall>e\<in>set (m_entries m). entry_in_chunk m e) \<and>
   (\<forall>c\<in>set (m_chunks m). wf_chunk_id (c_chunk_id c) \<and>
      (\<exists>e\<in>set (m_entries m). e_chunk_id e = c_chunk_id c))"
  unfolding inv08_iff inv09_iff entry_in_chunk_def by fastforce

text \<open>The checker accepts exactly the manifests whose entries tile the file.\<close>

lemma manifest_ok_validates: "validate_manifest m = Ok () \<longleftrightarrow> manifest_ok m"
proof -
  let ?es = "m_entries m"
  have start: "(inv04_starts_at_zero m = Ok () \<and> adjacent ?es) \<longleftrightarrow> tiles 0 ?es"
    by (cases ?es) (auto simp: inv04_starts_at_zero_def outcome_simps tiles_adjacent unat_eq_zero
        simp del: tiles.simps(2))
  have count: "inv06_count_matches m = Ok () \<longleftrightarrow> unat (m_chunk_count m) = length ?es"
    if "\<forall>e\<in>set ?es. 0 < e_length e" "total_length ?es = unat (m_total_size m)"
    using length_le_total [OF that(1)] that(2) below_u64 [of "length ?es" "m_total_size m"]
    by (intro inv06_iff) simp
  have empty: "inv13_empty_file_is_valid m = Ok ()"
    if "\<forall>e\<in>set ?es. 0 < e_length e" "total_length ?es = unat (m_total_size m)"
      "unat (m_chunk_count m) = length ?es"
    using length_le_total [OF that(1)] that(2,3)
    by (auto simp: inv13_empty_file_is_valid_def outcome_simps unat_eq_zero)
  have "validate_manifest m = Ok () \<longleftrightarrow>
      inv13_empty_file_is_valid m = Ok () \<and> inv01_entries_sorted m = Ok () \<and>
      inv04_starts_at_zero m = Ok () \<and>
      (inv02_entries_contiguous m = Ok () \<and> inv03_no_overlap m = Ok ()) \<and>
      inv07_lengths_nonzero m = Ok () \<and> inv05_lengths_sum_to_total m = Ok () \<and>
      inv06_count_matches m = Ok () \<and>
      (inv09_chunk_ids_wellformed m = Ok () \<and> inv08_chunk_offsets_within_chunk m = Ok ())"
    unfolding validate_manifest_def by (simp add: outcome_simps conj_assoc)
  also have "\<dots> \<longleftrightarrow> manifest_ok m"
    unfolding inv02_inv03_iff inv08_inv09_iff inv07_iff inv05_iff manifest_ok_def start [symmetric]
    using count empty adjacent_sorted [of m] by blast
  finally show ?thesis .
qed

lemma invalid_code [simp]: "se_code (invalid msg) = IntegrityManifestInvalid"
  by (simp add: invalid_def)

lemma sum_lengths_fails_with:
  "fails_with (\<lambda>e. se_code e = IntegrityManifestInvalid) (sum_lengths s es)"
  by (induction es arbitrary: s) auto

lemma validate_manifest_fails_with:
  "fails_with (\<lambda>e. se_code e = IntegrityManifestInvalid) (validate_manifest m)"
  unfolding validate_manifest_def inv13_empty_file_is_valid_def inv01_entries_sorted_def
    inv04_starts_at_zero_def inv02_entries_contiguous_def inv03_no_overlap_def
    inv07_lengths_nonzero_def inv05_lengths_sum_to_total_def inv06_count_matches_def
    inv09_chunk_ids_wellformed_def inv08_chunk_offsets_within_chunk_def
  by (intro fails_with_and_then fails_with_for_each)
     (auto split: list.splits intro: sum_lengths_fails_with)

lemma validate_manifest_not_Panic [simp]: "validate_manifest m \<noteq> Panic"
  by (rule fails_with_not_Panic [OF validate_manifest_fails_with])

lemma not_ok_rejected:
  assumes "\<not> manifest_ok m"
  obtains e where "validate_manifest m = Err e" "se_code e = IntegrityManifestInvalid"
  using assms validate_manifest_fails_with [of m] manifest_ok_validates [of m]
  by (cases "validate_manifest m") auto

end
