(* ===== verification/Object_Store.thy ===== *)
theory Object_Store
  imports Validate
begin

text \<open>
  The object store of \<^verbatim>\<open>objectstore/src/lib.rs\<close>.  The two traits are locales: what the code that
  uses a store relies on, stated through the map \<open>stored\<close> from content addresses to bodies.
  \<^verbatim>\<open>FakeObjectStore\<close>, the in-memory implementation, is translated below and interprets both; the
  shared consequences (identical bytes read back, no overwrite, exact range reads, detection of
  every corruption) are proved once in the locales.  Each operation of the implementation holds
  its lock from start to end, so an operation is one step.
\<close>

unbundle bit_operations_syntax

section \<open>The contract of a store\<close>

locale object_store =
  fixes addresses :: "ChunkId \<Rightarrow> bytes \<Rightarrow> bool"
    and put :: "'s \<Rightarrow> ChunkId \<Rightarrow> bytes \<Rightarrow> unit space_result \<times> 's"
    and get :: "'s \<Rightarrow> ChunkId \<Rightarrow> bytes space_result"
    and get_range :: "'s \<Rightarrow> ChunkId \<Rightarrow> u64 \<Rightarrow> u32 \<Rightarrow> bytes space_result"
    and head :: "'s \<Rightarrow> ChunkId \<Rightarrow> u64 space_result"
    and has :: "'s \<Rightarrow> ChunkId \<Rightarrow> bool space_result"
    and stored :: "'s \<Rightarrow> ChunkId \<Rightarrow> bytes option"
    and inv :: "'s \<Rightarrow> bool"
  assumes put_stores: "inv s \<Longrightarrow> addresses i bs \<Longrightarrow> stored s i = None \<or> stored s i = Some bs \<Longrightarrow>
      fst (put s i bs) = Ok () \<and> stored (snd (put s i bs)) = (stored s)(i \<mapsto> bs)"
    and put_conflict: "inv s \<Longrightarrow> \<not> addresses i bs \<or> (stored s i \<noteq> None \<and> stored s i \<noteq> Some bs) \<Longrightarrow>
      snd (put s i bs) = s \<and> (\<exists>e. fst (put s i bs) = Err e \<and> se_code e = IntegrityChunkIdConflict)"
    and put_inv: "inv s \<Longrightarrow> fits_memory bs \<Longrightarrow> inv (snd (put s i bs))"
    and inv_fits: "inv s \<Longrightarrow> stored s i = Some bs \<Longrightarrow> fits_memory bs"
    and get_missing: "inv s \<Longrightarrow> stored s i = None \<Longrightarrow>
      \<exists>e. get s i = Err e \<and> se_code e = ChunkNotFound"
    and get_genuine: "inv s \<Longrightarrow> stored s i = Some bs \<Longrightarrow> addresses i bs \<Longrightarrow> get s i = Ok bs"
    and get_corrupt: "inv s \<Longrightarrow> stored s i = Some bs \<Longrightarrow> \<not> addresses i bs \<Longrightarrow>
      \<exists>e. get s i = Err e \<and> se_code e = IntegrityHashMismatch"
    and range_missing: "inv s \<Longrightarrow> stored s i = None \<Longrightarrow>
      \<exists>e. get_range s i off len = Err e \<and> se_code e = ChunkNotFound"
    and range_overflow: "inv s \<Longrightarrow> stored s i = Some bs \<Longrightarrow> 2 ^ 64 \<le> unat off + unat len \<Longrightarrow>
      \<exists>e. get_range s i off len = Err e \<and> se_code e = InvalidParameter"
    and range_past_end: "inv s \<Longrightarrow> stored s i = Some bs \<Longrightarrow> unat off + unat len < 2 ^ 64 \<Longrightarrow>
      length bs < unat off + unat len \<Longrightarrow>
      \<exists>e. get_range s i off len = Err e \<and> se_code e = IntegrityLengthMismatch"
    and range_whole_corrupt: "inv s \<Longrightarrow> stored s i = Some bs \<Longrightarrow> \<not> addresses i bs \<Longrightarrow>
      off = 0 \<Longrightarrow> unat len = length bs \<Longrightarrow>
      \<exists>e. get_range s i off len = Err e \<and> se_code e = IntegrityHashMismatch"
    and range_exact: "inv s \<Longrightarrow> stored s i = Some bs \<Longrightarrow> unat off + unat len \<le> length bs \<Longrightarrow>
      addresses i bs \<or> off \<noteq> 0 \<or> unat len \<noteq> length bs \<Longrightarrow>
      get_range s i off len = Ok (take (unat len) (drop (unat off) bs))"
    and head_missing: "inv s \<Longrightarrow> stored s i = None \<Longrightarrow>
      \<exists>e. head s i = Err e \<and> se_code e = ChunkNotFound"
    and head_size: "inv s \<Longrightarrow> stored s i = Some bs \<Longrightarrow> head s i = Ok (len_u64 bs)"
    and has_iff: "inv s \<Longrightarrow> has s i = Ok (stored s i \<noteq> None)"
begin

lemma put_Ok_iff:
  "inv s \<Longrightarrow> fst (put s i bs) = Ok () \<longleftrightarrow>
     addresses i bs \<and> (stored s i = None \<or> stored s i = Some bs)"
  using put_stores [of s i bs] put_conflict [of s i bs] by fastforce

lemma put_keeps_objects:
  assumes "inv s" and "stored s j = Some b"
  shows "stored (snd (put s i bs)) j = Some b"
proof (cases "addresses i bs \<and> (stored s i = None \<or> stored s i = Some bs)")
  case True
  with assms put_stores [of s i bs] show ?thesis by auto
next
  case False
  with assms put_conflict [of s i bs] show ?thesis by auto
qed

lemma put_then_get:
  assumes "inv s" "fits_memory bs" and ok: "fst (put s i bs) = Ok ()"
  shows "get (snd (put s i bs)) i = Ok bs"
proof -
  from ok assms(1) have "addresses i bs" "stored s i = None \<or> stored s i = Some bs"
    by (simp_all add: put_Ok_iff)
  with assms put_stores [of s i bs] put_inv [of s bs i] show ?thesis
    by (auto intro: get_genuine)
qed

lemma put_twice:
  assumes "inv s" "fits_memory bs" and "fst (put s i bs) = Ok ()"
  shows "fst (put (snd (put s i bs)) i bs) = Ok ()"
    and "stored (snd (put (snd (put s i bs)) i bs)) = stored (snd (put s i bs))"
proof -
  have a: "addresses i bs" and st: "stored (snd (put s i bs)) = (stored s)(i \<mapsto> bs)"
    using assms put_Ok_iff [of s i bs] put_stores [of s i bs] by auto
  have inv': "inv (snd (put s i bs))" using assms by (simp add: put_inv)
  from put_stores [OF inv' a] st
  show "fst (put (snd (put s i bs)) i bs) = Ok ()"
    and "stored (snd (put (snd (put s i bs)) i bs)) = stored (snd (put s i bs))"
    by simp_all
qed

text \<open>No read of a whole object returns bytes that its address does not name.\<close>

lemma get_only_genuine:
  assumes "inv s" and "get s i = Ok bs"
  shows "addresses i bs" and "stored s i = Some bs"
proof -
  obtain b where b: "stored s i = Some b"
    using assms get_missing [of s i] by (cases "stored s i") auto
  with assms get_corrupt [of s i b] have a: "addresses i b" by fastforce
  with b assms get_genuine [of s i b] show "addresses i bs" "stored s i = Some bs" by auto
qed

lemma range_never_short:
  assumes "inv s" and "get_range s i off len = Ok bs"
  shows "length bs = unat len"
    and "\<exists>b. stored s i = Some b \<and> bs = take (unat len) (drop (unat off) b)"
proof -
  obtain b where b: "stored s i = Some b"
    using assms range_missing [of s i off len] by (cases "stored s i") auto
  have "\<not> 2 ^ 64 \<le> unat off + unat len"
    using assms b range_overflow [of s i b off len] by auto
  then have "unat off + unat len < 2 ^ 64" by (rule not_le_imp_less)
  then have "\<not> length b < unat off + unat len"
    using assms b range_past_end [of s i b off len] by auto
  then have le: "unat off + unat len \<le> length b" by simp
  have "addresses i b \<or> off \<noteq> 0 \<or> unat len \<noteq> length b"
    using assms b range_whole_corrupt [of s i b off len] by fastforce
  with assms b le have "bs = take (unat len) (drop (unat off) b)"
    using range_exact [of s i b off len] by simp
  with b le show "length bs = unat len"
    and "\<exists>b. stored s i = Some b \<and> bs = take (unat len) (drop (unat off) b)"
    by auto
qed

end

text \<open>The administrative trait adds deletion.\<close>

locale object_store_admin = object_store +
  fixes delete :: "'a \<Rightarrow> ChunkId \<Rightarrow> unit space_result \<times> 'a"
  assumes delete_Ok: "inv s \<Longrightarrow> fst (delete s i) = Ok ()"
    and delete_stored: "inv s \<Longrightarrow> stored (snd (delete s i)) = (stored s)(i := None)"
    and delete_inv: "inv s \<Longrightarrow> inv (snd (delete s i))"
begin

lemma delete_then_get:
  "inv s \<Longrightarrow> \<exists>e. get (snd (delete s i)) i = Err e \<and> se_code e = ChunkNotFound"
  by (rule get_missing) (simp_all add: delete_inv delete_stored)

end

section \<open>The in-memory implementation\<close>

type_synonym FakeObjectStore = "ChunkId \<Rightarrow> bytes option"

definition fake_new :: FakeObjectStore where
  "fake_new = (\<lambda>_. None)"

definition fake_put ::
  "(bytes \<Rightarrow> string) \<Rightarrow> FakeObjectStore \<Rightarrow> ChunkId \<Rightarrow> bytes \<Rightarrow> unit space_result \<times> FakeObjectStore" where
  "fake_put b3hex g i bs =
     (if \<not> ChunkId_verify b3hex i bs
      then (Err (new_error IntegrityChunkIdConflict ''chunk_id does not address these bytes''), g)
      else (case g i of
          Some existing \<Rightarrow>
            if existing = bs then (Ok (), g)
            else (Err (new_error IntegrityChunkIdConflict ''chunk_id already stores different bytes''), g)
        | None \<Rightarrow> (Ok (), g(i \<mapsto> bs))))"

definition fake_get :: "(bytes \<Rightarrow> string) \<Rightarrow> FakeObjectStore \<Rightarrow> ChunkId \<Rightarrow> bytes space_result" where
  "fake_get b3hex g i =
     and_then (ok_or (new_error ChunkNotFound ''no such chunk'') (g i))
     (\<lambda>obj. and_then (fail_if (\<not> ChunkId_verify b3hex i obj)
                (new_error IntegrityHashMismatch ''stored bytes do not match chunk_id''))
     (\<lambda>_. Ok obj))"

definition fake_get_range ::
  "(bytes \<Rightarrow> string) \<Rightarrow> FakeObjectStore \<Rightarrow> ChunkId \<Rightarrow> u64 \<Rightarrow> u32 \<Rightarrow> bytes space_result" where
  "fake_get_range b3hex g i off len =
     and_then (ok_or (new_error ChunkNotFound ''no such chunk'') (g i))
     (\<lambda>obj. and_then (ok_or (invalid_param ''offset + length overflow'') (checked_add off (ucast len)))
     (\<lambda>end'. and_then (fail_if (end' > len_u64 obj)
                (new_error IntegrityLengthMismatch ''requested range extends past the object''))
     (\<lambda>_. and_then (fail_if (off = 0 \<and> ucast len = len_u64 obj \<and> \<not> ChunkId_verify b3hex i obj)
                (new_error IntegrityHashMismatch ''stored bytes do not match chunk_id''))
     (\<lambda>_. slice_of obj off end'))))"

definition fake_head :: "FakeObjectStore \<Rightarrow> ChunkId \<Rightarrow> u64 space_result" where
  "fake_head g i = map_ok len_u64 (ok_or (new_error ChunkNotFound ''no such chunk'') (g i))"

definition fake_exists :: "FakeObjectStore \<Rightarrow> ChunkId \<Rightarrow> bool space_result" where
  "fake_exists g i = Ok (g i \<noteq> None)"

definition fake_delete :: "FakeObjectStore \<Rightarrow> ChunkId \<Rightarrow> unit space_result \<times> FakeObjectStore" where
  "fake_delete g i = (Ok (), g(i := None))"

text \<open>The two test-only back doors: one flipped byte, a truncated body.\<close>

definition corrupt_for_test :: "FakeObjectStore \<Rightarrow> ChunkId \<Rightarrow> usize \<Rightarrow> FakeObjectStore" where
  "corrupt_for_test g i at =
     (case g i of
        None \<Rightarrow> g
      | Some v \<Rightarrow> if unat at < length v then g(i \<mapsto> v[unat at := (v ! unat at) XOR 0xFF]) else g)"

definition truncate_for_test :: "FakeObjectStore \<Rightarrow> ChunkId \<Rightarrow> usize \<Rightarrow> FakeObjectStore" where
  "truncate_for_test g i len =
     (case g i of None \<Rightarrow> g | Some v \<Rightarrow> g(i \<mapsto> take (unat len) v))"

definition fake_inv :: "FakeObjectStore \<Rightarrow> bool" where
  "fake_inv g \<longleftrightarrow> (\<forall>i bs. g i = Some bs \<longrightarrow> fits_memory bs)"

lemma unat_ucast_u32 [simp]: "unat (ucast (w :: u32) :: u64) = unat w"
proof -
  have "unat w < 2 ^ 32" using unsigned_less [of w] by simp
  then show ?thesis by (simp add: unsigned_ucast_eq take_bit_nat_eq_self)
qed

lemma fits_memory_u64: "fits_memory bs \<Longrightarrow> length bs < 2 ^ 64"
  by (simp add: fits_memory_def)

lemma fake_put_cases:
  "fst (fake_put b3hex g i bs) = Ok () \<and> ChunkId_verify b3hex i bs \<and> (g i = None \<or> g i = Some bs)
     \<and> snd (fake_put b3hex g i bs) = g(i \<mapsto> bs)
   \<or> (\<exists>e. fst (fake_put b3hex g i bs) = Err e \<and> se_code e = IntegrityChunkIdConflict)
     \<and> snd (fake_put b3hex g i bs) = g
     \<and> (\<not> ChunkId_verify b3hex i bs \<or> (\<exists>b. g i = Some b \<and> b \<noteq> bs))"
  by (cases "g i") (auto simp: fake_put_def)

lemma fake_range_exact:
  assumes "fits_memory bs" and "g i = Some bs" and "unat off + unat len \<le> length bs"
    and "ChunkId_verify b3hex i bs \<or> off \<noteq> 0 \<or> unat len \<noteq> length bs"
  shows "fake_get_range b3hex g i off len = Ok (take (unat len) (drop (unat off) bs))"
proof -
  have len: "unat (len_u64 bs) = length bs" using assms(1) by (simp add: u64_simps)
  have sum: "unat off + unat (ucast len :: u64) < 2 ^ 64"
    using assms(1,3) by (simp add: fits_memory_def)
  then have end': "unat (off + ucast len) = unat off + unat len" by (simp add: u64_simps)
  have "ucast len = len_u64 bs \<longleftrightarrow> unat len = length bs"
    using len by (metis unat_ucast_u32 word_unat_eq_iff)
  then show ?thesis
    using assms(2-4) len sum end'
    by (auto simp: fake_get_range_def checked_add_def slice_of_def word_less_nat_alt word_le_nat_alt)
qed

lemma fake_range_overflow:
  "g i = Some bs \<Longrightarrow> 2 ^ 64 \<le> unat off + unat len \<Longrightarrow>
   fake_get_range b3hex g i off len = Err (invalid_param ''offset + length overflow'')"
  by (simp add: fake_get_range_def checked_add_def)

lemma fake_range_past_end:
  assumes "fits_memory bs" and "g i = Some bs"
    and "unat off + unat len < 2 ^ 64" and "length bs < unat off + unat len"
  shows "fake_get_range b3hex g i off len
    = Err (new_error IntegrityLengthMismatch ''requested range extends past the object'')"
proof -
  have "unat (len_u64 bs) = length bs" using assms(1) by (simp add: u64_simps)
  moreover have "unat (off + ucast len) = unat off + unat len" using assms(3) by (simp add: u64_simps)
  ultimately have "off + ucast len > len_u64 bs" using assms(4) by (simp add: word_less_nat_alt)
  with assms(2,3) show ?thesis by (simp add: fake_get_range_def checked_add_def)
qed

lemma fake_range_whole_corrupt:
  assumes "fits_memory bs" and "g i = Some bs" and "\<not> ChunkId_verify b3hex i bs"
    and "unat len = length bs"
  shows "fake_get_range b3hex g i 0 len
    = Err (new_error IntegrityHashMismatch ''stored bytes do not match chunk_id'')"
proof -
  have "unat (len_u64 bs) = length bs" using assms(1) by (simp add: u64_simps)
  with assms(4) have "ucast len = len_u64 bs" by (metis unat_ucast_u32 word_unat_eq_iff)
  moreover have "unat len < 2 ^ 64" using assms(1,4) by (simp add: fits_memory_def)
  ultimately show ?thesis using assms(2,3) by (simp add: fake_get_range_def checked_add_def)
qed

lemma fake_range_missing:
  "g i = None \<Longrightarrow> fake_get_range b3hex g i off len = Err (new_error ChunkNotFound ''no such chunk'')"
  by (simp add: fake_get_range_def)

lemma fake_inv_put: "fake_inv g \<Longrightarrow> fits_memory bs \<Longrightarrow> fake_inv (snd (fake_put b3hex g i bs))"
  using fake_put_cases [of b3hex g i bs] by (auto simp: fake_inv_def split: if_splits)

interpretation fake: object_store_admin "ChunkId_verify b3hex" "fake_put b3hex" "fake_get b3hex"
    "fake_get_range b3hex" fake_head fake_exists "\<lambda>g. g" fake_inv fake_delete
  for b3hex
proof (unfold_locales, goal_cases)
  case (1 s i bs)
  then show ?case using fake_put_cases [of b3hex s i bs] by auto
next
  case (2 s i bs)
  then show ?case using fake_put_cases [of b3hex s i bs] by auto
next
  case (3 s bs i)
  then show ?case by (rule fake_inv_put)
next
  case (10 s i bs off len)
  then have "fits_memory bs" by (auto simp: fake_inv_def)
  with 10 show ?case by (simp add: fake_range_past_end)
next
  case (11 s i bs off len)
  then have "fits_memory bs" by (auto simp: fake_inv_def)
  with 11 show ?case by (simp add: fake_range_whole_corrupt)
next
  case (12 s i bs off len)
  then show ?case by (intro fake_range_exact) (auto simp: fake_inv_def)
qed (auto simp: fake_inv_def fake_get_def fake_head_def fake_exists_def fake_delete_def
       fake_range_missing fake_range_overflow split: if_splits)

lemma fake_get_not_Panic: "fake_get b3hex g i \<noteq> Panic"
  by (auto simp: fake_get_def outcome_simps)

lemma fake_get_range_not_Panic:
  assumes "fake_inv g"
  shows "fake_get_range b3hex g i off len \<noteq> Panic"
proof (cases "g i")
  case None
  then show ?thesis by (simp add: fake_range_missing)
next
  case (Some bs)
  then have "fits_memory bs" using assms by (simp add: fake_inv_def)
  then have "len_u64 bs \<ge> e \<longleftrightarrow> unat e \<le> length bs" for e
    by (simp add: word_le_nat_alt unat_len_fits)
  then show ?thesis
    using Some
    by (auto simp: fake_get_range_def outcome_simps checked_add_Some_iff slice_of_def not_less
        word_le_nat_alt unat_plus_u64)
qed

section \<open>Damage to a stored object is detected\<close>

lemma corrupt_for_test_stored:
  "g i = Some v \<Longrightarrow> unat at < length v \<Longrightarrow>
   corrupt_for_test g i at = g(i \<mapsto> v[unat at := (v ! unat at) XOR 0xFF])"
  by (simp add: corrupt_for_test_def)

lemma flip_changes: "(b :: u8) XOR 0xFF \<noteq> b"
proof
  assume "b XOR 0xFF = b"
  then have "bit (b XOR 0xFF) 0 = bit b 0" by simp
  then show False by (simp add: bit_xor_iff)
qed

lemma fake_inv_corrupt: "fake_inv g \<Longrightarrow> fake_inv (corrupt_for_test g i at)"
  by (auto simp: fake_inv_def corrupt_for_test_def fits_memory_def split: option.splits)

lemma fake_inv_truncate: "fake_inv g \<Longrightarrow> fake_inv (truncate_for_test g i len)"
  by (fastforce simp: fake_inv_def truncate_for_test_def fits_memory_def split: option.splits)

end
