(* ===== verification/Transition_Systems.thy ===== *)
theory Transition_Systems
  imports Main
begin

text \<open>
  Three interfaces for step relations.  \<open>invariant_system\<close>: an invariant that every step keeps holds
  along every run.  \<open>monotone_system\<close>: every step moves up in a preorder, so that every later state of
  a run is above the earlier ones.  \<open>forward_simulation\<close>: a concrete system refines an abstract one
  through an abstraction function that maps each concrete step to an abstract one; properties that
  abstract steps keep then hold along every concrete run.
\<close>

locale invariant_system =
  fixes step :: "'s \<Rightarrow> 's \<Rightarrow> bool" and inv :: "'s \<Rightarrow> bool" and init :: 's
  assumes init_inv: "inv init"
    and step_inv: "inv s \<Longrightarrow> step s t \<Longrightarrow> inv t"
begin

lemma run_inv: "step\<^sup>*\<^sup>* s t \<Longrightarrow> inv s \<Longrightarrow> inv t"
  by (induction rule: rtranclp_induct) (auto intro: step_inv)

lemma reachable_inv: "step\<^sup>*\<^sup>* init t \<Longrightarrow> inv t"
  by (rule run_inv [OF _ init_inv])

lemma run_preserves:
  assumes "\<And>s t. inv s \<Longrightarrow> step s t \<Longrightarrow> P s \<Longrightarrow> P t"
  shows "step\<^sup>*\<^sup>* s t \<Longrightarrow> inv s \<Longrightarrow> P s \<Longrightarrow> P t"
proof (induction rule: rtranclp_induct)
  case base
  then show ?case by simp
next
  case (step y z)
  then show ?case using run_inv [of s y] assms [of y z] by blast
qed

end

locale monotone_system = invariant_system step inv init
  for step :: "'s \<Rightarrow> 's \<Rightarrow> bool" and inv :: "'s \<Rightarrow> bool" and init :: 's +
  fixes le :: "'s \<Rightarrow> 's \<Rightarrow> bool"
  assumes le_refl: "le s s"
    and le_trans: "le s t \<Longrightarrow> le t u \<Longrightarrow> le s u"
    and step_le: "inv s \<Longrightarrow> step s t \<Longrightarrow> le s t"
begin

lemma run_le: "step\<^sup>*\<^sup>* s t \<Longrightarrow> inv s \<Longrightarrow> le s t"
  using run_preserves [of "le s" s t] le_refl step_le le_trans by blast

end

locale forward_simulation = invariant_system step inv init
  for step :: "'s \<Rightarrow> 's \<Rightarrow> bool" and inv :: "'s \<Rightarrow> bool" and init :: 's +
  fixes astep :: "'a \<Rightarrow> 'a \<Rightarrow> bool" and abs :: "'s \<Rightarrow> 'a"
  assumes simulates: "inv s \<Longrightarrow> step s t \<Longrightarrow> astep (abs s) (abs t)"
begin

lemma run_simulates: "step\<^sup>*\<^sup>* s t \<Longrightarrow> inv s \<Longrightarrow> astep\<^sup>*\<^sup>* (abs s) (abs t)"
proof (induction rule: rtranclp_induct)
  case base
  then show ?case by simp
next
  case (step y z)
  then show ?case using run_inv [of s y] simulates [of y z] by (auto intro: rtranclp.rtrancl_into_rtrancl)
qed

lemma abstract_stable:
  assumes "\<And>a b. astep a b \<Longrightarrow> P a \<Longrightarrow> P b"
  shows "step\<^sup>*\<^sup>* s t \<Longrightarrow> inv s \<Longrightarrow> P (abs s) \<Longrightarrow> P (abs t)"
  by (rule run_preserves [of "\<lambda>s. P (abs s)"]) (auto intro: assms simulates)

end

end
