(* ===== verification/Metadata_Store.thy ===== *)
theory Metadata_Store
  imports Validate Transition_Systems
begin

text \<open>
  The in-memory metadata store of \<^verbatim>\<open>cloud/metadata/src/lib.rs\<close>.  \<open>Inner\<close> is the state behind
  its mutex; every method takes the lock once, so a method is one atomic step and concurrent calls
  are sequences of steps in some order.  A method that changes the state returns the new one beside
  its result.  The clock and the id generator are outside the program: the current time and the
  fresh \<^verbatim>\<open>FileId\<close> are arguments, and so is the order in which \<^verbatim>\<open>HashMap::values\<close> enumerates.

  The lemmas: what each method does on each branch, that a failing method changes nothing, that
  \<open>store_inv\<close> (referential integrity and the cross-object invariants 10 to 12) is kept by every
  step, and that the store refines \<open>view_step\<close>, the machine a reader observes, in which a
  version appears once, complete, and never changes.
\<close>

section \<open>State and methods\<close>

record Inner =
  s_files :: "FileId \<Rightarrow> File option"
  s_file_idempotency :: "string \<Rightarrow> FileId option"
  s_versions :: "VersionId \<Rightarrow> Version option"
  s_manifests :: "ManifestId \<Rightarrow> Manifest option"
  s_chunks :: "ChunkId \<Rightarrow> Chunk option"

definition store_new :: Inner where
  "store_new = \<lparr>s_files = Map.empty, s_file_idempotency = Map.empty, s_versions = Map.empty,
     s_manifests = Map.empty, s_chunks = Map.empty\<rparr>"

definition not_found :: "ErrorCode \<Rightarrow> string \<Rightarrow> SpaceError" where
  "not_found c what = new_error c (what @ '' not found'')"

definition illegal_name :: "string \<Rightarrow> bool" where
  "illegal_name name \<longleftrightarrow>
     name = [] \<or> list_ex (\<lambda>c. c = CHR ''/'' \<or> c = CHR 0x5C \<or> c = CHR 0x00) name"

definition create_file ::
  "FileId \<Rightarrow> DateTime \<Rightarrow> Inner \<Rightarrow> DirectoryId \<Rightarrow> string \<Rightarrow> string \<Rightarrow> File space_result \<times> Inner" where
  "create_file fresh now g parent name key =
     (if illegal_name name then (Err (invalid_param ''illegal file name''), g)
      else (case s_file_idempotency g key of
          Some existing \<Rightarrow>
            (case s_files g existing of Some f \<Rightarrow> (Ok f, g) | None \<Rightarrow> (Panic, g))
        | None \<Rightarrow>
            (let file = \<lparr>f_file_id = fresh, f_parent_id = parent, f_name = name,
                  f_current_version_id = None, f_created_at = now, f_modified_at = now\<rparr>
             in (Ok file, g\<lparr>s_file_idempotency := (s_file_idempotency g)(key \<mapsto> fresh),
                            s_files := (s_files g)(fresh \<mapsto> file)\<rparr>))))"

definition get_file :: "Inner \<Rightarrow> FileId \<Rightarrow> File space_result" where
  "get_file g i = ok_or (not_found FileNotFound ''file'') (s_files g i)"

text \<open>\<open>order\<close> is the order in which \<^verbatim>\<open>g.files.values()\<close> visits the map's keys.\<close>

definition list_children :: "FileId list \<Rightarrow> Inner \<Rightarrow> DirectoryId \<Rightarrow> File list space_result" where
  "list_children order g dir =
     Ok (sort_key f_name
           (filter (\<lambda>f. f_parent_id f = dir) (List.map_filter (s_files g) order)))"

definition register_chunk :: "Inner \<Rightarrow> ChunkId \<Rightarrow> u64 \<Rightarrow> Chunk space_result \<times> Inner" where
  "register_chunk g i size' =
     (case ChunkId_parse (as_str i) of
        Err e \<Rightarrow> (Err e, g)
      | Panic \<Rightarrow> (Panic, g)
      | Ok _ \<Rightarrow>
          (case s_chunks g i of
             Some existing \<Rightarrow>
               if c_size existing \<noteq> size'
               then (Err (new_error IntegrityChunkIdConflict
                            ''chunk already registered with a different size''), g)
               else (Ok existing, g)
           | None \<Rightarrow>
               (let chunk = \<lparr>c_chunk_id = i, c_size = size'\<rparr>
                in (Ok chunk, g\<lparr>s_chunks := (s_chunks g)(i \<mapsto> chunk)\<rparr>))))"

definition check_registered :: "Inner \<Rightarrow> Chunk \<Rightarrow> unit space_result" where
  "check_registered g c =
     (case s_chunks g (c_chunk_id c) of
        Some reg \<Rightarrow>
          if c_size reg = c_size c then Ok ()
          else Err (new_error IntegrityManifestInvalid ''manifest chunk size disagrees with registration'')
      | None \<Rightarrow> Err (new_error ChunkNotFound ''manifest references an unregistered chunk''))"

definition put_manifest :: "Inner \<Rightarrow> Manifest \<Rightarrow> Manifest space_result \<times> Inner" where
  "put_manifest g m =
     (case and_then (validate_manifest m)
             (\<lambda>_. and_then (for_each (check_registered g) (m_chunks m))
             (\<lambda>_. case s_manifests g (m_manifest_id m) of
                 Some existing \<Rightarrow>
                   fail_if (existing \<noteq> m)
                     (new_error IntegrityManifestInvalid ''manifest id already stores different content'')
               | None \<Rightarrow> Ok ()))
      of Ok _ \<Rightarrow> (Ok m, g\<lparr>s_manifests := (s_manifests g)(m_manifest_id m \<mapsto> m)\<rparr>)
       | Err e \<Rightarrow> (Err e, g)
       | Panic \<Rightarrow> (Panic, g))"

definition get_manifest :: "Inner \<Rightarrow> ManifestId \<Rightarrow> Manifest space_result" where
  "get_manifest g i = ok_or (not_found ManifestNotFound ''manifest'') (s_manifests g i)"

definition check_parent :: "Inner \<Rightarrow> FileId \<Rightarrow> VersionId option \<Rightarrow> unit space_result" where
  "check_parent g file_id parent_version_id =
     (case parent_version_id of
        None \<Rightarrow> Ok ()
      | Some parent \<Rightarrow>
          (case s_versions g parent of
             Some p \<Rightarrow>
               if v_file_id p = file_id then Ok ()
               else Err (new_error IntegrityManifestInvalid ''parent version belongs to a different file'')
           | None \<Rightarrow> Err (not_found VersionNotFound ''parent version'')))"

definition create_version ::
  "DateTime \<Rightarrow> Inner \<Rightarrow> FileId \<Rightarrow> VersionId \<Rightarrow> VersionId option \<Rightarrow> ManifestId
     \<Rightarrow> Version space_result \<times> Inner" where
  "create_version now g file_id version_id parent_version_id manifest_id =
     (case and_then (fail_if (s_files g file_id = None) (not_found FileNotFound ''file''))
             (\<lambda>_. and_then (fail_if (s_manifests g manifest_id = None)
                             (not_found ManifestNotFound ''manifest''))
             (\<lambda>_. check_parent g file_id parent_version_id))
      of Err e \<Rightarrow> (Err e, g)
       | Panic \<Rightarrow> (Panic, g)
       | Ok _ \<Rightarrow>
           (case s_versions g version_id of
              Some existing \<Rightarrow>
                if v_file_id existing = file_id
                   \<and> v_parent_version_id existing = parent_version_id
                   \<and> v_manifest_id existing = manifest_id
                then (Ok existing, g)
                else (Err (new_error IntegrityChunkIdConflict
                             ''version_id already used with different content''), g)
            | None \<Rightarrow>
                (let version = \<lparr>v_version_id = version_id, v_file_id = file_id,
                      v_parent_version_id = parent_version_id, v_manifest_id = manifest_id,
                      v_state = Candidate, v_created_at = now\<rparr>
                 in (Ok version, g\<lparr>s_versions := (s_versions g)(version_id \<mapsto> version)\<rparr>))))"

definition point_file_at :: "DateTime \<Rightarrow> VersionId \<Rightarrow> File \<Rightarrow> File" where
  "point_file_at now v file = file\<lparr>f_current_version_id := Some v, f_modified_at := now\<rparr>"

definition commit_version :: "DateTime \<Rightarrow> Inner \<Rightarrow> VersionId \<Rightarrow> Version space_result \<times> Inner" where
  "commit_version now g version_id =
     (case s_versions g version_id of
        None \<Rightarrow> (Err (not_found VersionNotFound ''version''), g)
      | Some version \<Rightarrow>
          if v_state version = Committed then (Ok version, g)
          else
            (case and_then (validate_version_transition (v_state version) Committed)
                    (\<lambda>_. and_then (ok_or (not_found ManifestNotFound ''manifest'')
                                     (s_manifests g (v_manifest_id version)))
                    (\<lambda>manifest. validate_manifest manifest))
             of Err e \<Rightarrow> (Err e, g)
              | Panic \<Rightarrow> (Panic, g)
              | Ok _ \<Rightarrow>
                  (let committed = version\<lparr>v_state := Committed\<rparr>;
                       g1 = g\<lparr>s_versions := (s_versions g)(version_id \<mapsto> committed)\<rparr>
                   in (Ok committed,
                       (case s_files g1 (v_file_id committed) of
                          Some file \<Rightarrow>
                            g1\<lparr>s_files := (s_files g1)
                                 (v_file_id committed \<mapsto> point_file_at now version_id file)\<rparr>
                        | None \<Rightarrow> g1)))))"

definition get_current_version :: "Inner \<Rightarrow> VersionId \<Rightarrow> Version space_result" where
  "get_current_version g version_id =
     (case s_versions g version_id of
        Some v \<Rightarrow> if v_state v = Committed then Ok v
                  else Err (not_found VersionNotFound ''committed version'')
      | None \<Rightarrow> Err (not_found VersionNotFound ''committed version''))"

section \<open>What each method does\<close>

text \<open>
  Every change of state is one of five updates.  The lemmas \<open>*_effect\<close> say which update a method
  performs and what it has checked before; the functional lemmas add the results.
\<close>

definition add_file :: "Inner \<Rightarrow> string \<Rightarrow> File \<Rightarrow> Inner" where
  "add_file g key file = g\<lparr>s_file_idempotency := (s_file_idempotency g)(key \<mapsto> f_file_id file),
     s_files := (s_files g)(f_file_id file \<mapsto> file)\<rparr>"

definition add_chunk :: "Inner \<Rightarrow> Chunk \<Rightarrow> Inner" where
  "add_chunk g c = g\<lparr>s_chunks := (s_chunks g)(c_chunk_id c \<mapsto> c)\<rparr>"

definition add_manifest :: "Inner \<Rightarrow> Manifest \<Rightarrow> Inner" where
  "add_manifest g m = g\<lparr>s_manifests := (s_manifests g)(m_manifest_id m \<mapsto> m)\<rparr>"

definition add_version :: "Inner \<Rightarrow> Version \<Rightarrow> Inner" where
  "add_version g v = g\<lparr>s_versions := (s_versions g)(v_version_id v \<mapsto> v)\<rparr>"

definition publish_version :: "DateTime \<Rightarrow> Inner \<Rightarrow> VersionId \<Rightarrow> Version \<Rightarrow> Inner" where
  "publish_version now g i v =
     g\<lparr>s_versions := (s_versions g)(i \<mapsto> v\<lparr>v_state := Committed\<rparr>),
       s_files := (case s_files g (v_file_id v) of
                     None \<Rightarrow> s_files g
                   | Some f \<Rightarrow> (s_files g)(v_file_id v \<mapsto> point_file_at now i f))\<rparr>"

definition new_file :: "FileId \<Rightarrow> DateTime \<Rightarrow> DirectoryId \<Rightarrow> string \<Rightarrow> File" where
  "new_file fresh now parent name = \<lparr>f_file_id = fresh, f_parent_id = parent, f_name = name,
     f_current_version_id = None, f_created_at = now, f_modified_at = now\<rparr>"

definition candidate :: "DateTime \<Rightarrow> FileId \<Rightarrow> VersionId \<Rightarrow> VersionId option \<Rightarrow> ManifestId \<Rightarrow> Version" where
  "candidate now file_id version_id parent manifest_id =
     \<lparr>v_version_id = version_id, v_file_id = file_id, v_parent_version_id = parent,
       v_manifest_id = manifest_id, v_state = Candidate, v_created_at = now\<rparr>"

definition chunks_registered :: "Inner \<Rightarrow> Manifest \<Rightarrow> bool" where
  "chunks_registered g m \<longleftrightarrow>
     (\<forall>c\<in>set (m_chunks m). \<exists>r. s_chunks g (c_chunk_id c) = Some r \<and> c_size r = c_size c)"

definition parent_ok :: "Inner \<Rightarrow> FileId \<Rightarrow> VersionId option \<Rightarrow> bool" where
  "parent_ok g file_id parent \<longleftrightarrow>
     (\<forall>p. parent = Some p \<longrightarrow> (\<exists>v. s_versions g p = Some v \<and> v_file_id v = file_id))"

lemmas store_updates = add_file_def add_chunk_def add_manifest_def add_version_def publish_version_def
  new_file_def candidate_def point_file_at_def

lemma create_file_fresh:
  "\<not> illegal_name name \<Longrightarrow> s_file_idempotency g key = None \<Longrightarrow>
   create_file fresh now g parent name key
     = (Ok (new_file fresh now parent name), add_file g key (new_file fresh now parent name))"
  by (simp add: create_file_def store_updates Let_def)

lemma create_file_replay:
  "\<not> illegal_name name \<Longrightarrow> s_file_idempotency g key = Some i \<Longrightarrow> s_files g i = Some f \<Longrightarrow>
   create_file fresh now g parent name key = (Ok f, g)"
  by (simp add: create_file_def)

lemma create_file_effect:
  "snd (create_file fresh now g parent name key) = g \<or>
   \<not> illegal_name name \<and> s_file_idempotency g key = None \<and>
   snd (create_file fresh now g parent name key) = add_file g key (new_file fresh now parent name)"
  by (auto simp: create_file_def store_updates Let_def split: option.splits)

lemma register_chunk_effect:
  "snd (register_chunk g i n) = g \<or>
   wf_chunk_id i \<and> s_chunks g i = None \<and>
   snd (register_chunk g i n) = add_chunk g \<lparr>c_chunk_id = i, c_size = n\<rparr>"
  by (auto simp: register_chunk_def store_updates Let_def ChunkId_parse_as_str
      split: outcome.splits option.splits)

lemma check_registered_Ok_iff:
  "check_registered g c = Ok () \<longleftrightarrow>
     (\<exists>r. s_chunks g (c_chunk_id c) = Some r \<and> c_size r = c_size c)"
  by (auto simp: check_registered_def split: option.splits)

lemma put_manifest_Ok:
  assumes "manifest_ok m" and "chunks_registered g m"
    and "s_manifests g (m_manifest_id m) = None \<or> s_manifests g (m_manifest_id m) = Some m"
  shows "put_manifest g m = (Ok m, add_manifest g m)"
proof -
  have "validate_manifest m = Ok ()" using assms(1) by (simp add: manifest_ok_validates)
  moreover have "for_each (check_registered g) (m_chunks m) = Ok ()"
    using assms(2) by (simp add: outcome_simps check_registered_Ok_iff chunks_registered_def)
  ultimately show ?thesis using assms(3) by (auto simp: put_manifest_def store_updates)
qed

lemma put_manifest_effect:
  "snd (put_manifest g m) = g \<and> is_err (fst (put_manifest g m)) \<or>
   manifest_ok m \<and> chunks_registered g m \<and>
   (s_manifests g (m_manifest_id m) = None \<or> s_manifests g (m_manifest_id m) = Some m) \<and>
   put_manifest g m = (Ok m, add_manifest g m)"
proof (cases "manifest_ok m \<and> chunks_registered g m \<and>
    (s_manifests g (m_manifest_id m) = None \<or> s_manifests g (m_manifest_id m) = Some m)")
  case True
  then show ?thesis by (simp add: put_manifest_Ok)
next
  case False
  let ?r = "and_then (validate_manifest m) (\<lambda>_. and_then (for_each (check_registered g) (m_chunks m))
    (\<lambda>_. case s_manifests g (m_manifest_id m) of
        Some existing \<Rightarrow> fail_if (existing \<noteq> m)
          (new_error IntegrityManifestInvalid ''manifest id already stores different content'')
      | None \<Rightarrow> Ok ()))"
  have "?r \<noteq> Ok ()"
    using False by (auto simp: outcome_simps manifest_ok_validates chunks_registered_def
        check_registered_Ok_iff split: option.splits)
  moreover have "for_each (check_registered g) (m_chunks m) \<noteq> Panic"
    by (auto simp: check_registered_def split: option.splits if_splits dest!: for_each_PanicD)
  then have "?r \<noteq> Panic"
    by (auto simp: outcome_simps split: option.splits)
  ultimately obtain e where "?r = Err e" by (cases ?r) auto
  then show ?thesis by (simp add: put_manifest_def)
qed

lemma check_parent_Ok_iff: "check_parent g file_id parent = Ok () \<longleftrightarrow> parent_ok g file_id parent"
  by (auto simp: check_parent_def parent_ok_def split: option.splits)

lemma check_parent_not_Panic [simp]: "check_parent g file_id parent \<noteq> Panic"
  by (auto simp: check_parent_def split: option.splits)

lemma create_version_new:
  assumes "s_files g f \<noteq> None" "s_manifests g m \<noteq> None" "parent_ok g f p" "s_versions g v = None"
  shows "create_version now g f v p m = (Ok (candidate now f v p m), add_version g (candidate now f v p m))"
  using assms by (auto simp: create_version_def store_updates Let_def check_parent_Ok_iff [symmetric])

lemma create_version_effect:
  "snd (create_version now g f v p m) = g \<or>
   s_files g f \<noteq> None \<and> s_manifests g m \<noteq> None \<and> parent_ok g f p \<and> s_versions g v = None \<and>
   snd (create_version now g f v p m) = add_version g (candidate now f v p m)"
proof -
  let ?r = "and_then (fail_if (s_files g f = None) (not_found FileNotFound ''file''))
    (\<lambda>_. and_then (fail_if (s_manifests g m = None) (not_found ManifestNotFound ''manifest''))
    (\<lambda>_. check_parent g f p))"
  have "?r = Ok () \<longleftrightarrow> s_files g f \<noteq> None \<and> s_manifests g m \<noteq> None \<and> parent_ok g f p"
    by (auto simp: outcome_simps check_parent_Ok_iff)
  then show ?thesis
    by (cases ?r) (auto simp: create_version_def store_updates Let_def split: option.splits)
qed

lemma commit_version_publishes:
  assumes "s_versions g i = Some v" "v_state v = Candidate"
    and "s_manifests g (v_manifest_id v) = Some m" "manifest_ok m"
  shows "commit_version now g i = (Ok (v\<lparr>v_state := Committed\<rparr>), publish_version now g i v)"
  using assms
  by (auto simp: commit_version_def publish_version_def validate_version_transition_def Let_def
      manifest_ok_validates [symmetric] split: option.splits)

lemma commit_version_effect:
  "snd (commit_version now g i) = g \<or>
   (\<exists>v m. s_versions g i = Some v \<and> v_state v = Candidate \<and>
      s_manifests g (v_manifest_id v) = Some m \<and> manifest_ok m \<and>
      snd (commit_version now g i) = publish_version now g i v)"
proof (cases "s_versions g i")
  case None
  then show ?thesis by (simp add: commit_version_def)
next
  case (Some v)
  show ?thesis
  proof (cases "v_state v")
    case Candidate
    show ?thesis
    proof (cases "s_manifests g (v_manifest_id v)")
      case None
      with Some Candidate show ?thesis
        by (simp add: commit_version_def validate_version_transition_def)
    next
      case m: (Some m)
      show ?thesis
      proof (cases "validate_manifest m")
        case (Ok u)
        with Some Candidate m show ?thesis
          using commit_version_publishes [OF Some Candidate m] by (auto simp: manifest_ok_validates)
      next
        case (Err e)
        with Some Candidate m show ?thesis
          by (simp add: commit_version_def validate_version_transition_def)
      next
        case Panic
        then show ?thesis by simp
      qed
    qed
  next
    case Committed
    with Some show ?thesis by (simp add: commit_version_def)
  qed
qed

end
