(* ===== verification/Metadata_Invariants.thy ===== *)
theory Metadata_Invariants
  imports Metadata_Store
begin

text \<open>
  The invariant of the metadata store and its runs.  \<open>meta_step\<close> is one call of a method that may
  change the state, with any arguments (a fresh file id is one that no file has).  \<open>store_inv\<close>
  collects what the code keeps true between its maps; it holds initially and every step keeps it,
  so it holds in every state that any sequence of calls, from any number of clients, reaches.
\<close>

section \<open>Steps\<close>

inductive meta_step :: "Inner \<Rightarrow> Inner \<Rightarrow> bool" where
  step_create_file:
    "s_files g fresh = None \<Longrightarrow> meta_step g (snd (create_file fresh now g parent name key))"
| step_register_chunk: "meta_step g (snd (register_chunk g i n))"
| step_put_manifest: "meta_step g (snd (put_manifest g m))"
| step_create_version: "meta_step g (snd (create_version now g f v p m))"
| step_commit_version: "meta_step g (snd (commit_version now g v))"

text \<open>The same steps by their effect: nothing, or one of the five updates with its guards.\<close>

lemma meta_step_cases [consumes 1, case_names idle added_file added_chunk added_manifest added_version published]:
  assumes "meta_step g g'"
  obtains "g' = g"
  | key fresh now parent name where "s_files g fresh = None" "\<not> illegal_name name"
      "s_file_idempotency g key = None" "g' = add_file g key (new_file fresh now parent name)"
  | i n where "wf_chunk_id i" "s_chunks g i = None" "g' = add_chunk g \<lparr>c_chunk_id = i, c_size = n\<rparr>"
  | m where "manifest_ok m" "chunks_registered g m"
      "s_manifests g (m_manifest_id m) = None \<or> s_manifests g (m_manifest_id m) = Some m"
      "g' = add_manifest g m"
  | now f v p m where "s_files g f \<noteq> None" "s_manifests g m \<noteq> None" "parent_ok g f p"
      "s_versions g v = None" "g' = add_version g (candidate now f v p m)"
  | now i v m where "s_versions g i = Some v" "v_state v = Candidate"
      "s_manifests g (v_manifest_id v) = Some m" "manifest_ok m" "g' = publish_version now g i v"
  using assms
proof cases
  case (step_create_file fresh now parent name key)
  then show ?thesis using create_file_effect [of fresh now g parent name key] that(1,2) by metis
next
  case (step_register_chunk i n)
  then show ?thesis using register_chunk_effect [of g i n] that(1,3) by metis
next
  case (step_put_manifest m)
  then show ?thesis using put_manifest_effect [of g m] that(1,4) by (metis snd_conv)
next
  case (step_create_version now f v p m)
  then show ?thesis using create_version_effect [of now g f v p m] that(1,5) by metis
next
  case (step_commit_version now v)
  then show ?thesis using commit_version_effect [of now g v] that(1,6) by metis
qed

section \<open>The invariant\<close>

definition files_inv :: "Inner \<Rightarrow> bool" where
  "files_inv g \<longleftrightarrow>
     (\<forall>k i. s_file_idempotency g k = Some i \<longrightarrow> s_files g i \<noteq> None) \<and>
     (\<forall>i f. s_files g i = Some f \<longrightarrow> f_file_id f = i \<and> \<not> illegal_name (f_name f))"

definition chunks_inv :: "Inner \<Rightarrow> bool" where
  "chunks_inv g \<longleftrightarrow> (\<forall>i c. s_chunks g i = Some c \<longrightarrow> c_chunk_id c = i \<and> wf_chunk_id i)"

definition manifests_inv :: "Inner \<Rightarrow> bool" where
  "manifests_inv g \<longleftrightarrow>
     (\<forall>i m. s_manifests g i = Some m \<longrightarrow>
        m_manifest_id m = i \<and> manifest_ok m \<and> chunks_registered g m)"

definition versions_inv :: "Inner \<Rightarrow> bool" where
  "versions_inv g \<longleftrightarrow>
     (\<forall>i v. s_versions g i = Some v \<longrightarrow>
        v_version_id v = i \<and> s_files g (v_file_id v) \<noteq> None \<and>
        s_manifests g (v_manifest_id v) \<noteq> None \<and> parent_ok g (v_file_id v) (v_parent_version_id v))"

text \<open>Invariant 11 of the domain model.\<close>

definition current_inv :: "Inner \<Rightarrow> bool" where
  "current_inv g \<longleftrightarrow>
     (\<forall>i f v. s_files g i = Some f \<longrightarrow> f_current_version_id f = Some v \<longrightarrow>
        (\<exists>w. s_versions g v = Some w \<and> v_state w = Committed \<and> v_file_id w = i))"

text \<open>The parent relation, from a version to the one it was derived from.\<close>

definition parent_rel :: "Inner \<Rightarrow> (VersionId \<times> VersionId) set" where
  "parent_rel g = {(c, p). \<exists>v. s_versions g c = Some v \<and> v_parent_version_id v = Some p}"

definition history_inv :: "Inner \<Rightarrow> bool" where
  "history_inv g \<longleftrightarrow> finite (dom (s_versions g)) \<and> acyclic (parent_rel g)"

definition store_inv :: "Inner \<Rightarrow> bool" where
  "store_inv g \<longleftrightarrow> files_inv g \<and> chunks_inv g \<and> manifests_inv g \<and> versions_inv g \<and>
     current_inv g \<and> history_inv g"

lemmas store_inv_defs = files_inv_def chunks_inv_def manifests_inv_def versions_inv_def
  current_inv_def chunks_registered_def parent_ok_def

lemma store_inv_new: "store_inv store_new"
  by (simp add: store_inv_def store_inv_defs history_inv_def parent_rel_def store_new_def acyclic_def)

lemma parent_rel_same:
  "s_versions g' = s_versions g \<Longrightarrow> parent_rel g' = parent_rel g"
  by (simp add: parent_rel_def)

lemma store_inv_add_file:
  assumes inv: "store_inv g" and new: "s_files g fresh = None" "\<not> illegal_name name"
    "s_file_idempotency g key = None"
  shows "store_inv (add_file g key (new_file fresh now parent name))"
proof -
  let ?g' = "add_file g key (new_file fresh now parent name)"
  have files: "s_files ?g' = (s_files g)(fresh \<mapsto> new_file fresh now parent name)"
    and idem: "s_file_idempotency ?g' = (s_file_idempotency g)(key \<mapsto> fresh)"
    and rest: "s_versions ?g' = s_versions g" "s_manifests ?g' = s_manifests g" "s_chunks ?g' = s_chunks g"
    by (simp_all add: add_file_def new_file_def)
  have "files_inv ?g'"
    using inv new by (auto simp: store_inv_def files_inv_def files idem) (auto simp: new_file_def)
  moreover have "versions_inv ?g'"
    using inv new(1) by (fastforce simp: store_inv_def versions_inv_def parent_ok_def files rest)
  moreover have "current_inv ?g'"
    using inv by (auto simp: store_inv_def current_inv_def files rest) (auto simp: new_file_def)
  ultimately show ?thesis
    using inv by (simp add: store_inv_def chunks_inv_def manifests_inv_def chunks_registered_def
        history_inv_def parent_rel_def rest)
qed

lemma store_inv_add_chunk:
  assumes "store_inv g" "wf_chunk_id i" "s_chunks g i = None"
  shows "store_inv (add_chunk g \<lparr>c_chunk_id = i, c_size = n\<rparr>)"
proof -
  have "chunks_registered (add_chunk g \<lparr>c_chunk_id = i, c_size = n\<rparr>) m" if "chunks_registered g m" for m
    using that assms(3) by (fastforce simp: chunks_registered_def store_updates)
  then show ?thesis
    using assms unfolding store_inv_def
    by (auto simp: files_inv_def chunks_inv_def manifests_inv_def versions_inv_def current_inv_def
        parent_ok_def history_inv_def parent_rel_def store_updates)
qed

lemma store_inv_add_manifest:
  assumes "store_inv g" "manifest_ok m" "chunks_registered g m"
  shows "store_inv (add_manifest g m)"
proof -
  have "chunks_registered (add_manifest g m) m' = chunks_registered g m'" for m'
    by (simp add: chunks_registered_def store_updates)
  then show ?thesis
    using assms unfolding store_inv_def
    by (auto simp: files_inv_def chunks_inv_def manifests_inv_def versions_inv_def current_inv_def
        parent_ok_def history_inv_def parent_rel_def store_updates)
qed

lemma parent_rel_add_version:
  assumes "versions_inv g" "acyclic (parent_rel g)" "parent_ok g f p" "s_versions g v = None"
  shows "acyclic (parent_rel (add_version g (candidate now f v p m)))"
proof (cases p)
  case None
  then have "parent_rel (add_version g (candidate now f v p m)) = parent_rel g"
    using assms(4) by (auto simp: parent_rel_def store_updates split: if_splits)
  with assms(2) show ?thesis by simp
next
  case (Some q)
  then have rel: "parent_rel (add_version g (candidate now f v p m)) = insert (v, q) (parent_rel g)"
    using assms(4) by (auto simp: parent_rel_def store_updates split: if_splits)
  have "q \<noteq> v" using assms(3,4) Some by (auto simp: parent_ok_def)
  moreover have "(z, v) \<notin> parent_rel g" for z
    using assms(1,4) by (fastforce simp: parent_rel_def versions_inv_def parent_ok_def)
  ultimately have "(q, v) \<notin> (parent_rel g)\<^sup>*" by (metis rtranclE)
  with assms(2) rel show ?thesis by (simp add: acyclic_insert)
qed

lemma store_inv_add_version:
  assumes inv: "store_inv g" and new: "s_files g f \<noteq> None" "s_manifests g m \<noteq> None"
    "parent_ok g f p" "s_versions g v = None"
  shows "store_inv (add_version g (candidate now f v p m))"
proof -
  let ?g' = "add_version g (candidate now f v p m)"
  have par: "parent_ok ?g' f' p'" if "parent_ok g f' p'" for f' p'
    using that new(4) by (auto simp: parent_ok_def store_updates)
  have "versions_inv ?g'"
    using inv new par by (auto simp: store_inv_def versions_inv_def store_updates)
  moreover have "current_inv ?g'"
    using inv new(4) by (fastforce simp: store_inv_def current_inv_def store_updates)
  moreover have "history_inv ?g'"
    using inv new parent_rel_add_version [of g f p v now m]
    by (auto simp: store_inv_def history_inv_def) (simp add: store_updates)
  ultimately show ?thesis
    using inv by (simp add: store_inv_def files_inv_def chunks_inv_def manifests_inv_def
        chunks_registered_def store_updates)
qed

lemma parent_rel_publish: "s_versions g i = Some v \<Longrightarrow> parent_rel (publish_version now g i v) = parent_rel g"
  by (fastforce simp: parent_rel_def publish_version_def split: if_splits)

lemma store_inv_publish:
  assumes inv: "store_inv g" and v: "s_versions g i = Some v"
  shows "store_inv (publish_version now g i v)"
proof -
  let ?g' = "publish_version now g i v"
  from inv v obtain f where f: "s_files g (v_file_id v) = Some f" and "v_version_id v = i"
    by (auto simp: store_inv_def versions_inv_def)
  have files: "s_files ?g' = (s_files g)(v_file_id v \<mapsto> point_file_at now i f)"
    and vers: "s_versions ?g' = (s_versions g)(i \<mapsto> v\<lparr>v_state := Committed\<rparr>)"
    using f by (simp_all add: publish_version_def)
  have rest: "s_file_idempotency ?g' = s_file_idempotency g" "s_chunks ?g' = s_chunks g"
      "s_manifests ?g' = s_manifests g"
    by (simp_all add: publish_version_def)
  have "files_inv ?g'"
    using inv f by (auto simp: store_inv_def files_inv_def files rest point_file_at_def)
  moreover have par: "parent_ok ?g' f' p'" if "parent_ok g f' p'" for f' p'
    using that v by (auto simp: parent_ok_def vers)
  then have "versions_inv ?g'"
    using inv v f by (auto simp: store_inv_def versions_inv_def files vers rest)
  moreover have "current_inv ?g'"
    using inv v f by (fastforce simp: store_inv_def current_inv_def files vers point_file_at_def)
  moreover have "history_inv ?g'"
    using inv v by (auto simp: store_inv_def history_inv_def parent_rel_publish vers)
  ultimately show ?thesis
    using inv by (simp add: store_inv_def chunks_inv_def manifests_inv_def chunks_registered_def rest)
qed

lemma meta_step_inv: "store_inv g \<Longrightarrow> meta_step g g' \<Longrightarrow> store_inv g'"
  by (erule meta_step_cases)
     (auto intro: store_inv_add_file store_inv_add_chunk store_inv_add_manifest
        store_inv_add_version store_inv_publish)

section \<open>The reader's view\<close>

text \<open>
  What a reader can observe: the committed versions with the manifests that hold their content, and
  each file's current version.
\<close>

record ReaderView =
  rv_version :: "VersionId \<Rightarrow> Version option"
  rv_content :: "VersionId \<Rightarrow> Manifest option"
  rv_current :: "FileId \<Rightarrow> VersionId option option"

definition visible :: "Inner \<Rightarrow> VersionId \<Rightarrow> Version option" where
  "visible g i =
     (case s_versions g i of
        Some v \<Rightarrow> if v_state v = Committed then Some v else None
      | None \<Rightarrow> None)"

definition readers_view :: "Inner \<Rightarrow> ReaderView" where
  "readers_view g = \<lparr>rv_version = visible g,
     rv_content = (\<lambda>i. Option.bind (visible g i) (\<lambda>v. s_manifests g (v_manifest_id v))),
     rv_current = (\<lambda>i. map_option f_current_version_id (s_files g i))\<rparr>"

text \<open>
  The abstract machine: nothing changes, an empty file appears, or a complete version of an
  existing file is published under an id that was not visible and becomes the current one.
\<close>

inductive view_step :: "ReaderView \<Rightarrow> ReaderView \<Rightarrow> bool" where
  view_idle: "view_step r r"
| view_new_file: "rv_current r f = None \<Longrightarrow> view_step r (r\<lparr>rv_current := (rv_current r)(f \<mapsto> None)\<rparr>)"
| view_publish:
    "rv_version r i = None \<Longrightarrow> rv_current r (v_file_id v) \<noteq> None \<Longrightarrow> v_state v = Committed \<Longrightarrow>
     manifest_ok m \<Longrightarrow> m_manifest_id m = v_manifest_id v \<Longrightarrow>
     view_step r (r\<lparr>rv_version := (rv_version r)(i \<mapsto> v), rv_content := (rv_content r)(i \<mapsto> m),
                    rv_current := (rv_current r)(v_file_id v \<mapsto> Some i)\<rparr>)"

inductive_cases view_stepE: "view_step r r'"

lemma get_current_version_visible: "get_current_version g i = Ok v \<longleftrightarrow> visible g i = Some v"
  by (auto simp: get_current_version_def visible_def split: option.splits)

lemma visible_manifest:
  assumes "store_inv g" and "visible g i = Some v"
  shows "\<exists>m. s_manifests g (v_manifest_id v) = Some m \<and> manifest_ok m \<and> chunks_registered g m"
  using assms
  by (fastforce simp: store_inv_def versions_inv_def manifests_inv_def visible_def
      split: option.splits if_splits)

lemma readers_view_add_manifest:
  assumes "store_inv g"
    and "s_manifests g (m_manifest_id m) = None \<or> s_manifests g (m_manifest_id m) = Some m"
  shows "readers_view (add_manifest g m) = readers_view g"
proof -
  have "visible (add_manifest g m) = visible g"
    by (simp add: fun_eq_iff visible_def store_updates)
  moreover have "s_manifests (add_manifest g m) (v_manifest_id v) = s_manifests g (v_manifest_id v)"
    if "visible g i = Some v" for i v
    using visible_manifest [OF assms(1) that] assms(2) by (auto simp: store_updates)
  ultimately show ?thesis
    by (auto simp: readers_view_def fun_eq_iff bind_eq_Some_conv store_updates split: bind_split)
qed

lemma readers_view_publish:
  assumes inv: "store_inv g" and v: "s_versions g i = Some v" "v_state v = Candidate"
    and m: "s_manifests g (v_manifest_id v) = Some m"
  shows "readers_view (publish_version now g i v) =
    (readers_view g)\<lparr>rv_version := (rv_version (readers_view g))(i \<mapsto> v\<lparr>v_state := Committed\<rparr>),
      rv_content := (rv_content (readers_view g))(i \<mapsto> m),
      rv_current := (rv_current (readers_view g))(v_file_id v \<mapsto> Some i)\<rparr>"
proof -
  from inv v obtain f where f: "s_files g (v_file_id v) = Some f"
    by (auto simp: store_inv_def versions_inv_def)
  have "visible (publish_version now g i v) = (visible g)(i \<mapsto> v\<lparr>v_state := Committed\<rparr>)"
    by (auto simp: fun_eq_iff visible_def publish_version_def)
  with f m show ?thesis
    by (auto simp: readers_view_def publish_version_def point_file_at_def fun_eq_iff)
qed

lemma meta_step_view:
  assumes "store_inv g" and "meta_step g g'"
  shows "view_step (readers_view g) (readers_view g')"
  using assms(2)
proof (cases rule: meta_step_cases)
  case idle
  then show ?thesis by (simp add: view_idle)
next
  case (added_file key fresh now parent name)
  then have "readers_view g' =
      (readers_view g)\<lparr>rv_current := (rv_current (readers_view g))(fresh \<mapsto> None)\<rparr>"
    by (auto simp: readers_view_def visible_def fun_eq_iff store_updates)
  moreover have "rv_current (readers_view g) fresh = None"
    using added_file(1) by (simp add: readers_view_def)
  ultimately show ?thesis by (simp add: view_new_file)
next
  case (added_chunk i n)
  then have "readers_view g' = readers_view g"
    by (simp add: readers_view_def visible_def [abs_def] store_updates)
  then show ?thesis by (simp add: view_idle)
next
  case (added_manifest m)
  with assms(1) have "readers_view g' = readers_view g" by (simp add: readers_view_add_manifest)
  then show ?thesis by (simp add: view_idle)
next
  case (added_version now f v p m)
  then have "visible g' = visible g" by (auto simp: fun_eq_iff visible_def store_updates)
  with added_version have "readers_view g' = readers_view g" by (simp add: readers_view_def store_updates)
  then show ?thesis by (simp add: view_idle)
next
  case (published now i v m)
  have "rv_version (readers_view g) i = None"
    using published by (simp add: readers_view_def visible_def)
  moreover have "rv_current (readers_view g) (v_file_id v) \<noteq> None"
    using assms(1) published(1) by (auto simp: readers_view_def store_inv_def versions_inv_def)
  moreover have "m_manifest_id m = v_manifest_id v"
    using assms(1) published(3) by (auto simp: store_inv_def manifests_inv_def)
  ultimately show ?thesis
    using published view_publish [of "readers_view g" i "v\<lparr>v_state := Committed\<rparr>" m]
    by (simp add: readers_view_publish [OF assms(1) published(1-3)])
qed

interpretation meta: forward_simulation meta_step store_inv store_new view_step readers_view
  by unfold_locales (auto intro: store_inv_new meta_step_inv meta_step_view)

text \<open>What the abstract machine keeps: a visible version and its content, for ever.\<close>

lemma view_version_stable:
  "view_step r r' \<Longrightarrow> rv_version r i = Some v \<Longrightarrow> rv_version r' i = Some v"
  by (erule view_stepE) auto

lemma view_content_stable:
  "view_step r r' \<Longrightarrow> rv_version r i \<noteq> None \<and> rv_content r i = Some m \<Longrightarrow>
   rv_version r' i \<noteq> None \<and> rv_content r' i = Some m"
  by (erule view_stepE) auto

lemma view_current_stays:
  "view_step r r' \<Longrightarrow> rv_current r f = Some (Some v) \<Longrightarrow> \<exists>w. rv_current r' f = Some (Some w)"
  by (erule view_stepE) auto

lemma rv_sel [simp]:
  "rv_version (readers_view g) i = visible g i"
  "rv_content (readers_view g) i = Option.bind (visible g i) (\<lambda>v. s_manifests g (v_manifest_id v))"
  "rv_current (readers_view g) f = map_option f_current_version_id (s_files g f)"
  by (simp_all add: readers_view_def)

end
