(* ===== verification/Cloud_Api.thy ===== *)
theory Cloud_Api
  imports Api_Contract Object_Store Metadata_Invariants
begin

text \<open>
  The cloud API of \<^verbatim>\<open>cloud/api/src/lib.rs\<close>: the shared state, the map from error codes to HTTP
  status codes, the parser of the \<^verbatim>\<open>Range\<close> header, one definition per handler, the router and the
  request-id middleware.  What a request gets from outside the program is the record \<open>Env\<close>: the
  text form of UUIDs, the BLAKE3 digest, the fresh ids and the time of this request, the enumeration
  order of a hash map, the build profile, and what the web framework (axum) decides before a
  handler runs: its body limit and its rejection of a body that is not the expected JSON or of
  a path parameter that is not a number.  Paths are taken as the framework hands their segments to
  a handler, percent escapes decoded.
\<close>

section \<open>State and environment\<close>

record AppState =
  st_meta :: Inner
  st_blobs :: FakeObjectStore

definition AppState_default :: AppState where
  "AppState_default = \<lparr>st_meta = store_new, st_blobs = fake_new\<rparr>"

text \<open>
  A request body: JSON that deserialises to one of the request types, the empty JSON object, or
  anything else.
\<close>

datatype ReqBody =
    NoBody
  | JCreateFile CreateFileRequest
  | JCreateVersion CreateVersionRequest
  | JPutManifest PutManifestRequest
  | JEmptyObject
  | RawBytes bytes

record Env =
  env_uuid_parse :: "string \<Rightarrow> Uuid option"
  env_uuid_show :: "Uuid \<Rightarrow> string"
  env_b3hex :: "bytes \<Rightarrow> string"
  env_header_value_ok :: "string \<Rightarrow> bool"
  env_fresh_file :: FileId
  env_fresh_request :: RequestId
  env_now :: DateTime
  env_order :: "FileId list"
  env_profile :: profile
  env_body_limit :: nat
  env_json_text :: "ReqBody \<Rightarrow> bytes"
  env_json_rejection :: "nat \<times> string"
  env_path_rejection :: string

record HttpResponse =
  r_status :: nat
  r_content_range :: "string option"
  r_request_id :: "string option"
  r_body :: Body

section \<open>Error mapping\<close>

primrec status_for :: "ErrorCode \<Rightarrow> nat" where
  "status_for FileNotFound = 404"
| "status_for VersionNotFound = 404"
| "status_for ManifestNotFound = 404"
| "status_for ChunkNotFound = 404"
| "status_for FileExists = 409"
| "status_for DirectoryNotEmpty = 409"
| "status_for SharingViolation = 409"
| "status_for IntegrityChunkIdConflict = 409"
| "status_for InvalidParameter = 400"
| "status_for InvalidHandle = 400"
| "status_for ProtocolViolation = 400"
| "status_for ConfigInvalid = 400"
| "status_for ConfigMissing = 400"
| "status_for ConfigUnsupportedVersion = 400"
| "status_for IntegrityHashMismatch = 422"
| "status_for IntegrityLengthMismatch = 422"
| "status_for IntegrityManifestInvalid = 422"
| "status_for AuthFailed = 401"
| "status_for PermissionDenied = 403"
| "status_for NetworkTimeout = 504"
| "status_for NetworkUnavailable = 504"
| "status_for ResourceExhausted = 429"
| "status_for DiskFull = 500"
| "status_for StorageError = 500"
| "status_for Cancelled = 500"
| "status_for InternalError = 500"

definition json_response :: "nat \<Rightarrow> Body \<Rightarrow> HttpResponse" where
  "json_response code body =
     \<lparr>r_status = code, r_content_range = None, r_request_id = None, r_body = body\<rparr>"

definition error_response :: "SpaceError \<Rightarrow> HttpResponse" where
  "error_response e = json_response (status_for (se_code e)) (JError (ErrorResponse_from e))"

section \<open>Handlers\<close>

text \<open>
  An \<^verbatim>\<open>ApiError\<close> wraps an error and adds nothing: the ids of a path are parsed as everywhere else.
\<close>

definition parse_file_id :: "(string \<Rightarrow> Uuid option) \<Rightarrow> string \<Rightarrow> FileId space_result" where
  [simp]: "parse_file_id up s = FileId_parse up s"

definition parse_dir_id :: "(string \<Rightarrow> Uuid option) \<Rightarrow> string \<Rightarrow> DirectoryId space_result" where
  [simp]: "parse_dir_id up s = DirectoryId_parse up s"

definition parse_version_id :: "(string \<Rightarrow> Uuid option) \<Rightarrow> string \<Rightarrow> VersionId space_result" where
  [simp]: "parse_version_id up s = VersionId_parse up s"

definition parse_manifest_id :: "(string \<Rightarrow> Uuid option) \<Rightarrow> string \<Rightarrow> ManifestId space_result" where
  [simp]: "parse_manifest_id up s = ManifestId_parse up s"

definition parse_chunk_id :: "string \<Rightarrow> ChunkId space_result" where
  [simp]: "parse_chunk_id s = ChunkId_parse s"

definition h_health :: HealthResponse where
  [simp]: "h_health = HealthResponse_ok"

definition h_create_file ::
  "FileId \<Rightarrow> DateTime \<Rightarrow> AppState \<Rightarrow> CreateFileRequest \<Rightarrow> FileResponse space_result \<times> AppState" where
  "h_create_file fresh now st req =
     (let (r, g) = create_file fresh now (st_meta st) (cfr_parent_id req) (cfr_name req)
                     (cfr_idempotency_key req)
      in (map_ok FileResponse_new r, st\<lparr>st_meta := g\<rparr>))"

definition h_stat_file ::
  "(string \<Rightarrow> Uuid option) \<Rightarrow> AppState \<Rightarrow> string \<Rightarrow> FileResponse space_result" where
  "h_stat_file up st file_id =
     and_then (parse_file_id up file_id)
       (\<lambda>i. map_ok FileResponse_new (get_file (st_meta st) i))"

definition h_list_children ::
  "(string \<Rightarrow> Uuid option) \<Rightarrow> FileId list \<Rightarrow> AppState \<Rightarrow> string \<Rightarrow> ListChildrenResponse space_result" where
  "h_list_children up order st dir_id =
     and_then (parse_dir_id up dir_id)
       (\<lambda>i. map_ok ListChildrenResponse_new (list_children order (st_meta st) i))"

definition h_create_version ::
  "(string \<Rightarrow> Uuid option) \<Rightarrow> DateTime \<Rightarrow> AppState \<Rightarrow> string \<Rightarrow> CreateVersionRequest
     \<Rightarrow> VersionResponse space_result \<times> AppState" where
  "h_create_version up now st file_id req =
     and_then_st (parse_file_id up file_id, st)
       (\<lambda>i st. let (r, g) = create_version now (st_meta st) i (cvr_version_id req)
                              (cvr_parent_version_id req) (cvr_manifest_id req)
               in (map_ok VersionResponse_new r, st\<lparr>st_meta := g\<rparr>))"

definition h_commit_version ::
  "(string \<Rightarrow> Uuid option) \<Rightarrow> DateTime \<Rightarrow> AppState \<Rightarrow> string
     \<Rightarrow> VersionResponse space_result \<times> AppState" where
  "h_commit_version up now st version_id =
     and_then_st (parse_version_id up version_id, st)
       (\<lambda>i st. let (r, g) = commit_version now (st_meta st) i
               in (map_ok VersionResponse_new r, st\<lparr>st_meta := g\<rparr>))"

definition h_put_manifest ::
  "(string \<Rightarrow> Uuid option) \<Rightarrow> AppState \<Rightarrow> string \<Rightarrow> PutManifestRequest
     \<Rightarrow> ManifestResponse space_result \<times> AppState" where
  "h_put_manifest up st manifest_id req =
     and_then_st (parse_manifest_id up manifest_id, st)
       (\<lambda>i st. if m_manifest_id (pmr_manifest req) \<noteq> i
               then (Err (invalid_param ''manifest_id in path and body disagree''), st)
               else (let (r, g) = put_manifest (st_meta st) (pmr_manifest req)
                     in (map_ok ManifestResponse_new r, st\<lparr>st_meta := g\<rparr>)))"

definition h_get_manifest ::
  "(string \<Rightarrow> Uuid option) \<Rightarrow> AppState \<Rightarrow> string \<Rightarrow> ManifestResponse space_result" where
  "h_get_manifest up st manifest_id =
     and_then (parse_manifest_id up manifest_id)
       (\<lambda>i. map_ok ManifestResponse_new (get_manifest (st_meta st) i))"

text \<open>Two locks, one after the other: the body is stored before its metadata is registered.\<close>

definition h_put_chunk ::
  "(bytes \<Rightarrow> string) \<Rightarrow> AppState \<Rightarrow> string \<Rightarrow> bytes \<Rightarrow> ChunkResponse space_result \<times> AppState" where
  "h_put_chunk b3hex st chunk_id body =
     and_then_st (parse_chunk_id chunk_id, st)
       (\<lambda>i st. and_then_st (let (r, bl) = fake_put b3hex (st_blobs st) i body in (r, st\<lparr>st_blobs := bl\<rparr>))
       (\<lambda>_ st. let (r, g) = register_chunk (st_meta st) i (len_u64 body)
               in (map_ok ChunkResponse_new r, st\<lparr>st_meta := g\<rparr>)))"

definition parse_range :: "string \<Rightarrow> u64 \<Rightarrow> (u64 \<times> u64) option" where
  "parse_range raw size' =
     Option.bind (strip_prefix ''bytes='' raw) (\<lambda>spec.
     Option.bind (split_once ''-'' spec) (\<lambda>(s, e).
     Option.bind (parse_u64 s) (\<lambda>start.
     Option.bind (if e = [] then Some (max size' 1 - 1) else parse_u64 e) (\<lambda>end'.
     if start > end' then None else Some (start, end')))))"

text \<open>
  The length of a range is computed in 64 bits with the plain operators and then cast to 32 bits.
\<close>

definition h_get_chunk ::
  "profile \<Rightarrow> (bytes \<Rightarrow> string) \<Rightarrow> AppState \<Rightarrow> string \<Rightarrow> string option option \<Rightarrow> HttpResponse space_result" where
  "h_get_chunk p b3hex st chunk_id range_header =
     and_then (parse_chunk_id chunk_id) (\<lambda>i.
     and_then (fake_head (st_blobs st) i) (\<lambda>size'.
     case range_header of
       None \<Rightarrow> map_ok (\<lambda>bs. json_response 200 (Octets bs)) (fake_get b3hex (st_blobs st) i)
     | Some hv \<Rightarrow>
         and_then (ok_or (invalid_param ''malformed Range header'')
                     (parse_range (case hv of Some s \<Rightarrow> s | None \<Rightarrow> []) size')) (\<lambda>(start, end_inclusive).
         and_then (minus_u64 p end_inclusive start) (\<lambda>d.
         and_then (plus_u64 p d 1) (\<lambda>n.
         and_then (fake_get_range b3hex (st_blobs st) i start (ucast n)) (\<lambda>bs.
         Ok \<lparr>r_status = 206,
             r_content_range = Some (''bytes '' @ show_u64 start @ ''-'' @ show_u64 end_inclusive
                                      @ ''/'' @ show_u64 size'),
             r_request_id = None, r_body = Octets bs\<rparr>))))))"

section \<open>Routing\<close>

text \<open>The methods the router registers; the framework answers HEAD as GET without the body.\<close>

datatype Method = GET | PUT | POST

record HttpRequest =
  q_method :: Method
  q_path :: string
  q_range :: "string option option"
  q_request_id :: "string option option"
  q_body :: ReqBody

datatype Endpoint =
    EHealth | ECreateFile | EStatFile string | EListChildren string | ECreateVersion string
  | ECommitVersion string | EPutManifest string | EGetManifest string | EPutChunk string
  | EGetChunk string | ESlow string | EMethodNotAllowed | ENotFound

fun segments :: "string \<Rightarrow> string list" where
  "segments [] = [[]]"
| "segments (c # cs) =
     (if c = CHR ''/'' then [] # segments cs
      else (case segments cs of [] \<Rightarrow> [[c]] | s # ss \<Rightarrow> (c # s) # ss))"

text \<open>
  The route table.  A parameter such as \<^verbatim>\<open>:file_id\<close> matches one non-empty path segment; a known
  path with another method is answered 405 by the framework, an unknown path by the fallback.
\<close>

definition pick :: "Method \<Rightarrow> (Method \<times> Endpoint) list \<Rightarrow> Endpoint" where
  "pick m table = (case map_of table m of Some e \<Rightarrow> e | None \<Rightarrow> EMethodNotAllowed)"

definition route_v1 :: "Method \<Rightarrow> string list \<Rightarrow> Endpoint" where
  "route_v1 meth segs =
     (case segs of
        [a] \<Rightarrow> if a = ''files'' then pick meth [(POST, ECreateFile)] else ENotFound
      | [a, i] \<Rightarrow>
          if i = [] then ENotFound
          else if a = ''files'' then pick meth [(GET, EStatFile i)]
          else if a = ''manifests'' then pick meth [(PUT, EPutManifest i), (GET, EGetManifest i)]
          else if a = ''chunks'' then pick meth [(PUT, EPutChunk i), (GET, EGetChunk i)]
          else if a = ''_slow'' then pick meth [(GET, ESlow i)]
          else ENotFound
      | [a, i, b] \<Rightarrow>
          if i = [] then ENotFound
          else if a = ''dirs'' \<and> b = ''children'' then pick meth [(GET, EListChildren i)]
          else if a = ''files'' \<and> b = ''versions'' then pick meth [(POST, ECreateVersion i)]
          else if a = ''versions'' \<and> b = ''commit'' then pick meth [(POST, ECommitVersion i)]
          else ENotFound
      | _ \<Rightarrow> ENotFound)"

definition route :: "Method \<Rightarrow> string \<Rightarrow> Endpoint" where
  "route meth path =
     (case segments path of
        root # a # rest \<Rightarrow>
          if root \<noteq> [] then ENotFound
          else if rest = [] \<and> a = ''health'' then pick meth [(GET, EHealth)]
          else if a = ''v1'' then route_v1 meth rest
          else ENotFound
      | _ \<Rightarrow> ENotFound)"

section \<open>Serving a request\<close>

definition body_bytes :: "Env \<Rightarrow> ReqBody \<Rightarrow> bytes" where
  "body_bytes env b =
     (case b of NoBody \<Rightarrow> [] | RawBytes bs \<Rightarrow> bs | _ \<Rightarrow> env_json_text env b)"

text \<open>A handler's result as a response; a handler that panics closes the connection (\<open>None\<close>).\<close>

definition answer :: "('a \<Rightarrow> HttpResponse) \<Rightarrow> 'a space_result \<times> AppState \<Rightarrow> HttpResponse option \<times> AppState" where
  "answer f rs =
     (case fst rs of
        Ok a \<Rightarrow> (Some (f a), snd rs)
      | Err e \<Rightarrow> (Some (error_response e), snd rs)
      | Panic \<Rightarrow> (None, snd rs))"

text \<open>
  The body extractors \<^verbatim>\<open>Bytes\<close> and \<^verbatim>\<open>Json\<close> read at most \<open>env_body_limit\<close> bytes; the
  router sets no limit of its own, so it is the framework's default.
\<close>

definition with_body ::
  "Env \<Rightarrow> AppState \<Rightarrow> ReqBody \<Rightarrow> 'a option \<Rightarrow> ('a \<Rightarrow> HttpResponse option \<times> AppState)
     \<Rightarrow> HttpResponse option \<times> AppState" where
  "with_body env st b wanted k =
     (if env_body_limit env < length (body_bytes env b)
      then (Some (json_response 413 (Plain ''Failed to buffer the request body: length limit exceeded'')), st)
      else (case wanted of
          None \<Rightarrow> (Some (json_response (fst (env_json_rejection env))
                           (Plain (snd (env_json_rejection env)))), st)
        | Some a \<Rightarrow> k a))"

definition as_create_file :: "ReqBody \<Rightarrow> CreateFileRequest option" where
  "as_create_file b = (case b of JCreateFile r \<Rightarrow> Some r | _ \<Rightarrow> None)"

definition as_create_version :: "ReqBody \<Rightarrow> CreateVersionRequest option" where
  "as_create_version b = (case b of JCreateVersion r \<Rightarrow> Some r | _ \<Rightarrow> None)"

definition as_put_manifest :: "ReqBody \<Rightarrow> PutManifestRequest option" where
  "as_put_manifest b = (case b of JPutManifest r \<Rightarrow> Some r | _ \<Rightarrow> None)"

text \<open>\<^verbatim>\<open>slow\<close>: how long it sleeps, and what it answers.\<close>

definition h_slow :: "u64 \<Rightarrow> u64 \<times> HttpResponse" where
  "h_slow ms = (min ms 60000, json_response 200 (Plain ''done''))"

definition h_not_found :: HttpResponse where
  "h_not_found = error_response (new_error FileNotFound ''no such route'')"

definition handle :: "Env \<Rightarrow> AppState \<Rightarrow> HttpRequest \<Rightarrow> HttpResponse option \<times> AppState" where
  "handle env st q =
     (let up = env_uuid_parse env; ok = json_response 200 in
      case route (q_method q) (q_path q) of
        EHealth \<Rightarrow> (Some (ok (JHealth h_health)), st)
      | ECreateFile \<Rightarrow>
          with_body env st (q_body q) (as_create_file (q_body q)) (\<lambda>req.
            answer (\<lambda>r. ok (JFile r)) (h_create_file (env_fresh_file env) (env_now env) st req))
      | EStatFile i \<Rightarrow> answer (\<lambda>r. ok (JFile r)) (h_stat_file up st i, st)
      | EListChildren i \<Rightarrow> answer (\<lambda>r. ok (JChildren r)) (h_list_children up (env_order env) st i, st)
      | ECreateVersion i \<Rightarrow>
          with_body env st (q_body q) (as_create_version (q_body q)) (\<lambda>req.
            answer (\<lambda>r. ok (JVersion r)) (h_create_version up (env_now env) st i req))
      | ECommitVersion i \<Rightarrow> answer (\<lambda>r. ok (JVersion r)) (h_commit_version up (env_now env) st i)
      | EPutManifest i \<Rightarrow>
          with_body env st (q_body q) (as_put_manifest (q_body q)) (\<lambda>req.
            answer (\<lambda>r. ok (JManifest r)) (h_put_manifest up st i req))
      | EGetManifest i \<Rightarrow> answer (\<lambda>r. ok (JManifest r)) (h_get_manifest up st i, st)
      | EPutChunk i \<Rightarrow>
          with_body env st (q_body q) (Some (body_bytes env (q_body q))) (\<lambda>bs.
            answer (\<lambda>r. ok (JChunk r)) (h_put_chunk (env_b3hex env) st i bs))
      | EGetChunk i \<Rightarrow>
          answer (\<lambda>r. r) (h_get_chunk (env_profile env) (env_b3hex env) st i (q_range q), st)
      | ESlow ms \<Rightarrow>
          (case parse_u64 ms of
             Some n \<Rightarrow> (Some (snd (h_slow n)), st)
           | None \<Rightarrow> (Some (json_response 400 (Plain (env_path_rejection env))), st))
      | EMethodNotAllowed \<Rightarrow> (Some (json_response 405 (Plain [])), st)
      | ENotFound \<Rightarrow> (Some h_not_found, st))"

text \<open>
  The middleware: an inbound request id that parses is kept, anything else is replaced by a fresh
  one, and the response carries it.
\<close>

definition request_id_of :: "Env \<Rightarrow> string option option \<Rightarrow> string" where
  "request_id_of env inbound =
     (let fresh = RequestId_show (env_uuid_show env) (env_fresh_request env) in
      case inbound of
        Some (Some s) \<Rightarrow>
          (case RequestId_parse (env_uuid_parse env) s of Ok _ \<Rightarrow> s | _ \<Rightarrow> fresh)
      | _ \<Rightarrow> fresh)"

definition request_id_layer :: "Env \<Rightarrow> AppState \<Rightarrow> HttpRequest \<Rightarrow> HttpResponse option \<times> AppState" where
  "request_id_layer env st q =
     (let rid = request_id_of env (q_request_id q);
          (r, st') = handle env st q
      in (map_option (\<lambda>res. if env_header_value_ok env rid then res\<lparr>r_request_id := Some rid\<rparr> else res) r,
          st'))"

end
