(* ===== verification/Reassembly.thy ===== *)
theory Reassembly
  imports Cloud_Client
begin

text \<open>
  What reassembly returns.  \<open>file_bytes\<close> is the file a manifest describes over a map from content
  addresses to bodies.  Against any network at all, a reassembly that returns gives a file of the
  announced size whose whole chunks are genuine; over a source that keeps the contract
  \<open>chunk_source\<close> it does return, and gives exactly \<open>file_bytes\<close>.
\<close>

section \<open>The file a manifest describes\<close>

definition entry_bytes :: "(ChunkId \<Rightarrow> bytes option) \<Rightarrow> ManifestEntry \<Rightarrow> bytes" where
  "entry_bytes content e =
     (case content (e_chunk_id e) of
        Some bs \<Rightarrow> take (unat (e_length e)) (drop (unat (e_chunk_offset e)) bs)
      | None \<Rightarrow> [])"

definition file_bytes :: "(ChunkId \<Rightarrow> bytes option) \<Rightarrow> Manifest \<Rightarrow> bytes" where
  "file_bytes content m = concat (map (entry_bytes content) (m_entries m))"

definition manifest_stored :: "(ChunkId \<Rightarrow> bytes option) \<Rightarrow> Manifest \<Rightarrow> bool" where
  "manifest_stored content m \<longleftrightarrow>
     (\<forall>c\<in>set (m_chunks m). \<exists>bs. content (c_chunk_id c) = Some bs \<and> length bs = unat (c_size c))"

text \<open>The part of a file that an entry names.\<close>

definition slice_at :: "ManifestEntry \<Rightarrow> bytes \<Rightarrow> bytes" where
  "slice_at e out = take (unat (e_length e)) (drop (unat (e_logical_offset e)) out)"

definition covers_chunk :: "Manifest \<Rightarrow> ManifestEntry \<Rightarrow> bool" where
  "covers_chunk m e \<longleftrightarrow> e_chunk_offset e = 0 \<and> chunk_size m (e_chunk_id e) = Some (e_length e)"

section \<open>The loop\<close>

lemma copy_at_exact:
  assumes "length out < 2 ^ 63" "unat at + length bs \<le> length out"
  shows "copy_at p out at bs = Ok (take (unat at) out @ bs @ drop (unat at + length bs) out)"
proof -
  have len: "unat (len_u64 bs) = length bs" using assms by (intro unat_len_u64) simp
  then have end': "unat (at + len_u64 bs) = unat at + length bs"
    using assms by (simp add: unat_plus_u64)
  then have "at \<le> at + len_u64 bs" by (simp add: word_le_nat_alt)
  with assms len end' show ?thesis by (simp add: copy_at_def plus_u64_exact)
qed

lemma check_whole_chunk_Ok_iff:
  "check_whole_chunk b3hex m e bs = Ok u \<longleftrightarrow> (covers_chunk m e \<longrightarrow> ChunkId_verify b3hex (e_chunk_id e) bs)"
  by (auto simp: check_whole_chunk_def covers_chunk_def outcome_simps split: option.splits)

lemma check_whole_chunk_not_Panic: "check_whole_chunk b3hex m e bs \<noteq> Panic"
  by (auto simp: check_whole_chunk_def outcome_simps split: option.splits)

lemma reassemble_loop_sound:
  assumes fetch: "\<And>w i off len bs w'. fetch w i off len = (Ok bs, w') \<Longrightarrow> length bs = unat len"
    and "tiles k es" "length out = k + total_length es" "length out < 2 ^ 63"
    and "reassemble_loop p b3hex fetch m es out w = (Ok res, w')"
  shows "length res = length out \<and> take k res = take k out \<and>
    (\<forall>e\<in>set es. covers_chunk m e \<longrightarrow> ChunkId_verify b3hex (e_chunk_id e) (slice_at e res))"
  using assms(2-)
proof (induction es arbitrary: k out w)
  case Nil
  then show ?case by simp
next
  case (Cons e es)
  let ?n = "unat (e_length e)"
  from Cons.prems(1) have at: "unat (e_logical_offset e) = k" and tl: "tiles (k + ?n) es" by auto
  from Cons.prems(4) obtain bs w1 out1 where
    bs: "fetch w (e_chunk_id e) (e_chunk_offset e) (e_length e) = (Ok bs, w1)"
    and chk: "check_whole_chunk b3hex m e bs = Ok ()"
    and out1: "copy_at p out (e_logical_offset e) bs = Ok out1"
    and rest: "reassemble_loop p b3hex fetch m es out1 w1 = (Ok res, w')"
    by (auto simp: outcome_simps)
  have n: "length bs = ?n" using fetch [OF bs] .
  have "out1 = take k out @ bs @ drop (k + ?n) out"
    using out1 Cons.prems(2,3) n at copy_at_exact [of out "e_logical_offset e" bs p] by simp
  moreover from this have "length out1 = length out" using Cons.prems(2) n by simp
  ultimately have "length res = length out" and pre: "take (k + ?n) res = take k out @ bs"
    and ver: "\<forall>e\<in>set es. covers_chunk m e \<longrightarrow> ChunkId_verify b3hex (e_chunk_id e) (slice_at e res)"
    using Cons.IH [OF tl _ _ rest] Cons.prems(2,3) n by auto
  moreover have "take k (take (k + ?n) res) = take k out" using Cons.prems(2) pre by simp
  then have "take k res = take k out" by (simp add: min_def)
  moreover have "slice_at e res = drop k (take (k + ?n) res)"
    by (simp add: slice_at_def at drop_take)
  then have "slice_at e res = bs" using pre Cons.prems(2) by simp
  ultimately show ?case using chk by (auto simp: check_whole_chunk_Ok_iff)
qed

lemma and_then_st_Panic_iff [outcome_simps]:
  "and_then_st r f = (Panic, s') \<longleftrightarrow> r = (Panic, s') \<or> (\<exists>a s. r = (Ok a, s) \<and> f a s = (Panic, s'))"
  by (cases "(r, f)" rule: and_then_st.cases) auto

lemma reassemble_loop_no_Panic:
  assumes fetch: "\<And>w i off len bs w'. fetch w i off len = (Ok bs, w') \<Longrightarrow> length bs = unat len"
    and safe: "\<And>w e. e \<in> set es \<Longrightarrow> fst (fetch w (e_chunk_id e) (e_chunk_offset e) (e_length e)) \<noteq> Panic"
    and "tiles k es" "length out = k + total_length es" "length out < 2 ^ 63"
  shows "reassemble_loop p b3hex fetch m es out w \<noteq> (Panic, w')"
  using assms(2-)
proof (induction es arbitrary: k out w)
  case Nil
  then show ?case by simp
next
  case (Cons e es)
  let ?n = "unat (e_length e)"
  from Cons.prems(2) have at: "unat (e_logical_offset e) = k" and tl: "tiles (k + ?n) es" by auto
  have copy: "copy_at p out (e_logical_offset e) bs = Ok (take k out @ bs @ drop (k + ?n) out)"
    if "length bs = ?n" for bs
    using that Cons.prems(3,4) at copy_at_exact [of out "e_logical_offset e" bs p] by simp
  have ih: "reassemble_loop p b3hex fetch m es (take k out @ bs @ drop (k + ?n) out) w1 \<noteq> (Panic, w')"
    if "length bs = ?n" for bs w1
    using that Cons.prems(1,3,4) by (intro Cons.IH [OF _ tl]) auto
  show ?case
  proof
    assume "reassemble_loop p b3hex fetch m (e # es) out w = (Panic, w')"
    moreover have "fst (fetch w (e_chunk_id e) (e_chunk_offset e) (e_length e)) \<noteq> Panic"
      using Cons.prems(1) by simp
    ultimately show False
      using fetch copy ih check_whole_chunk_not_Panic by (auto simp: outcome_simps)
  qed
qed

text \<open>
  A reassembly that meets a fault: if each fetch either returns what its entry asks for or fails with
  the code \<open>c\<close>, and one of them fails, the reassembly fails with that code.
\<close>

definition fetch_good ::
  "(bytes \<Rightarrow> string) \<Rightarrow> Manifest \<Rightarrow> ManifestEntry \<Rightarrow> bytes space_result \<Rightarrow> bool" where
  "fetch_good b3hex m e r \<longleftrightarrow>
     (\<exists>bs. r = Ok bs \<and> length bs = unat (e_length e) \<and> check_whole_chunk b3hex m e bs = Ok ())"

definition fails_as :: "ErrorCode \<Rightarrow> 'a space_result \<Rightarrow> bool" where
  "fails_as c r \<longleftrightarrow> (\<exists>e. r = Err e \<and> se_code e = c)"

lemma reassemble_loop_fails:
  assumes keep: "\<And>w e. Q w \<Longrightarrow> e \<in> set es \<Longrightarrow>
      Q (snd (fetch w (e_chunk_id e) (e_chunk_offset e) (e_length e)))"
    and each: "\<And>w e. Q w \<Longrightarrow> e \<in> set es \<Longrightarrow>
      fetch_good b3hex m e (fst (fetch w (e_chunk_id e) (e_chunk_offset e) (e_length e))) \<or>
      fails_as c (fst (fetch w (e_chunk_id e) (e_chunk_offset e) (e_length e)))"
    and one: "\<exists>e\<in>set es. \<forall>w. Q w \<longrightarrow>
      \<not> fetch_good b3hex m e (fst (fetch w (e_chunk_id e) (e_chunk_offset e) (e_length e)))"
    and "Q w" and "tiles k es" "length out = k + total_length es" "length out < 2 ^ 63"
  shows "fails_as c (fst (reassemble_loop p b3hex fetch m es out w))"
  using assms
proof (induction es arbitrary: k out w)
  case Nil
  then show ?case by simp
next
  case (Cons e es)
  let ?n = "unat (e_length e)"
  from Cons.prems(5) have at: "unat (e_logical_offset e) = k" and tl: "tiles (k + ?n) es" by auto
  obtain r w1 where r: "fetch w (e_chunk_id e) (e_chunk_offset e) (e_length e) = (r, w1)" by fastforce
  have Q1: "Q w1" using Cons.prems(1) [OF Cons.prems(4), of e] r by simp
  show ?case
  proof (cases "fetch_good b3hex m e r")
    case True
    then obtain bs where bs: "r = Ok bs" "length bs = ?n" "check_whole_chunk b3hex m e bs = Ok ()"
      by (auto simp: fetch_good_def)
    have "copy_at p out (e_logical_offset e) bs = Ok (take k out @ bs @ drop (k + ?n) out)"
      using Cons.prems(6,7) at bs(2) copy_at_exact [of out "e_logical_offset e" bs p] by simp
    moreover have "\<exists>e'\<in>set es. \<forall>w. Q w \<longrightarrow>
        \<not> fetch_good b3hex m e' (fst (fetch w (e_chunk_id e') (e_chunk_offset e') (e_length e')))"
      using Cons.prems(3,4) True r by auto
    then have "fails_as c (fst (reassemble_loop p b3hex fetch m es (take k out @ bs @ drop (k + ?n) out) w1))"
      using Cons.IH [OF _ _ _ Q1 tl, of "take k out @ bs @ drop (k + ?n) out"] Cons.prems(1,2,6,7) bs(2) by simp
    ultimately show ?thesis using r bs by simp
  next
    case False
    then have "fails_as c r" using Cons.prems(2) [OF Cons.prems(4), of e] r by simp
    then show ?thesis using r by (auto simp: fails_as_def)
  qed
qed

section \<open>Over a source that keeps its contract\<close>

text \<open>
  The contract: a range of a present chunk is read exactly, and nothing that is present disappears or
  changes; other chunks may appear meanwhile.
\<close>

lemma map_leD: "m \<subseteq>\<^sub>m m' \<Longrightarrow> m i = Some x \<Longrightarrow> m' i = Some x"
  by (metis domI map_le_def)

lemma manifest_stored_mono: "manifest_stored content m \<Longrightarrow> content \<subseteq>\<^sub>m content' \<Longrightarrow> manifest_stored content' m"
  unfolding manifest_stored_def using map_leD by metis

lemma entry_bytes_mono:
  assumes "manifest_stored content m" "content \<subseteq>\<^sub>m content'" "entry_in_chunk m e"
  shows "entry_bytes content' e = entry_bytes content e"
proof -
  from assms(3) obtain c where "c \<in> set (m_chunks m)" "c_chunk_id c = e_chunk_id e"
    by (auto simp: entry_in_chunk_def dest!: chunk_size_Some_in)
  then obtain bs where "content (e_chunk_id e) = Some bs" using assms(1) by (auto simp: manifest_stored_def)
  then show ?thesis using map_leD [OF assms(2)] by (simp add: entry_bytes_def)
qed

locale chunk_source =
  fixes fetch :: "'w \<Rightarrow> ChunkId \<Rightarrow> u64 \<Rightarrow> u64 \<Rightarrow> bytes space_result \<times> 'w"
    and content :: "'w \<Rightarrow> ChunkId \<Rightarrow> bytes option"
    and b3hex :: "bytes \<Rightarrow> string"
    and inv :: "'w \<Rightarrow> bool"
  assumes fetch_exact: "inv w \<Longrightarrow> content w i = Some bs \<Longrightarrow> wf_chunk_id i \<Longrightarrow> 0 < len \<Longrightarrow> unat len < 2 ^ 32 \<Longrightarrow>
      unat off + unat len \<le> length bs \<Longrightarrow>
      \<exists>w'. fetch w i off len = (Ok (take (unat len) (drop (unat off) bs)), w') \<and>
           inv w' \<and> content w \<subseteq>\<^sub>m content w'"
    and genuine: "inv w \<Longrightarrow> content w i = Some bs \<Longrightarrow> ChunkId_verify b3hex i bs"
begin

lemma loop_exact:
  assumes "inv w" and m: "manifest_stored (content w) m"
    and "\<forall>e\<in>set es. entry_in_chunk m e \<and> 0 < e_length e \<and> unat (e_length e) < 2 ^ 32"
    and "tiles k es" "length out = k + total_length es" "length out < 2 ^ 63"
  shows "\<exists>w'. reassemble_loop p b3hex fetch m es out w
      = (Ok (take k out @ concat (map (entry_bytes (content w)) es)), w') \<and> inv w' \<and> content w \<subseteq>\<^sub>m content w'"
  using assms
proof (induction es arbitrary: k out w)
  case Nil
  then show ?case by simp
next
  case (Cons e es)
  let ?n = "unat (e_length e)" and ?o = "unat (e_chunk_offset e)"
  from Cons.prems(4) have at: "unat (e_logical_offset e) = k" and tl: "tiles (k + ?n) es" by auto
  from Cons.prems(3) obtain sz where sz: "chunk_size m (e_chunk_id e) = Some sz" "?o + ?n \<le> unat sz"
    and wf: "wf_chunk_id (e_chunk_id e)" by (auto simp: entry_in_chunk_def)
  with Cons.prems(2) obtain bs where bs: "content w (e_chunk_id e) = Some bs" "length bs = unat sz"
    by (force simp: manifest_stored_def dest!: chunk_size_Some_in)
  define piece where "piece = take ?n (drop ?o bs)"
  have piece: "entry_bytes (content w) e = piece" "length piece = ?n"
    using bs sz by (simp_all add: entry_bytes_def piece_def)
  obtain w1 where w1: "fetch w (e_chunk_id e) (e_chunk_offset e) (e_length e) = (Ok piece, w1)"
      "inv w1" and up: "content w \<subseteq>\<^sub>m content w1"
    using fetch_exact [OF Cons.prems(1) bs(1) wf, of "e_length e" "e_chunk_offset e"]
      Cons.prems(3) bs(2) sz(2) by (auto simp: piece_def)
  have "piece = bs" if "covers_chunk m e"
    using that sz bs by (simp add: covers_chunk_def piece_def)
  then have "check_whole_chunk b3hex m e piece = Ok ()"
    using genuine [OF Cons.prems(1) bs(1)] by (auto simp: check_whole_chunk_Ok_iff)
  moreover have "copy_at p out (e_logical_offset e) piece = Ok (take k out @ piece @ drop (k + ?n) out)"
    using Cons.prems(5,6) at piece(2) copy_at_exact [of out "e_logical_offset e" piece p] by simp
  moreover have "\<exists>w'. reassemble_loop p b3hex fetch m es (take k out @ piece @ drop (k + ?n) out) w1
      = (Ok ((take k out @ piece) @ concat (map (entry_bytes (content w1)) es)), w')
        \<and> inv w' \<and> content w1 \<subseteq>\<^sub>m content w'"
    using Cons.IH [OF w1(2) manifest_stored_mono [OF Cons.prems(2) up] _ tl,
        of "take k out @ piece @ drop (k + ?n) out"] Cons.prems(3,5,6) piece(2) by simp
  moreover have "map (entry_bytes (content w1)) es = map (entry_bytes (content w)) es"
    using entry_bytes_mono [OF Cons.prems(2) up] Cons.prems(3) by simp
  ultimately show ?case using w1 piece(1) map_le_trans [OF up] by auto
qed

end

lemma manifest_ok_entries:
  assumes "manifest_ok m"
  shows "tiles 0 (m_entries m)" "total_length (m_entries m) = unat (m_total_size m)"
    "\<forall>e\<in>set (m_entries m). entry_in_chunk m e \<and> 0 < e_length e"
  using assms by (auto simp: manifest_ok_def)

lemma file_bytes_mono:
  assumes "manifest_ok m" "manifest_stored content m" "content \<subseteq>\<^sub>m content'"
  shows "file_bytes content' m = file_bytes content m"
  using entry_bytes_mono [OF assms(2,3)] manifest_ok_entries(3) [OF assms(1)]
  by (simp add: file_bytes_def cong: map_cong)

lemma reassemble_unfold:
  assumes "manifest_ok m" "unat (m_total_size m) < 2 ^ 63"
  shows "reassemble ce net c w m = reassemble_loop (ce_profile ce) (ce_b3hex ce)
    (get_chunk_range ce net c) m (m_entries m) (replicate (unat (m_total_size m)) 0) w"
  using assms by (simp add: reassemble_def zeroed_def manifest_ok_validates [symmetric])

section \<open>The client's range read, whatever answers\<close>

lemma range_body_length: "range_body ce len r = Ok bs \<Longrightarrow> length bs = unat len"
  by (auto simp: range_body_def Let_def split: if_splits option.splits)

lemma range_body_not_Panic [simp]: "range_body ce len r \<noteq> Panic"
  by (auto simp: range_body_def Let_def split: option.splits)

lemma get_chunk_range_length:
  "get_chunk_range ce net c w i off len = (Ok bs, w') \<Longrightarrow> length bs = unat len"
  by (auto simp: get_chunk_range_def outcome_simps dest: range_body_length)

lemma exchange_not_Panic: "fst (exchange net w q) \<noteq> Panic"
  by (auto simp: exchange_def split: prod.splits sum.splits)

lemma range_end_exact:
  fixes off len :: u64
  assumes "unat off + unat len < 2 ^ 64" "0 < len"
  shows "and_then (plus_u64 p off len) (\<lambda>s. minus_u64 p s 1) = Ok (off + len - 1)"
    and "unat (off + len - 1) = unat off + unat len - 1"
proof -
  have sum: "unat (off + len) = unat off + unat len" using assms(1) by (simp add: unat_plus_u64)
  moreover have "0 < unat len" using assms(2) by (simp add: word_less_nat_alt)
  ultimately have le: "1 \<le> off + len" by (simp add: word_le_nat_alt)
  with assms(1) show "and_then (plus_u64 p off len) (\<lambda>s. minus_u64 p s 1) = Ok (off + len - 1)"
    by (simp add: plus_u64_exact minus_u64_exact)
  from le sum show "unat (off + len - 1) = unat off + unat len - 1" by (simp add: unat_minus_u64)
qed

lemma get_chunk_range_no_Panic:
  assumes "unat off + unat len < 2 ^ 64" "0 < len"
  shows "fst (get_chunk_range ce net c w i off len) \<noteq> Panic"
proof -
  let ?q = "request ce GET (url c (''/v1/chunks/'' @ as_str i))
    (Some (''bytes='' @ show_u64 off @ ''-'' @ show_u64 (off + len - 1))) NoBody"
  obtain r w' where "exchange net w ?q = (r, w')" by fastforce
  then show ?thesis
    using exchange_not_Panic [of net w ?q]
    by (cases r) (simp_all add: get_chunk_range_def range_end_exact [OF assms])
qed

lemma entry_range_bounds:
  "entry_in_chunk m e \<Longrightarrow> unat (e_chunk_offset e) + unat (e_length e) < 2 ^ 64"
  using below_u64 by (fastforce simp: entry_in_chunk_def)

text \<open>What a reassembly that returns has checked, whatever network answered it.\<close>

lemma reassemble_result:
  assumes "reassemble ce net c w m = (Ok out, w')"
  shows "validate_manifest m = Ok ()" and "length out = unat (m_total_size m)"
    and "\<forall>e\<in>set (m_entries m). covers_chunk m e \<longrightarrow>
      ChunkId_verify (ce_b3hex ce) (e_chunk_id e) (slice_at e out)"
proof -
  from assms show ok: "validate_manifest m = Ok ()" by (auto simp: reassemble_def outcome_simps)
  then have m: "manifest_ok m" by (simp add: manifest_ok_validates)
  from assms have size': "unat (m_total_size m) < 2 ^ 63"
    by (auto simp: reassemble_def outcome_simps zeroed_def split: if_splits)
  note e = manifest_ok_entries [OF m]
  have "reassemble_loop (ce_profile ce) (ce_b3hex ce) (get_chunk_range ce net c) m (m_entries m)
      (replicate (unat (m_total_size m)) 0) w = (Ok out, w')"
    unfolding reassemble_unfold [OF m size', symmetric] by (rule assms)
  note sound = reassemble_loop_sound [where fetch = "get_chunk_range ce net c" and k = 0, OF _ e(1) _ _ this]
  have "length out = unat (m_total_size m) \<and> (\<forall>e\<in>set (m_entries m). covers_chunk m e \<longrightarrow>
      ChunkId_verify (ce_b3hex ce) (e_chunk_id e) (slice_at e out))"
    using sound e(2) size' get_chunk_range_length [of ce net c] by simp
  then show "length out = unat (m_total_size m)" and "\<forall>e\<in>set (m_entries m). covers_chunk m e \<longrightarrow>
      ChunkId_verify (ce_b3hex ce) (e_chunk_id e) (slice_at e out)"
    by simp_all
qed

end
