(* ===== verification/Cloud_Runs.thy ===== *)
theory Cloud_Runs
  imports Cloud_Api
begin

text \<open>
  The running server: \<open>server_step\<close> is one locked section of one request, so the runs are all the
  ways in which concurrent requests interleave.  Uploading a chunk takes two sections (store the
  body, then register its metadata), with other requests between them.  \<open>app_inv\<close> ties the two
  stores together: what is registered is stored, genuine and of the registered size.  The lemmas
  show that every step keeps it, that serving a whole request is a run, and that the server refines
  the machine its readers see.
\<close>

section \<open>Steps\<close>

inductive server_step :: "(bytes \<Rightarrow> string) \<Rightarrow> AppState \<Rightarrow> AppState \<Rightarrow> bool" for b3hex where
  srv_create_file:
    "s_files (st_meta st) fresh = None \<Longrightarrow>
     server_step b3hex st (snd (h_create_file fresh now st req))"
| srv_put_blob:
    "fits_memory body \<Longrightarrow>
     server_step b3hex st (st\<lparr>st_blobs := snd (fake_put b3hex (st_blobs st) i body)\<rparr>)"
| srv_register:
    "st_blobs st i = Some body \<Longrightarrow>
     server_step b3hex st (st\<lparr>st_meta := snd (register_chunk (st_meta st) i (len_u64 body))\<rparr>)"
| srv_put_manifest: "server_step b3hex st (snd (h_put_manifest up st i req'))"
| srv_create_version: "server_step b3hex st (snd (h_create_version up now st i req''))"
| srv_commit_version: "server_step b3hex st (snd (h_commit_version up now st i))"

lemma server_run1: "server_step b3hex st st' \<Longrightarrow> (server_step b3hex)\<^sup>*\<^sup>* st st'"
  by (rule r_into_rtranclp)

lemmas server_runs = srv_create_file [THEN server_run1] srv_put_manifest [THEN server_run1]
  srv_create_version [THEN server_run1] srv_commit_version [THEN server_run1]

inductive_cases server_stepE: "server_step b3hex st st'"

section \<open>The invariant\<close>

definition blobs_ok :: "(bytes \<Rightarrow> string) \<Rightarrow> FakeObjectStore \<Rightarrow> bool" where
  "blobs_ok b3hex g \<longleftrightarrow> fake_inv g \<and> (\<forall>i bs. g i = Some bs \<longrightarrow> ChunkId_verify b3hex i bs)"

definition backed :: "AppState \<Rightarrow> bool" where
  "backed st \<longleftrightarrow> (\<forall>i c. s_chunks (st_meta st) i = Some c \<longrightarrow>
     (\<exists>bs. st_blobs st i = Some bs \<and> c_size c = len_u64 bs))"

definition app_inv :: "(bytes \<Rightarrow> string) \<Rightarrow> AppState \<Rightarrow> bool" where
  "app_inv b3hex st \<longleftrightarrow> store_inv (st_meta st) \<and> blobs_ok b3hex (st_blobs st) \<and> backed st"

lemma app_inv_default: "app_inv b3hex AppState_default"
proof -
  have "st_meta AppState_default = store_new" "st_blobs AppState_default = fake_new"
    by (simp_all add: AppState_default_def)
  moreover have "blobs_ok b3hex fake_new" "s_chunks store_new = Map.empty"
    by (simp_all add: blobs_ok_def fake_inv_def fake_new_def store_new_def)
  ultimately show ?thesis by (simp add: app_inv_def backed_def store_inv_new)
qed

lemma blobs_ok_put:
  assumes "blobs_ok b3hex g" "fits_memory body"
  shows "blobs_ok b3hex (snd (fake_put b3hex g i body))"
  using assms fake_put_cases [of b3hex g i body] fake_inv_put [of g body b3hex i]
  by (auto simp: blobs_ok_def split: if_splits)

lemma fake_put_keeps:
  assumes "blobs_ok b3hex g" "g j = Some b"
  shows "snd (fake_put b3hex g i body) j = Some b"
  using assms fake.put_keeps_objects [of g j b b3hex i body] by (simp add: blobs_ok_def)

text \<open>A metadata step that registers nothing, and the two halves of an upload.\<close>

lemma h_create_file_snd:
  "snd (h_create_file fresh now st req) =
     st\<lparr>st_meta := snd (create_file fresh now (st_meta st) (cfr_parent_id req) (cfr_name req)
                         (cfr_idempotency_key req))\<rparr>"
  by (simp add: h_create_file_def split_beta Let_def)

lemma h_put_manifest_snd:
  "snd (h_put_manifest up st i req) = st \<or>
   snd (h_put_manifest up st i req) = st\<lparr>st_meta := snd (put_manifest (st_meta st) (pmr_manifest req))\<rparr>"
  by (cases "ManifestId_parse up i :: ManifestId space_result")
     (simp_all add: h_put_manifest_def split_beta Let_def)

lemma h_create_version_snd:
  "snd (h_create_version up now st i req) = st \<or>
   (\<exists>f. snd (h_create_version up now st i req) = st\<lparr>st_meta := snd (create_version now (st_meta st) f
      (cvr_version_id req) (cvr_parent_version_id req) (cvr_manifest_id req))\<rparr>)"
  by (cases "FileId_parse up i :: FileId space_result")
     (auto simp: h_create_version_def split_beta Let_def)

lemma h_commit_version_snd:
  "snd (h_commit_version up now st i) = st \<or>
   (\<exists>v. snd (h_commit_version up now st i) = st\<lparr>st_meta := snd (commit_version now (st_meta st) v)\<rparr>)"
  by (cases "VersionId_parse up i :: VersionId space_result")
     (auto simp: h_commit_version_def split_beta Let_def)

lemma server_step_cases [consumes 1, case_names idle blob register meta]:
  assumes "server_step b3hex st st'"
  obtains "st' = st"
  | i body where "fits_memory body" "st' = st\<lparr>st_blobs := snd (fake_put b3hex (st_blobs st) i body)\<rparr>"
  | i body where "st_blobs st i = Some body"
      "st' = st\<lparr>st_meta := snd (register_chunk (st_meta st) i (len_u64 body))\<rparr>"
  | g where "meta_step (st_meta st) g" "s_chunks g = s_chunks (st_meta st)" "st' = st\<lparr>st_meta := g\<rparr>"
  using assms
proof cases
  case (srv_create_file fresh now req)
  let ?g = "snd (create_file fresh now (st_meta st) (cfr_parent_id req) (cfr_name req)
              (cfr_idempotency_key req))"
  have "s_chunks ?g = s_chunks (st_meta st)"
    using create_file_effect [of fresh now "st_meta st" "cfr_parent_id req" "cfr_name req"
        "cfr_idempotency_key req"] by (auto simp: store_updates)
  with srv_create_file show ?thesis
    by (intro that(4) [of ?g]) (auto simp: h_create_file_snd intro: step_create_file)
next
  case (srv_put_blob body i)
  then show ?thesis using that(2) by blast
next
  case (srv_register i body)
  then show ?thesis using that(3) by blast
next
  case (srv_put_manifest up i req')
  let ?g = "snd (put_manifest (st_meta st) (pmr_manifest req'))"
  have "s_chunks ?g = s_chunks (st_meta st)"
    using put_manifest_effect [of "st_meta st" "pmr_manifest req'"] by (auto simp: store_updates)
  with srv_put_manifest h_put_manifest_snd [of up st i req'] show ?thesis
    using that(1) that(4) [of ?g] step_put_manifest by metis
next
  case (srv_create_version up now i req'')
  have "s_chunks (snd (create_version now (st_meta st) f v p m)) = s_chunks (st_meta st)" for f v p m
    using create_version_effect [of now "st_meta st" f v p m] by (auto simp: store_updates)
  with srv_create_version h_create_version_snd [of up now st i req''] show ?thesis
    using that(1,4) step_create_version by metis
next
  case (srv_commit_version up now i)
  have "s_chunks (snd (commit_version now (st_meta st) v)) = s_chunks (st_meta st)" for v
    using commit_version_effect [of now "st_meta st" v] by (auto simp: store_updates)
  with srv_commit_version h_commit_version_snd [of up now st i] show ?thesis
    using that(1,4) step_commit_version by metis
qed

lemma server_step_meta:
  assumes "server_step b3hex st st'"
  shows "st_meta st' = st_meta st \<or> meta_step (st_meta st) (st_meta st')"
  using assms by (cases rule: server_step_cases) (auto intro: step_register_chunk)

lemma backed_register:
  assumes "backed st" "st_blobs st i = Some body"
  shows "backed (st\<lparr>st_meta := snd (register_chunk (st_meta st) i (len_u64 body))\<rparr>)"
  using register_chunk_effect [of "st_meta st" i "len_u64 body"] assms
  by (auto simp: backed_def store_updates split: if_splits)

lemma server_step_inv:
  assumes "app_inv b3hex st" "server_step b3hex st st'"
  shows "app_inv b3hex st'"
proof -
  have "store_inv (st_meta st')"
    using server_step_meta [OF assms(2)] assms(1) by (auto simp: app_inv_def intro: meta_step_inv)
  moreover from assms(2) have "blobs_ok b3hex (st_blobs st') \<and> backed st'"
  proof (cases rule: server_step_cases)
    case idle
    with assms(1) show ?thesis by (simp add: app_inv_def)
  next
    case (blob i body)
    with assms(1) show ?thesis
      by (fastforce simp: app_inv_def backed_def intro: blobs_ok_put fake_put_keeps)
  next
    case (register i body)
    with assms(1) show ?thesis by (simp add: app_inv_def backed_register)
  next
    case (meta g)
    with assms(1) show ?thesis by (simp add: app_inv_def backed_def)
  qed
  ultimately show ?thesis by (simp add: app_inv_def)
qed

lemma server_step_view:
  assumes "app_inv b3hex st" "server_step b3hex st st'"
  shows "view_step (readers_view (st_meta st)) (readers_view (st_meta st'))"
  using server_step_meta [OF assms(2)] assms(1) meta.simulates [of "st_meta st" "st_meta st'"]
  by (auto simp: app_inv_def intro: view_idle)

interpretation server: forward_simulation "server_step b3hex" "app_inv b3hex" AppState_default
    view_step "\<lambda>st. readers_view (st_meta st)" for b3hex
  by unfold_locales (auto intro: app_inv_default server_step_inv server_step_view)

text \<open>A stored body is never replaced or removed.\<close>

lemma blob_stable:
  assumes "app_inv b3hex st" "server_step b3hex st st'" "st_blobs st i = Some bs"
  shows "st_blobs st' i = Some bs"
  using assms(2,1,3) by (cases rule: server_step_cases) (auto simp: app_inv_def intro: fake_put_keeps)

lemma blob_stable_run:
  "(server_step b3hex)\<^sup>*\<^sup>* st st' \<Longrightarrow> app_inv b3hex st \<Longrightarrow> st_blobs st i = Some bs \<Longrightarrow>
   st_blobs st' i = Some bs"
  using server.run_preserves [of b3hex "\<lambda>st. st_blobs st i = Some bs"] blob_stable by blast

section \<open>Serving a request is a run\<close>

definition env_ok :: "Env \<Rightarrow> AppState \<Rightarrow> bool" where
  "env_ok env st \<longleftrightarrow> env_body_limit env < 2 ^ 63 \<and> s_files (st_meta st) (env_fresh_file env) = None"

lemma h_put_chunk_run:
  assumes "fits_memory body"
  shows "(server_step b3hex)\<^sup>*\<^sup>* st (snd (h_put_chunk b3hex st i body))"
proof (cases "ChunkId_parse i")
  case (Ok j)
  let ?bl = "snd (fake_put b3hex (st_blobs st) j body)"
  let ?s1 = "st\<lparr>st_blobs := ?bl\<rparr>"
  have s1: "server_step b3hex st ?s1" using assms by (rule srv_put_blob)
  show ?thesis
  proof (cases "fst (fake_put b3hex (st_blobs st) j body)")
    case ok: (Ok u)
    then have "?bl j = Some body"
      using fake_put_cases [of b3hex "st_blobs st" j body] by auto
    then have "server_step b3hex ?s1 (?s1\<lparr>st_meta := snd (register_chunk (st_meta ?s1) j (len_u64 body))\<rparr>)"
      by (intro srv_register) simp
    moreover have "snd (h_put_chunk b3hex st i body)
        = ?s1\<lparr>st_meta := snd (register_chunk (st_meta ?s1) j (len_u64 body))\<rparr>"
      using Ok ok by (simp add: h_put_chunk_def split_beta Let_def)
    ultimately show ?thesis using s1 by (metis converse_rtranclp_into_rtranclp r_into_rtranclp)
  next
    case (Err e)
    with Ok have "snd (h_put_chunk b3hex st i body) = ?s1"
      by (simp add: h_put_chunk_def split_beta Let_def)
    with s1 show ?thesis by auto
  next
    case Panic
    with fake_put_cases [of b3hex "st_blobs st" j body] show ?thesis by auto
  qed
qed (simp_all add: h_put_chunk_def)

lemma answer_snd [simp]: "snd (answer f rs) = snd rs"
  by (simp add: answer_def split: outcome.splits)

lemma with_body_snd:
  "snd (with_body env st b wanted k) = st \<or>
   (\<exists>a. wanted = Some a \<and> length (body_bytes env b) \<le> env_body_limit env \<and>
        snd (with_body env st b wanted k) = snd (k a))"
  by (auto simp: with_body_def split: option.splits)

lemma handle_run:
  assumes "env_ok env st"
  shows "(server_step (env_b3hex env))\<^sup>*\<^sup>* st (snd (handle env st q))"
proof (cases "route (q_method q) (q_path q)")
  case ECreateFile
  let ?k = "\<lambda>req. answer (\<lambda>r. json_response 200 (JFile r))
    (h_create_file (env_fresh_file env) (env_now env) st req)"
  have "server_step (env_b3hex env) st (snd (h_create_file (env_fresh_file env) (env_now env) st req))" for req
    using assms by (intro srv_create_file) (simp add: env_ok_def)
  then show ?thesis
    using ECreateFile with_body_snd [of env st "q_body q" "as_create_file (q_body q)" ?k]
    by (auto simp: handle_def)
next
  case (ECreateVersion i)
  let ?k = "\<lambda>req. answer (\<lambda>r. json_response 200 (JVersion r))
    (h_create_version (env_uuid_parse env) (env_now env) st i req)"
  show ?thesis
    using ECreateVersion with_body_snd [of env st "q_body q" "as_create_version (q_body q)" ?k]
    by (auto simp: handle_def intro: server_runs)
next
  case (ECommitVersion i)
  then show ?thesis by (auto simp: handle_def intro: server_runs)
next
  case (EPutManifest i)
  let ?k = "\<lambda>req. answer (\<lambda>r. json_response 200 (JManifest r))
    (h_put_manifest (env_uuid_parse env) st i req)"
  show ?thesis
    using EPutManifest with_body_snd [of env st "q_body q" "as_put_manifest (q_body q)" ?k]
    by (auto simp: handle_def intro: server_runs)
next
  case (EPutChunk i)
  let ?k = "\<lambda>bs. answer (\<lambda>r. json_response 200 (JChunk r)) (h_put_chunk (env_b3hex env) st i bs)"
  show ?thesis
    using EPutChunk assms h_put_chunk_run [of _ "env_b3hex env" st i]
      with_body_snd [of env st "q_body q" "Some (body_bytes env (q_body q))" ?k]
    by (fastforce simp: handle_def env_ok_def fits_memory_def)
qed (simp_all add: handle_def split: option.splits)

lemma request_run:
  assumes "env_ok env st"
  shows "(server_step (env_b3hex env))\<^sup>*\<^sup>* st (snd (request_id_layer env st q))"
  using handle_run [OF assms, of q] by (simp add: request_id_layer_def split_beta Let_def)

lemma request_inv:
  "app_inv (env_b3hex env) st \<Longrightarrow> env_ok env st \<Longrightarrow>
   app_inv (env_b3hex env) (snd (request_id_layer env st q))"
  using server.run_inv request_run by blast

end
