(* ===== verification/System.thy ===== *)
theory System
  imports Reassembly Cloud_Runs
begin

text \<open>
  Client and server together.  \<open>over_http\<close> is a network that delivers every request to the cloud
  server of theory Cloud_Api and every response back; its state is the number of requests served
  so far, which selects the server's environment for the next one, and the server's state.  The
  client's range read over this network keeps the contract \<open>chunk_source\<close>: the \<^verbatim>\<open>Range\<close> header the
  client prints is the range the server parses, and the bytes that come back are the stored ones.
\<close>

section \<open>The network\<close>

definition over_http :: "string \<Rightarrow> (nat \<Rightarrow> Env) \<Rightarrow> (nat \<times> AppState) transport" where
  "over_http base envs w q =
     (case request_id_layer (envs (fst w)) (snd w) (q\<lparr>q_path := drop (length base) (q_path q)\<rparr>) of
        (Some r, st) \<Rightarrow> (Inr r, (Suc (fst w), st))
      | (None, st) \<Rightarrow> (Inl (NetFailure False ''connection closed''), (Suc (fst w), st)))"

text \<open>What client and server must agree on: the digest and the text form of UUIDs.\<close>

definition same_world :: "ClientEnv \<Rightarrow> (nat \<Rightarrow> Env) \<Rightarrow> bool" where
  "same_world ce envs \<longleftrightarrow>
     (\<forall>n. env_b3hex (envs n) = ce_b3hex ce \<and> env_uuid_show (envs n) = ce_uuid_show ce
        \<and> uuid_text (env_uuid_parse (envs n)) (ce_uuid_show ce))"

definition world_ok :: "ClientEnv \<Rightarrow> (nat \<Rightarrow> Env) \<Rightarrow> nat \<times> AppState \<Rightarrow> bool" where
  "world_ok ce envs w \<longleftrightarrow> same_world ce envs \<and> app_inv (ce_b3hex ce) (snd w)"

section \<open>Paths\<close>

lemma segments_no_slash: "CHR ''/'' \<notin> set s \<Longrightarrow> segments s = [s]"
  by (induction s) auto

lemma segments_nonempty: "segments s \<noteq> []"
  by (induction s) (auto split: list.splits)

lemma segments_append: "CHR ''/'' \<notin> set s \<Longrightarrow> segments (s @ CHR ''/'' # t) = s # segments t"
  by (induction s) auto

lemma wf_chunk_id_no_slash: "wf_chunk_id i \<Longrightarrow> CHR ''/'' \<notin> set (as_str i) \<and> as_str i \<noteq> []"
  by (fastforce simp: wf_chunk_id_def is_lower_hex_def list_all_iff Let_def)

lemma route_chunk:
  assumes "wf_chunk_id i"
  shows "route GET (''/v1/chunks/'' @ as_str i) = EGetChunk (as_str i)"
    and "route PUT (''/v1/chunks/'' @ as_str i) = EPutChunk (as_str i)"
  using wf_chunk_id_no_slash [OF assms]
  by (simp_all add: route_def route_v1_def pick_def segments_no_slash)

section \<open>A range read\<close>

lemma parse_range_shown:
  assumes "start \<le> end'"
  shows "parse_range (''bytes='' @ show_u64 start @ ''-'' @ show_u64 end') n = Some (start, end')"
  using assms split_once_char [of "CHR ''-''" "show_u64 start" "show_u64 end'"]
  by (simp add: parse_range_def strip_prefix_append [of "''bytes=''", simplified])

text \<open>The range \<open>s..e\<close> of a chunk, both ends included: the header that asks for it, its length, the answer.\<close>

definition range_header :: "u64 \<Rightarrow> u64 \<Rightarrow> string" where
  "range_header s e = ''bytes='' @ show_u64 s @ ''-'' @ show_u64 e"

definition range_length :: "u64 \<Rightarrow> u64 \<Rightarrow> nat" where
  "range_length s e = unat e - unat s + 1"

definition partial_content :: "u64 \<Rightarrow> u64 \<Rightarrow> u64 \<Rightarrow> bytes \<Rightarrow> HttpResponse" where
  "partial_content s e size' out =
     \<lparr>r_status = 206,
      r_content_range = Some (''bytes '' @ show_u64 s @ ''-'' @ show_u64 e @ ''/'' @ show_u64 size'),
      r_request_id = None, r_body = Octets out\<rparr>"

lemma h_get_chunk_ranged:
  assumes "wf_chunk_id i" "s \<le> e" "range_length s e < 2 ^ 64"
  shows "h_get_chunk p b3hex st (as_str i) (Some (Some (range_header s e)))
    = map_ok (partial_content s e (len_u64 (the (st_blobs st i))))
        (fake_get_range b3hex (st_blobs st) i s (of_nat (range_length s e)))"
proof -
  have d: "unat (e - s) = unat e - unat s" using assms(2) by (simp add: unat_minus_u64)
  then have "unat (e - s) + unat (1 :: u64) < 2 ^ 64" using assms(3) by (simp add: range_length_def)
  then have plus: "plus_u64 p (e - s) 1 = (Ok (e - s + 1) :: u64 space_result)"
    and u: "unat (e - s + 1) = range_length s e"
    using d by (simp_all add: plus_u64_exact unat_plus_u64 range_length_def)
  have "ucast (e - s + 1) = (of_nat (range_length s e) :: u32)"
    using u by (simp add: word_unat_eq_iff unsigned_ucast_eq unat_of_nat take_bit_eq_mod)
  then show ?thesis
    using assms(1) parse_range_shown [OF assms(2)] plus
    by (cases "st_blobs st i"; cases "fake_get_range b3hex (st_blobs st) i s (of_nat (range_length s e))")
      (simp_all add: h_get_chunk_def range_header_def partial_content_def fake_head_def
        ChunkId_parse_as_str [THEN iffD2] minus_u64_exact [OF assms(2)] fake_range_missing)
qed

text \<open>
  The range read over the network is the range read of the server's object store, whatever the store
  holds: the same bytes, the same error.
\<close>

lemma status_for_error: "400 \<le> status_for c" "status_for c < 600"
  by (cases c; simp)+

lemma not_success [simp]: "\<not> is_success (status_for c)"
  using status_for_error [of c] by (simp add: is_success_def)

lemma unat_ucast_small: "unat (len :: u64) < 2 ^ 32 \<Longrightarrow> unat (ucast len :: u32) = unat len"
  by (simp add: unsigned_ucast_eq take_bit_nat_eq_self)

lemma range_body_error [simp]:
  "range_body ce len ((error_response e)\<lparr>r_request_id := x\<rparr>) = Err e" "range_body ce len (error_response e) = Err e"
  using status_for_error [of "se_code e"]
  by (simp_all add: range_body_def error_response_def json_response_def as_error_def ErrorResponse_from_def
      is_success_def)

lemma fetch_over_http:
  assumes "same_world ce envs" and inv: "fake_inv (st_blobs (snd w))" and wf: "wf_chunk_id i"
    and len: "0 < len" "unat len < 2 ^ 32" "unat off + unat len < 2 ^ 64"
  shows "get_chunk_range ce (over_http base envs) \<lparr>cc_base = base\<rparr> w i off len
    = (fake_get_range (ce_b3hex ce) (st_blobs (snd w)) i off (ucast len), (Suc (fst w), snd w))"
proof -
  let ?env = "envs (fst w)" and ?st = "snd w"
  let ?e = "off + len - 1"
  let ?q = "request ce GET (url \<lparr>cc_base = base\<rparr> (''/v1/chunks/'' @ as_str i)) (Some (range_header off ?e)) NoBody"
  let ?r = "fake_get_range (ce_b3hex ce) (st_blobs ?st) i off (ucast len)"
  define resp where "resp = partial_content off ?e (len_u64 (the (st_blobs ?st i)))"
  have b3: "env_b3hex ?env = ce_b3hex ce" using assms(1) by (simp add: same_world_def)
  have pos: "0 < unat len" using len(1) by (simp add: word_less_nat_alt)
  have e: "unat ?e = unat off + unat len - 1" using range_end_exact(2) [OF len(3,1)] .
  then have n: "off \<le> ?e" "range_length off ?e = unat len" using pos by (simp_all add: word_le_nat_alt range_length_def)
  have "(of_nat (unat len) :: u32) = ucast len" by (simp add: of_nat_unat)
  then have "h_get_chunk (env_profile ?env) (ce_b3hex ce) ?st (as_str i) (Some (Some (range_header off ?e)))
      = map_ok resp ?r"
    using h_get_chunk_ranged [OF wf n(1), of "env_profile ?env" "ce_b3hex ce" ?st] n(2) len(2)
    by (simp add: resp_def)
  then have served: "handle ?env ?st (?q\<lparr>q_path := drop (length base) (q_path ?q)\<rparr>)
      = answer (\<lambda>r. r) (map_ok resp ?r, ?st)"
    using b3 route_chunk(1) [OF wf] by (simp add: handle_def request_def url_def)
  have resp: "r_status (resp bs) = 206" "r_body (resp bs) = Octets bs" for bs
    by (simp_all add: resp_def partial_content_def)
  have end': "and_then (plus_u64 (ce_profile ce) off len) (\<lambda>s. minus_u64 (ce_profile ce) s 1)
      = (Ok (off + len - 1) :: u64 space_result)"
    using len(3,1) by (rule range_end_exact(1))
  show ?thesis
  proof (cases ?r)
    case (Ok bs)
    then have "length bs = unat len"
      using fake.range_never_short(1) [OF inv, of "ce_b3hex ce" i off "ucast len" bs] unat_ucast_small [OF len(2)] by simp
    with Ok served resp end' show ?thesis
      by (simp add: get_chunk_range_def range_header_def exchange_def over_http_def request_id_layer_def Let_def answer_def
          range_body_def is_success_def response_bytes_def)
  next
    case (Err e)
    with served end' show ?thesis
      by (simp add: get_chunk_range_def range_header_def exchange_def over_http_def request_id_layer_def Let_def answer_def)
  next
    case Panic
    then show ?thesis using fake_get_range_not_Panic [OF inv] by simp
  qed
qed

lemma fetch_stored:
  assumes "same_world ce envs" and "fake_inv (st_blobs (snd w))" and bs: "st_blobs (snd w) i = Some bs"
    and "ChunkId_verify (ce_b3hex ce) i bs \<or> off \<noteq> 0 \<or> unat len \<noteq> length bs" and "wf_chunk_id i"
    and len: "0 < len" "unat len < 2 ^ 32" "unat off + unat len \<le> length bs"
  shows "get_chunk_range ce (over_http base envs) \<lparr>cc_base = base\<rparr> w i off len
    = (Ok (take (unat len) (drop (unat off) bs)), (Suc (fst w), snd w))"
proof -
  have fits: "fits_memory bs" using assms(2) bs by (simp add: fake_inv_def)
  then have "unat off + unat len < 2 ^ 64" using len(3) by (simp add: fits_memory_def)
  from fetch_over_http [OF assms(1,2,5) len(1,2) this, of base] show ?thesis
    using fake_range_exact [where g = "st_blobs (snd w)", OF fits bs, of off "ucast len" "ce_b3hex ce"] assms(4) len(2,3)
    by (simp add: unat_ucast_small)
qed

text \<open>
  The part of a store whose bodies have the digest of their address.  Over it the client's range read
  keeps the contract of a chunk source, also when other objects of the store are damaged.
\<close>

definition genuine_part :: "(bytes \<Rightarrow> string) \<Rightarrow> FakeObjectStore \<Rightarrow> FakeObjectStore" where
  "genuine_part b3hex g i = (case g i of Some bs \<Rightarrow> if ChunkId_verify b3hex i bs then Some bs else None | None \<Rightarrow> None)"

lemma genuine_part_Some_iff:
  "genuine_part b3hex g i = Some bs \<longleftrightarrow> g i = Some bs \<and> ChunkId_verify b3hex i bs"
  by (auto simp: genuine_part_def split: option.splits)

lemma genuine_part_blobs_ok: "blobs_ok b3hex g \<Longrightarrow> genuine_part b3hex g = g"
  by (rule ext) (auto simp: genuine_part_def blobs_ok_def split: option.split)

interpretation http: chunk_source "get_chunk_range ce (over_http base envs) \<lparr>cc_base = base\<rparr>"
    "\<lambda>w. genuine_part (ce_b3hex ce) (st_blobs (snd w))" "ce_b3hex ce"
    "\<lambda>w. same_world ce envs \<and> fake_inv (st_blobs (snd w)) \<and> snd w = st" for ce base envs st
proof (unfold_locales, goal_cases)
  case (1 w i bs len off)
  then have "st_blobs (snd w) i = Some bs" "ChunkId_verify (ce_b3hex ce) i bs"
    by (simp_all add: genuine_part_Some_iff)
  with fetch_stored [of ce envs w i bs off len base] 1 show ?case by auto
next
  case (2 w i bs)
  then show ?case by (simp add: genuine_part_Some_iff)
qed

section \<open>A stored manifest describes stored bytes\<close>

lemma stored_manifest:
  assumes "app_inv b3hex st" "s_manifests (st_meta st) i = Some m"
  shows "manifest_ok m" "m_manifest_id m = i" "manifest_stored (st_blobs st) m"
proof -
  from assms have m: "manifest_ok m" "m_manifest_id m = i" "chunks_registered (st_meta st) m"
    by (auto simp: app_inv_def store_inv_def manifests_inv_def)
  then show "manifest_ok m" "m_manifest_id m = i" by simp_all
  have "\<exists>bs. st_blobs st (c_chunk_id c) = Some bs \<and> length bs = unat (c_size c)" if c: "c \<in> set (m_chunks m)" for c
  proof -
    obtain r where r: "s_chunks (st_meta st) (c_chunk_id c) = Some r" "c_size r = c_size c"
      using c m(3) by (auto simp: chunks_registered_def)
    have "backed st" using assms(1) by (simp add: app_inv_def)
    with r(1) obtain bs where "st_blobs st (c_chunk_id c) = Some bs" "c_size r = len_u64 bs"
      by (auto simp: backed_def)
    note this [unfolded r(2)]
    moreover from this have "fits_memory bs" using assms(1) by (auto simp: app_inv_def blobs_ok_def fake_inv_def)
    ultimately show ?thesis by (simp add: unat_len_fits)
  qed
  then show "manifest_stored (st_blobs st) m" by (simp add: manifest_stored_def)
qed

definition small_entries :: "Manifest \<Rightarrow> bool" where
  "small_entries m \<longleftrightarrow> unat (m_total_size m) < 2 ^ 63 \<and>
     (\<forall>e\<in>set (m_entries m). unat (e_length e) < 2 ^ 32)"

lemma reassemble_genuine:
  assumes "same_world ce envs" "fake_inv (st_blobs (snd w))" and m: "manifest_ok m" "small_entries m"
    and stored: "manifest_stored (genuine_part (ce_b3hex ce) (st_blobs (snd w))) m"
  shows "\<exists>w'. reassemble ce (over_http base envs) \<lparr>cc_base = base\<rparr> w m
      = (Ok (file_bytes (genuine_part (ce_b3hex ce) (st_blobs (snd w))) m), w') \<and> snd w' = snd w"
proof -
  have inv: "same_world ce envs \<and> fake_inv (st_blobs (snd w)) \<and> snd w = snd w" using assms(1,2) by simp
  from manifest_ok_entries [OF m(1)] m(2)
  show ?thesis
    unfolding reassemble_unfold [OF m(1) m(2) [unfolded small_entries_def, THEN conjunct1]]
    using http.loop_exact [OF inv stored, of "m_entries m" 0
        "replicate (unat (m_total_size m)) 0" "ce_profile ce" base]
    by (auto simp: small_entries_def file_bytes_def)
qed

lemma reassemble_over_http:
  assumes "world_ok ce envs w" "s_manifests (st_meta (snd w)) i = Some m" "small_entries m"
  shows "\<exists>w'. reassemble ce (over_http base envs) \<lparr>cc_base = base\<rparr> w m
      = (Ok (file_bytes (st_blobs (snd w)) m), w') \<and> world_ok ce envs w' \<and> snd w' = snd w"
proof -
  have inv: "app_inv (ce_b3hex ce) (snd w)" "same_world ce envs" using assms(1) by (simp_all add: world_ok_def)
  then have ok: "blobs_ok (ce_b3hex ce) (st_blobs (snd w))" by (simp add: app_inv_def)
  then have "fake_inv (st_blobs (snd w))" by (simp add: blobs_ok_def)
  from reassemble_genuine [OF inv(2) this _ assms(3), of base] stored_manifest [OF inv(1) assms(2)]
  show ?thesis using assms(1) by (auto simp: genuine_part_blobs_ok [OF ok] world_ok_def)
qed

end
