(* ===== verification/Rpc.thy ===== *)
theory Rpc
  imports System
begin

text \<open>
  Every call of the client over the network is the method of the server's stores it names: the
  same result, the same error, the same change of state.  The path the client prints routes to the
  endpoint with the identity the client was given, the body is what the handler decodes, and an
  error comes back with its original code.
\<close>

definition plain_uuids :: "(Uuid \<Rightarrow> string) \<Rightarrow> bool" where
  "plain_uuids uuid_show \<longleftrightarrow> (\<forall>u. CHR ''/'' \<notin> set (uuid_show u))"

definition body_fits :: "(nat \<Rightarrow> Env) \<Rightarrow> nat \<Rightarrow> ReqBody \<Rightarrow> bool" where
  "body_fits envs n b \<longleftrightarrow> length (body_bytes (envs n) b) \<le> env_body_limit (envs n)"

lemma decode_error_response [simp]: "decode_response ce dec (error_response e) = Err e"
  by (simp add: decode_response_def error_response_def json_response_def as_error_def ErrorResponse_from_def)

lemma decode_with_id [simp]:
  "decode_response ce dec (r\<lparr>r_request_id := i\<rparr>) = decode_response ce dec r"
  by (simp add: decode_response_def split: option.split)

lemma decode_json_response [simp]:
  "dec b = Some a \<Longrightarrow> decode_response ce dec (json_response 200 b) = Ok a"
  by (simp add: decode_response_def json_response_def is_success_def)

lemma call_over_http:
  assumes h: "handle (envs (fst w)) (snd w) (q\<lparr>q_path := drop (length base) (q_path q)\<rparr>)
      = answer (\<lambda>a. json_response 200 (f a)) (r, st')"
    and "r \<noteq> Panic" and dec: "\<And>a. dec (f a) = Some (g a)"
  shows "send ce (over_http base envs) w q dec = (map_ok g r, (Suc (fst w), st'))"
  using assms(2) h dec
  by (cases r) (auto simp: send_def exchange_def over_http_def request_id_layer_def answer_def Let_def)

section \<open>Paths\<close>

lemma show_id_no_slash:
  "plain_uuids uuid_show \<Longrightarrow> CHR ''/'' \<notin> set pre \<Longrightarrow> CHR ''/'' \<notin> set (show_uuid_id pre uuid_show i)"
  by (simp add: show_uuid_id_def plain_uuids_def)

lemma route_ids:
  assumes "CHR ''/'' \<notin> set s" "s \<noteq> []"
  shows "route GET (''/v1/files/'' @ s) = EStatFile s"
    and "route GET (''/v1/dirs/'' @ s @ ''/children'') = EListChildren s"
    and "route POST (''/v1/files/'' @ s @ ''/versions'') = ECreateVersion s"
    and "route POST (''/v1/versions/'' @ s @ ''/commit'') = ECommitVersion s"
    and "route PUT (''/v1/manifests/'' @ s) = EPutManifest s"
    and "route GET (''/v1/manifests/'' @ s) = EGetManifest s"
  using assms by (simp_all add: route_def route_v1_def pick_def segments_no_slash segments_append)

lemma route_files: "route POST ''/v1/files'' = ECreateFile"
  by (simp add: route_def route_v1_def pick_def)

lemma shown_ids:
  assumes "plain_uuids us"
  shows "CHR ''/'' \<notin> set (FileId_show us i)" "FileId_show us i \<noteq> []"
    "CHR ''/'' \<notin> set (DirectoryId_show us d)" "DirectoryId_show us d \<noteq> []"
    "CHR ''/'' \<notin> set (VersionId_show us v)" "VersionId_show us v \<noteq> []"
    "CHR ''/'' \<notin> set (ManifestId_show us m)" "ManifestId_show us m \<noteq> []"
  using assms by (simp_all add: id_show_defs show_id_no_slash) (simp_all add: show_uuid_id_def)

lemma ids_agree:
  assumes "same_world ce envs"
  shows "FileId_parse (env_uuid_parse (envs n)) (FileId_show (ce_uuid_show ce) i) = Ok i"
    "DirectoryId_parse (env_uuid_parse (envs n)) (DirectoryId_show (ce_uuid_show ce) d) = Ok d"
    "VersionId_parse (env_uuid_parse (envs n)) (VersionId_show (ce_uuid_show ce) v) = Ok v"
    "ManifestId_parse (env_uuid_parse (envs n)) (ManifestId_show (ce_uuid_show ce) m) = Ok m"
  using assms by (simp_all add: same_world_def id_parse_defs id_show_defs parse_show_uuid_id)

lemmas rpc_simps = request_def url_def handle_def Let_def with_body_def body_fits_def
  route_ids [simplified] route_files [simplified] shown_ids ids_agree

section \<open>No method panics on a store the server reaches\<close>

lemma create_file_not_Panic:
  "store_inv g \<Longrightarrow> fst (create_file fresh now g parent name key) \<noteq> Panic"
  by (cases "s_file_idempotency g key"; cases "illegal_name name")
     (force simp: create_file_def store_inv_def files_inv_def Let_def)+

lemma register_chunk_not_Panic: "fst (register_chunk g i n) \<noteq> Panic"
  by (auto simp: register_chunk_def Let_def split: outcome.splits option.splits)

lemma put_manifest_not_Panic: "fst (put_manifest g m) \<noteq> Panic"
  using put_manifest_effect [of g m] by (auto simp: is_err_def split: outcome.splits)

lemma create_version_not_Panic: "fst (create_version now g f v p m) \<noteq> Panic"
proof -
  let ?r = "and_then (fail_if (s_files g f = None) (not_found FileNotFound ''file''))
    (\<lambda>_. and_then (fail_if (s_manifests g m = None) (not_found ManifestNotFound ''manifest''))
    (\<lambda>_. check_parent g f p))"
  have "?r \<noteq> Panic" by (auto simp: outcome_simps)
  then show ?thesis
    by (cases ?r) (auto simp: create_version_def Let_def split: option.splits)
qed

lemma commit_version_not_Panic: "fst (commit_version now g v) \<noteq> Panic"
proof (cases "s_versions g v")
  case (Some w)
  let ?r = "and_then (validate_version_transition (v_state w) Committed)
    (\<lambda>_. and_then (ok_or (not_found ManifestNotFound ''manifest'') (s_manifests g (v_manifest_id w)))
    (\<lambda>manifest. validate_manifest manifest))"
  have "?r \<noteq> Panic" by (auto simp: outcome_simps validate_version_transition_def)
  with Some show ?thesis by (cases ?r) (auto simp: commit_version_def Let_def)
qed (simp add: commit_version_def)

lemma get_file_not_Panic: "get_file g i \<noteq> Panic"
  by (simp add: get_file_def outcome_simps)

lemma get_manifest_not_Panic: "get_manifest g i \<noteq> Panic"
  by (simp add: get_manifest_def outcome_simps)

section \<open>The calls\<close>

lemma rpc_get_manifest:
  assumes "same_world ce envs" "plain_uuids (ce_uuid_show ce)"
  shows "c_get_manifest ce (over_http base envs) \<lparr>cc_base = base\<rparr> w i
    = (get_manifest (st_meta (snd w)) i, (Suc (fst w), snd w))"
proof -
  let ?q = "request ce GET (url \<lparr>cc_base = base\<rparr> (''/v1/manifests/'' @ ManifestId_show (ce_uuid_show ce) i)) None NoBody"
  have "h_get_manifest (env_uuid_parse (envs (fst w))) (snd w) (ManifestId_show (ce_uuid_show ce) i)
      = map_ok ManifestResponse_new (get_manifest (st_meta (snd w)) i)"
    by (simp add: h_get_manifest_def ids_agree [OF assms(1)])
  then have "handle (envs (fst w)) (snd w) (?q\<lparr>q_path := drop (length base) (q_path ?q)\<rparr>)
      = answer (\<lambda>r. json_response 200 (JManifest r)) (map_ok ManifestResponse_new (get_manifest (st_meta (snd w)) i), snd w)"
    using assms by (simp add: rpc_simps)
  from call_over_http [where ce = ce and q = ?q and base = base and w = w and envs = envs
      and dec = as_manifest and g = mr_manifest, OF this] show ?thesis
    using get_manifest_not_Panic [of "st_meta (snd w)" i]
    by (cases "get_manifest (st_meta (snd w)) i")
       (simp_all add: c_get_manifest_def as_manifest_def ManifestResponse_new_def)
qed

lemma rpc_stat_file:
  assumes "same_world ce envs" "plain_uuids (ce_uuid_show ce)"
  shows "c_stat_file ce (over_http base envs) \<lparr>cc_base = base\<rparr> w i
    = (get_file (st_meta (snd w)) i, (Suc (fst w), snd w))"
proof -
  let ?q = "request ce GET (url \<lparr>cc_base = base\<rparr> (''/v1/files/'' @ FileId_show (ce_uuid_show ce) i)) None NoBody"
  have "h_stat_file (env_uuid_parse (envs (fst w))) (snd w) (FileId_show (ce_uuid_show ce) i)
      = map_ok FileResponse_new (get_file (st_meta (snd w)) i)"
    by (simp add: h_stat_file_def ids_agree [OF assms(1)])
  then have "handle (envs (fst w)) (snd w) (?q\<lparr>q_path := drop (length base) (q_path ?q)\<rparr>)
      = answer (\<lambda>r. json_response 200 (JFile r)) (map_ok FileResponse_new (get_file (st_meta (snd w)) i), snd w)"
    using assms by (simp add: rpc_simps)
  from call_over_http [where ce = ce and q = ?q and base = base and w = w and envs = envs
      and dec = as_file and g = fr_file, OF this] show ?thesis
    using get_file_not_Panic [of "st_meta (snd w)" i]
    by (cases "get_file (st_meta (snd w)) i")
       (simp_all add: c_stat_file_def as_file_def FileResponse_new_def)
qed

lemma rpc_commit_version:
  assumes "same_world ce envs" "plain_uuids (ce_uuid_show ce)"
  shows "c_commit_version ce (over_http base envs) \<lparr>cc_base = base\<rparr> w v
    = (case commit_version (env_now (envs (fst w))) (st_meta (snd w)) v of
         (r, g) \<Rightarrow> (r, (Suc (fst w), (snd w)\<lparr>st_meta := g\<rparr>)))"
proof -
  let ?q = "request ce POST (url \<lparr>cc_base = base\<rparr>
    (''/v1/versions/'' @ VersionId_show (ce_uuid_show ce) v @ ''/commit'')) None JEmptyObject"
  obtain r g where c: "commit_version (env_now (envs (fst w))) (st_meta (snd w)) v = (r, g)"
    by fastforce
  then have "r \<noteq> Panic" using commit_version_not_Panic [of "env_now (envs (fst w))" "st_meta (snd w)" v] by simp
  moreover have "h_commit_version (env_uuid_parse (envs (fst w))) (env_now (envs (fst w))) (snd w)
      (VersionId_show (ce_uuid_show ce) v) = (map_ok VersionResponse_new r, (snd w)\<lparr>st_meta := g\<rparr>)"
    by (simp add: h_commit_version_def ids_agree [OF assms(1)] c)
  then have "handle (envs (fst w)) (snd w) (?q\<lparr>q_path := drop (length base) (q_path ?q)\<rparr>)
      = answer (\<lambda>r. json_response 200 (JVersion r)) (map_ok VersionResponse_new r, (snd w)\<lparr>st_meta := g\<rparr>)"
    using assms by (simp add: rpc_simps)
  note call_over_http [where ce = ce and q = ?q and base = base and w = w and envs = envs
      and dec = as_version and g = vr_version, OF this]
  ultimately show ?thesis
    by (cases r) (simp_all add: c_commit_version_def as_version_def VersionResponse_new_def c)
qed

lemma rpc_put_manifest:
  assumes "same_world ce envs" "plain_uuids (ce_uuid_show ce)"
    and "body_fits envs (fst w) (JPutManifest \<lparr>pmr_manifest = m\<rparr>)"
  shows "c_put_manifest ce (over_http base envs) \<lparr>cc_base = base\<rparr> w m
    = (case put_manifest (st_meta (snd w)) m of (r, g) \<Rightarrow> (r, (Suc (fst w), (snd w)\<lparr>st_meta := g\<rparr>)))"
proof -
  let ?q = "request ce PUT (url \<lparr>cc_base = base\<rparr>
    (''/v1/manifests/'' @ ManifestId_show (ce_uuid_show ce) (m_manifest_id m))) None
    (JPutManifest \<lparr>pmr_manifest = m\<rparr>)"
  obtain r g where c: "put_manifest (st_meta (snd w)) m = (r, g)" by fastforce
  then have "r \<noteq> Panic" using put_manifest_not_Panic [of "st_meta (snd w)" m] by simp
  moreover have "h_put_manifest (env_uuid_parse (envs (fst w))) (snd w)
      (ManifestId_show (ce_uuid_show ce) (m_manifest_id m)) \<lparr>pmr_manifest = m\<rparr>
      = (map_ok ManifestResponse_new r, (snd w)\<lparr>st_meta := g\<rparr>)"
    by (simp add: h_put_manifest_def ids_agree [OF assms(1)] c)
  then have "handle (envs (fst w)) (snd w) (?q\<lparr>q_path := drop (length base) (q_path ?q)\<rparr>)
      = answer (\<lambda>r. json_response 200 (JManifest r)) (map_ok ManifestResponse_new r, (snd w)\<lparr>st_meta := g\<rparr>)"
    using assms by (simp add: rpc_simps as_put_manifest_def)
  note call_over_http [where ce = ce and q = ?q and base = base and w = w and envs = envs
      and dec = as_manifest and g = mr_manifest, OF this]
  ultimately show ?thesis
    by (cases r) (simp_all add: c_put_manifest_def as_manifest_def ManifestResponse_new_def c)
qed

lemma rpc_create_version:
  assumes "same_world ce envs" "plain_uuids (ce_uuid_show ce)"
    and "body_fits envs (fst w)
      (JCreateVersion \<lparr>cvr_version_id = v, cvr_parent_version_id = p, cvr_manifest_id = m\<rparr>)"
  shows "c_create_version ce (over_http base envs) \<lparr>cc_base = base\<rparr> w f v p m
    = (case create_version (env_now (envs (fst w))) (st_meta (snd w)) f v p m of
         (r, g) \<Rightarrow> (r, (Suc (fst w), (snd w)\<lparr>st_meta := g\<rparr>)))"
proof -
  let ?b = "\<lparr>cvr_version_id = v, cvr_parent_version_id = p, cvr_manifest_id = m\<rparr>"
  let ?q = "request ce POST (url \<lparr>cc_base = base\<rparr>
    (''/v1/files/'' @ FileId_show (ce_uuid_show ce) f @ ''/versions'')) None (JCreateVersion ?b)"
  obtain r g where c: "create_version (env_now (envs (fst w))) (st_meta (snd w)) f v p m = (r, g)"
    by fastforce
  then have "r \<noteq> Panic"
    using create_version_not_Panic [of "env_now (envs (fst w))" "st_meta (snd w)" f v p m] by simp
  moreover have "h_create_version (env_uuid_parse (envs (fst w))) (env_now (envs (fst w))) (snd w)
      (FileId_show (ce_uuid_show ce) f) ?b = (map_ok VersionResponse_new r, (snd w)\<lparr>st_meta := g\<rparr>)"
    by (simp add: h_create_version_def ids_agree [OF assms(1)] c)
  then have "handle (envs (fst w)) (snd w) (?q\<lparr>q_path := drop (length base) (q_path ?q)\<rparr>)
      = answer (\<lambda>r. json_response 200 (JVersion r)) (map_ok VersionResponse_new r, (snd w)\<lparr>st_meta := g\<rparr>)"
    using assms by (simp add: rpc_simps as_create_version_def)
  note call_over_http [where ce = ce and q = ?q and base = base and w = w and envs = envs
      and dec = as_version and g = vr_version, OF this]
  ultimately show ?thesis
    by (cases r) (simp_all add: c_create_version_def as_version_def VersionResponse_new_def c)
qed

lemma rpc_create_file:
  assumes "same_world ce envs" "store_inv (st_meta (snd w))"
    and "body_fits envs (fst w)
      (JCreateFile \<lparr>cfr_parent_id = d, cfr_name = name, cfr_idempotency_key = key\<rparr>)"
  shows "c_create_file ce (over_http base envs) \<lparr>cc_base = base\<rparr> w d name key
    = (case create_file (env_fresh_file (envs (fst w))) (env_now (envs (fst w))) (st_meta (snd w)) d name key of
         (r, g) \<Rightarrow> (r, (Suc (fst w), (snd w)\<lparr>st_meta := g\<rparr>)))"
proof -
  let ?env = "envs (fst w)"
  let ?b = "\<lparr>cfr_parent_id = d, cfr_name = name, cfr_idempotency_key = key\<rparr>"
  let ?q = "request ce POST (url \<lparr>cc_base = base\<rparr> ''/v1/files'') None (JCreateFile ?b)"
  obtain r g where c: "create_file (env_fresh_file ?env) (env_now ?env) (st_meta (snd w)) d name key = (r, g)"
    by fastforce
  then have "r \<noteq> Panic"
    using create_file_not_Panic [OF assms(2), of "env_fresh_file ?env" "env_now ?env" d name key] by simp
  moreover have "h_create_file (env_fresh_file ?env) (env_now ?env) (snd w) ?b
      = (map_ok FileResponse_new r, (snd w)\<lparr>st_meta := g\<rparr>)"
    by (simp add: h_create_file_def c)
  then have "handle ?env (snd w) (?q\<lparr>q_path := drop (length base) (q_path ?q)\<rparr>)
      = answer (\<lambda>r. json_response 200 (JFile r)) (map_ok FileResponse_new r, (snd w)\<lparr>st_meta := g\<rparr>)"
    using assms by (simp add: rpc_simps as_create_file_def)
  note call_over_http [where ce = ce and q = ?q and base = base and w = w and envs = envs
      and dec = as_file and g = fr_file, OF this]
  ultimately show ?thesis
    by (cases r) (simp_all add: c_create_file_def as_file_def FileResponse_new_def c)
qed

lemma list_children_Ok: "\<exists>fs. list_children order g d = Ok fs"
  by (simp add: list_children_def)

lemma rpc_list_children:
  assumes "same_world ce envs" "plain_uuids (ce_uuid_show ce)"
  shows "c_list_children ce (over_http base envs) \<lparr>cc_base = base\<rparr> w d
    = (list_children (env_order (envs (fst w))) (st_meta (snd w)) d, (Suc (fst w), snd w))"
proof -
  let ?q = "request ce GET (url \<lparr>cc_base = base\<rparr>
    (''/v1/dirs/'' @ DirectoryId_show (ce_uuid_show ce) d @ ''/children'')) None NoBody"
  obtain fs where fs: "list_children (env_order (envs (fst w))) (st_meta (snd w)) d = Ok fs"
    using list_children_Ok by blast
  then have "h_list_children (env_uuid_parse (envs (fst w))) (env_order (envs (fst w))) (snd w)
      (DirectoryId_show (ce_uuid_show ce) d) = Ok (ListChildrenResponse_new fs)"
    by (simp add: h_list_children_def ids_agree [OF assms(1)])
  then have "handle (envs (fst w)) (snd w) (?q\<lparr>q_path := drop (length base) (q_path ?q)\<rparr>)
      = answer (\<lambda>r. json_response 200 (JChildren r)) (Ok (ListChildrenResponse_new fs), snd w)"
    using assms by (simp add: rpc_simps)
  from call_over_http [where ce = ce and q = ?q and base = base and w = w and envs = envs
      and dec = as_children and g = lcr_files, OF this] show ?thesis
    by (simp add: c_list_children_def as_children_def ListChildrenResponse_new_def fs)
qed

lemma h_put_chunk_not_Panic: "fst (h_put_chunk b3hex st i body) \<noteq> Panic"
proof (cases "ChunkId_parse i")
  case (Ok j)
  obtain r bl where p: "fake_put b3hex (st_blobs st) j body = (r, bl)" by fastforce
  obtain r' g where q: "register_chunk (st_meta st) j (len_u64 body) = (r', g)" by fastforce
  have "r \<noteq> Panic" using p fake_put_cases [of b3hex "st_blobs st" j body] by auto
  moreover have "r' \<noteq> Panic" using q register_chunk_not_Panic [of "st_meta st" j "len_u64 body"] by simp
  ultimately show ?thesis
    using Ok p q by (cases r; cases r') (simp_all add: h_put_chunk_def)
qed (simp_all add: h_put_chunk_def)

lemma rpc_put_chunk:
  assumes "same_world ce envs" "wf_chunk_id i" "body_fits envs (fst w) (RawBytes bs)"
  shows "register_and_put_chunk ce (over_http base envs) \<lparr>cc_base = base\<rparr> w i bs
    = (case h_put_chunk (ce_b3hex ce) (snd w) (as_str i) bs of (r, st) \<Rightarrow> (r, (Suc (fst w), st)))"
proof -
  let ?q = "request ce PUT (url \<lparr>cc_base = base\<rparr> (''/v1/chunks/'' @ as_str i)) None (RawBytes bs)"
  obtain r st where c: "h_put_chunk (ce_b3hex ce) (snd w) (as_str i) bs = (r, st)" by fastforce
  then have "r \<noteq> Panic" using h_put_chunk_not_Panic [of "ce_b3hex ce" "snd w" "as_str i" bs] by simp
  moreover have "env_b3hex (envs (fst w)) = ce_b3hex ce" using assms(1) by (simp add: same_world_def)
  then have "handle (envs (fst w)) (snd w) (?q\<lparr>q_path := drop (length base) (q_path ?q)\<rparr>)
      = answer (\<lambda>r. json_response 200 (JChunk r)) (r, st)"
    using assms(3) c route_chunk(2) [OF assms(2), simplified]
    by (simp add: rpc_simps body_bytes_def)
  note call_over_http [where ce = ce and q = ?q and base = base and w = w and envs = envs
      and dec = as_chunk and g = "\<lambda>r. r", OF this]
  ultimately show ?thesis
    by (cases r) (simp_all add: register_and_put_chunk_def as_chunk_def c)
qed

text \<open>
  An upload to a server that keeps its invariant, under the address of the bytes, when no other bytes
  are stored there: both stores hold the chunk afterwards and are otherwise unchanged.
\<close>

lemma h_put_chunk_exact:
  assumes "app_inv b3hex st" "wf_chunk_id i" "ChunkId_verify b3hex i bs"
    and "st_blobs st i = None \<or> st_blobs st i = Some bs"
  shows "h_put_chunk b3hex st (as_str i) bs
    = (Ok (ChunkResponse_new \<lparr>c_chunk_id = i, c_size = len_u64 bs\<rparr>),
       \<lparr>st_meta = add_chunk (st_meta st) \<lparr>c_chunk_id = i, c_size = len_u64 bs\<rparr>,
        st_blobs = (st_blobs st)(i \<mapsto> bs)\<rparr>)"
proof -
  let ?c = "\<lparr>c_chunk_id = i, c_size = len_u64 bs\<rparr>"
  have put: "fake_put b3hex (st_blobs st) i bs = (Ok (), (st_blobs st)(i \<mapsto> bs))"
    using assms(3,4) by (auto simp: fake_put_def fun_upd_idem)
  have "c = ?c" if "s_chunks (st_meta st) i = Some c" for c
  proof -
    have "c_chunk_id c = i" using assms(1) that by (auto simp: app_inv_def store_inv_def chunks_inv_def)
    moreover have "c_size c = len_u64 bs" using assms(1,4) that by (fastforce simp: app_inv_def backed_def)
    ultimately show ?thesis by simp
  qed
  then have "register_chunk (st_meta st) i (len_u64 bs) = (Ok ?c, add_chunk (st_meta st) ?c)"
    using assms(2)
    by (cases "s_chunks (st_meta st) i")
       (auto simp: register_chunk_def ChunkId_parse_as_str [THEN iffD2] Let_def add_chunk_def fun_upd_idem)
  then show ?thesis
    using assms(2) put by (simp add: h_put_chunk_def ChunkId_parse_as_str [THEN iffD2])
qed

end
