(* ===== verification/Retry.thy ===== *)
theory Retry
  imports Rpc
begin

text \<open>
  What a call may rely on when it is repeated later.  The stores only grow: \<open>grows\<close> is the order in
  which every step of the metadata store moves up, \<open>server_grows\<close> the one of the server.  From it follow
  the lemmas \<open>*_again\<close>: a call that once succeeded succeeds in every later state, changes nothing
  there and answers with the same object as it then is.  \<open>unreliable\<close> is a network that may lose the
  request or the response, and \<open>issue\<close> the calls of the client that change the server.
\<close>

section \<open>The stores only grow\<close>

text \<open>A file keeps its identity, place and time of creation; a version may be committed.\<close>

definition same_file :: "File \<Rightarrow> File \<Rightarrow> bool" where
  "same_file f f' \<longleftrightarrow> f_file_id f' = f_file_id f \<and> f_parent_id f' = f_parent_id f \<and>
     f_name f' = f_name f \<and> f_created_at f' = f_created_at f"

definition same_version :: "Version \<Rightarrow> Version \<Rightarrow> bool" where
  "same_version v v' \<longleftrightarrow> v' = v \<or> v' = v\<lparr>v_state := Committed\<rparr>"

definition kept :: "('a \<Rightarrow> 'a \<Rightarrow> bool) \<Rightarrow> ('k \<Rightarrow> 'a option) \<Rightarrow> ('k \<Rightarrow> 'a option) \<Rightarrow> bool" where
  "kept R m m' \<longleftrightarrow> (\<forall>k x. m k = Some x \<longrightarrow> (\<exists>x'. m' k = Some x' \<and> R x x'))"

definition grows :: "Inner \<Rightarrow> Inner \<Rightarrow> bool" where
  "grows g g' \<longleftrightarrow> kept (=) (s_file_idempotency g) (s_file_idempotency g') \<and>
     kept same_file (s_files g) (s_files g') \<and> kept (=) (s_chunks g) (s_chunks g') \<and>
     kept (=) (s_manifests g) (s_manifests g') \<and> kept same_version (s_versions g) (s_versions g')"

lemma same_file_order: "same_file f f" "same_file f f' \<Longrightarrow> same_file f' f'' \<Longrightarrow> same_file f f''"
  by (auto simp: same_file_def)

lemma same_version_order: "same_version v v" "same_version v v' \<Longrightarrow> same_version v' v'' \<Longrightarrow> same_version v v''"
  by (auto simp: same_version_def)

lemma keptD: "kept R m m' \<Longrightarrow> m k = Some x \<Longrightarrow> \<exists>x'. m' k = Some x' \<and> R x x'"
  by (simp add: kept_def)

lemma kept_refl [simp]: "kept (=) m m" "kept same_file m1 m1" "kept same_version m2 m2"
  by (simp_all add: kept_def same_file_order same_version_order)

lemma kept_trans:
  "kept (=) m m' \<Longrightarrow> kept (=) m' m'' \<Longrightarrow> kept (=) m m''"
  "kept same_file m1 m1' \<Longrightarrow> kept same_file m1' m1'' \<Longrightarrow> kept same_file m1 m1''"
  "kept same_version m2 m2' \<Longrightarrow> kept same_version m2' m2'' \<Longrightarrow> kept same_version m2 m2''"
  unfolding kept_def by (metis, (meson same_file_order(2) same_version_order(2))+)

lemma kept_new [simp]:
  "m k = None \<Longrightarrow> kept (=) m (m(k \<mapsto> x))" "m1 k = None \<Longrightarrow> kept same_file m1 (m1(k \<mapsto> f))"
  "m2 k = None \<Longrightarrow> kept same_version m2 (m2(k \<mapsto> v))"
  by (simp_all add: kept_def same_file_order same_version_order)

lemma kept_update:
  "m k = Some x \<Longrightarrow> kept (=) m (m(k \<mapsto> x))"
  "m1 k = Some f \<Longrightarrow> same_file f f' \<Longrightarrow> kept same_file m1 (m1(k \<mapsto> f'))"
  "m2 k = Some v \<Longrightarrow> same_version v v' \<Longrightarrow> kept same_version m2 (m2(k \<mapsto> v'))"
  by (simp_all add: kept_def same_file_order same_version_order)

lemma grows_refl: "grows g g"
  by (simp add: grows_def)

lemma grows_trans: "grows g g' \<Longrightarrow> grows g' g'' \<Longrightarrow> grows g g''"
  unfolding grows_def by (elim conjE) (intro conjI; erule (1) kept_trans)

lemma meta_step_grows:
  assumes "store_inv g" "meta_step g g'"
  shows "grows g g'"
  using assms(2)
proof (cases rule: meta_step_cases)
  case idle
  then show ?thesis by (simp add: grows_refl)
next
  case (added_file key fresh now parent name)
  then show ?thesis by (simp add: grows_def add_file_def new_file_def)
next
  case (added_chunk i n)
  then show ?thesis by (simp add: grows_def add_chunk_def)
next
  case (added_manifest m)
  then show ?thesis by (auto simp: grows_def add_manifest_def kept_update)
next
  case (added_version now f v p m)
  then show ?thesis by (simp add: grows_def add_version_def candidate_def)
next
  case (published now i v m)
  have "same_version v (v\<lparr>v_state := Committed\<rparr>)" "same_file f (point_file_at now i f)" for f
    by (simp_all add: same_version_def same_file_def point_file_at_def)
  with published show ?thesis
    by (simp add: grows_def publish_version_def kept_update split: option.split)
qed

interpretation meta_growth: monotone_system meta_step store_inv store_new grows
  by unfold_locales (blast intro: store_inv_new meta_step_inv grows_refl grows_trans meta_step_grows)+

definition server_grows :: "AppState \<Rightarrow> AppState \<Rightarrow> bool" where
  "server_grows st st' \<longleftrightarrow> grows (st_meta st) (st_meta st') \<and> kept (=) (st_blobs st) (st_blobs st')"

lemma server_step_grows:
  assumes "app_inv b3hex st" "server_step b3hex st st'"
  shows "server_grows st st'"
  unfolding server_grows_def
proof
  show "grows (st_meta st) (st_meta st')"
    using server_step_meta [OF assms(2)] assms(1) meta_step_grows grows_refl by (auto simp: app_inv_def)
  show "kept (=) (st_blobs st) (st_blobs st')"
    using blob_stable [OF assms] by (simp add: kept_def)
qed

interpretation server_growth: monotone_system "server_step b3hex" "app_inv b3hex" AppState_default server_grows for b3hex
proof unfold_locales
  show "server_grows s s" for s by (simp add: server_grows_def grows_refl)
  show "server_grows s u" if "server_grows s t" "server_grows t u" for s t u
    using that grows_trans kept_trans(1) unfolding server_grows_def by blast
qed (auto intro: server_step_grows)

section \<open>A call repeated later\<close>

lemma create_file_Ok:
  assumes "store_inv g" "fst (create_file fresh now g d name key) = Ok f"
  shows "s_file_idempotency (snd (create_file fresh now g d name key)) key = Some (f_file_id f) \<and>
    s_files (snd (create_file fresh now g d name key)) (f_file_id f) = Some f \<and> \<not> illegal_name name"
proof (cases "s_file_idempotency g key")
  case None
  then show ?thesis using assms(2) by (auto simp: create_file_def Let_def split: if_splits)
next
  case (Some i)
  then show ?thesis using assms
    by (auto simp: create_file_def store_inv_def files_inv_def split: if_splits option.splits)
qed

lemma create_file_again:
  assumes "store_inv g" "fst (create_file fresh now g d name key) = Ok f"
    and "grows (snd (create_file fresh now g d name key)) g'"
  shows "\<exists>f'. create_file fresh' now' g' d name key = (Ok f', g') \<and> s_files g' (f_file_id f) = Some f' \<and> same_file f f'"
proof -
  let ?g = "snd (create_file fresh now g d name key)"
  note c = create_file_Ok [OF assms(1,2)]
  obtain f' where "s_files g' (f_file_id f) = Some f'" "same_file f f'"
    using c assms(3) keptD [of same_file "s_files ?g"] unfolding grows_def by meson
  moreover have "s_file_idempotency g' key = Some (f_file_id f)"
    using c assms(3) keptD [of "(=)" "s_file_idempotency ?g"] unfolding grows_def by metis
  ultimately show ?thesis using c create_file_replay by metis
qed

lemma register_chunk_again:
  assumes "fst (register_chunk g i n) = Ok c" "grows (snd (register_chunk g i n)) g'"
  shows "register_chunk g' i n = (Ok c, g')"
proof -
  have "s_chunks (snd (register_chunk g i n)) i = Some c \<and> c_size c = n \<and> (\<exists>j. ChunkId_parse (as_str i) = Ok j)"
    using assms(1) by (auto simp: register_chunk_def Let_def split: if_splits option.splits outcome.splits)
  moreover from this have "s_chunks g' i = Some c"
    using assms(2) keptD [of "(=)" "s_chunks (snd (register_chunk g i n))"] unfolding grows_def by metis
  ultimately show ?thesis by (auto simp: register_chunk_def)
qed

lemma put_manifest_again:
  assumes "fst (put_manifest g m) = Ok m'" "grows (snd (put_manifest g m)) g'"
  shows "put_manifest g' m = (Ok m', g')"
proof -
  have m: "manifest_ok m" "chunks_registered g m" "m' = m" "snd (put_manifest g m) = add_manifest g m"
    using assms(1) put_manifest_effect [of g m] by auto
  have stored: "s_manifests g' (m_manifest_id m) = Some m"
    using assms(2) m(4) keptD [of "(=)" "s_manifests (add_manifest g m)" "s_manifests g'" "m_manifest_id m" m]
    by (simp add: grows_def add_manifest_def)
  have "kept (=) (s_chunks g) (s_chunks g')"
    using assms(2) m(4) by (simp add: grows_def add_manifest_def)
  then have "chunks_registered g' m"
    using m(2) keptD [of "(=)" "s_chunks g"] unfolding chunks_registered_def by metis
  then have "put_manifest g' m = (Ok m, add_manifest g' m)" using m(1) stored by (simp add: put_manifest_Ok)
  moreover have "add_manifest g' m = g'" using stored by (simp add: add_manifest_def fun_upd_idem)
  ultimately show ?thesis using m(3) by simp
qed

lemma create_version_Ok:
  assumes "fst (create_version now g f v p mi) = Ok w"
  shows "s_files g f \<noteq> None \<and> s_manifests g mi \<noteq> None \<and> parent_ok g f p \<and>
    grows g (snd (create_version now g f v p mi)) \<and> s_versions (snd (create_version now g f v p mi)) v = Some w \<and>
    v_file_id w = f \<and> v_parent_version_id w = p \<and> v_manifest_id w = mi"
proof -
  have "s_files g f \<noteq> None" "s_manifests g mi \<noteq> None" "parent_ok g f p"
    using assms by (auto simp: create_version_def outcome_simps check_parent_Ok_iff [symmetric]
        split: outcome.splits if_splits)
  moreover have "check_parent g f p = Ok ()" using calculation(3) by (simp add: check_parent_Ok_iff)
  ultimately show ?thesis using assms
    by (cases "s_versions g v")
       (auto simp: create_version_def Let_def grows_def split: if_splits)
qed

lemma create_version_again:
  assumes "fst (create_version now g f v p mi) = Ok w" "grows (snd (create_version now g f v p mi)) g'"
  shows "\<exists>w'. create_version now' g' f v p mi = (Ok w', g') \<and> s_versions g' v = Some w' \<and> same_version w w'"
proof -
  note c = create_version_Ok [OF assms(1)]
  have up: "grows g g'" using c assms(2) grows_trans by blast
  obtain w' where w': "s_versions g' v = Some w'" "same_version w w'"
    using c assms(2) keptD [of same_version "s_versions (snd (create_version now g f v p mi))"]
    unfolding grows_def by meson
  have f: "s_files g' f \<noteq> None" using c up unfolding grows_def kept_def by (metis not_Some_eq)
  have mi: "s_manifests g' mi \<noteq> None" using c up unfolding grows_def kept_def by (metis not_Some_eq)
  have "parent_ok g' f p"
    unfolding parent_ok_def
  proof (intro allI impI)
    fix q assume "p = Some q"
    then obtain u where "s_versions g q = Some u" "v_file_id u = f" using c by (auto simp: parent_ok_def)
    moreover from this(1) obtain u' where "s_versions g' q = Some u'" "same_version u u'"
      using up keptD [of same_version "s_versions g"] unfolding grows_def by meson
    ultimately show "\<exists>u. s_versions g' q = Some u \<and> v_file_id u = f" by (auto simp: same_version_def)
  qed
  then have "check_parent g' f p = Ok ()" by (simp add: check_parent_Ok_iff)
  moreover have "v_file_id w' = f \<and> v_parent_version_id w' = p \<and> v_manifest_id w' = mi"
    using c w'(2) by (auto simp: same_version_def)
  ultimately show ?thesis using f mi w' by (auto simp: create_version_def)
qed

lemma commit_version_Ok:
  assumes "store_inv g" "fst (commit_version now g v) = Ok w"
  shows "s_versions (snd (commit_version now g v)) v = Some w \<and> v_state w = Committed"
proof (cases "s_versions g v")
  case (Some u)
  then obtain m where m: "s_manifests g (v_manifest_id u) = Some m" "manifest_ok m"
    using assms(1) by (fastforce simp: store_inv_def versions_inv_def manifests_inv_def)
  show ?thesis
  proof (cases "v_state u")
    case Candidate
    then show ?thesis using assms(2) commit_version_publishes [OF Some Candidate m]
      by (auto simp: publish_version_def)
  next
    case Committed
    with Some assms(2) show ?thesis by (auto simp: commit_version_def)
  qed
qed (use assms(2) in \<open>simp add: commit_version_def\<close>)

lemma commit_version_again:
  assumes "store_inv g" "fst (commit_version now g v) = Ok w" "grows (snd (commit_version now g v)) g'"
  shows "commit_version now' g' v = (Ok w, g')"
proof -
  note c = commit_version_Ok [OF assms(1,2)]
  obtain w' where "s_versions g' v = Some w'" "same_version w w'"
    using c assms(3) keptD [of same_version "s_versions (snd (commit_version now g v))"]
    unfolding grows_def by meson
  moreover from this(2) have "w' = w" using c by (auto simp: same_version_def)
  ultimately show ?thesis using c by (simp add: commit_version_def)
qed

lemma h_put_chunk_again:
  assumes "fst (h_put_chunk b3hex st i body) = Ok r" "server_grows (snd (h_put_chunk b3hex st i body)) st'"
  shows "h_put_chunk b3hex st' i body = (Ok r, st')"
proof -
  obtain j where j: "ChunkId_parse i = Ok j"
    using assms(1) by (cases "ChunkId_parse i") (simp_all add: h_put_chunk_def)
  obtain q bl where q: "fake_put b3hex (st_blobs st) j body = (q, bl)" by fastforce
  then have bl: "fake_put b3hex (st_blobs st) j body = (Ok (), bl)"
    using assms(1) j by (cases q) (simp_all add: h_put_chunk_def)
  obtain q' g where q': "register_chunk (st_meta st) j (len_u64 body) = (q', g)" by fastforce
  then obtain c where c: "register_chunk (st_meta st) j (len_u64 body) = (Ok c, g)" "r = ChunkResponse_new c"
    using assms(1) j bl by (cases q') (simp_all add: h_put_chunk_def)
  have "snd (h_put_chunk b3hex st i body) = \<lparr>st_meta = g, st_blobs = bl\<rparr>"
    using j bl c by (simp add: h_put_chunk_def)
  with assms(2) have up: "grows g (st_meta st')" "kept (=) bl (st_blobs st')" by (simp_all add: server_grows_def)
  have "bl j = Some body" "ChunkId_verify b3hex j body"
    using bl fake_put_cases [of b3hex "st_blobs st" j body] by (auto split: if_splits)
  moreover have "st_blobs st' j = Some body"
    using calculation(1) up(2) keptD [of "(=)" bl "st_blobs st'" j body] by simp
  ultimately have "fake_put b3hex (st_blobs st') j body = (Ok (), st_blobs st')"
    by (simp add: fake_put_def)
  moreover have "register_chunk (st_meta st') j (len_u64 body) = (Ok c, st_meta st')"
    using register_chunk_again [of "st_meta st" j "len_u64 body" c "st_meta st'"] c(1) up(1) by simp
  ultimately show ?thesis using j c(2) by (simp add: h_put_chunk_def)
qed

section \<open>An unreliable network\<close>

text \<open>What happens to one exchange: it is delivered, the request never arrives, or the server has
  executed it and the response never arrives.\<close>

datatype Fate = Delivered | RequestLost NetFailure | ResponseLost NetFailure

definition unreliable :: "Fate \<Rightarrow> string \<Rightarrow> (nat \<Rightarrow> Env) \<Rightarrow> (nat \<times> AppState) transport" where
  "unreliable fate base envs w q =
     (case fate of
        Delivered \<Rightarrow> over_http base envs w q
      | RequestLost f \<Rightarrow> (Inl f, w)
      | ResponseLost f \<Rightarrow> (Inl f, snd (over_http base envs w q)))"

text \<open>The calls that change the server, and what they answer.\<close>

datatype WriteCall =
    CreateFile DirectoryId string string
  | PutChunk ChunkId bytes
  | PutManifest Manifest
  | CreateVersion FileId VersionId "VersionId option" ManifestId
  | CommitVersion VersionId

datatype Answer = AFile File | AChunk ChunkResponse | AManifest Manifest | AVersion Version

definition answered :: "('a \<Rightarrow> Answer) \<Rightarrow> 'a space_result \<times> 'w \<Rightarrow> Answer space_result \<times> 'w" where
  "answered f rw = (map_ok f (fst rw), snd rw)"

fun issue :: "ClientEnv \<Rightarrow> 'w transport \<Rightarrow> CloudClient \<Rightarrow> 'w \<Rightarrow> WriteCall \<Rightarrow> Answer space_result \<times> 'w" where
  "issue ce net c w (CreateFile d name key) = answered AFile (c_create_file ce net c w d name key)"
| "issue ce net c w (PutChunk i bs) = answered AChunk (register_and_put_chunk ce net c w i bs)"
| "issue ce net c w (PutManifest m) = answered AManifest (c_put_manifest ce net c w m)"
| "issue ce net c w (CreateVersion f v p m) = answered AVersion (c_create_version ce net c w f v p m)"
| "issue ce net c w (CommitVersion v) = answered AVersion (c_commit_version ce net c w v)"

text \<open>The two answers name the same object: chunks and manifests do not change, a version may have been
  committed and a file may have a new current version in the meantime.\<close>

fun same_answer :: "Answer \<Rightarrow> Answer \<Rightarrow> bool" where
  "same_answer (AFile f) (AFile f') \<longleftrightarrow> same_file f f'"
| "same_answer (AVersion v) (AVersion v') \<longleftrightarrow> same_version v v'"
| "same_answer a a' \<longleftrightarrow> a = a'"

text \<open>The calls whose bodies the server takes, now and later.\<close>

fun call_fits :: "(nat \<Rightarrow> Env) \<Rightarrow> WriteCall \<Rightarrow> bool" where
  "call_fits envs (CreateFile d name key) \<longleftrightarrow>
     (\<forall>n. body_fits envs n (JCreateFile \<lparr>cfr_parent_id = d, cfr_name = name, cfr_idempotency_key = key\<rparr>))"
| "call_fits envs (PutChunk i bs) \<longleftrightarrow> wf_chunk_id i \<and> (\<forall>n. body_fits envs n (RawBytes bs))"
| "call_fits envs (PutManifest m) \<longleftrightarrow> (\<forall>n. body_fits envs n (JPutManifest \<lparr>pmr_manifest = m\<rparr>))"
| "call_fits envs (CreateVersion f v p m) \<longleftrightarrow>
     (\<forall>n. body_fits envs n
        (JCreateVersion \<lparr>cvr_version_id = v, cvr_parent_version_id = p, cvr_manifest_id = m\<rparr>))"
| "call_fits envs (CommitVersion v) \<longleftrightarrow> True"

lemma send_lost:
  "send ce (unreliable (RequestLost f) base envs) w q dec = (Err (net_error f), w)"
  "send ce (unreliable (ResponseLost f) base envs) w q dec
     = (Err (net_error f), snd (send ce (over_http base envs) w q dec))"
  by (auto simp: send_def exchange_def unreliable_def split: prod.split sum.split)

lemma issue_lost:
  "issue ce (unreliable (RequestLost f) base envs) c w call = (Err (net_error f), w)"
  "issue ce (unreliable (ResponseLost f) base envs) c w call
     = (Err (net_error f), snd (issue ce (over_http base envs) c w call))"
  by (cases call; simp add: answered_def c_create_file_def register_and_put_chunk_def c_put_manifest_def
      c_create_version_def c_commit_version_def send_lost)+

lemma unreliable_Delivered [simp]: "unreliable Delivered base envs = over_http base envs"
  by (simp add: fun_eq_iff unreliable_def)

lemma net_error_retryable: "err_retryable (net_error f)"
  by (simp add: net_error_def err_retryable_def new_error_def code_retryable_def)

text \<open>A delivered call that succeeds, delivered once more in any later state of the server.\<close>

lemma issue_again:
  assumes world: "same_world ce envs" "plain_uuids (ce_uuid_show ce)" "call_fits envs call"
    and inv: "store_inv (st_meta st)" "store_inv (st_meta st2)"
    and first: "issue ce (over_http base envs) \<lparr>cc_base = base\<rparr> (n, st) call = (Ok a, (n', st1))"
    and later: "server_grows st1 st2"
  shows "\<exists>a'. issue ce (over_http base envs) \<lparr>cc_base = base\<rparr> (k, st2) call = (Ok a', (Suc k, st2)) \<and> same_answer a a'"
proof (cases call)
  case (CreateFile d name key)
  note rpc = rpc_create_file [OF world(1), where d = d and name = name and key = key and base = base]
  obtain r g where c: "create_file (env_fresh_file (envs n)) (env_now (envs n)) (st_meta st) d name key = (r, g)"
    by fastforce
  with CreateFile first world(3) inv rpc [of "(n, st)"] obtain f where f: "r = Ok f" "a = AFile f" "st1 = st\<lparr>st_meta := g\<rparr>"
    by (cases r) (auto simp: answered_def)
  have "grows g (st_meta st2)" using later f(3) by (simp add: server_grows_def)
  then obtain f' where "create_file (env_fresh_file (envs k)) (env_now (envs k)) (st_meta st2) d name key = (Ok f', st_meta st2)"
      "same_file f f'"
    using create_file_again [OF inv(1), of "env_fresh_file (envs n)" "env_now (envs n)" d name key f "st_meta st2"] c f(1)
    by (metis fst_conv snd_conv)
  then show ?thesis using CreateFile world(3) inv(2) rpc [of "(k, st2)"] f(2) by (simp add: answered_def)
next
  case (PutChunk i bs)
  note rpc = rpc_put_chunk [OF world(1), where i = i and bs = bs and base = base]
  obtain r g where c: "h_put_chunk (ce_b3hex ce) st (as_str i) bs = (r, g)" by fastforce
  with PutChunk first world(3) rpc [of "(n, st)"] obtain x where x: "r = Ok x" "a = AChunk x" "st1 = g"
    by (cases r) (auto simp: answered_def)
  then have "h_put_chunk (ce_b3hex ce) st2 (as_str i) bs = (Ok x, st2)"
    using h_put_chunk_again [of "ce_b3hex ce" st "as_str i" bs x st2] c later by simp
  then show ?thesis using PutChunk world(3) rpc [of "(k, st2)"] x(2) by (simp add: answered_def)
next
  case (PutManifest m)
  note rpc = rpc_put_manifest [OF world(1,2), where m = m and base = base]
  obtain r g where c: "put_manifest (st_meta st) m = (r, g)" by fastforce
  with PutManifest first world(3) rpc [of "(n, st)"] obtain x where x: "r = Ok x" "a = AManifest x" "st1 = st\<lparr>st_meta := g\<rparr>"
    by (cases r) (auto simp: answered_def)
  then have "put_manifest (st_meta st2) m = (Ok x, st_meta st2)"
    using put_manifest_again [of "st_meta st" m x "st_meta st2"] c later by (simp add: server_grows_def)
  then show ?thesis using PutManifest world(3) rpc [of "(k, st2)"] x(2) by (simp add: answered_def)
next
  case (CreateVersion f v p m)
  note rpc = rpc_create_version [OF world(1,2), where v = v and p = p and m = m and base = base and f = f]
  obtain r g where c: "create_version (env_now (envs n)) (st_meta st) f v p m = (r, g)" by fastforce
  with CreateVersion first world(3) rpc [of "(n, st)"] obtain x where x: "r = Ok x" "a = AVersion x" "st1 = st\<lparr>st_meta := g\<rparr>"
    by (cases r) (auto simp: answered_def)
  then have "grows g (st_meta st2)" using later by (simp add: server_grows_def)
  then obtain x' where "create_version (env_now (envs k)) (st_meta st2) f v p m = (Ok x', st_meta st2)" "same_version x x'"
    using create_version_again [of "env_now (envs n)" "st_meta st" f v p m x "st_meta st2"] c x(1)
    by (metis fst_conv snd_conv)
  then show ?thesis using CreateVersion world(3) rpc [of "(k, st2)"] x(2) by (simp add: answered_def)
next
  case (CommitVersion v)
  note rpc = rpc_commit_version [OF world(1,2), where v = v and base = base]
  obtain r g where c: "commit_version (env_now (envs n)) (st_meta st) v = (r, g)" by fastforce
  with CommitVersion first rpc [of "(n, st)"] obtain x where x: "r = Ok x" "a = AVersion x" "st1 = st\<lparr>st_meta := g\<rparr>"
    by (cases r) (auto simp: answered_def)
  then have "commit_version (env_now (envs k)) (st_meta st2) v = (Ok x, st_meta st2)"
    using commit_version_again [OF inv(1), of "env_now (envs n)" v x "st_meta st2"] c later
    by (simp add: server_grows_def)
  then show ?thesis using CommitVersion rpc [of "(k, st2)"] x(2) by (simp add: answered_def same_version_order)
qed

text \<open>Whatever the network does, what happens to the server is one of its runs.\<close>

lemma send_state: "snd (send ce net w q dec) = snd (net w q)"
  by (auto simp: send_def exchange_def split: prod.split sum.split)

lemma unreliable_run:
  assumes "env_ok (envs (fst w)) (snd w)" "env_b3hex (envs (fst w)) = b3hex"
  shows "(server_step b3hex)\<^sup>*\<^sup>* (snd w) (snd (snd (unreliable fate base envs w q)))"
  using request_run [where env = "envs (fst w)" and st = "snd w", OF assms(1)] assms(2)
  by (auto simp: unreliable_def over_http_def split: Fate.split prod.split option.split) (metis snd_conv)+

lemma issue_run:
  assumes "env_ok (envs (fst w)) (snd w)" "same_world ce envs"
  shows "(server_step (ce_b3hex ce))\<^sup>*\<^sup>* (snd w) (snd (snd (issue ce (unreliable fate base envs) c w call)))"
  using unreliable_run [where envs = envs and w = w and fate = fate and base = base, OF assms(1)] assms(2)
  by (cases call) (simp_all add: answered_def c_create_file_def register_and_put_chunk_def c_put_manifest_def
      c_create_version_def c_commit_version_def send_state same_world_def)

end
