(* ===== verification/Corruptor.thy ===== *)
theory Corruptor
  imports Validate
begin

text \<open>
  The corruption primitives of \<^verbatim>\<open>tools/corruptor/src/lib.rs\<close>.  \<open>corrupts\<close> relates a manifest to what
  a primitive makes of it where the primitive has an effect; the lemmas show that each such result
  violates the acceptance condition, so that the validator rejects it.
\<close>

unbundle bit_operations_syntax

section \<open>Bytes\<close>

definition flip_byte :: "bytes \<Rightarrow> usize \<Rightarrow> bytes" where
  "flip_byte data at = (if unat at < length data then data[unat at := (data ! unat at) XOR 0xFF] else data)"

definition truncate :: "bytes \<Rightarrow> usize \<Rightarrow> bytes" where
  "truncate data to' = take (unat to') data"

definition extend :: "bytes \<Rightarrow> usize \<Rightarrow> bytes" where
  "extend data n = data @ replicate (unat n) 0x5A"

section \<open>Manifests\<close>

definition swap_entries :: "Manifest \<Rightarrow> usize \<Rightarrow> usize \<Rightarrow> (unit, Manifest) outcome" where
  "swap_entries m i j =
     (let es = m_entries m in
      if unat i < length es \<and> unat j < length es
      then Ok (m\<lparr>m_entries := es[unat i := es ! unat j, unat j := es ! unat i]\<rparr>) else Panic)"

definition drop_entry :: "Manifest \<Rightarrow> usize \<Rightarrow> Manifest" where
  "drop_entry m i =
     (if unat i < length (m_entries m)
      then m\<lparr>m_entries := take (unat i) (m_entries m) @ drop (Suc (unat i)) (m_entries m)\<rparr> else m)"

text \<open>The sum in \<^verbatim>\<open>i128\<close>, cut off at 0 below and cast to 64 bits.\<close>

definition nudge :: "u64 \<Rightarrow> i64 \<Rightarrow> u64" where
  "nudge n delta = word_of_int (max (uint n + sint delta) 0)"

definition alter_total_size :: "Manifest \<Rightarrow> i64 \<Rightarrow> Manifest" where
  "alter_total_size m delta = m\<lparr>m_total_size := nudge (m_total_size m) delta\<rparr>"

definition alter_chunk_count :: "Manifest \<Rightarrow> i64 \<Rightarrow> Manifest" where
  "alter_chunk_count m delta = m\<lparr>m_chunk_count := nudge (m_chunk_count m) delta\<rparr>"

fun push_forward :: "profile \<Rightarrow> ManifestEntry list \<Rightarrow> (unit, ManifestEntry list) outcome" where
  "push_forward p [] = Ok []"
| "push_forward p (e # es) =
     and_then (plus_u64 p (e_logical_offset e) 1) (\<lambda>off.
     and_then (push_forward p es) (\<lambda>es'. Ok (e\<lparr>e_logical_offset := off\<rparr> # es')))"

definition introduce_gap :: "profile \<Rightarrow> Manifest \<Rightarrow> usize \<Rightarrow> (unit, Manifest) outcome" where
  "introduce_gap p m at =
     and_then (plus_u64 p at 1) (\<lambda>n.
     and_then (push_forward p (drop (unat n) (m_entries m))) (\<lambda>moved.
     and_then (plus_u64 p (m_total_size m) 1) (\<lambda>total.
     Ok (m\<lparr>m_entries := take (unat n) (m_entries m) @ moved, m_total_size := total\<rparr>))))"

definition introduce_overlap :: "profile \<Rightarrow> Manifest \<Rightarrow> usize \<Rightarrow> (unit, Manifest) outcome" where
  "introduce_overlap p m at =
     and_then (plus_u64 p at 1) (\<lambda>n.
     let es = m_entries m in
     if unat n < length es
     then (let e = es ! unat n
           in Ok (m\<lparr>m_entries := es[unat n := e\<lparr>e_logical_offset := saturating_sub (e_logical_offset e) 1\<rparr>]\<rparr>))
     else Ok m)"

definition dangling_id :: "(bytes \<Rightarrow> string) \<Rightarrow> ChunkId" where
  "dangling_id b3hex = ChunkId_from_bytes b3hex (map of_char ''corruptor::dangling reference'')"

definition dangle_chunk_ref :: "(bytes \<Rightarrow> string) \<Rightarrow> Manifest \<Rightarrow> usize \<Rightarrow> Manifest" where
  "dangle_chunk_ref b3hex m at =
     (let es = m_entries m in
      if unat at < length es
      then m\<lparr>m_entries := es[unat at := (es ! unat at)\<lparr>e_chunk_id := dangling_id b3hex\<rparr>]\<rparr> else m)"

definition insert_zero_length_entry :: "profile \<Rightarrow> Manifest \<Rightarrow> (unit, Manifest) outcome" where
  "insert_zero_length_entry p m =
     (if m_entries m = [] then Ok m
      else (let l = last (m_entries m) in
        and_then (plus_u64 p (e_logical_offset l) (e_length l)) (\<lambda>off.
        and_then (plus_u64 p (m_chunk_count m) 1) (\<lambda>n.
        Ok (m\<lparr>m_entries := m_entries m @ [\<lparr>e_logical_offset = off, e_length = 0,
                e_chunk_id = e_chunk_id l, e_chunk_offset = 0\<rparr>],
              m_chunk_count := n\<rparr>)))))"

section \<open>Every corruption is rejected\<close>

inductive corrupts :: "Manifest \<Rightarrow> Manifest \<Rightarrow> bool" where
  corrupt_swap: "swap_entries m i j = Ok m' \<Longrightarrow> i \<noteq> j \<Longrightarrow> corrupts m m'"
| corrupt_drop: "unat i < length (m_entries m) \<Longrightarrow> corrupts m (drop_entry m i)"
| corrupt_total: "nudge (m_total_size m) delta \<noteq> m_total_size m \<Longrightarrow> corrupts m (alter_total_size m delta)"
| corrupt_count: "nudge (m_chunk_count m) delta \<noteq> m_chunk_count m \<Longrightarrow> corrupts m (alter_chunk_count m delta)"
| corrupt_gap: "introduce_gap p m at = Ok m' \<Longrightarrow> corrupts m m'"
| corrupt_overlap: "introduce_overlap p m at = Ok m' \<Longrightarrow> Suc (unat at) < length (m_entries m) \<Longrightarrow> corrupts m m'"
| corrupt_dangle: "unat at < length (m_entries m) \<Longrightarrow> dangling_id b3hex \<notin> c_chunk_id ` set (m_chunks m) \<Longrightarrow>
    corrupts m (dangle_chunk_ref b3hex m at)"
| corrupt_zero: "insert_zero_length_entry p m = Ok m' \<Longrightarrow> m_entries m \<noteq> [] \<Longrightarrow> corrupts m m'"

lemma tiles_nth:
  "tiles k es \<Longrightarrow> i < length es \<Longrightarrow> unat (e_logical_offset (es ! i)) = k + total_length (take i es)"
proof (induction es arbitrary: k i)
  case Nil
  then show ?case by simp
next
  case (Cons e es)
  then show ?case by (cases i) (auto simp: add.assoc)
qed

lemma total_length_take_less:
  assumes "\<forall>e\<in>set es. 0 < e_length e" "i < j" "j \<le> length es"
  shows "total_length (take i es) < total_length (take j es)"
proof -
  have "take j es = take i es @ es ! i # take (j - Suc i) (drop (Suc i) es)"
  proof -
    have "drop i es = es ! i # drop (Suc i) es" using assms by (simp add: Cons_nth_drop_Suc)
    then have "take (j - i) (drop i es) = es ! i # take (j - Suc i) (drop (Suc i) es)"
      using assms(2) by (simp add: Suc_diff_Suc take_Suc_Cons [of "j - Suc i", symmetric])
    moreover have "take j es = take i es @ take (j - i) (drop i es)"
      using assms(2) by (metis le_add_diff_inverse less_imp_le take_add)
    ultimately show ?thesis by simp
  qed
  moreover have "0 < e_length (es ! i)" using assms by simp
  ultimately show ?thesis by (simp add: word_less_nat_alt)
qed

lemma swap_rejected:
  assumes ok: "manifest_ok m" and "i < j" "j < length (m_entries m)"
    and es': "take i es' = take i (m_entries m)" "length es' = length (m_entries m)"
      "es' ! i = m_entries m ! j"
  shows "\<not> tiles 0 es'"
proof
  let ?es = "m_entries m"
  assume "tiles 0 es'"
  then have "unat (e_logical_offset (?es ! j)) = total_length (take i ?es)"
    using tiles_nth [of 0 es' i] assms by simp
  moreover have "unat (e_logical_offset (?es ! j)) = total_length (take j ?es)"
    using tiles_nth [of 0 ?es j] assms by (simp add: manifest_ok_def)
  ultimately show False
    using total_length_take_less [of ?es i j] assms by (simp add: manifest_ok_def)
qed

lemma swap_entries_rejected:
  assumes ok: "manifest_ok m" and sw: "swap_entries m i j = Ok m'" and "i \<noteq> j"
  shows "\<not> tiles 0 (m_entries m')"
proof -
  let ?es = "m_entries m"
  from sw have len: "unat i < length ?es" "unat j < length ?es"
    and es': "m_entries m' = ?es[unat i := ?es ! unat j, unat j := ?es ! unat i]"
    by (auto simp: swap_entries_def Let_def split: if_splits)
  from assms(3) have "unat i < unat j \<or> unat j < unat i" by (metis nat_neq_iff word_unat_eq_iff)
  then show ?thesis
    using swap_rejected [OF ok, of "unat i" "unat j" "m_entries m'"]
      swap_rejected [OF ok, of "unat j" "unat i" "m_entries m'"] len es'
    by (auto simp: nth_list_update)
qed

lemma drop_entry_rejected:
  assumes "manifest_ok m" "unat i < length (m_entries m)"
  shows "total_length (m_entries (drop_entry m i)) \<noteq> unat (m_total_size m)"
proof -
  let ?es = "m_entries m"
  have "?es = take (unat i) ?es @ ?es ! unat i # drop (Suc (unat i)) ?es"
    using assms(2) by (simp add: id_take_nth_drop)
  then have "total_length ?es = total_length (take (unat i) ?es) + unat (e_length (?es ! unat i))
      + total_length (drop (Suc (unat i)) ?es)"
    by (metis add.assoc total_length_simps(2,3))
  moreover have "0 < unat (e_length (?es ! unat i))"
    using assms by (simp add: manifest_ok_def word_less_nat_alt)
  ultimately show ?thesis using assms by (simp add: drop_entry_def manifest_ok_def)
qed

lemma push_forward_lengths:
  "push_forward p es = Ok es' \<Longrightarrow> total_length es' = total_length es"
  by (induction es arbitrary: es') (auto simp: outcome_simps)

lemma plus_u64_OkD: "plus_u64 p a b = Ok c \<Longrightarrow> c = a + b"
  by (auto simp: plus_u64_def split: if_splits)

lemma gap_rejected:
  assumes "manifest_ok m" "introduce_gap p m at = Ok m'"
  shows "total_length (m_entries m') \<noteq> unat (m_total_size m')"
proof -
  from assms(2) obtain moved where moved: "push_forward p (drop (unat (at + 1)) (m_entries m)) = Ok moved"
    and m': "m' = m\<lparr>m_entries := take (unat (at + 1)) (m_entries m) @ moved, m_total_size := m_total_size m + 1\<rparr>"
    by (auto simp: introduce_gap_def outcome_simps dest!: plus_u64_OkD)
  have "total_length (take (unat (at + 1)) (m_entries m)) + total_length (drop (unat (at + 1)) (m_entries m))
      = total_length (m_entries m)"
    by (metis append_take_drop_id total_length_simps(3))
  then have "total_length (m_entries m') = unat (m_total_size m)"
    using m' push_forward_lengths [OF moved] assms(1) by (simp add: manifest_ok_def)
  moreover have "unat (m_total_size m + 1) \<noteq> unat (m_total_size m)"
    by (simp add: word_unat_eq_iff [symmetric])
  ultimately show ?thesis using m' by simp
qed

lemma overlap_rejected:
  assumes ok: "manifest_ok m" and o: "introduce_overlap p m at = Ok m'"
    and at: "Suc (unat at) < length (m_entries m)"
    and "length (m_entries m) < 2 ^ 64"
  shows "\<not> tiles 0 (m_entries m')"
proof
  let ?es = "m_entries m" and ?n = "Suc (unat at)"
  let ?e = "?es ! ?n"
  assume t: "tiles 0 (m_entries m')"
  have n: "unat (at + 1) = ?n" using at assms(4) by (simp add: unat_plus_u64)
  have es': "m_entries m' = ?es[?n := ?e\<lparr>e_logical_offset := saturating_sub (e_logical_offset ?e) 1\<rparr>]"
    using o at n by (auto simp: introduce_overlap_def outcome_simps plus_u64_def Let_def split: if_splits)
  have off: "unat (e_logical_offset ?e) = total_length (take ?n ?es)"
    using tiles_nth [of 0 ?es ?n] ok at by (simp add: manifest_ok_def)
  also have "\<dots> > 0"
    using total_length_take_less [of ?es 0 ?n] ok at by (simp add: manifest_ok_def)
  finally have pos: "0 < unat (e_logical_offset ?e)" .
  have "unat (saturating_sub (e_logical_offset ?e) 1) = unat (e_logical_offset ?e)"
    using tiles_nth [OF t, of ?n] es' at off by simp
  moreover have "1 \<le> e_logical_offset ?e" using pos by (simp add: word_le_nat_alt)
  ultimately show False
    using pos by (simp add: saturating_sub_def unat_minus_u64 split: if_splits)
qed

lemma dangle_rejected:
  assumes "unat at < length (m_entries m)" "dangling_id b3hex \<notin> c_chunk_id ` set (m_chunks m)"
  shows "\<exists>e\<in>set (m_entries (dangle_chunk_ref b3hex m at)). \<not> entry_in_chunk (dangle_chunk_ref b3hex m at) e"
proof -
  let ?m' = "dangle_chunk_ref b3hex m at"
  let ?e = "(m_entries m ! unat at)\<lparr>e_chunk_id := dangling_id b3hex\<rparr>"
  have "?e \<in> set (m_entries ?m')"
    using assms(1) by (simp add: dangle_chunk_ref_def Let_def set_update_memI)
  moreover have "m_chunks ?m' = m_chunks m" by (simp add: dangle_chunk_ref_def Let_def)
  then have "chunk_size ?m' (dangling_id b3hex) = None"
    using assms(2) by (simp add: chunk_size_None_iff)
  then have "\<not> entry_in_chunk ?m' ?e" by (simp add: entry_in_chunk_def)
  ultimately show ?thesis by blast
qed

lemma zero_rejected:
  assumes "insert_zero_length_entry p m = Ok m'" "m_entries m \<noteq> []"
  shows "\<exists>e\<in>set (m_entries m'). \<not> 0 < e_length e"
  using assms by (auto simp: insert_zero_length_entry_def outcome_simps Let_def)

lemma manifest_ok_length: "manifest_ok m \<Longrightarrow> length (m_entries m) < 2 ^ 64"
  using unat_lt_u64 [of "m_chunk_count m"] by (simp add: manifest_ok_def)

lemma corrupts_not_ok:
  assumes "manifest_ok m" "corrupts m m'"
  shows "\<not> manifest_ok m'"
  using assms(2,1)
proof cases
  case (corrupt_swap i j)
  then show ?thesis using swap_entries_rejected [OF assms(1)] by (auto simp: manifest_ok_def)
next
  case (corrupt_drop i)
  moreover have "m_total_size (drop_entry m i) = m_total_size m" by (simp add: drop_entry_def)
  ultimately show ?thesis using drop_entry_rejected [OF assms(1)] by (simp add: manifest_ok_def)
next
  case (corrupt_total delta)
  then show ?thesis using assms(1) by (auto simp: alter_total_size_def manifest_ok_def word_unat_eq_iff)
next
  case (corrupt_count delta)
  then show ?thesis using assms(1) by (auto simp: alter_chunk_count_def manifest_ok_def word_unat_eq_iff)
next
  case (corrupt_gap p at)
  then show ?thesis using gap_rejected [OF assms(1)] by (auto simp: manifest_ok_def)
next
  case (corrupt_overlap p at)
  then show ?thesis
    using overlap_rejected [OF assms(1)] manifest_ok_length [OF assms(1)] by (auto simp: manifest_ok_def)
next
  case (corrupt_dangle at b3hex)
  then show ?thesis using dangle_rejected by (auto simp: manifest_ok_def)
next
  case (corrupt_zero p)
  then show ?thesis using zero_rejected by (auto simp: manifest_ok_def)
qed

lemma flip_twice: "flip_byte (flip_byte data at) at = data"
  by (simp add: flip_byte_def xor.assoc)

text \<open>On a manifest of moderate size none of the primitives overflows, and none renames the manifest.\<close>

lemma tiles_end:
  "tiles k es \<Longrightarrow> e \<in> set es \<Longrightarrow> unat (e_logical_offset e) + unat (e_length e) \<le> k + total_length es"
  by (induction k es rule: tiles.induct) auto

lemma push_forward_total:
  "\<forall>e\<in>set es. unat (e_logical_offset e) < 2 ^ 63 \<Longrightarrow> \<exists>es'. push_forward p es = Ok es'"
  by (induction es) (auto simp: plus_u64_exact)

lemma introduce_gap_total:
  assumes "manifest_ok m" "unat (m_total_size m) < 2 ^ 63"
  shows "\<exists>m'. introduce_gap p m 0 = Ok m'"
proof -
  have "unat (e_logical_offset e) < 2 ^ 63" if "e \<in> set (m_entries m)" for e
    using tiles_end [of 0 "m_entries m" e] that assms by (simp add: manifest_ok_def)
  then have "\<forall>e\<in>set (drop 1 (m_entries m)). unat (e_logical_offset e) < 2 ^ 63" by (auto dest!: in_set_dropD)
  then obtain es' where "push_forward p (drop 1 (m_entries m)) = Ok es'" using push_forward_total by blast
  then show ?thesis using assms(2) by (auto simp: introduce_gap_def plus_u64_exact)
qed

lemma corrupted_id:
  "introduce_gap p m at = Ok m' \<Longrightarrow> m_manifest_id m' = m_manifest_id m"
  "introduce_overlap p m at = Ok m' \<Longrightarrow> m_manifest_id m' = m_manifest_id m"
  "swap_entries m i j = Ok m' \<Longrightarrow> m_manifest_id m' = m_manifest_id m"
  "m_manifest_id (alter_total_size m d) = m_manifest_id m" "m_manifest_id (alter_chunk_count m d) = m_manifest_id m"
  by (auto simp: introduce_gap_def introduce_overlap_def swap_entries_def alter_total_size_def alter_chunk_count_def
      Let_def outcome_simps split: if_splits)

end
