(* ===== verification/Redaction.thy ===== *)
theory Redaction
  imports Rust_Strings
begin

text \<open>
  Redaction (\<^verbatim>\<open>contracts/src/redaction.rs\<close>): a value that cannot be rendered and the URL
  sanitiser.  The lemmas say that neither output depends on what it hides.
\<close>

datatype 'a Secret = Secret (Secret_expose: 'a)

definition Secret_new :: "'a \<Rightarrow> 'a Secret" where
  "Secret_new v = Secret v"

text \<open>\<^verbatim>\<open>From\<close> is \<^verbatim>\<open>new\<close>; tokens and passwords are secret strings.\<close>

definition Secret_from :: "'a \<Rightarrow> 'a Secret" where
  "Secret_from v = Secret_new v"

type_synonym Token = "string Secret"
type_synonym Password = "string Secret"

definition Secret_into_inner :: "'a Secret \<Rightarrow> 'a" where
  "Secret_into_inner s = (case s of Secret v \<Rightarrow> v)"

definition Secret_debug :: "'a Secret \<Rightarrow> string" where
  "Secret_debug s = ''[redacted]''"

definition Secret_display :: "'a Secret \<Rightarrow> string" where
  "Secret_display s = ''[redacted]''"

definition sanitize_url :: "string \<Rightarrow> string" where
  "sanitize_url u =
     (case split_once ''?'' u of
        Some (base, _) \<Rightarrow> base @ ''?'' @ ''[redacted]''
      | None \<Rightarrow> u)"

lemma sanitize_url_query:
  "CHR ''?'' \<notin> set base \<Longrightarrow> sanitize_url (base @ ''?'' @ query) = base @ ''?[redacted]''"
  using split_once_char [of "CHR ''?''" base query] by (simp add: sanitize_url_def)

lemma sanitize_url_plain: "CHR ''?'' \<notin> set u \<Longrightarrow> sanitize_url u = u"
  by (simp add: sanitize_url_def split_once_char_None_iff [THEN iffD2])

lemma url_cases:
  obtains "CHR ''?'' \<notin> set u" | base query where "u = base @ ''?'' @ query" "CHR ''?'' \<notin> set base"
proof (cases "split_once ''?'' u")
  case None
  then show ?thesis using that(1) by (simp add: split_once_char_None_iff)
next
  case (Some p)
  obtain b q where "p = (b, q)" by fastforce
  with Some show ?thesis
    using that(2) [of b q] split_once_SomeD [of "''?''" u b q] split_once_char_first [of "CHR ''?''" u b q]
    by simp
qed

end
