(* ===== verification/Contract_Properties.thy ===== *)
theory Contract_Properties
  imports Validate Corruptor Redaction
begin

text \<open>
  The properties of the contract crate: the manifest validator, identities, content addresses, the
  error model and redaction, with the corruption primitives as the validator's adversary.  Each is
  stated over the definitions that model the code and is followed by an instance at concrete data
  where it has hypotheses.  \<open>sample_manifest\<close> is a five-byte file of two entries over one chunk.
\<close>

definition zero_hex :: "bytes \<Rightarrow> string" where
  "zero_hex bs = replicate 64 (CHR ''0'')"

definition sample_id :: ChunkId where
  "sample_id = ChunkId_from_bytes zero_hex []"

definition sample_manifest :: Manifest where
  "sample_manifest = \<lparr>m_manifest_id = UuidId 7, m_total_size = 5, m_chunk_count = 2,
     m_entries = [\<lparr>e_logical_offset = 0, e_length = 3, e_chunk_id = sample_id, e_chunk_offset = 1\<rparr>,
                  \<lparr>e_logical_offset = 3, e_length = 2, e_chunk_id = sample_id, e_chunk_offset = 0\<rparr>],
     m_chunks = [\<lparr>c_chunk_id = sample_id, c_size = 4\<rparr>]\<rparr>"

text \<open>UUIDs written in unary, enough to show that the text form can be inverted.\<close>

definition unary_show :: "Uuid \<Rightarrow> string" where
  "unary_show u = replicate (unat u) (CHR ''a'')"

definition unary_parse :: "string \<Rightarrow> Uuid option" where
  "unary_parse s = Some (of_nat (length s))"

lemma unary_uuid_text: "uuid_text unary_parse unary_show"
  by (simp add: uuid_text_def unary_parse_def unary_show_def)

lemma zero_hex_digest: "hex_digest zero_hex"
  by (simp add: hex_digest_def zero_hex_def is_lower_hex_def list_all_iff)

lemma sample_manifest_ok: "manifest_ok sample_manifest"
proof -
  have "chunk_size sample_manifest sample_id = Some 4"
    by (simp add: chunk_size_def sample_manifest_def)
  moreover have "wf_chunk_id sample_id"
    using zero_hex_digest by (simp add: sample_id_def wf_from_bytes)
  ultimately show ?thesis
    by (simp add: manifest_ok_def entry_in_chunk_def) (simp add: sample_manifest_def)
qed

section \<open>Manifests\<close>

text \<open>Entry \<open>i\<close> of a list holds byte \<open>k\<close> of the file.\<close>

definition holds_byte :: "ManifestEntry list \<Rightarrow> nat \<Rightarrow> nat \<Rightarrow> bool" where
  "holds_byte es k i \<longleftrightarrow> i < length es \<and> unat (e_logical_offset (es ! i)) \<le> k \<and>
     k < unat (e_logical_offset (es ! i)) + unat (e_length (es ! i))"

lemma tiles_cover:
  "tiles b es \<Longrightarrow> b \<le> k \<Longrightarrow> k < b + total_length es \<Longrightarrow> \<exists>!i. holds_byte es k i"
proof (induction es arbitrary: b)
  case Nil
  then show ?case by simp
next
  case (Cons e es)
  have above: "b + unat (e_length e) \<le> unat (e_logical_offset (es ! i))" if "i < length es" for i
    using Cons.prems(1) that tiles_nth [of "b + unat (e_length e)" es i] by simp
  have Suc: "holds_byte (e # es) k (Suc i) = holds_byte es k i" for i
    by (simp add: holds_byte_def)
  have zero: "holds_byte (e # es) k 0 \<longleftrightarrow> k < b + unat (e_length e)"
    using Cons.prems by (simp add: holds_byte_def)
  show ?case
  proof (cases "k < b + unat (e_length e)")
    case True
    then have "\<not> holds_byte es k i" for i using above [of i] by (auto simp: holds_byte_def)
    with True zero Suc show ?thesis by (metis not0_implies_Suc)
  next
    case False
    then have "\<exists>!i. holds_byte es k i"
      using Cons.IH [of "b + unat (e_length e)"] Cons.prems by simp
    with False zero Suc show ?thesis by (metis not0_implies_Suc)
  qed
qed

text \<open>C5: The manifest validator decides, for every manifest whatever its 64-bit fields hold, whether
  the entries tile the file inside their chunks: it accepts exactly those, rejects every other one
  with \<^verbatim>\<open>INTEGRITY_MANIFEST_INVALID\<close>, and never panics.\<close>

theorem validate_manifest_decides:
  "(case validate_manifest m of
      Ok _ \<Rightarrow> manifest_ok m
    | Err e \<Rightarrow> \<not> manifest_ok m \<and> se_code e = IntegrityManifestInvalid
    | Panic \<Rightarrow> False)"
  using manifest_ok_validates [of m] validate_manifest_fails_with [of m]
  by (cases "validate_manifest m") auto

text \<open>C8: In an accepted manifest every byte of the file comes from exactly one entry, and that entry
  reads it from inside the chunk it names.\<close>

theorem every_byte_has_one_source:
  assumes "validate_manifest m = Ok ()" and "k < unat (m_total_size m)"
  shows "(\<exists>!i. holds_byte (m_entries m) k i) \<and>
    (\<forall>i. holds_byte (m_entries m) k i \<longrightarrow>
      (\<exists>n. chunk_size m (e_chunk_id (m_entries m ! i)) = Some n \<and>
        unat (e_chunk_offset (m_entries m ! i)) + (k - unat (e_logical_offset (m_entries m ! i))) < unat n))"
proof
  have ok: "manifest_ok m" using assms(1) by (simp add: manifest_ok_validates)
  then show "\<exists>!i. holds_byte (m_entries m) k i"
    using assms(2) tiles_cover [of 0 "m_entries m" k] by (simp add: manifest_ok_def)
  show "\<forall>i. holds_byte (m_entries m) k i \<longrightarrow>
      (\<exists>n. chunk_size m (e_chunk_id (m_entries m ! i)) = Some n \<and>
        unat (e_chunk_offset (m_entries m ! i)) + (k - unat (e_logical_offset (m_entries m ! i))) < unat n)"
    using ok by (fastforce simp: holds_byte_def manifest_ok_def entry_in_chunk_def)
qed

theorem every_byte_has_one_source_witness:
  "\<exists>!i. holds_byte (m_entries sample_manifest) 4 i"
proof -
  have "validate_manifest sample_manifest = Ok ()"
    using sample_manifest_ok by (simp add: manifest_ok_validates)
  moreover have "(4 :: nat) < unat (m_total_size sample_manifest)" by (simp add: sample_manifest_def)
  ultimately show ?thesis using every_byte_has_one_source [of sample_manifest 4] by blast
qed

text \<open>C28: Whatever corruption primitive is applied to a valid manifest, where it has an effect the
  validator rejects the result with \<^verbatim>\<open>INTEGRITY_MANIFEST_INVALID\<close>.\<close>

theorem corruption_rejected:
  assumes "validate_manifest m = Ok ()" and "corrupts m m'"
  shows "\<exists>e. validate_manifest m' = Err e \<and> se_code e = IntegrityManifestInvalid"
proof -
  have "\<not> manifest_ok m'"
    using assms corrupts_not_ok [of m m'] by (simp add: manifest_ok_validates)
  then show ?thesis by (rule not_ok_rejected) blast
qed

theorem corruption_rejected_witness:
  "\<exists>e. validate_manifest (drop_entry sample_manifest 1) = Err e \<and> se_code e = IntegrityManifestInvalid"
proof (rule corruption_rejected)
  show "validate_manifest sample_manifest = Ok ()"
    using sample_manifest_ok by (simp add: manifest_ok_validates)
  show "corrupts sample_manifest (drop_entry sample_manifest 1)"
    by (rule corrupt_drop) (simp add: sample_manifest_def)
qed

section \<open>Identities and content addresses\<close>

text \<open>Every kind of identity parses back from its printed form, and an identity of one kind is
  never accepted where another is expected: the parser looks at the prefix before the UUID.\<close>

theorem id_round_trip:
  assumes "uuid_text uuid_parse uuid_show"
  shows "FileId_parse uuid_parse (FileId_show uuid_show f) = Ok f \<and>
    DirectoryId_parse uuid_parse (DirectoryId_show uuid_show d) = Ok d \<and>
    VersionId_parse uuid_parse (VersionId_show uuid_show v) = Ok v \<and>
    ManifestId_parse uuid_parse (ManifestId_show uuid_show m) = Ok m \<and>
    RequestId_parse uuid_parse (RequestId_show uuid_show r) = Ok r \<and>
    OperationId_parse uuid_parse (OperationId_show uuid_show o') = Ok o' \<and>
    is_err (FileId_parse uuid_parse (VersionId_show uuid_show v)) \<and>
    is_err (FileId_parse uuid_parse (DirectoryId_show uuid_show d)) \<and>
    is_err (DirectoryId_parse uuid_parse (FileId_show uuid_show f)) \<and>
    is_err (VersionId_parse uuid_parse (ManifestId_show uuid_show m)) \<and>
    is_err (ManifestId_parse uuid_parse (VersionId_show uuid_show v)) \<and>
    is_err (RequestId_parse uuid_parse (OperationId_show uuid_show o')) \<and>
    is_err (OperationId_parse uuid_parse (RequestId_show uuid_show r))"
  using assms by (simp add: id_parse_defs id_show_defs parse_show_uuid_id parse_uuid_id_other_prefix)

theorem id_round_trip_witness:
  "VersionId_parse unary_parse (VersionId_show unary_show (UuidId 3)) = Ok (UuidId 3)"
  using id_round_trip [OF unary_uuid_text, of undefined undefined "UuidId 3"] by simp

text \<open>A computed content address is accepted by the parser, verifies the bytes it was computed
  from, and verifies other bytes exactly when the digests coincide.\<close>

theorem content_address_sound:
  assumes "hex_digest b3hex"
  shows "ChunkId_parse (as_str (ChunkId_from_bytes b3hex bs)) = Ok (ChunkId_from_bytes b3hex bs) \<and>
    ChunkId_verify b3hex (ChunkId_from_bytes b3hex bs) bs \<and>
    (ChunkId_verify b3hex (ChunkId_from_bytes b3hex bs) bs' \<longleftrightarrow> b3hex bs' = b3hex bs)"
  using assms parse_from_bytes [of b3hex bs]
  by (auto simp: ChunkId_verify_def ChunkId_from_bytes_def)

theorem content_address_sound_witness:
  "ChunkId_parse (as_str (ChunkId_from_bytes zero_hex [1, 2])) = Ok (ChunkId_from_bytes zero_hex [1, 2])"
  using content_address_sound [OF zero_hex_digest, of "[1, 2]"] by simp

section \<open>Errors\<close>

text \<open>The error model is complete and coherent: the code list holds each of the 26 codes once, wire
  names are distinct, exactly the startup-only codes have no \<^verbatim>\<open>NTSTATUS\<close>, and every retryable code
  has one.\<close>

theorem error_model_coherent:
  "distinct ALL_CODES \<and> set ALL_CODES = UNIV \<and> length ALL_CODES = 26 \<and> inj wire_code \<and>
   {c. code_ntstatus c = None} = {c. is_startup_only c} \<and>
   {c. code_retryable c} \<subseteq> {c. code_ntstatus c \<noteq> None}"
proof -
  have "distinct (map wire_code ALL_CODES)" by (simp add: ALL_CODES_def)
  then have "inj wire_code" using all_codes_UNIV by (simp add: distinct_map)
  moreover have "code_ntstatus c = None \<longleftrightarrow> is_startup_only c" for c
    by (cases c) (simp_all add: is_startup_only_def)
  moreover have "distinct ALL_CODES" "length ALL_CODES = 26" by (simp_all add: ALL_CODES_def)
  ultimately show ?thesis
    using all_codes_UNIV by (auto simp: code_retryable_def is_startup_only_def)
qed

text \<open>The root cause of an error is the end of its chain of sources: it has none itself, wrapping an
  error does not change it, and its message is part of the rendered text.\<close>

theorem root_cause_spec:
  "se_source (root_cause e) = None \<and> root_cause (caused_by outer e) = root_cause e \<and>
   sublist (se_message (root_cause e)) (show_error e)"
  using root_cause_has_no_source root_cause_shown by (simp add: caused_by_def)

section \<open>Redaction\<close>

text \<open>Redaction does not leak: two secrets render the same, and two URLs that agree up to their first
  question mark are the same after sanitising, whatever their queries hold.\<close>

theorem redaction_hides:
  assumes "CHR ''?'' \<notin> set base"
  shows "Secret_debug s = Secret_debug t \<and> Secret_display s = Secret_display t \<and>
    sanitize_url (base @ ''?'' @ q1) = sanitize_url (base @ ''?'' @ q2) \<and>
    sanitize_url base = base \<and>
    sanitize_url (sanitize_url (base @ ''?'' @ q1)) = sanitize_url (base @ ''?'' @ q1)"
  using sanitize_url_query [OF assms, of q1] sanitize_url_query [OF assms, of q2]
    sanitize_url_query [OF assms, of "''[redacted]''"] sanitize_url_plain [OF assms]
  by (simp add: Secret_debug_def Secret_display_def)

theorem redaction_hides_witness:
  "sanitize_url (''http://h/c'' @ ''?'' @ ''sig=1'') = sanitize_url (''http://h/c'' @ ''?'' @ ''sig=2'')"
proof -
  have "CHR ''?'' \<notin> set ''http://h/c''" by simp
  from redaction_hides [OF this, of "Secret (0 :: nat)" "Secret 1" "''sig=1''" "''sig=2''"]
  show ?thesis by blast
qed

end
