(* ===== verification/Samples.thy ===== *)
theory Samples
  imports Contract_Properties Rpc
begin

text \<open>
  Concrete states for the instances of the properties.  \<open>sample_store\<close> is a metadata store with one
  file, the sample manifest and one committed version; \<open>sample_app\<close> adds the chunk body; both are
  shown to be reached by calls of the code's operations.  \<open>sample_client\<close> and \<open>sample_envs\<close> are a
  client and the environments of a server that agree on the toy digest and the unary UUIDs.
\<close>

section \<open>Sample states\<close>

definition sample_version :: Version where
  "sample_version = candidate 20 (UuidId 1) (UuidId 9) None (UuidId 7)"

definition sample_store1 :: Inner where
  "sample_store1 = add_file store_new ''key'' (new_file (UuidId 1) 10 (UuidId 2) ''a.txt'')"

definition sample_store2 :: Inner where
  "sample_store2 = add_manifest (add_chunk sample_store1 \<lparr>c_chunk_id = sample_id, c_size = 4\<rparr>) sample_manifest"

definition sample_candidate_store :: Inner where
  "sample_candidate_store = add_version sample_store2 sample_version"

definition sample_store :: Inner where
  "sample_store = publish_version 30 sample_candidate_store (UuidId 9) sample_version"

lemma sample_store1_inv: "store_inv sample_store1"
  unfolding sample_store1_def
  by (rule store_inv_add_file [OF store_inv_new]) (simp_all add: store_new_def illegal_name_def)

lemma sample_wf: "wf_chunk_id sample_id"
  using zero_hex_digest by (simp add: sample_id_def wf_from_bytes)

lemma sample_store2_inv: "store_inv sample_store2"
proof -
  have "s_chunks sample_store1 sample_id = None"
    by (simp add: sample_store1_def add_file_def store_new_def)
  then have "store_inv (add_chunk sample_store1 \<lparr>c_chunk_id = sample_id, c_size = 4\<rparr>)"
    by (intro store_inv_add_chunk sample_store1_inv sample_wf)
  then show ?thesis
    unfolding sample_store2_def
    by (rule store_inv_add_manifest [OF _ sample_manifest_ok])
       (simp add: chunks_registered_def sample_manifest_def add_chunk_def)
qed

lemma sample_lookups:
  "s_files sample_store2 (UuidId 1) = Some (new_file (UuidId 1) 10 (UuidId 2) ''a.txt'')"
  "s_manifests sample_store2 (UuidId 7) = Some sample_manifest"
  "s_versions sample_store2 i = None"
  by (simp_all add: sample_store2_def sample_store1_def add_file_def new_file_def add_chunk_def
      add_manifest_def sample_manifest_def store_new_def)

lemma sample_candidate_store_inv: "store_inv sample_candidate_store"
  unfolding sample_candidate_store_def sample_version_def
  by (rule store_inv_add_version [OF sample_store2_inv]) (simp_all add: sample_lookups parent_ok_def)

lemma sample_candidate_lookup:
  "s_versions sample_candidate_store (UuidId 9) = Some sample_version"
  "v_state sample_version = Candidate" "v_manifest_id sample_version = UuidId 7"
  "s_manifests sample_candidate_store (UuidId 7) = Some sample_manifest"
  using sample_lookups
  by (simp_all add: sample_candidate_store_def add_version_def sample_version_def candidate_def)

lemma sample_store_inv: "store_inv sample_store"
  unfolding sample_store_def
  by (rule store_inv_publish [OF sample_candidate_store_inv sample_candidate_lookup(1)])

lemma sample_commit:
  "snd (commit_version 30 sample_candidate_store (UuidId 9)) = sample_store"
  using sample_candidate_lookup sample_manifest_ok
  by (simp add: commit_version_publishes sample_store_def)

text \<open>The sample states are reached by calls of the store's methods.\<close>

lemma sample_reached: "meta_step\<^sup>*\<^sup>* store_new sample_candidate_store"
proof -
  have 1: "meta_step store_new sample_store1"
  proof -
    have "snd (create_file (UuidId 1) 10 store_new (UuidId 2) ''a.txt'' ''key'') = sample_store1"
      by (simp add: sample_store1_def create_file_fresh illegal_name_def store_new_def)
    then show ?thesis
      using step_create_file [of store_new "UuidId 1" 10 "UuidId 2" "''a.txt''" "''key''"]
      by (simp add: store_new_def)
  qed
  let ?s = "add_chunk sample_store1 \<lparr>c_chunk_id = sample_id, c_size = 4\<rparr>"
  have 2: "meta_step sample_store1 ?s"
  proof -
    have "s_chunks sample_store1 sample_id = None"
      by (simp add: sample_store1_def add_file_def store_new_def)
    then have "snd (register_chunk sample_store1 sample_id 4) = ?s"
      using sample_wf by (simp add: register_chunk_def ChunkId_parse_as_str [THEN iffD2] add_chunk_def Let_def)
    then show ?thesis using step_register_chunk [of sample_store1 sample_id 4] by simp
  qed
  have 3: "meta_step ?s sample_store2"
  proof -
    have "chunks_registered ?s sample_manifest"
      by (simp add: chunks_registered_def sample_manifest_def add_chunk_def)
    moreover have "s_manifests ?s (m_manifest_id sample_manifest) = None"
      by (simp add: sample_store1_def add_file_def store_new_def add_chunk_def)
    ultimately have "snd (put_manifest ?s sample_manifest) = sample_store2"
      using sample_manifest_ok by (simp add: put_manifest_Ok sample_store2_def)
    then show ?thesis using step_put_manifest [of ?s sample_manifest] by simp
  qed
  have 4: "meta_step sample_store2 sample_candidate_store"
  proof -
    have "snd (create_version 20 sample_store2 (UuidId 1) (UuidId 9) None (UuidId 7)) = sample_candidate_store"
      using sample_lookups
      by (simp add: create_version_new parent_ok_def sample_candidate_store_def sample_version_def)
    then show ?thesis
      using step_create_version [of sample_store2 20 "UuidId 1" "UuidId 9" None "UuidId 7"] by simp
  qed
  from 1 2 3 4 show ?thesis by (meson r_into_rtranclp rtranclp.rtrancl_into_rtrancl)
qed

lemma sample_store_reached: "meta_step\<^sup>*\<^sup>* store_new sample_store"
  using sample_reached step_commit_version [of sample_candidate_store 30 "UuidId 9"]
  by (auto simp: sample_commit intro: rtranclp.rtrancl_into_rtrancl)

section \<open>A sample server\<close>

definition sample_bytes :: bytes where
  "sample_bytes = [10, 20, 30, 40]"

definition sample_app :: AppState where
  "sample_app = \<lparr>st_meta = sample_store, st_blobs = [sample_id \<mapsto> sample_bytes]\<rparr>"

definition app_with :: "Inner \<Rightarrow> AppState" where
  "app_with g = \<lparr>st_meta = g, st_blobs = [sample_id \<mapsto> sample_bytes]\<rparr>"

lemma app_with_sel [simp]:
  "st_meta (app_with g) = g" "st_blobs (app_with g) sample_id = Some sample_bytes"
  "(app_with g)\<lparr>st_meta := g'\<rparr> = app_with g'"
  by (simp_all add: app_with_def)

lemma sample_verify: "ChunkId_verify zero_hex sample_id bs"
  by (simp add: ChunkId_verify_def sample_id_def ChunkId_from_bytes_def zero_hex_def)

lemma sample_fits: "fits_memory sample_bytes"
  by (simp add: fits_memory_def sample_bytes_def)

lemma unary_ids:
  "FileId_parse unary_parse (FileId_show unary_show f) = Ok f"
  "VersionId_parse unary_parse (VersionId_show unary_show v) = Ok v"
  "ManifestId_parse unary_parse (ManifestId_show unary_show m) = Ok m"
  by (simp_all add: id_parse_defs id_show_defs parse_show_uuid_id unary_uuid_text)

lemma sample_app_reached: "(server_step zero_hex)\<^sup>*\<^sup>* AppState_default sample_app"
proof -
  let ?c = "\<lparr>c_chunk_id = sample_id, c_size = 4\<rparr>"
  have 1: "server_step zero_hex AppState_default (app_with store_new)"
  proof -
    have "snd (fake_put zero_hex fake_new sample_id sample_bytes) = [sample_id \<mapsto> sample_bytes]"
      by (simp add: fake_put_def sample_verify fake_new_def)
    then show ?thesis
      using srv_put_blob [OF sample_fits, of zero_hex AppState_default sample_id]
      by (simp add: AppState_default_def app_with_def)
  qed
  have 2: "server_step zero_hex (app_with store_new) (app_with sample_store1)"
  proof -
    let ?r = "\<lparr>cfr_parent_id = UuidId 2, cfr_name = ''a.txt'', cfr_idempotency_key = ''key''\<rparr>"
    have "snd (h_create_file (UuidId 1) 10 (app_with store_new) ?r) = app_with sample_store1"
      by (simp add: h_create_file_def create_file_fresh illegal_name_def sample_store1_def)
         (simp add: create_file_fresh illegal_name_def store_new_def)
    then show ?thesis
      using srv_create_file [of "app_with store_new" "UuidId 1" zero_hex 10 ?r] by (simp add: store_new_def)
  qed
  have 3: "server_step zero_hex (app_with sample_store1) (app_with (add_chunk sample_store1 ?c))"
  proof -
    have "s_chunks sample_store1 sample_id = None"
      by (simp add: sample_store1_def add_file_def store_new_def)
    moreover have "len_u64 sample_bytes = 4" by (simp add: len_u64_def sample_bytes_def)
    ultimately have "snd (register_chunk sample_store1 sample_id (len_u64 sample_bytes)) = add_chunk sample_store1 ?c"
      using sample_wf by (simp add: register_chunk_def ChunkId_parse_as_str [THEN iffD2] add_chunk_def Let_def)
    then show ?thesis
      using srv_register [of "app_with sample_store1" sample_id sample_bytes zero_hex] by simp
  qed
  have 4: "server_step zero_hex (app_with (add_chunk sample_store1 ?c)) (app_with sample_store2)"
  proof -
    let ?s = "add_chunk sample_store1 ?c"
    have "chunks_registered ?s sample_manifest"
      by (simp add: chunks_registered_def sample_manifest_def add_chunk_def)
    moreover have "s_manifests ?s (m_manifest_id sample_manifest) = None"
      by (simp add: sample_store1_def add_file_def store_new_def add_chunk_def)
    ultimately have "put_manifest ?s sample_manifest = (Ok sample_manifest, sample_store2)"
      using sample_manifest_ok by (simp add: put_manifest_Ok sample_store2_def)
    moreover have "m_manifest_id sample_manifest = UuidId 7" by (simp add: sample_manifest_def)
    ultimately have "snd (h_put_manifest unary_parse (app_with ?s) (ManifestId_show unary_show (UuidId 7))
        \<lparr>pmr_manifest = sample_manifest\<rparr>) = app_with sample_store2"
      by (simp add: h_put_manifest_def unary_ids)
    then show ?thesis by (metis srv_put_manifest)
  qed
  have 5: "server_step zero_hex (app_with sample_store2) (app_with sample_candidate_store)"
  proof -
    have "create_version 20 sample_store2 (UuidId 1) (UuidId 9) None (UuidId 7)
        = (Ok sample_version, sample_candidate_store)"
      using sample_lookups
      by (simp add: create_version_new parent_ok_def sample_candidate_store_def sample_version_def)
    then have "snd (h_create_version unary_parse 20 (app_with sample_store2) (FileId_show unary_show (UuidId 1))
        \<lparr>cvr_version_id = UuidId 9, cvr_parent_version_id = None, cvr_manifest_id = UuidId 7\<rparr>)
        = app_with sample_candidate_store"
      by (simp add: h_create_version_def unary_ids)
    then show ?thesis by (metis srv_create_version)
  qed
  have 6: "server_step zero_hex (app_with sample_candidate_store) sample_app"
  proof -
    have "snd (h_commit_version unary_parse 30 (app_with sample_candidate_store)
        (VersionId_show unary_show (UuidId 9))) = sample_app"
      using sample_commit
      by (simp add: h_commit_version_def unary_ids split_beta Let_def) (simp add: sample_app_def app_with_def)
    then show ?thesis by (metis srv_commit_version)
  qed
  from 1 2 3 4 5 6 show ?thesis by (meson r_into_rtranclp rtranclp.rtrancl_into_rtrancl)
qed

lemma sample_app_inv: "app_inv zero_hex sample_app"
  by (rule server.reachable_inv [OF sample_app_reached])

definition sample_envs :: "nat \<Rightarrow> Env" where
  "sample_envs n = \<lparr>env_uuid_parse = unary_parse, env_uuid_show = unary_show, env_b3hex = zero_hex,
     env_header_value_ok = (\<lambda>s. True), env_fresh_file = UuidId (of_nat n + 100),
     env_fresh_request = UuidId (of_nat n), env_now = int n, env_order = [UuidId 1],
     env_profile = Release, env_body_limit = 2097152, env_json_text = (\<lambda>b. []),
     env_json_rejection = (422, ''bad json''), env_path_rejection = ''bad path''\<rparr>"

definition sample_client :: ClientEnv where
  "sample_client = \<lparr>ce_uuid_show = unary_show, ce_b3hex = zero_hex, ce_request_id = UuidId 5,
     ce_serde_text = ''expected value'', ce_status_text = show_nat, ce_body_text = (\<lambda>b. []),
     ce_profile = Debug\<rparr>"

lemma sample_world: "same_world sample_client sample_envs"
  by (simp add: same_world_def sample_client_def sample_envs_def unary_uuid_text)

lemma sample_plain: "plain_uuids (ce_uuid_show sample_client)"
  by (simp add: plain_uuids_def sample_client_def unary_show_def)

lemma sample_visible:
  "visible sample_store (UuidId 9) = Some (sample_version\<lparr>v_state := Committed\<rparr>)"
  by (simp add: visible_def sample_store_def publish_version_def)

lemma sample_manifest_stored: "s_manifests sample_store (UuidId 7) = Some sample_manifest"
  using sample_candidate_lookup(4) by (simp add: sample_store_def publish_version_def)

lemma sample_small: "small_entries sample_manifest"
  by (simp add: small_entries_def sample_manifest_def)

end
