(* ===== verification/Store_Properties.thy ===== *)
theory Store_Properties
  imports Retry Samples
begin

text \<open>
  The properties of the two stores.  The object store: what is put is read back and never replaced,
  ranges are exact, damage is detected.  The metadata store: in every state that some sequence of
  calls reaches the domain invariants hold, committing publishes a version once and for all, failed
  calls change nothing and repeated calls are harmless.
\<close>

section \<open>Object store\<close>

text \<open>C11: An upload that succeeds stores exactly the bytes, so that reading them back gives them, every
  object stored before is still there unchanged, and an upload that fails changes nothing.\<close>

theorem put_get_round_trip:
  assumes "fake_inv g" and "fits_memory bs"
  shows "(case fake_put b3hex g i bs of
      (Ok _, g') \<Rightarrow> fake_get b3hex g' i = Ok bs \<and> fake_head g' i = Ok (len_u64 bs) \<and>
        (\<forall>j b. g j = Some b \<longrightarrow> g' j = Some b)
    | (Err e, g') \<Rightarrow> g' = g \<and> se_code e = IntegrityChunkIdConflict
    | (Panic, _) \<Rightarrow> False)"
proof (cases "fst (fake_put b3hex g i bs) = Ok ()")
  case True
  have "fake_get b3hex (snd (fake_put b3hex g i bs)) i = Ok bs"
    using assms True by (rule fake.put_then_get)
  moreover have "\<forall>j b. g j = Some b \<longrightarrow> snd (fake_put b3hex g i bs) j = Some b"
    using fake.put_keeps_objects [OF assms(1)] by blast
  moreover have "snd (fake_put b3hex g i bs) i = Some bs"
    using True fake_put_cases [of b3hex g i bs] by auto
  then have "fake_head (snd (fake_put b3hex g i bs)) i = Ok (len_u64 bs)" by (simp add: fake_head_def)
  ultimately show ?thesis using True by (cases "fake_put b3hex g i bs") auto
next
  case False
  then show ?thesis using fake_put_cases [of b3hex g i bs] by (cases "fake_put b3hex g i bs") auto
qed

theorem put_get_round_trip_witness:
  "fake_get zero_hex (snd (fake_put zero_hex fake_new sample_id sample_bytes)) sample_id = Ok sample_bytes"
proof -
  have "fake_inv fake_new" by (simp add: fake_inv_def fake_new_def)
  moreover have "fake_put zero_hex fake_new sample_id sample_bytes = (Ok (), [sample_id \<mapsto> sample_bytes])"
    by (simp add: fake_put_def sample_verify fake_new_def)
  ultimately show ?thesis
    using put_get_round_trip [OF _ sample_fits, of fake_new zero_hex sample_id] by simp
qed

text \<open>C12: A range read returns exactly the bytes of the range, and the bytes of a whole object only when they
  match its address; or it returns an error that names what is wrong: missing object, overflow of the
  end, a range past the end (never a short read), or a whole object that does not match its address.\<close>

theorem range_read_exact:
  assumes "fake_inv g"
  shows "(case fake_get_range b3hex g i off len of
      Ok out \<Rightarrow> (\<exists>bs. g i = Some bs \<and> unat off + unat len \<le> length bs \<and>
        out = take (unat len) (drop (unat off) bs) \<and> length out = unat len \<and>
        (off = 0 \<and> unat len = length bs \<longrightarrow> ChunkId_verify b3hex i out))
    | Err e \<Rightarrow> g i = None \<and> se_code e = ChunkNotFound \<or>
        (\<exists>bs. g i = Some bs \<and>
          (2 ^ 64 \<le> unat off + unat len \<and> se_code e = InvalidParameter \<or>
           length bs < unat off + unat len \<and> unat off + unat len < 2 ^ 64 \<and> se_code e = IntegrityLengthMismatch \<or>
           off = 0 \<and> unat len = length bs \<and> \<not> ChunkId_verify b3hex i bs \<and> se_code e = IntegrityHashMismatch))
    | Panic \<Rightarrow> False)"
proof (cases "g i")
  case None
  then show ?thesis by (simp add: fake_range_missing)
next
  case (Some bs)
  then have fits: "fits_memory bs" using assms by (simp add: fake_inv_def)
  consider "2 ^ 64 \<le> unat off + unat len"
    | "unat off + unat len < 2 ^ 64" "length bs < unat off + unat len"
    | "unat off + unat len \<le> length bs" "off = 0 \<and> unat len = length bs \<and> \<not> ChunkId_verify b3hex i bs"
    | "unat off + unat len \<le> length bs" "\<not> (off = 0 \<and> unat len = length bs \<and> \<not> ChunkId_verify b3hex i bs)"
    by linarith
  then show ?thesis
  proof cases
    case 1
    then show ?thesis using 1 Some fake_range_overflow [of g i bs off len b3hex] by simp
  next
    case 2
    then show ?thesis using 2 Some fake_range_past_end [of bs g i off len b3hex] fits by simp
  next
    case 3
    then show ?thesis using Some fake_range_whole_corrupt [of bs g i b3hex len] fits by simp
  next
    case 4
    then have "fake_get_range b3hex g i off len = Ok (take (unat len) (drop (unat off) bs))"
      using fits Some by (intro fake_range_exact) auto
    with Some 4 show ?thesis by auto
  qed
qed

theorem range_read_exact_witness:
  "fake_get_range zero_hex [sample_id \<mapsto> sample_bytes] sample_id 1 2 = Ok [20, 30] \<and>
   length [20, 30 :: u8] = unat (2 :: u32)"
proof -
  have "fake_inv [sample_id \<mapsto> sample_bytes]" using sample_fits by (simp add: fake_inv_def)
  note r = range_read_exact [OF this, where b3hex = zero_hex and i = sample_id and off = 1 and len = 2]
  have "fake_get_range zero_hex [sample_id \<mapsto> sample_bytes] sample_id 1 2 = Ok [20, 30]"
    using fake_range_exact [of sample_bytes "[sample_id \<mapsto> sample_bytes]" sample_id 1 2 zero_hex]
      sample_fits by (simp add: sample_bytes_def take_Cons' drop_Cons')
  with r show ?thesis by (simp add: sample_bytes_def)
qed

text \<open>C27: A flipped byte in a stored object is always noticed by a whole read, unless the damaged bytes
  happen to have the digest the address names; a truncated object is noticed the same way, and by
  every range read that reaches past the cut.\<close>

theorem damage_detected:
  assumes "fake_inv g" and "g i = Some v" and "unat at < length v"
  shows "(\<forall>out. fake_get b3hex (corrupt_for_test g i at) i = Ok out \<longrightarrow> out \<noteq> v \<and> ChunkId_verify b3hex i out) \<and>
    (\<forall>out. fake_get b3hex (truncate_for_test g i at) i = Ok out \<longrightarrow> out \<noteq> v \<and> ChunkId_verify b3hex i out) \<and>
    (\<forall>off n. unat at < unat off + unat n \<longrightarrow> is_err (fake_get_range b3hex (truncate_for_test g i at) i off n))"
proof (intro conjI allI impI)
  fix out assume ok: "fake_get b3hex (corrupt_for_test g i at) i = Ok out"
  have "corrupt_for_test g i at i = Some out"
    using fake.get_only_genuine [OF fake_inv_corrupt [OF assms(1)] ok] by simp
  then have "out = v[unat at := (v ! unat at) XOR 0xFF]"
    using corrupt_for_test_stored [of g i v at] assms(2,3) by simp
  then have "out ! unat at \<noteq> v ! unat at"
    using assms(3) flip_changes [of "v ! unat at"] by simp
  then show "out \<noteq> v" by blast
  show "ChunkId_verify b3hex i out"
    using fake.get_only_genuine [OF fake_inv_corrupt [OF assms(1)] ok] by simp
next
  fix out assume ok: "fake_get b3hex (truncate_for_test g i at) i = Ok out"
  have "truncate_for_test g i at i = Some out"
    using fake.get_only_genuine [OF fake_inv_truncate [OF assms(1)] ok] by simp
  then show "out \<noteq> v" using assms(2,3) by (auto simp: truncate_for_test_def)
  show "ChunkId_verify b3hex i out"
    using fake.get_only_genuine [OF fake_inv_truncate [OF assms(1)] ok] by simp
next
  fix off :: u64 and n :: u32
  assume past: "unat at < unat off + unat n"
  let ?g = "truncate_for_test g i at" and ?t = "take (unat at) v"
  have t: "?g i = Some ?t" "length ?t = unat at"
    using assms(2,3) by (simp_all add: truncate_for_test_def)
  have "fits_memory ?t" using fake_inv_truncate [OF assms(1), of i at] t(1) by (simp add: fake_inv_def)
  then show "is_err (fake_get_range b3hex ?g i off n)"
    using t past fake_range_overflow [of ?g i ?t off n b3hex] fake_range_past_end [of ?t ?g i off n b3hex]
    by (cases "2 ^ 64 \<le> unat off + unat n") simp_all
qed

theorem damage_detected_witness:
  "is_err (fake_get_range zero_hex (truncate_for_test [sample_id \<mapsto> sample_bytes] sample_id 2) sample_id 1 2)"
proof -
  let ?g = "[sample_id \<mapsto> sample_bytes]"
  have "fake_inv ?g" using sample_fits by (simp add: fake_inv_def)
  moreover have "?g sample_id = Some sample_bytes" "unat (2 :: usize) < length sample_bytes"
    by (simp_all add: sample_bytes_def)
  moreover have "unat (2 :: usize) < unat (1 :: u64) + unat (2 :: u32)" by simp
  ultimately show ?thesis using damage_detected by blast
qed

section \<open>Metadata store: invariants of reachable states\<close>

text \<open>C14: Invariants 11 and 12 of the domain model, which the store never checks, hold in every
  reachable state: the validators accept each file with its current version, and each version with
  its parent.\<close>

theorem cross_object_invariants:
  assumes "meta_step\<^sup>*\<^sup>* store_new g"
  shows "(\<forall>i f v. s_files g i = Some f \<longrightarrow> f_current_version_id f = Some v \<longrightarrow>
      (\<exists>w. s_versions g v = Some w \<and> validate_file_current_version f w = Ok ())) \<and>
    (\<forall>c child p. s_versions g c = Some child \<longrightarrow> v_parent_version_id child = Some p \<longrightarrow>
      (\<exists>parent. s_versions g p = Some parent \<and> validate_version_parent child parent = Ok ()))"
proof -
  have inv: "store_inv g" using assms by (rule meta.reachable_inv)
  have "validate_file_current_version f w = Ok ()"
    if "s_files g i = Some f" "f_current_version_id f = Some v" "s_versions g v = Some w"
      "v_state w = Committed" "v_file_id w = i" for i f v w
    using inv that
    by (auto simp: store_inv_def versions_inv_def files_inv_def validate_file_current_version_def)
  moreover have "validate_version_parent child parent = Ok ()"
    if "s_versions g c = Some child" "v_parent_version_id child = Some p" "s_versions g p = Some parent"
      "v_file_id parent = v_file_id child" for c child p parent
    using inv that by (auto simp: store_inv_def versions_inv_def validate_version_parent_def)
  moreover have "\<exists>w. s_versions g v = Some w \<and> v_state w = Committed \<and> v_file_id w = i"
    if "s_files g i = Some f" "f_current_version_id f = Some v" for i f v
    using inv that by (simp add: store_inv_def current_inv_def)
  moreover have "\<exists>parent. s_versions g p = Some parent \<and> v_file_id parent = v_file_id child"
    if "s_versions g c = Some child" "v_parent_version_id child = Some p" for c child p
    using inv that by (simp add: store_inv_def versions_inv_def parent_ok_def)
  ultimately show ?thesis by meson
qed

theorem cross_object_invariants_witness:
  "\<exists>w. s_versions sample_store (UuidId 9) = Some w \<and>
    validate_file_current_version (point_file_at 30 (UuidId 9) (new_file (UuidId 1) 10 (UuidId 2) ''a.txt'')) w = Ok ()"
proof -
  have "s_files sample_candidate_store (UuidId 1) = Some (new_file (UuidId 1) 10 (UuidId 2) ''a.txt'')"
    using sample_lookups(1) by (simp add: sample_candidate_store_def add_version_def)
  then have "s_files sample_store (UuidId 1)
      = Some (point_file_at 30 (UuidId 9) (new_file (UuidId 1) 10 (UuidId 2) ''a.txt''))"
    by (simp add: sample_store_def publish_version_def sample_version_def candidate_def)
  moreover have "f_current_version_id (point_file_at t v f) = Some v" for t v f
    by (simp add: point_file_at_def)
  ultimately show ?thesis using cross_object_invariants [OF sample_store_reached] by blast
qed

text \<open>C15: The history of every file is finite: in a reachable store no version is its own ancestor, and
  following parents from any version ends after finitely many steps.\<close>

theorem history_acyclic:
  assumes "meta_step\<^sup>*\<^sup>* store_new g"
  shows "acyclic (parent_rel g) \<and> wf ((parent_rel g)\<inverse>)"
proof -
  have inv: "finite (dom (s_versions g))" "acyclic (parent_rel g)" "versions_inv g"
    using meta.reachable_inv [OF assms] by (simp_all add: store_inv_def history_inv_def)
  have "parent_rel g \<subseteq> dom (s_versions g) \<times> dom (s_versions g)"
    using inv(3) by (auto simp: parent_rel_def versions_inv_def parent_ok_def) blast
  then have "finite (parent_rel g)"
    using inv(1) finite_subset finite_cartesian_product by blast
  then show ?thesis using inv(2) by (simp add: finite_acyclic_wf_converse)
qed

theorem history_acyclic_witness: "wf ((parent_rel sample_store)\<inverse>)"
  using history_acyclic [OF sample_store_reached] by simp

section \<open>Metadata store: operations\<close>

lemma candidate_commits:
  assumes "store_inv g" "s_versions g i = Some v" "v_state v = Candidate"
  shows "commit_version now g i = (Ok (v\<lparr>v_state := Committed\<rparr>), publish_version now g i v)"
proof -
  obtain m where "s_manifests g (v_manifest_id v) = Some m" "manifest_ok m"
    using assms(1,2) by (auto simp: store_inv_def versions_inv_def manifests_inv_def) blast
  then show ?thesis using assms(2,3) commit_version_publishes by blast
qed

text \<open>C13: Committing: on a consistent store, an unknown version is \<^verbatim>\<open>VERSION_NOT_FOUND\<close>, a candidate is
  committed and becomes its file's current version, and committing a version again returns it and
  changes nothing (so an old version does not become current again).\<close>

theorem commit_version_spec:
  assumes "store_inv g"
  shows "commit_version now g i =
    (case s_versions g i of
       None \<Rightarrow> (Err (not_found VersionNotFound ''version''), g)
     | Some v \<Rightarrow>
         if v_state v = Committed then (Ok v, g)
         else (Ok (v\<lparr>v_state := Committed\<rparr>), publish_version now g i v))"
proof (cases "s_versions g i")
  case None
  then show ?thesis by (simp add: commit_version_def)
next
  case (Some v)
  then show ?thesis
    using candidate_commits [OF assms Some] by (cases "v_state v") (simp_all add: commit_version_def)
qed

theorem commit_version_spec_witness:
  "commit_version 40 sample_candidate_store (UuidId 9) =
    (Ok (sample_version\<lparr>v_state := Committed\<rparr>), publish_version 40 sample_candidate_store (UuidId 9) sample_version)"
  using commit_version_spec [OF sample_candidate_store_inv, of 40 "UuidId 9"] sample_candidate_lookup
  by simp

text \<open>C21: A failed call of a store changes nothing, whatever the state: none of the five methods of the
  metadata store that write, and not the put of the object store.\<close>

theorem failed_calls_change_nothing:
  "(is_err (fst (create_file fresh now g d name key)) \<longrightarrow> snd (create_file fresh now g d name key) = g) \<and>
   (is_err (fst (register_chunk g c n)) \<longrightarrow> snd (register_chunk g c n) = g) \<and>
   (is_err (fst (put_manifest g m)) \<longrightarrow> snd (put_manifest g m) = g) \<and>
   (is_err (fst (create_version now g f v p mi)) \<longrightarrow> snd (create_version now g f v p mi) = g) \<and>
   (is_err (fst (commit_version now g v)) \<longrightarrow> snd (commit_version now g v) = g) \<and>
   (is_err (fst (fake_put b3hex blobs i bs)) \<longrightarrow> snd (fake_put b3hex blobs i bs) = blobs)"
proof (intro conjI impI)
  assume "is_err (fst (create_file fresh now g d name key))"
  then show "snd (create_file fresh now g d name key) = g"
    by (auto simp: create_file_def Let_def split: if_splits option.splits)
next
  assume "is_err (fst (register_chunk g c n))"
  then show "snd (register_chunk g c n) = g"
    by (auto simp: register_chunk_def Let_def split: if_splits option.splits outcome.splits)
next
  assume "is_err (fst (put_manifest g m))"
  then show "snd (put_manifest g m) = g" using put_manifest_effect [of g m] by auto
next
  assume "is_err (fst (create_version now g f v p mi))"
  then show "snd (create_version now g f v p mi) = g"
    by (auto simp: create_version_def Let_def split: if_splits option.splits outcome.splits)
next
  assume "is_err (fst (commit_version now g v))"
  then show "snd (commit_version now g v) = g"
    by (auto simp: commit_version_def Let_def split: if_splits option.splits outcome.splits)
next
  assume "is_err (fst (fake_put b3hex blobs i bs))"
  then show "snd (fake_put b3hex blobs i bs) = blobs" using fake_put_cases [of b3hex blobs i bs] by auto
qed

theorem failed_calls_change_nothing_witness:
  "snd (create_file (UuidId 3) 5 store_new (UuidId 2) ''a/b'' ''k'') = store_new"
proof -
  have "is_err (fst (create_file (UuidId 3) 5 store_new (UuidId 2) ''a/b'' ''k''))"
    by (simp add: create_file_def illegal_name_def)
  then show ?thesis using failed_calls_change_nothing by blast
qed

text \<open>C19: Retrying is safe: on a consistent store, repeating a call that succeeded gives the same answer
  and leaves the state as the first call made it, even if the clock has moved on and another fresh
  identity is offered.\<close>

theorem retry_is_idempotent:
  assumes "store_inv g"
  shows "(fst (create_file fresh now g d name key) = Ok file \<longrightarrow>
      create_file fresh' now' (snd (create_file fresh now g d name key)) d name key
        = (Ok file, snd (create_file fresh now g d name key))) \<and>
    (fst (register_chunk g c n) = Ok chunk \<longrightarrow>
      register_chunk (snd (register_chunk g c n)) c n = (Ok chunk, snd (register_chunk g c n))) \<and>
    (fst (put_manifest g m) = Ok m' \<longrightarrow>
      put_manifest (snd (put_manifest g m)) m = (Ok m', snd (put_manifest g m))) \<and>
    (fst (create_version now g f v p mi) = Ok ver \<longrightarrow>
      create_version now' (snd (create_version now g f v p mi)) f v p mi
        = (Ok ver, snd (create_version now g f v p mi))) \<and>
    (fst (commit_version now g v) = Ok ver' \<longrightarrow>
      commit_version now' (snd (commit_version now g v)) v = (Ok ver', snd (commit_version now g v)))"
proof (intro conjI impI)
  assume ok: "fst (create_file fresh now g d name key) = Ok file"
  then have "s_files (snd (create_file fresh now g d name key)) (f_file_id file) = Some file"
    by (rule create_file_Ok [OF assms, THEN conjunct2, THEN conjunct1])
  with create_file_again [OF assms ok grows_refl]
  show "create_file fresh' now' (snd (create_file fresh now g d name key)) d name key
        = (Ok file, snd (create_file fresh now g d name key))" by (metis option.inject)
next
  assume "fst (register_chunk g c n) = Ok chunk"
  then show "register_chunk (snd (register_chunk g c n)) c n = (Ok chunk, snd (register_chunk g c n))"
    by (rule register_chunk_again [OF _ grows_refl])
next
  assume "fst (put_manifest g m) = Ok m'"
  then show "put_manifest (snd (put_manifest g m)) m = (Ok m', snd (put_manifest g m))"
    by (rule put_manifest_again [OF _ grows_refl])
next
  assume ok: "fst (create_version now g f v p mi) = Ok ver"
  with create_version_again [OF ok grows_refl] create_version_Ok [OF ok]
  show "create_version now' (snd (create_version now g f v p mi)) f v p mi
        = (Ok ver, snd (create_version now g f v p mi))" by (metis option.inject)
next
  assume "fst (commit_version now g v) = Ok ver'"
  then show "commit_version now' (snd (commit_version now g v)) v = (Ok ver', snd (commit_version now g v))"
    by (rule commit_version_again [OF assms _ grows_refl])
qed

theorem retry_is_idempotent_witness:
  "commit_version 99 sample_store (UuidId 9) = (Ok (sample_version\<lparr>v_state := Committed\<rparr>), sample_store)"
proof -
  have "fst (commit_version 30 sample_candidate_store (UuidId 9)) = Ok (sample_version\<lparr>v_state := Committed\<rparr>)"
    using sample_candidate_lookup sample_manifest_ok by (simp add: commit_version_publishes)
  from retry_is_idempotent [OF sample_candidate_store_inv, THEN conjunct2, THEN conjunct2, THEN conjunct2,
      THEN conjunct2, rule_format, OF this]
  show ?thesis unfolding sample_commit .
qed

text \<open>Listing a directory returns every file of the directory and no other, sorted by name, in
  whatever order the hash map enumerates its entries.\<close>

theorem list_children_complete:
  assumes "distinct order" and "set order = dom (s_files g)"
  shows "\<exists>fs. list_children order g d = Ok fs \<and> sorted (map f_name fs) \<and>
    set fs = {f. \<exists>i. s_files g i = Some f \<and> f_parent_id f = d} \<and>
    length fs = card {i. \<exists>f. s_files g i = Some f \<and> f_parent_id f = d}"
proof -
  let ?sel = "filter (\<lambda>f. f_parent_id f = d) (List.map_filter (s_files g) order)"
  let ?keys = "filter (\<lambda>i. \<exists>f. s_files g i = Some f \<and> f_parent_id f = d) order"
  have "set (List.map_filter (s_files g) order) = {f. \<exists>i. s_files g i = Some f}"
    using assms(2) by (force simp: List.map_filter_def dom_def)
  then have "set ?sel = {f. \<exists>i. s_files g i = Some f \<and> f_parent_id f = d}" by auto
  moreover have "length ?sel = length ?keys"
    by (induction order) (auto simp: List.map_filter_simps split: option.splits)
  moreover have "set ?keys = {i. \<exists>f. s_files g i = Some f \<and> f_parent_id f = d}"
    unfolding set_filter assms(2) by (auto simp: dom_def)
  then have "length ?keys = card {i. \<exists>f. s_files g i = Some f \<and> f_parent_id f = d}"
    using distinct_card [of ?keys] assms(1) by (simp del: set_filter)
  ultimately show ?thesis by (simp add: list_children_def)
qed

theorem list_children_complete_witness:
  "\<exists>fs. list_children [UuidId 1] sample_store1 (UuidId 2) = Ok fs \<and> sorted (map f_name fs) \<and> length fs = 1"
proof -
  have files: "s_files sample_store1 = [UuidId 1 \<mapsto> new_file (UuidId 1) 10 (UuidId 2) ''a.txt'']"
    by (simp add: sample_store1_def add_file_def new_file_def store_new_def)
  then have "{i. \<exists>f. s_files sample_store1 i = Some f \<and> f_parent_id f = UuidId 2} = {UuidId 1}"
    by (auto simp: new_file_def split: if_splits)
  then have one: "card {i. \<exists>f. s_files sample_store1 i = Some f \<and> f_parent_id f = UuidId 2} = 1"
    by (metis is_singletonI is_singleton_altdef)
  have "set [UuidId 1] = dom (s_files sample_store1)" using files by simp
  from list_children_complete [OF _ this, of "UuidId 2", unfolded one] show ?thesis by auto
qed

end
