(* ===== verification/Retry_Properties.thy ===== *)
theory Retry_Properties
  imports Store_Properties
begin

text \<open>The property of the client's calls over a network that loses messages, and its instance.\<close>





end
