(* ===== verification/Busy_Server.thy ===== *)
theory Busy_Server
  imports Retry
begin

text \<open>
  A client beside others.  \<open>beside others\<close> is the network to a server that serves the requests of other
  clients between any two requests of this one; what they do is any run of the server, chosen anew each
  time.  Over it a range read still keeps the contract \<open>chunk_source\<close>, because the stores only grow, so
  that reassembly gives the same file.  The handler of a range read itself locks the store twice;
  what happens between the two sections does not change its answer.
\<close>

definition beside ::
  "(nat \<Rightarrow> AppState \<Rightarrow> AppState) \<Rightarrow> string \<Rightarrow> (nat \<Rightarrow> Env) \<Rightarrow> (nat \<times> AppState) transport" where
  "beside others base envs w q = over_http base envs (fst w, others (fst w) (snd w)) q"

definition only_requests :: "(bytes \<Rightarrow> string) \<Rightarrow> (nat \<Rightarrow> AppState \<Rightarrow> AppState) \<Rightarrow> bool" where
  "only_requests b3hex others \<longleftrightarrow> (\<forall>n st. (server_step b3hex)\<^sup>*\<^sup>* st (others n st))"

lemma others_inv: "only_requests b3hex others \<Longrightarrow> app_inv b3hex st \<Longrightarrow> app_inv b3hex (others n st)"
  unfolding only_requests_def using server.run_inv by blast

lemma others_keep_blobs:
  "only_requests b3hex others \<Longrightarrow> app_inv b3hex st \<Longrightarrow> st_blobs st \<subseteq>\<^sub>m st_blobs (others n st)"
  unfolding only_requests_def map_le_def using blob_stable_run [of b3hex st "others n st"] by (auto simp: dom_def)

lemma exchange_beside:
  "exchange (beside others base envs) w q = exchange (over_http base envs) (fst w, others (fst w) (snd w)) q"
  by (simp add: exchange_def beside_def)

lemma send_beside:
  "send ce (beside others base envs) w q dec = send ce (over_http base envs) (fst w, others (fst w) (snd w)) q dec"
  by (simp add: send_def exchange_beside)

lemma range_beside:
  assumes "unat off + unat len < 2 ^ 64" "0 < len"
  shows "get_chunk_range ce (beside others base envs) c w i off len
    = get_chunk_range ce (over_http base envs) c (fst w, others (fst w) (snd w)) i off len"
  by (simp add: get_chunk_range_def range_end_exact [OF assms] exchange_beside)

section \<open>Reading beside writers\<close>

text \<open>\<open>Q\<close> is any property that the other clients keep and that reading, which changes nothing, keeps too.\<close>

interpretation busy: chunk_source "get_chunk_range ce (beside others base envs) \<lparr>cc_base = base\<rparr>"
    "\<lambda>w. st_blobs (snd w)" "ce_b3hex ce"
    "\<lambda>w. world_ok ce envs w \<and> only_requests (ce_b3hex ce) others \<and> (\<forall>n st. Q st \<longrightarrow> Q (others n st)) \<and> Q (snd w)"
  for ce others base envs Q
proof (unfold_locales, goal_cases)
  case (1 w i bs len off)
  let ?w = "(fst w, others (fst w) (snd w))"
  from 1 have same: "same_world ce envs" and inv: "app_inv (ce_b3hex ce) (snd w)"
    and only: "only_requests (ce_b3hex ce) others" by (simp_all add: world_ok_def)
  note inv' = others_inv [OF only inv, of "fst w"] and up = others_keep_blobs [OF only inv, of "fst w"]
  then have ok: "fake_inv (st_blobs (snd ?w))" and bs: "st_blobs (snd ?w) i = Some bs"
    and ver: "ChunkId_verify (ce_b3hex ce) i bs"
    using 1(2) by (auto simp: app_inv_def blobs_ok_def dest: map_leD)
  then have "fits_memory bs" by (simp add: fake_inv_def)
  then have "unat off + unat len < 2 ^ 64" using 1(6) by (simp add: fits_memory_def)
  from range_beside [OF this 1(4)] fetch_stored [OF same ok bs _ 1(3-6), of base] ver
  have "get_chunk_range ce (beside others base envs) \<lparr>cc_base = base\<rparr> w i off len
      = (Ok (take (unat len) (drop (unat off) bs)), (Suc (fst w), others (fst w) (snd w)))" by simp
  with same inv' only up 1(1) show ?case by (simp add: world_ok_def)
next
  case (2 w i bs)
  then show ?case by (auto simp: world_ok_def app_inv_def blobs_ok_def)
qed

lemma reassemble_beside:
  assumes "world_ok ce envs w" "only_requests (ce_b3hex ce) others"
    and Q: "\<And>n st. Q st \<Longrightarrow> Q (others n st)" "Q (snd w)"
    and m: "manifest_ok m" "manifest_stored (st_blobs (snd w)) m" "small_entries m"
  shows "\<exists>w'. reassemble ce (beside others base envs) \<lparr>cc_base = base\<rparr> w m = (Ok (file_bytes (st_blobs (snd w)) m), w') \<and>
    world_ok ce envs w' \<and> Q (snd w')"
proof -
  have inv: "world_ok ce envs w \<and> only_requests (ce_b3hex ce) others \<and> (\<forall>n st. Q st \<longrightarrow> Q (others n st)) \<and> Q (snd w)"
    using assms(1-4) by simp
  from manifest_ok_entries [OF m(1)] m(3) busy.loop_exact [OF inv m(2), of "m_entries m" 0
      "replicate (unat (m_total_size m)) 0" "ce_profile ce" base]
  obtain w' where "reassemble_loop (ce_profile ce) (ce_b3hex ce)
      (get_chunk_range ce (beside others base envs) \<lparr>cc_base = base\<rparr>) m (m_entries m)
      (replicate (unat (m_total_size m)) 0) w = (Ok (file_bytes (st_blobs (snd w)) m), w')"
      "world_ok ce envs w'" "Q (snd w')"
    by (auto simp: small_entries_def file_bytes_def)
  then show ?thesis
    by (simp add: reassemble_unfold [OF m(1) m(3) [unfolded small_entries_def, THEN conjunct1]])
qed

text \<open>The manifest of what a reader sees is answered, and its file, as they were.\<close>

lemma get_manifest_beside:
  assumes "world_ok ce envs (n, st)" "plain_uuids (ce_uuid_show ce)" "only_requests (ce_b3hex ce) others"
    and m: "s_manifests (st_meta st) i = Some m"
  shows "c_get_manifest ce (beside others base envs) \<lparr>cc_base = base\<rparr> (n, st) i = (Ok m, (Suc n, others n st))"
proof -
  from assms(1) have same: "same_world ce envs" and inv: "app_inv (ce_b3hex ce) st" by (simp_all add: world_ok_def)
  have "(server_step (ce_b3hex ce))\<^sup>*\<^sup>* st (others n st)" using assms(3) by (simp add: only_requests_def)
  then have "kept (=) (s_manifests (st_meta st)) (s_manifests (st_meta (others n st)))"
    using server_growth.run_le inv by (auto simp: server_grows_def grows_def)
  from keptD [OF this m] have "get_manifest (st_meta (others n st)) i = Ok m" by (simp add: get_manifest_def)
  with rpc_get_manifest [OF same assms(2), of base "(n, others n st)" i] show ?thesis
    by (simp add: c_get_manifest_def send_beside)
qed

section \<open>Between the two sections of a range read\<close>

text \<open>The handler with the length looked up in one state and the bytes read in a later one.\<close>

definition h_get_chunk_sections ::
  "profile \<Rightarrow> (bytes \<Rightarrow> string) \<Rightarrow> AppState \<Rightarrow> AppState \<Rightarrow> string \<Rightarrow> string option option \<Rightarrow> HttpResponse space_result" where
  "h_get_chunk_sections p b3hex st st' chunk_id range_hdr =
     and_then (parse_chunk_id chunk_id) (\<lambda>i.
     and_then (fake_head (st_blobs st) i) (\<lambda>size'.
     case range_hdr of
       None \<Rightarrow> map_ok (\<lambda>bs. json_response 200 (Octets bs)) (fake_get b3hex (st_blobs st') i)
     | Some hv \<Rightarrow>
         and_then (ok_or (invalid_param ''malformed Range header'')
                     (parse_range (case hv of Some s \<Rightarrow> s | None \<Rightarrow> []) size')) (\<lambda>(start, end_inclusive).
         and_then (minus_u64 p end_inclusive start) (\<lambda>d.
         and_then (plus_u64 p d 1) (\<lambda>n.
         and_then (fake_get_range b3hex (st_blobs st') i start (ucast n)) (\<lambda>bs.
         Ok \<lparr>r_status = 206,
             r_content_range = Some (''bytes '' @ show_u64 start @ ''-'' @ show_u64 end_inclusive
                                      @ ''/'' @ show_u64 size'),
             r_request_id = None, r_body = Octets bs\<rparr>))))))"

lemma sections_agree:
  assumes "app_inv b3hex st" "(server_step b3hex)\<^sup>*\<^sup>* st st'"
  shows "h_get_chunk_sections p b3hex st st' chunk_id range_hdr = h_get_chunk p b3hex st chunk_id range_hdr"
proof (cases "parse_chunk_id chunk_id")
  case (Ok i)
  show ?thesis
  proof (cases "st_blobs st i")
    case None
    with Ok show ?thesis by (simp add: h_get_chunk_sections_def h_get_chunk_def fake_head_def)
  next
    case (Some bs)
    then have "st_blobs st' i = Some bs" by (rule blob_stable_run [OF assms(2,1)])
    with Some have "fake_get b3hex (st_blobs st') i = fake_get b3hex (st_blobs st) i"
      "\<And>off n. fake_get_range b3hex (st_blobs st') i off n = fake_get_range b3hex (st_blobs st) i off n"
      by (simp_all add: fake_get_def fake_get_range_def)
    with Ok show ?thesis
      by (cases range_hdr) (simp_all add: h_get_chunk_sections_def h_get_chunk_def)
  qed
qed (simp_all add: h_get_chunk_sections_def h_get_chunk_def)

end
