(* ===== verification/Generators.thy ===== *)
theory Generators
  imports Reassembly
begin

text \<open>
  The deterministic test data of \<^verbatim>\<open>tests/generators/src/lib.rs\<close>.  The random number generator is a
  parameter: seeding, \<^verbatim>\<open>fill_bytes\<close>, which fills the buffer it is given, and \<^verbatim>\<open>next_u32\<close>.  Its output
  depends on how the reads are sliced, which is what \<open>ByteStream\<close> hides; that is proved here.
\<close>

record 'r Rng =
  rng_seed_from_u64 :: "u64 \<Rightarrow> 'r"
  rng_fill_bytes :: "'r \<Rightarrow> nat \<Rightarrow> bytes \<times> 'r"
  rng_next_u32 :: "'r \<Rightarrow> u32 \<times> 'r"

definition rng_ok :: "'r Rng \<Rightarrow> bool" where
  "rng_ok R \<longleftrightarrow> (\<forall>r n. length (fst (rng_fill_bytes R r n)) = n)"

definition nz :: "u8 \<Rightarrow> u8" where
  "nz b = (if b = 0 then 0xAA else b)"

definition STREAM_BLOCK :: nat where
  "STREAM_BLOCK = 8192"

text \<open>The block is an array of fixed size, and \<open>bs_used\<close> an index that the code keeps below its length.\<close>

record 'r ByteStream =
  bs_rng :: 'r
  bs_block :: bytes
  bs_used :: nat

definition ByteStream_new :: "'r Rng \<Rightarrow> u64 \<Rightarrow> 'r ByteStream" where
  "ByteStream_new R seed =
     \<lparr>bs_rng = rng_seed_from_u64 R seed, bs_block = replicate STREAM_BLOCK 0, bs_used = STREAM_BLOCK\<rparr>"

definition refill :: "'r Rng \<Rightarrow> 'r ByteStream \<Rightarrow> 'r ByteStream" where
  "refill R st =
     (if bs_used st = STREAM_BLOCK
      then (let (block, r) = rng_fill_bytes R (bs_rng st) STREAM_BLOCK
            in \<lparr>bs_rng = r, bs_block = map nz block, bs_used = 0\<rparr>)
      else st)"

lemma refill_used: "bs_used st \<le> STREAM_BLOCK \<Longrightarrow> bs_used (refill R st) < STREAM_BLOCK"
  by (simp add: refill_def STREAM_BLOCK_def split: prod.split)

text \<open>
  \<open>fill R n st\<close> returns the \<open>n\<close> bytes that are written to the buffer.  An index past the block would
  panic when the block is sliced, whatever the profile.
\<close>

function fill :: "'r Rng \<Rightarrow> nat \<Rightarrow> 'r ByteStream \<Rightarrow> (bytes \<times> 'r ByteStream) space_result" where
  "fill R n st =
     (if n = 0 then Ok ([], st)
      else if bs_used st > STREAM_BLOCK then Panic
      else (let st = refill R st; k = min n (STREAM_BLOCK - bs_used st) in
        and_then (fill R (n - k) (st\<lparr>bs_used := bs_used st + k\<rparr>))
          (\<lambda>(bs, st'). Ok (take k (drop (bs_used st) (bs_block st)) @ bs, st'))))"
  by pat_completeness auto
termination
proof (relation "measure (\<lambda>(R, n, st). n)", goal_cases)
  case (2 R n st x y)
  then show ?case using refill_used [of st R] by auto
qed simp

declare fill.simps [simp del]

text \<open>\<^verbatim>\<open>generate_file\<close> fills one buffer, \<^verbatim>\<open>generate_file_streaming\<close> hands out the pieces one by one.\<close>

definition generate_file_bytes :: "'r Rng \<Rightarrow> u64 \<Rightarrow> u64 \<Rightarrow> bytes space_result" where
  "generate_file_bytes R size' seed =
     and_then (zeroed size') (\<lambda>out. map_ok fst (fill R (length out) (ByteStream_new R seed)))"

text \<open>A block of length 0 would not end the loop; the assertion before it excludes that.\<close>

function streaming_loop :: "'r Rng \<Rightarrow> nat \<Rightarrow> nat \<Rightarrow> 'r ByteStream \<Rightarrow> bytes list space_result" where
  "streaming_loop R block remaining st =
     (if remaining = 0 \<or> block = 0 then Ok []
      else (let n = min remaining block in
        and_then (fill R n st) (\<lambda>(bs, st').
        and_then (streaming_loop R block (remaining - n) st') (\<lambda>pieces. Ok (bs # pieces)))))"
  by pat_completeness auto
termination by (relation "measure (\<lambda>(R, block, remaining, st). remaining)") auto

declare streaming_loop.simps [simp del]

definition generate_file_streaming :: "'r Rng \<Rightarrow> u64 \<Rightarrow> u64 \<Rightarrow> usize \<Rightarrow> bytes list space_result" where
  "generate_file_streaming R size' seed block =
     (if block = 0 then Panic
      else and_then (zeroed block)
             (\<lambda>_. streaming_loop R (unat block) (unat size') (ByteStream_new R seed)))"

definition generate_chunk ::
  "'r Rng \<Rightarrow> (bytes \<Rightarrow> string) \<Rightarrow> u64 \<Rightarrow> u64 \<Rightarrow> (ChunkId \<times> bytes) space_result" where
  "generate_chunk R b3hex size' seed =
     map_ok (\<lambda>bs. (ChunkId_from_bytes b3hex bs, bs)) (generate_file_bytes R size' seed)"

definition chunk_count :: "u64 \<Rightarrow> u64 \<Rightarrow> u64 space_result" where
  "chunk_count file_size chunk_size' =
     (if chunk_size' = 0 then Panic
      else Ok (if file_size mod chunk_size' > 0 then file_size div chunk_size' + 1
               else file_size div chunk_size'))"

text \<open>The loop of \<^verbatim>\<open>generate_manifest\<close>: its local variables, what one pass adds to them, and the loop.\<close>

record Generated =
  g_offset :: u64
  g_entries :: "ManifestEntry list"
  g_chunks :: "Chunk list"
  g_bodies :: "(Chunk \<times> bytes) list"

definition add_piece :: "(bytes \<Rightarrow> string) \<Rightarrow> u64 \<Rightarrow> bytes \<Rightarrow> u64 \<Rightarrow> Generated \<Rightarrow> Generated" where
  "add_piece b3hex len body next_offset g =
     (let i = ChunkId_from_bytes b3hex body;
          chunk = \<lparr>c_chunk_id = i, c_size = len\<rparr>
      in \<lparr>g_offset = next_offset,
          g_entries = g_entries g @
            [\<lparr>e_logical_offset = g_offset g, e_length = len, e_chunk_id = i, e_chunk_offset = 0\<rparr>],
          g_chunks = (if list_ex (\<lambda>c. c_chunk_id c = i) (g_chunks g) then g_chunks g
                      else g_chunks g @ [chunk]),
          g_bodies = g_bodies g @ [(chunk, body)]\<rparr>)"

fun manifest_loop ::
  "'r Rng \<Rightarrow> (bytes \<Rightarrow> string) \<Rightarrow> profile \<Rightarrow> u64 \<Rightarrow> u64 \<Rightarrow> nat \<Rightarrow> 'r ByteStream \<Rightarrow> Generated
     \<Rightarrow> Generated space_result" where
  "manifest_loop R b3hex p file_size chunk_size' 0 st g = Ok g"
| "manifest_loop R b3hex p file_size chunk_size' (Suc k) st g =
     and_then (minus_u64 p file_size (g_offset g)) (\<lambda>rest.
     let len = min rest chunk_size' in
     and_then (zeroed len) (\<lambda>buf.
     and_then (fill R (length buf) st) (\<lambda>(body, st').
     and_then (plus_u64 p (g_offset g) len) (\<lambda>next_offset.
     manifest_loop R b3hex p file_size chunk_size' k st' (add_piece b3hex len body next_offset g)))))"

definition generate_manifest ::
  "'r Rng \<Rightarrow> (bytes \<Rightarrow> string) \<Rightarrow> profile \<Rightarrow> ManifestId \<Rightarrow> u64 \<Rightarrow> u64 \<Rightarrow> u64
     \<Rightarrow> (Manifest \<times> (Chunk \<times> bytes) list) space_result" where
  "generate_manifest R b3hex p fresh file_size chunk_size' seed =
     and_then (chunk_count file_size chunk_size') (\<lambda>n.
     map_ok (\<lambda>g. (\<lparr>m_manifest_id = fresh, m_total_size = file_size,
                    m_chunk_count = len_u64 (g_entries g), m_entries = g_entries g,
                    m_chunks = g_chunks g\<rparr>, g_bodies g))
       (manifest_loop R b3hex p file_size chunk_size' (unat n) (ByteStream_new R seed)
          \<lparr>g_offset = 0, g_entries = [], g_chunks = [], g_bodies = []\<rparr>))"

text \<open>
  \<^verbatim>\<open>boundary_sizes_for\<close>, whose sums, differences and products are plain, and the directory tree; the
  identities it draws are numbered by a counter, the names take their number from the generator.
\<close>

definition times_u64 :: "profile \<Rightarrow> u64 \<Rightarrow> u64 \<Rightarrow> u64 space_result" where
  "times_u64 p a b = (if unat a * unat b < 2 ^ 64 \<or> p = Release then Ok (a * b) else Panic)"

definition boundary_sizes_for :: "profile \<Rightarrow> u64 \<Rightarrow> u64 list space_result" where
  "boundary_sizes_for p n =
     and_then (minus_u64 p n 1) (\<lambda>below.
     and_then (plus_u64 p n 1) (\<lambda>above.
     and_then (times_u64 p 3 n) (\<lambda>three.
     and_then (and_then (times_u64 p 3 n) (\<lambda>three. plus_u64 p three 1)) (\<lambda>three_above.
     Ok [0, 1, min 4095 (saturating_sub n 1), min 4096 n, below, n, above, three, three_above]))))"

definition CHUNK :: u64 where
  "CHUNK = 32 * 1024 * 1024"

definition BOUNDARY_SIZES :: "u64 list" where
  "BOUNDARY_SIZES = [0, 1, 4095, 4096, CHUNK - 1, CHUNK, CHUNK + 1, 3 * CHUNK, 3 * CHUNK + 1]"

lemma boundary_sizes_for_CHUNK: "boundary_sizes_for p CHUNK = Ok BOUNDARY_SIZES"
  by (simp add: boundary_sizes_for_def BOUNDARY_SIZES_def CHUNK_def minus_u64_def plus_u64_def times_u64_def
      saturating_sub_def)

fun tree_children ::
  "'r Rng \<Rightarrow> (nat \<Rightarrow> Uuid) \<Rightarrow> DateTime \<Rightarrow> DirectoryId \<Rightarrow> nat list \<Rightarrow> 'r \<times> nat
     \<Rightarrow> File list \<times> DirectoryId list \<times> 'r \<times> nat" where
  "tree_children R fresh now parent [] s = ([], [], s)"
| "tree_children R fresh now parent (i # is) (r, n) =
     (let (x, r') = rng_next_u32 R r;
          file = \<lparr>f_file_id = UuidId (fresh n), f_parent_id = parent,
                  f_name = ''n'' @ show_nat i @ ''_'' @ show_nat (unat (x mod 1000)),
                  f_current_version_id = None, f_created_at = now, f_modified_at = now\<rparr>;
          (files, dirs, s) = tree_children R fresh now parent is (r', n + 2)
      in (file # files, UuidId (fresh (n + 1)) # dirs, s))"

fun tree_frontier ::
  "'r Rng \<Rightarrow> (nat \<Rightarrow> Uuid) \<Rightarrow> DateTime \<Rightarrow> nat \<Rightarrow> DirectoryId list \<Rightarrow> 'r \<times> nat
     \<Rightarrow> File list \<times> DirectoryId list \<times> 'r \<times> nat" where
  "tree_frontier R fresh now breadth [] s = ([], [], s)"
| "tree_frontier R fresh now breadth (parent # parents) s =
     (let (files, dirs, s) = tree_children R fresh now parent [0..<breadth] s;
          (files', dirs', s) = tree_frontier R fresh now breadth parents s
      in (files @ files', dirs @ dirs', s))"

fun tree_levels ::
  "'r Rng \<Rightarrow> (nat \<Rightarrow> Uuid) \<Rightarrow> DateTime \<Rightarrow> nat \<Rightarrow> nat \<Rightarrow> DirectoryId list \<Rightarrow> 'r \<times> nat \<Rightarrow> File list" where
  "tree_levels R fresh now breadth 0 frontier s = []"
| "tree_levels R fresh now breadth (Suc depth) frontier s =
     (let (files, dirs, s) = tree_frontier R fresh now breadth frontier s
      in files @ tree_levels R fresh now breadth depth dirs s)"

definition generate_tree :: "'r Rng \<Rightarrow> (nat \<Rightarrow> Uuid) \<Rightarrow> DateTime \<Rightarrow> u32 \<Rightarrow> u32 \<Rightarrow> u64 \<Rightarrow> File list" where
  "generate_tree R fresh now depth breadth seed =
     tree_levels R fresh now (unat breadth) (unat depth) [UuidId (fresh 0)] (rng_seed_from_u64 R seed, 1)"

section \<open>The stream does not depend on the reads\<close>

definition stream_ok :: "'r ByteStream \<Rightarrow> bool" where
  "stream_ok st \<longleftrightarrow> bs_used st \<le> STREAM_BLOCK \<and> length (bs_block st) = STREAM_BLOCK \<and>
     0 \<notin> set (drop (bs_used st) (bs_block st))"

lemma stream_ok_new [simp]: "stream_ok (ByteStream_new R seed)"
  by (simp add: stream_ok_def ByteStream_new_def)

lemma stream_ok_refill:
  assumes "rng_ok R" "stream_ok st"
  shows "stream_ok (refill R st)"
proof -
  obtain block r where f: "rng_fill_bytes R (bs_rng st) STREAM_BLOCK = (block, r)"
    by (cases "rng_fill_bytes R (bs_rng st) STREAM_BLOCK")
  then have "length block = STREAM_BLOCK"
    using assms(1) by (metis fst_conv rng_ok_def)
  moreover have "0 \<notin> nz ` set block" by (auto simp: nz_def split: if_splits)
  ultimately show ?thesis using assms(2) f by (auto simp: refill_def stream_ok_def)
qed

lemma stream_ok_advance:
  assumes "stream_ok st" "bs_used st + k \<le> STREAM_BLOCK"
  shows "stream_ok (st\<lparr>bs_used := bs_used st + k\<rparr>)"
proof -
  have "set (drop (bs_used st + k) (bs_block st)) \<subseteq> set (drop (bs_used st) (bs_block st))"
    by (simp add: set_drop_subset_set_drop)
  with assms show ?thesis by (auto simp: stream_ok_def)
qed

lemma fill_0 [simp]: "fill R 0 st = Ok ([], st)"
  by (simp add: fill.simps)

lemma fill_total:
  assumes "rng_ok R" "stream_ok st"
  shows "\<exists>bs st'. fill R n st = Ok (bs, st') \<and> length bs = n \<and> 0 \<notin> set bs \<and> stream_ok st'"
  using assms(2)
proof (induction n arbitrary: st rule: less_induct)
  case (less n)
  show ?case
  proof (cases "n = 0")
    case False
    define s where "s = refill R st"
    define k where "k = min n (STREAM_BLOCK - bs_used s)"
    have ok: "stream_ok s" using assms(1) less.prems by (simp add: s_def stream_ok_refill)
    have used: "bs_used st \<le> STREAM_BLOCK" "bs_used s < STREAM_BLOCK"
      using less.prems refill_used [of st R] by (auto simp: s_def stream_ok_def)
    then have k: "0 < k" "bs_used s + k \<le> STREAM_BLOCK" "k \<le> n"
      using False by (auto simp: k_def)
    then obtain bs st' where rest: "fill R (n - k) (s\<lparr>bs_used := bs_used s + k\<rparr>) = Ok (bs, st')"
      "length bs = n - k" "0 \<notin> set bs" "stream_ok st'"
      using less.IH [of "n - k"] stream_ok_advance [OF ok k(2)] by fastforce
    have "fill R n st = Ok (take k (drop (bs_used s) (bs_block s)) @ bs, st')"
      using False used rest(1) by (simp add: fill.simps [of R n st] Let_def s_def k_def)
    moreover have "length (take k (drop (bs_used s) (bs_block s))) = k"
      using ok k by (simp add: stream_ok_def)
    moreover have "0 \<notin> set (take k (drop (bs_used s) (bs_block s)))"
      using ok by (auto simp: stream_ok_def dest: in_set_takeD)
    ultimately show ?thesis using rest k(3) by auto
  qed (use less.prems in simp)
qed

lemma fill_step:
  assumes "0 < n" "bs_used st \<le> STREAM_BLOCK"
  shows "fill R n st = (let s = refill R st; k = min n (STREAM_BLOCK - bs_used s) in
    and_then (fill R (n - k) (s\<lparr>bs_used := bs_used s + k\<rparr>))
      (\<lambda>(bs, st'). Ok (take k (drop (bs_used s) (bs_block s)) @ bs, st')))"
  using assms by (subst fill.simps) (simp add: Let_def)

lemma refill_idle: "bs_used st < STREAM_BLOCK \<Longrightarrow> refill R st = st"
  by (simp add: refill_def)

text \<open>Reading \<open>n + m\<close> bytes is reading \<open>n\<close> and then \<open>m\<close>, to the very state of the generator.\<close>

lemma fill_append:
  assumes "rng_ok R" "stream_ok st" "fill R n st = Ok (xs, s1)"
  shows "fill R (n + m) st = and_then (fill R m s1) (\<lambda>(ys, s2). Ok (xs @ ys, s2))"
  using assms(2,3)
proof (induction n arbitrary: st xs rule: less_induct)
  case (less n)
  show ?case
  proof (cases "n = 0 \<or> m = 0")
    case True
    then show ?thesis using less.prems fill_total [OF assms(1), of s1 m]
      by (cases "fill R m s1") auto
  next
    case False
    define s where "s = refill R st"
    define room where "room = STREAM_BLOCK - bs_used s"
    define at where "at = bs_used s"
    have ok: "stream_ok s" using assms(1) less.prems by (simp add: s_def stream_ok_refill)
    have used: "bs_used st \<le> STREAM_BLOCK" "at < STREAM_BLOCK"
      using less.prems refill_used [of st R] by (auto simp: s_def at_def stream_ok_def)
    let ?s = "\<lambda>k. s\<lparr>bs_used := at + k\<rparr>" and ?cut = "\<lambda>k. take k (drop at (bs_block s))"
    have step: "fill R l st = and_then (fill R (l - min l room) (?s (min l room)))
        (\<lambda>(bs, st'). Ok (?cut (min l room) @ bs, st'))" if "0 < l" for l
      using fill_step [OF that used(1), of R] by (simp add: Let_def s_def room_def at_def)
    show ?thesis
    proof (cases "room \<le> n")
      case True
      then have "min n room = room" "min (n + m) room = room" by simp_all
      moreover obtain bs where bs: "fill R (n - room) (?s room) = Ok (bs, s1)" "xs = ?cut room @ bs"
        using less.prems(2) step [of n] False True by (cases "fill R (n - room) (?s room)") auto
      moreover have "stream_ok (?s room)"
        using stream_ok_advance [OF ok, of room] used by (simp add: room_def at_def)
      moreover have "n - room < n" using False used by (auto simp: room_def at_def)
      ultimately have "fill R (n - room + m) (?s room) = and_then (fill R m s1) (\<lambda>(ys, s2). Ok (bs @ ys, s2))"
        using less.IH by blast
      then show ?thesis
        using step [of "n + m"] False True bs(2) by (cases "fill R m s1") auto
    next
      case part: False
      then have xs: "xs = ?cut n" "s1 = ?s n"
        using less.prems(2) step [of n] False by auto
      define k where "k = min m (room - n)"
      have "min (n + m) room = n + k" "n + m - (n + k) = m - k" using part by (auto simp: k_def)
      moreover have "bs_used s1 < STREAM_BLOCK" using xs part used by (auto simp: room_def at_def)
      then have "fill R m s1 = and_then (fill R (m - k) (?s (n + k)))
          (\<lambda>(bs, st'). Ok (take k (drop (at + n) (bs_block s)) @ bs, st'))"
        using fill_step [of m s1 R] False xs by (simp add: Let_def refill_idle k_def room_def at_def add.assoc)
      moreover have "?cut (n + k) = ?cut n @ take k (drop (at + n) (bs_block s))"
        by (simp add: take_add add.commute [of at])
      ultimately show ?thesis
        using step [of "n + m"] False xs(1) by (cases "fill R (m - k) (?s (n + k))") auto
    qed
  qed
qed

text \<open>The sizes of consecutive pieces: full ones, then the rest if there is one.\<close>

definition cut_sizes :: "nat \<Rightarrow> nat \<Rightarrow> nat list" where
  "cut_sizes n size' = replicate (n div size') size' @ (if n mod size' = 0 then [] else [n mod size'])"

lemma cut_sizes_0 [simp]: "cut_sizes 0 size' = []"
  by (simp add: cut_sizes_def)

lemma cut_sizes_step:
  assumes "0 < n" "0 < size'"
  shows "cut_sizes n size' = min n size' # cut_sizes (n - min n size') size'"
proof (cases "n < size'")
  case True
  then show ?thesis using assms by (simp add: cut_sizes_def)
next
  case False
  then have "n div size' = Suc ((n - size') div size')" "n mod size' = (n - size') mod size'"
    using assms(2) by (simp_all add: le_div_geq le_mod_geq)
  then show ?thesis using False by (simp add: cut_sizes_def)
qed

lemma streaming_loop_spec:
  assumes "rng_ok R" "0 < block" "stream_ok st"
  shows "\<exists>pieces st'. streaming_loop R block n st = Ok pieces \<and> fill R n st = Ok (concat pieces, st') \<and>
    map length pieces = cut_sizes n block"
  using assms(3)
proof (induction n arbitrary: st rule: less_induct)
  case (less n)
  show ?case
  proof (cases "n = 0")
    case True
    then show ?thesis by (simp add: streaming_loop.simps)
  next
    case False
    define k where "k = min n block"
    have k: "0 < k" "k \<le> n" "k \<le> block" using False assms(2) by (auto simp: k_def)
    obtain bs s1 where bs: "fill R k st = Ok (bs, s1)" "length bs = k" "stream_ok s1"
      using fill_total [OF assms(1) less.prems] by blast
    obtain pieces st' where rest: "streaming_loop R block (n - k) s1 = Ok pieces"
      "fill R (n - k) s1 = Ok (concat pieces, st')"
      "map length pieces = cut_sizes (n - k) block"
      using less.IH [of "n - k" s1] k bs(3) by auto
    have "fill R n st = Ok (concat (bs # pieces), st')"
      using fill_append [OF assms(1) less.prems bs(1), of "n - k"] k rest(2) by simp
    moreover have "streaming_loop R block n st = Ok (bs # pieces)"
      using False assms(2) bs(1) rest(1) by (simp add: streaming_loop.simps [of R block n] Let_def k_def)
    moreover have "map length (bs # pieces) = cut_sizes n block"
      using cut_sizes_step [of n block] False assms(2) rest(3) bs(2) by (simp add: k_def)
    ultimately show ?thesis by blast
  qed
qed

lemma generate_file_bytes_Ok:
  assumes "rng_ok R" "unat n < 2 ^ 63"
  shows "\<exists>bs st. fill R (unat n) (ByteStream_new R seed) = Ok (bs, st) \<and>
    generate_file_bytes R n seed = Ok bs \<and> length bs = unat n \<and> 0 \<notin> set bs"
proof -
  obtain bs st where "fill R (unat n) (ByteStream_new R seed) = Ok (bs, st)" "length bs = unat n" "0 \<notin> set bs"
    using fill_total [OF assms(1) stream_ok_new] by blast
  then show ?thesis using assms(2) by (simp add: generate_file_bytes_def zeroed_def map_ok_def)
qed

section \<open>A generated manifest is valid\<close>

definition body_of :: "(bytes \<Rightarrow> string) \<Rightarrow> ManifestEntry \<Rightarrow> Chunk \<times> bytes \<Rightarrow> bool" where
  "body_of b3hex e cb \<longleftrightarrow>
     e_chunk_id e = c_chunk_id (fst cb) \<and> e_length e = c_size (fst cb) \<and> e_chunk_offset e = 0 \<and>
     c_chunk_id (fst cb) = ChunkId_from_bytes b3hex (snd cb) \<and>
     unat (c_size (fst cb)) = length (snd cb) \<and> snd cb \<noteq> []"

definition generated_ok :: "(bytes \<Rightarrow> string) \<Rightarrow> Generated \<Rightarrow> bool" where
  "generated_ok b3hex g \<longleftrightarrow>
     tiles 0 (g_entries g) \<and> total_length (g_entries g) = unat (g_offset g) \<and>
     list_all2 (body_of b3hex) (g_entries g) (g_bodies g) \<and>
     distinct (map c_chunk_id (g_chunks g)) \<and> set (g_chunks g) \<subseteq> fst ` set (g_bodies g) \<and>
     c_chunk_id ` set (g_chunks g) = e_chunk_id ` set (g_entries g)"

lemma add_piece_ok:
  assumes "generated_ok b3hex g" "unat len = length body" "body \<noteq> []"
    and "unat (g_offset g) + unat len < 2 ^ 64"
  shows "generated_ok b3hex (add_piece b3hex len body (g_offset g + len) g)"
proof -
  have ids: "e_chunk_id ` set (g_entries g) = c_chunk_id ` set (g_chunks g)"
    using assms(1) by (simp add: generated_ok_def)
  have known: "\<exists>c\<in>set (g_chunks g). c_chunk_id c = e_chunk_id e" if "e \<in> set (g_entries g)" for e
  proof -
    have "e_chunk_id e \<in> c_chunk_id ` set (g_chunks g)" using that by (simp add: ids [symmetric])
    then show ?thesis by auto
  qed
  show ?thesis
    using assms ids known
    by (auto simp: generated_ok_def add_piece_def Let_def tiles_append body_of_def list_ex_iff
        u64_simps intro!: list_all2_appendI dest: known intro: rev_image_eqI)
qed

definition pieces_left :: "nat \<Rightarrow> nat \<Rightarrow> nat \<Rightarrow> bool" where
  "pieces_left rest size' k \<longleftrightarrow> rest \<le> k * size' \<and> (0 < k \<longrightarrow> (k - 1) * size' < rest)"

lemma pieces_left_Suc:
  assumes "pieces_left rest size' (Suc k)"
  shows "0 < rest" and "pieces_left (rest - min rest size') size' k"
proof -
  have *: "k * size' < rest" "rest \<le> size' + k * size'" using assms by (simp_all add: pieces_left_def)
  then show "0 < rest" by simp
  show "pieces_left (rest - min rest size') size' k"
  proof (cases k)
    case (Suc j)
    then show ?thesis using * by (simp add: pieces_left_def) arith
  qed (use * in \<open>simp add: pieces_left_def\<close>)
qed

lemma manifest_loop_spec:
  assumes R: "rng_ok R" and fs: "unat fs < 2 ^ 63" and cs: "0 < cs"
    and "pieces_left (unat fs - unat (g_offset g)) (unat cs) k" "g_offset g \<le> fs"
    and "generated_ok b3hex g" "stream_ok st0"
    and "fill R (unat (g_offset g)) st0 = Ok (concat (map snd (g_bodies g)), st)"
  shows "\<exists>g' st'. manifest_loop R b3hex p fs cs k st g = Ok g' \<and> generated_ok b3hex g' \<and>
    g_offset g' = fs \<and> fill R (unat fs) st0 = Ok (concat (map snd (g_bodies g')), st') \<and>
    map (length \<circ> snd) (g_bodies g') =
      map (length \<circ> snd) (g_bodies g) @ cut_sizes (unat fs - unat (g_offset g)) (unat cs)"
  using assms(4-)
proof (induction k arbitrary: g st)
  case 0
  then have "g_offset g = fs" by (simp add: pieces_left_def word_le_nat_alt word_unat_eq_iff)
  with 0 show ?case by simp
next
  case (Suc k)
  define rest where "rest = fs - g_offset g"
  define len where "len = min rest cs"
  have rest: "unat rest = unat fs - unat (g_offset g)" using Suc.prems(2) by (simp add: rest_def u64_simps)
  have len: "unat len = min (unat rest) (unat cs)" by (simp add: len_def min_def word_le_nat_alt)
  note left = pieces_left_Suc [OF Suc.prems(1)]
  have pos: "0 < unat len" using left(1) rest cs len by (simp add: word_less_nat_alt)
  have sum: "unat (g_offset g) + unat len \<le> unat fs" using len rest Suc.prems(2) by (simp add: word_le_nat_alt)
  have next': "unat (g_offset g + len) = unat (g_offset g) + unat len"
    using sum fs by (intro unat_plus_u64) simp
  obtain body st1 where body: "fill R (unat len) st = Ok (body, st1)" "length body = unat len"
    using fill_total [OF R, of st "unat len"] fill_total [OF R Suc.prems(4), of "unat (g_offset g)"] Suc.prems(5)
    by auto
  let ?g = "add_piece b3hex len body (g_offset g + len) g"
  have run: "manifest_loop R b3hex p fs cs (Suc k) st g = manifest_loop R b3hex p fs cs k st1 ?g"
    using Suc.prems(2) sum fs body len
    by (simp add: minus_u64_exact plus_u64_exact rest_def [symmetric] len_def [symmetric] zeroed_def)
  have "pieces_left (unat fs - unat (g_offset ?g)) (unat cs) k"
    using left(2) rest len next' by (simp add: add_piece_def Let_def)
  moreover have "g_offset ?g \<le> fs" using next' sum by (simp add: add_piece_def Let_def word_le_nat_alt)
  moreover have "generated_ok b3hex ?g"
    using Suc.prems(3) body(2) pos sum fs by (intro add_piece_ok) auto
  moreover have "fill R (unat (g_offset ?g)) st0 = Ok (concat (map snd (g_bodies ?g)), st1)"
    using fill_append [OF R Suc.prems(4,5), of "unat len"] body(1) next' by (simp add: add_piece_def Let_def)
  moreover have "map (length \<circ> snd) (g_bodies ?g) = map (length \<circ> snd) (g_bodies g) @ [unat len]"
    using body(2) by (simp add: add_piece_def Let_def)
  moreover have "cut_sizes (unat fs - unat (g_offset g)) (unat cs)
      = unat len # cut_sizes (unat fs - unat (g_offset ?g)) (unat cs)"
    using cut_sizes_step [of "unat rest" "unat cs"] left(1) cs len rest next'
    by (simp add: add_piece_def Let_def word_less_nat_alt)
  ultimately show ?case
    using Suc.IH [of ?g st1] Suc.prems(4) by (simp only: run) (metis append_Cons append_Nil append_assoc)
qed

lemma pieces_left_chunk_count:
  assumes "0 < cs" "chunk_count fs cs = Ok n"
  shows "pieces_left (unat fs) (unat cs) (unat n)"
proof -
  define q r where "q = unat fs div unat cs" and "r = unat fs mod unat cs"
  have cs: "0 < unat cs" using assms(1) by (simp add: word_less_nat_alt)
  have eq: "unat fs = q * unat cs + r" "r < unat cs" using cs by (simp_all add: q_def r_def)
  have "q < 2 ^ 64 - 1 \<or> r = 0"
  proof (cases "unat cs = 1")
    case True
    then show ?thesis using eq(2) by simp
  next
    case False
    then have "2 * q \<le> unat fs" using cs eq(1) by (metis Suc_1 Suc_leI le_add1 mult.commute mult_le_mono1
        nat_less_le One_nat_def order_trans)
    then have "2 * q < 18446744073709551616" using unat_lt_u64 [of fs] by (rule order.strict_trans1)
    then show ?thesis by simp
  qed
  then have "unat n = (if 0 < r then q + 1 else q)"
    using assms by (auto simp: chunk_count_def q_def r_def word_less_nat_alt unat_div unat_mod
        unat_plus_u64 split: if_splits)
  then show ?thesis using eq by (auto simp: pieces_left_def)
qed

text \<open>
  The generated manifest, for any sizes that fit in memory: its bodies are the file cut in order, each
  addressed by its chunk id.  If no two different bodies have the same digest, it is valid; with the
  bodies stored it reads back as the file.
\<close>

lemma generate_manifest_Ok:
  assumes R: "rng_ok R" and fs: "unat fs < 2 ^ 63" and cs: "0 < cs"
  obtains g where
    "generate_manifest R b3hex p fresh fs cs seed =
      Ok (\<lparr>m_manifest_id = fresh, m_total_size = fs, m_chunk_count = len_u64 (g_entries g),
           m_entries = g_entries g, m_chunks = g_chunks g\<rparr>, g_bodies g)"
    "generated_ok b3hex g" "g_offset g = fs"
    "generate_file_bytes R fs seed = Ok (concat (map snd (g_bodies g)))"
    "map (length \<circ> snd) (g_bodies g) = cut_sizes (unat fs) (unat cs)"
proof -
  let ?g0 = "\<lparr>g_offset = 0, g_entries = [], g_chunks = [], g_bodies = []\<rparr>"
  obtain n where n: "chunk_count fs cs = Ok n" using cs by (auto simp: chunk_count_def word_gt_0)
  have "generated_ok b3hex ?g0" by (simp add: generated_ok_def)
  then obtain g st where g: "manifest_loop R b3hex p fs cs (unat n) (ByteStream_new R seed) ?g0 = Ok g"
    "generated_ok b3hex g" "g_offset g = fs"
    "fill R (unat fs) (ByteStream_new R seed) = Ok (concat (map snd (g_bodies g)), st)"
    "map (length \<circ> snd) (g_bodies g) = cut_sizes (unat fs) (unat cs)"
    using manifest_loop_spec [OF R fs cs, of ?g0 "unat n" b3hex "ByteStream_new R seed" "ByteStream_new R seed" p]
      pieces_left_chunk_count [OF cs n] by auto
  have "generate_file_bytes R fs seed = Ok (concat (map snd (g_bodies g)))"
    using g(4) fs by (simp add: generate_file_bytes_def zeroed_def map_ok_def)
  with g n show ?thesis
    by (intro that [of g]) (simp_all add: generate_manifest_def map_ok_def)
qed

lemma generated_file_cut:
  assumes "rng_ok R" "unat fs < 2 ^ 63" "0 < cs"
  obtains m bodies where "generate_manifest R b3hex p fresh fs cs seed = Ok (m, bodies)"
    "map (length \<circ> snd) bodies = cut_sizes (unat fs) (unat cs)"
  using generate_manifest_Ok [OF assms, of b3hex p fresh seed] by metis

lemma generated_in_bodies:
  assumes "generated_ok b3hex g" "e \<in> set (g_entries g)"
  obtains c bs where "(c, bs) \<in> set (g_bodies g)" "body_of b3hex e (c, bs)"
proof -
  have all2: "list_all2 (body_of b3hex) (g_entries g) (g_bodies g)" using assms(1) by (simp add: generated_ok_def)
  obtain i where i: "i < length (g_entries g)" "e = g_entries g ! i" using assms(2) by (auto simp: in_set_conv_nth)
  then have "body_of b3hex e (g_bodies g ! i)" "g_bodies g ! i \<in> set (g_bodies g)"
    using all2 by (simp_all add: list_all2_conv_all_nth)
  then show ?thesis using that by (cases "g_bodies g ! i") auto
qed

lemma generated_bodies:
  assumes "generated_ok b3hex g" "(c, bs) \<in> set (g_bodies g)"
  shows "c_chunk_id c = ChunkId_from_bytes b3hex bs" "unat (c_size c) = length bs" "bs \<noteq> []"
proof -
  have all2: "list_all2 (body_of b3hex) (g_entries g) (g_bodies g)" using assms(1) by (simp add: generated_ok_def)
  obtain i where i: "i < length (g_bodies g)" "(c, bs) = g_bodies g ! i" using assms(2) by (auto simp: in_set_conv_nth)
  then have "body_of b3hex (g_entries g ! i) (c, bs)" using all2 by (simp add: list_all2_conv_all_nth)
  then have "\<exists>e. body_of b3hex e (c, bs)" ..
  then show "c_chunk_id c = ChunkId_from_bytes b3hex bs" "unat (c_size c) = length bs" "bs \<noteq> []"
    by (auto simp: body_of_def)
qed

lemma generated_manifest_ok:
  assumes g: "generated_ok b3hex g" "unat (g_offset g) < 2 ^ 63"
    and hex: "hex_digest b3hex" and apart: "inj_on b3hex (snd ` set (g_bodies g))"
  shows "manifest_ok \<lparr>m_manifest_id = fresh, m_total_size = g_offset g,
    m_chunk_count = len_u64 (g_entries g), m_entries = g_entries g, m_chunks = g_chunks g\<rparr>"
    (is "manifest_ok ?m")
proof -
  have size': "chunk_size ?m (e_chunk_id e) = Some (e_length e)" if e: "e \<in> set (g_entries g)" for e
  proof -
    obtain c bs where cb: "(c, bs) \<in> set (g_bodies g)" "body_of b3hex e (c, bs)"
      using generated_in_bodies [OF g(1) e] .
    have "e_chunk_id e \<in> c_chunk_id ` set (g_chunks g)" using g(1) e by (simp add: generated_ok_def)
    then obtain d where d: "d \<in> set (g_chunks g)" "c_chunk_id d = e_chunk_id e" by auto
    then obtain ds where ds: "(d, ds) \<in> set (g_bodies g)" using g(1) by (auto simp: generated_ok_def)
    have "b3hex ds = b3hex bs"
      using generated_bodies [OF g(1)] ds cb d by (simp add: body_of_def ChunkId_from_bytes_def)
    moreover have "ds \<in> snd ` set (g_bodies g)" "bs \<in> snd ` set (g_bodies g)"
      using imageI [OF ds, of snd] imageI [OF cb(1), of snd] by simp_all
    ultimately have "ds = bs" by (rule inj_onD [OF apart])
    then have "c_size d = e_length e"
      using generated_bodies(2) [OF g(1)] ds cb by (simp add: body_of_def word_unat_eq_iff)
    then show ?thesis using chunk_size_distinct [of ?m d] g(1) d by (simp add: generated_ok_def)
  qed
  have pos: "0 < e_length e \<and> e_chunk_offset e = 0 \<and> wf_chunk_id (e_chunk_id e)"
    if e: "e \<in> set (g_entries g)" for e
  proof -
    obtain c bs where cb: "body_of b3hex e (c, bs)" using generated_in_bodies [OF g(1) e] by blast
    then have "unat (e_length e) = length bs" "bs \<noteq> []" by (simp_all add: body_of_def)
    then have "0 < e_length e" by (simp add: word_less_nat_alt)
    then show ?thesis using cb hex by (simp add: body_of_def wf_from_bytes)
  qed
  have "length (g_entries g) \<le> total_length (g_entries g)"
  proof -
    have "list_all (\<lambda>e. 0 < e_length e) es \<Longrightarrow> length es \<le> total_length es" for es
      by (induction es) (auto simp: word_less_nat_alt)
    then show ?thesis using pos by (simp add: list_all_iff)
  qed
  then have "unat (len_u64 (g_entries g)) = length (g_entries g)"
    using g by (simp add: generated_ok_def u64_simps)
  moreover have "wf_chunk_id (c_chunk_id c) \<and> (\<exists>e\<in>set (g_entries g). e_chunk_id e = c_chunk_id c)"
    if "c \<in> set (g_chunks g)" for c
  proof -
    have "c_chunk_id c \<in> e_chunk_id ` set (g_entries g)"
      using g(1) that by (auto simp: generated_ok_def)
    then show ?thesis using pos by auto
  qed
  ultimately show ?thesis
    using g(1) size' pos by (simp add: manifest_ok_def generated_ok_def entry_in_chunk_def)
qed

lemma generated_file_bytes:
  assumes "generated_ok b3hex g" "\<forall>(c, bs)\<in>set (g_bodies g). content (c_chunk_id c) = Some bs"
    and "m_entries m = g_entries g"
  shows "file_bytes content m = concat (map snd (g_bodies g))"
proof -
  have "list_all2 (body_of b3hex) (g_entries g) (g_bodies g)" using assms(1) by (simp add: generated_ok_def)
  then have "map (entry_bytes content) (g_entries g) = map snd (g_bodies g)"
    using assms(2) by (induction rule: list_all2_induct) (auto simp: entry_bytes_def body_of_def)
  then show ?thesis using assms(3) by (simp add: file_bytes_def)
qed

end
