(* ===== verification/Happy_Chain.thy ===== *)
theory Happy_Chain
  imports Rpc Generators
begin

text \<open>
  The contract chain of \<^verbatim>\<open>tests/suites/tests/e2e_chain_happy.rs\<close>: a client creates a file, uploads the
  chunks of a generated manifest, each twice, stores the manifest, creates and commits a version and
  reads the file back.  The chain is a program over the client's calls; a failed \<^verbatim>\<open>expect\<close> or assertion
  is a panic.  Here are the program and what one upload, the generated manifest and the calls that publish
  it do; that the chain passes is proved in \<open>Busy_Chain\<close>, with other clients and without.
\<close>

section \<open>The chain\<close>

definition E2E_CHUNK :: u64 where
  "E2E_CHUNK = 64 * 1024"

definition or_panic :: "'a space_result \<times> 'w \<Rightarrow> 'a space_result \<times> 'w" where
  "or_panic r = (case r of (Ok a, w) \<Rightarrow> (Ok a, w) | (_, w) \<Rightarrow> (Panic, w))"

definition assert_that :: "bool \<Rightarrow> 'w \<Rightarrow> unit space_result \<times> 'w" where
  "assert_that b w = (if b then Ok () else Panic, w)"

fun put_bodies ::
  "ClientEnv \<Rightarrow> 'w transport \<Rightarrow> CloudClient \<Rightarrow> (Chunk \<times> bytes) list \<Rightarrow> 'w \<Rightarrow> unit space_result \<times> 'w" where
  "put_bodies ce net c [] w = (Ok (), w)"
| "put_bodies ce net c ((chunk, body) # rest) w =
     and_then_st (or_panic (register_and_put_chunk ce net c w (c_chunk_id chunk) body)) (\<lambda>ack w.
     and_then_st (assert_that (c_size (cr_chunk ack) = len_u64 body) w) (\<lambda>_ w.
     and_then_st (or_panic (register_and_put_chunk ce net c w (c_chunk_id chunk) body)) (\<lambda>_ w.
     put_bodies ce net c rest w)))"

definition chain_name :: "u64 \<Rightarrow> string" where
  "chain_name size' = ''f'' @ show_u64 size' @ ''.bin''"

definition chain_key :: "u64 \<Rightarrow> u64 \<Rightarrow> string" where
  "chain_key size' seed = ''key-'' @ show_u64 size' @ ''-'' @ show_u64 seed"

definition run_chain_for_size ::
  "ClientEnv \<Rightarrow> 'w transport \<Rightarrow> CloudClient \<Rightarrow> 'r Rng \<Rightarrow> DirectoryId \<Rightarrow> ManifestId \<Rightarrow> VersionId
     \<Rightarrow> u64 \<Rightarrow> u64 \<Rightarrow> 'w \<Rightarrow> unit space_result \<times> 'w" where
  "run_chain_for_size ce net c R dir mid vid size' seed w =
     and_then_st (or_panic (c_create_file ce net c w dir (chain_name size') (chain_key size' seed))) (\<lambda>file w.
     and_then_st (generate_manifest R (ce_b3hex ce) (ce_profile ce) mid size' E2E_CHUNK seed, w)
       (\<lambda>(manifest, bodies) w.
     and_then_st (put_bodies ce net c bodies w) (\<lambda>_ w.
     and_then_st (or_panic (c_put_manifest ce net c w manifest)) (\<lambda>_ w.
     and_then_st (or_panic (c_create_version ce net c w (f_file_id file) vid None (m_manifest_id manifest)))
       (\<lambda>version w.
     and_then_st (assert_that (debug_state (v_state version) = ''Candidate'') w) (\<lambda>_ w.
     and_then_st (or_panic (c_commit_version ce net c w vid)) (\<lambda>committed w.
     and_then_st (assert_that (debug_state (v_state committed) = ''Committed'') w) (\<lambda>_ w.
     and_then_st (or_panic (reassemble ce net c w manifest)) (\<lambda>reassembled w.
     and_then_st (assert_that (reassembled = concat (map snd bodies)) w) (\<lambda>_ w.
     and_then_st (assert_that (len_u64 reassembled = size') w) (\<lambda>_ w.
     and_then_st (or_panic (c_stat_file ce net c w (f_file_id file))) (\<lambda>stat w.
     assert_that (f_current_version_id stat = Some vid) w))))))))))))"

lemma or_panic_Ok [simp]: "or_panic (Ok a, w) = (Ok a, w)"
  by (simp add: or_panic_def)

lemma assert_that_True [simp]: "assert_that True w = (Ok (), w)"
  by (simp add: assert_that_def)

section \<open>The uploads\<close>

definition chunk_of :: "(bytes \<Rightarrow> string) \<Rightarrow> bytes \<Rightarrow> Chunk" where
  "chunk_of b3hex bs = \<lparr>c_chunk_id = ChunkId_from_bytes b3hex bs, c_size = len_u64 bs\<rparr>"

text \<open>One upload of a body, on a server where no other stored content has its digest.\<close>

definition with_chunk :: "(bytes \<Rightarrow> string) \<Rightarrow> bytes \<Rightarrow> AppState \<Rightarrow> AppState" where
  "with_chunk b3hex bs st = \<lparr>st_meta = add_chunk (st_meta st) (chunk_of b3hex bs),
     st_blobs = (st_blobs st)(ChunkId_from_bytes b3hex bs \<mapsto> bs)\<rparr>"

lemma with_chunk_again [simp]: "with_chunk b3hex bs (with_chunk b3hex bs st) = with_chunk b3hex bs st"
  by (simp add: with_chunk_def add_chunk_def)

lemma ran_with_chunk: "ran (st_blobs (with_chunk b3hex bs st)) \<subseteq> insert bs (ran (st_blobs st))"
  by (auto simp: with_chunk_def ran_def)

lemma put_body:
  assumes w: "world_ok ce envs (n, st)" and hex: "hex_digest (ce_b3hex ce)"
    and fits: "\<forall>k. body_fits envs k (RawBytes bs)" "fits_memory bs"
    and apart: "inj_on (ce_b3hex ce) (insert bs (ran (st_blobs st)))"
  shows "register_and_put_chunk ce (over_http base envs) \<lparr>cc_base = base\<rparr> (n, st)
      (ChunkId_from_bytes (ce_b3hex ce) bs) bs
      = (Ok (ChunkResponse_new (chunk_of (ce_b3hex ce) bs)), (Suc n, with_chunk (ce_b3hex ce) bs st))"
    and "(server_step (ce_b3hex ce))\<^sup>*\<^sup>* st (with_chunk (ce_b3hex ce) bs st)"
    and "world_ok ce envs (k, with_chunk (ce_b3hex ce) bs st)"
proof -
  let ?b3 = "ce_b3hex ce" and ?i = "ChunkId_from_bytes (ce_b3hex ce) bs"
  have same: "same_world ce envs" and inv: "app_inv ?b3 st" using w by (simp_all add: world_ok_def)
  have wf: "wf_chunk_id ?i" using hex by (rule wf_from_bytes)
  have free: "st_blobs st ?i = None \<or> st_blobs st ?i = Some bs"
  proof (cases "st_blobs st ?i")
    case (Some b)
    then have "ChunkId_verify ?b3 ?i b" using inv by (auto simp: app_inv_def blobs_ok_def)
    then have "?b3 b = ?b3 bs" by (simp add: ChunkId_verify_def ChunkId_from_bytes_def)
    moreover have "b \<in> ran (st_blobs st)" using Some by (rule ranI)
    ultimately have "b = bs" using inj_onD [OF apart, of b bs] by simp
    then show ?thesis using Some by simp
  qed simp
  have put: "h_put_chunk ?b3 st (as_str ?i) bs = (Ok (ChunkResponse_new (chunk_of ?b3 bs)), with_chunk ?b3 bs st)"
    using h_put_chunk_exact [OF inv wf verify_from_bytes free] by (simp add: with_chunk_def chunk_of_def)
  then show run: "(server_step ?b3)\<^sup>*\<^sup>* st (with_chunk ?b3 bs st)"
    using h_put_chunk_run [OF fits(2), of ?b3 st "as_str ?i"] by simp
  then show "world_ok ce envs (k, with_chunk ?b3 bs st)"
    using server.run_inv inv same by (auto simp: world_ok_def)
  show "register_and_put_chunk ce (over_http base envs) \<lparr>cc_base = base\<rparr> (n, st) ?i bs
      = (Ok (ChunkResponse_new (chunk_of ?b3 bs)), (Suc n, with_chunk ?b3 bs st))"
    using rpc_put_chunk [OF same wf, of "(n, st)" bs base] fits put by simp
qed

lemma put_body_twice:
  assumes w: "world_ok ce envs (n, st)" and hex: "hex_digest (ce_b3hex ce)"
    and fits: "\<forall>k. body_fits envs k (RawBytes bs)" "fits_memory bs"
    and apart: "inj_on (ce_b3hex ce) (insert bs (ran (st_blobs st)))"
  shows "put_bodies ce (over_http base envs) \<lparr>cc_base = base\<rparr> ((chunk_of (ce_b3hex ce) bs, bs) # rest) (n, st)
      = put_bodies ce (over_http base envs) \<lparr>cc_base = base\<rparr> rest (Suc (Suc n), with_chunk (ce_b3hex ce) bs st)"
proof -
  have "insert bs (ran (st_blobs (with_chunk (ce_b3hex ce) bs st))) \<subseteq> insert bs (ran (st_blobs st))"
    using ran_with_chunk [of "ce_b3hex ce" bs st] by blast
  note apart' = inj_on_subset [OF apart this]
  from put_body(1) [OF w hex fits apart, of base] put_body(1) [OF put_body(3) [OF w hex fits apart] hex fits apart', of base]
  show ?thesis by (simp add: chunk_of_def ChunkResponse_new_def)
qed

section \<open>What the chain needs\<close>

lemma app_inv_meta:
  assumes "app_inv b3hex st" "meta_step (st_meta st) g" "s_chunks g = s_chunks (st_meta st)"
  shows "app_inv b3hex (st\<lparr>st_meta := g\<rparr>)"
  using assms meta_step_inv by (auto simp: app_inv_def backed_def)

lemma show_nat_legal: "c \<in> set (show_nat n) \<Longrightarrow> c \<in> {CHR ''0''..CHR ''9''}"
proof (induction n rule: show_nat.induct)
  case (1 n)
  have digit: "digit_char d \<in> {CHR ''0''..CHR ''9''}" if "d < 10" for d
    using that by (auto simp: digit_char_def less_eq_char_def)
  show ?case using 1 digit by (cases "n < 10") (auto simp: show_nat.simps [of n])
qed

lemma chain_name_legal: "\<not> illegal_name (chain_name size')"
  using show_nat_legal [of _ "unat size'"]
  by (force simp: illegal_name_def chain_name_def show_u64_def less_eq_char_def list_ex_iff)

definition chain_new :: "(nat \<Rightarrow> Env) \<Rightarrow> nat \<Rightarrow> Inner \<Rightarrow> u64 \<Rightarrow> u64 \<Rightarrow> ManifestId \<Rightarrow> VersionId \<Rightarrow> bool" where
  "chain_new envs n g size' seed mid vid \<longleftrightarrow>
     s_file_idempotency g (chain_key size' seed) = None \<and> s_files g (env_fresh_file (envs n)) = None \<and>
     s_manifests g mid = None \<and> s_versions g vid = None"

definition chain_fits ::
  "(nat \<Rightarrow> Env) \<Rightarrow> DirectoryId \<Rightarrow> u64 \<Rightarrow> u64 \<Rightarrow> Manifest \<Rightarrow> (Chunk \<times> bytes) list \<Rightarrow> VersionId \<Rightarrow> bool" where
  "chain_fits envs dir size' seed m bodies vid \<longleftrightarrow>
     (\<forall>k. body_fits envs k (JCreateFile \<lparr>cfr_parent_id = dir, cfr_name = chain_name size',
            cfr_idempotency_key = chain_key size' seed\<rparr>) \<and>
          body_fits envs k (JPutManifest \<lparr>pmr_manifest = m\<rparr>) \<and>
          body_fits envs k (JCreateVersion \<lparr>cvr_version_id = vid, cvr_parent_version_id = None,
            cvr_manifest_id = m_manifest_id m\<rparr>) \<and>
          (\<forall>(c, bs)\<in>set bodies. body_fits envs k (RawBytes bs)))"

text \<open>The generated manifest as the chain uses it.\<close>

lemma generated_for_chain:
  assumes "rng_ok R" "hex_digest b3hex" "unat size' < 2 ^ 63"
    and m: "generate_manifest R b3hex p mid size' E2E_CHUNK seed = Ok (m, bodies)"
    and "inj_on b3hex (snd ` set bodies)"
  shows "manifest_ok m" "m_manifest_id m = mid" "m_total_size m = size'" "small_entries m"
    and "\<forall>(c, bs)\<in>set bodies. c = chunk_of b3hex bs \<and> fits_memory bs"
    and "set (m_chunks m) \<subseteq> fst ` set bodies"
    and "\<And>content. \<forall>(c, bs)\<in>set bodies. content (c_chunk_id c) = Some bs \<Longrightarrow>
      file_bytes content m = concat (map snd bodies)"
proof -
  have cs: "0 < E2E_CHUNK" "unat E2E_CHUNK = 65536" by (simp_all add: E2E_CHUNK_def)
  obtain g where gen: "generate_manifest R b3hex p mid size' E2E_CHUNK seed =
        Ok (\<lparr>m_manifest_id = mid, m_total_size = size', m_chunk_count = len_u64 (g_entries g),
          m_entries = g_entries g, m_chunks = g_chunks g\<rparr>, g_bodies g)"
      "generated_ok b3hex g" "g_offset g = size'"
      "map (length \<circ> snd) (g_bodies g) = cut_sizes (unat size') (unat E2E_CHUNK)"
    by (rule generate_manifest_Ok [OF assms(1,3) cs(1), of b3hex p mid seed])
  then have g: "m = \<lparr>m_manifest_id = mid, m_total_size = size', m_chunk_count = len_u64 (g_entries g),
        m_entries = g_entries g, m_chunks = g_chunks g\<rparr>" "bodies = g_bodies g"
      "generated_ok b3hex g" "g_offset g = size'"
      "map (length \<circ> snd) (g_bodies g) = cut_sizes (unat size') 65536"
    using m cs(2) by simp_all
  show "manifest_ok m" using generated_manifest_ok [OF g(3) _ assms(2)] assms(3,5) g by simp
  show "m_manifest_id m = mid" "m_total_size m = size'" "set (m_chunks m) \<subseteq> fst ` set bodies"
    using g by (simp_all add: generated_ok_def)
  have len: "length bs \<le> 65536" if "(c, bs) \<in> set bodies" for c bs
  proof -
    have "length bs \<in> set (map (length \<circ> snd) (g_bodies g))" using imageI [OF that, of "length \<circ> snd"] g(2) by simp
    then show ?thesis unfolding g(5) by (auto simp: cut_sizes_def split: if_splits intro: less_imp_le)
  qed
  show "\<forall>(c, bs)\<in>set bodies. c = chunk_of b3hex bs \<and> fits_memory bs"
  proof clarify
    fix c bs assume cb: "(c, bs) \<in> set bodies"
    then have "c_chunk_id c = ChunkId_from_bytes b3hex bs" "unat (c_size c) = length bs"
      using generated_bodies [OF g(3)] g(2) by simp_all
    moreover have "fits_memory bs" using len [OF cb] by (simp add: fits_memory_def)
    ultimately show "c = chunk_of b3hex bs \<and> fits_memory bs"
      by (simp add: chunk_of_def unat_len_fits word_unat_eq_iff)
  qed
  have "unat (e_length e) < 2 ^ 32" if e: "e \<in> set (m_entries m)" for e
  proof -
    obtain c bs where "(c, bs) \<in> set bodies" "body_of b3hex e (c, bs)"
      using generated_in_bodies [OF g(3), of e] e g(1,2) by auto
    then show ?thesis using len [of c bs] by (simp add: body_of_def)
  qed
  then show "small_entries m" using assms(3) g(1) by (simp add: small_entries_def)
  show "file_bytes content m = concat (map snd bodies)"
    if "\<forall>(c, bs)\<in>set bodies. content (c_chunk_id c) = Some bs" for content
    using generated_file_bytes [OF g(3)] that g(1,2) by simp
qed

text \<open>The three calls that publish, on the metadata store: each succeeds, and the version is visible at the end.\<close>

lemma publish_calls:
  assumes m: "manifest_ok m" "m_manifest_id m = mid" "chunks_registered g m"
    and ids: "s_files g f = Some file" "s_manifests g mid = None" "s_versions g vid = None"
  obtains g2 g3 where
    "put_manifest g m = (Ok m, add_manifest g m)"
    "create_version now (add_manifest g m) f vid None mid = (Ok (candidate now f vid None mid), g2)"
    "commit_version now' g2 vid = (Ok ((candidate now f vid None mid)\<lparr>v_state := Committed\<rparr>), g3)"
    "s_chunks (add_manifest g m) = s_chunks g" "s_chunks g2 = s_chunks g" "s_chunks g3 = s_chunks g"
    "visible g2 vid = None"
    "s_manifests g3 mid = Some m" "s_files g3 f = Some (point_file_at now' vid file)"
    "visible g3 vid = Some ((candidate now f vid None mid)\<lparr>v_state := Committed\<rparr>)"
proof -
  let ?v = "candidate now f vid None mid"
  define g1 g2 g3 where "g1 = add_manifest g m" and "g2 = add_version g1 ?v"
    and "g3 = publish_version now' g2 vid ?v"
  note sel = g1_def g2_def g3_def add_manifest_def add_version_def publish_version_def candidate_def
  have "put_manifest g m = (Ok m, g1)" using m ids(2) by (simp add: put_manifest_Ok g1_def)
  moreover have "create_version now g1 f vid None mid = (Ok ?v, g2)"
    unfolding g2_def using ids m(2)
    by (intro create_version_new) (simp_all add: g1_def add_manifest_def parent_ok_def)
  moreover have "commit_version now' g2 vid = (Ok (?v\<lparr>v_state := Committed\<rparr>), g3)"
    unfolding g3_def using m(1,2) by (intro commit_version_publishes [of _ _ _ m]) (simp_all add: sel)
  moreover have "s_chunks g1 = s_chunks g" "s_chunks g2 = s_chunks g" "s_chunks g3 = s_chunks g"
    "visible g2 vid = None"
    by (simp_all add: sel visible_def split: option.split)
  ultimately show ?thesis
    using m(2) ids by (intro that [of g2 g3]) (simp_all add: visible_def sel)
qed

end
