(* ===== verification/Busy_Chain.thy ===== *)
theory Busy_Chain
  imports Happy_Chain Busy_Server
begin

text \<open>
  The end-to-end chain beside other clients: between any two of its requests the server serves any
  requests of theirs.  They only have to leave the chain's own names alone (its idempotency key, its file,
  its manifest and version ids) and to bring no content whose digest collides with a body of the chain.
  What one request of the chain has brought about is still there at the next, because the stores only
  grow.
\<close>

section \<open>The other clients\<close>

definition leave_alone ::
  "(nat \<Rightarrow> AppState \<Rightarrow> AppState) \<Rightarrow> bytes set \<Rightarrow> string \<Rightarrow> FileId \<Rightarrow> ManifestId \<Rightarrow> VersionId \<Rightarrow> bool" where
  "leave_alone others theirs key f mid vid \<longleftrightarrow>
     (\<forall>n st. let g = st_meta st; g' = st_meta (others n st) in
        s_file_idempotency g' key = s_file_idempotency g key \<and> s_files g' f = s_files g f \<and>
        s_manifests g' mid = s_manifests g mid \<and> s_versions g' vid = s_versions g vid \<and>
        ran (st_blobs (others n st)) \<subseteq> ran (st_blobs st) \<union> theirs)"

lemma leave_alone_sel:
  assumes "leave_alone others theirs key f mid vid"
  shows "s_file_idempotency (st_meta (others n st)) key = s_file_idempotency (st_meta st) key"
    and "s_files (st_meta (others n st)) f = s_files (st_meta st) f"
    and "s_manifests (st_meta (others n st)) mid = s_manifests (st_meta st) mid"
    and "s_versions (st_meta (others n st)) vid = s_versions (st_meta st) vid"
    and "ran (st_blobs (others n st)) \<subseteq> ran (st_blobs st) \<union> theirs"
  using assms by (simp_all add: leave_alone_def Let_def)

text \<open>Every call beside the others is the call at the state they leave.\<close>

lemma calls_beside:
  "c_create_file ce (beside others base envs) c (n, st) d name key = c_create_file ce (over_http base envs) c (n, others n st) d name key"
  "register_and_put_chunk ce (beside others base envs) c (n, st) i bs = register_and_put_chunk ce (over_http base envs) c (n, others n st) i bs"
  "c_put_manifest ce (beside others base envs) c (n, st) m = c_put_manifest ce (over_http base envs) c (n, others n st) m"
  "c_create_version ce (beside others base envs) c (n, st) f v p mi = c_create_version ce (over_http base envs) c (n, others n st) f v p mi"
  "c_commit_version ce (beside others base envs) c (n, st) v = c_commit_version ce (over_http base envs) c (n, others n st) v"
  "c_stat_file ce (beside others base envs) c (n, st) f = c_stat_file ce (over_http base envs) c (n, others n st) f"
  by (simp_all add: c_create_file_def register_and_put_chunk_def c_put_manifest_def c_create_version_def
      c_commit_version_def c_stat_file_def send_beside)

section \<open>What the chain relies on between its requests\<close>

text \<open>The server is consistent, and its bodies are among those of the clients.\<close>

definition steady :: "ClientEnv \<Rightarrow> (nat \<Rightarrow> Env) \<Rightarrow> bytes set \<Rightarrow> AppState \<Rightarrow> bool" where
  "steady ce envs known st \<longleftrightarrow> same_world ce envs \<and> app_inv (ce_b3hex ce) st \<and> ran (st_blobs st) \<subseteq> known"

definition same_names :: "FileId \<Rightarrow> ManifestId \<Rightarrow> VersionId \<Rightarrow> Inner \<Rightarrow> Inner \<Rightarrow> bool" where
  "same_names f mid vid g g' \<longleftrightarrow> s_files g' f = s_files g f \<and> s_manifests g' mid = s_manifests g mid \<and>
     s_versions g' vid = s_versions g vid"

definition body_stored :: "AppState \<Rightarrow> Chunk \<times> bytes \<Rightarrow> bool" where
  "body_stored st cb \<longleftrightarrow> st_blobs st (c_chunk_id (fst cb)) = Some (snd cb) \<and>
     s_chunks (st_meta st) (c_chunk_id (fst cb)) = Some (fst cb)"

lemma steady_world: "steady ce envs known st \<Longrightarrow> world_ok ce envs (n, st)"
  by (simp add: steady_def world_ok_def)

lemma same_names_trans: "same_names f mid vid a b \<Longrightarrow> same_names f mid vid b c \<Longrightarrow> same_names f mid vid a c"
  by (simp add: same_names_def)

lemma body_stored_grows: "server_grows st st' \<Longrightarrow> body_stored st cb \<Longrightarrow> body_stored st' cb"
  using keptD [of "(=)" "st_blobs st"] keptD [of "(=)" "s_chunks (st_meta st)"]
  by (fastforce simp: server_grows_def grows_def body_stored_def)

lemma server_grows_trans: "server_grows a b \<Longrightarrow> server_grows b c \<Longrightarrow> server_grows a c"
  by (rule server_growth.le_trans)

lemma server_grows_refl: "server_grows a a"
  by (rule server_growth.le_refl)

text \<open>A turn of the others.\<close>

lemma turn:
  assumes "only_requests (ce_b3hex ce) others" "leave_alone others theirs key f mid vid"
    and "steady ce envs known st" "theirs \<subseteq> known"
  shows "steady ce envs known (others n st)" "server_grows st (others n st)"
    "same_names f mid vid (st_meta st) (st_meta (others n st))"
proof -
  have "(server_step (ce_b3hex ce))\<^sup>*\<^sup>* st (others n st)" using assms(1) by (simp add: only_requests_def)
  then show "server_grows st (others n st)" using server_growth.run_le assms(3) by (auto simp: steady_def)
  show "steady ce envs known (others n st)"
    using others_inv [OF assms(1)] leave_alone_sel(5) [OF assms(2), of n st] assms(3,4)
    by (auto simp: steady_def)
  show "same_names f mid vid (st_meta st) (st_meta (others n st))"
    using leave_alone_sel(2-4) [OF assms(2)] by (simp add: same_names_def)
qed

text \<open>One upload of a body, and the two of the chain with a turn of the others before each.\<close>

lemma upload_steady:
  assumes st: "steady ce envs known st" and hex: "hex_digest (ce_b3hex ce)"
    and body: "bs \<in> known" "\<forall>k. body_fits envs k (RawBytes bs)" "fits_memory bs"
    and apart: "inj_on (ce_b3hex ce) known"
  defines "st' \<equiv> with_chunk (ce_b3hex ce) bs st"
  shows "register_and_put_chunk ce (over_http base envs) \<lparr>cc_base = base\<rparr> (n, st)
      (c_chunk_id (chunk_of (ce_b3hex ce) bs)) bs = (Ok (ChunkResponse_new (chunk_of (ce_b3hex ce) bs)), (Suc n, st'))"
    and "steady ce envs known st'" "server_grows st st'" "same_names f mid vid (st_meta st) (st_meta st')"
    and "body_stored st' (chunk_of (ce_b3hex ce) bs, bs)"
proof -
  have "inj_on (ce_b3hex ce) (insert bs (ran (st_blobs st)))"
    using st body(1) by (intro inj_on_subset [OF apart]) (auto simp: steady_def)
  note put = put_body [OF steady_world [OF st] hex body(2,3) this]
  show "register_and_put_chunk ce (over_http base envs) \<lparr>cc_base = base\<rparr> (n, st)
      (c_chunk_id (chunk_of (ce_b3hex ce) bs)) bs = (Ok (ChunkResponse_new (chunk_of (ce_b3hex ce) bs)), (Suc n, st'))"
    using put(1) by (simp add: chunk_of_def st'_def)
  show "server_grows st st'"
    using server_growth.run_le [OF put(2)] st by (simp add: steady_def st'_def)
  show "steady ce envs known st'"
    using put(3) [of 0] ran_with_chunk [of "ce_b3hex ce" bs st] st body(1)
    unfolding st'_def steady_def world_ok_def by auto
  show "same_names f mid vid (st_meta st) (st_meta st')" "body_stored st' (chunk_of (ce_b3hex ce) bs, bs)"
    by (simp_all add: st'_def with_chunk_def same_names_def body_stored_def add_chunk_def chunk_of_def)
qed

lemma put_bodies_beside:
  assumes others: "only_requests (ce_b3hex ce) others" "leave_alone others theirs key f mid vid" "theirs \<subseteq> known"
    and hex: "hex_digest (ce_b3hex ce)" and apart: "inj_on (ce_b3hex ce) known"
    and "steady ce envs known st"
    and "\<forall>(c, bs)\<in>set bodies. c = chunk_of (ce_b3hex ce) bs \<and> bs \<in> known \<and> fits_memory bs \<and>
      (\<forall>k. body_fits envs k (RawBytes bs))"
  shows "\<exists>n' st'. put_bodies ce (beside others base envs) \<lparr>cc_base = base\<rparr> bodies (n, st) = (Ok (), (n', st')) \<and>
    steady ce envs known st' \<and> server_grows st st' \<and> same_names f mid vid (st_meta st) (st_meta st') \<and>
    (\<forall>cb\<in>set bodies. body_stored st' cb)"
  using assms(6,7)
proof (induction bodies arbitrary: n st)
  case Nil
  then show ?case by (simp add: server_grows_refl same_names_def)
next
  case (Cons cb bodies)
  let ?b3 = "ce_b3hex ce"
  obtain c bs where cb: "cb = (c, bs)" by (cases cb)
  with Cons.prems(2) have c: "c = chunk_of ?b3 bs" and body: "bs \<in> known" "\<forall>k. body_fits envs k (RawBytes bs)" "fits_memory bs"
    by auto
  have tail: "\<forall>(c, bs)\<in>set bodies. c = chunk_of ?b3 bs \<and> bs \<in> known \<and> fits_memory bs \<and>
      (\<forall>k. body_fits envs k (RawBytes bs))"
    using Cons.prems(2) by simp
  note t1 = turn [OF others(1,2) Cons.prems(1) others(3), of n]
  define st1 where "st1 = with_chunk ?b3 bs (others n st)"
  note u1 = upload_steady [OF t1(1) hex body apart, folded st1_def]
  note t2 = turn [OF others(1,2) u1(2) others(3), of "Suc n"]
  define st2 where "st2 = with_chunk ?b3 bs (others (Suc n) st1)"
  note u2 = upload_steady [OF t2(1) hex body apart, folded st2_def]
  obtain n' st' where rest: "put_bodies ce (beside others base envs) \<lparr>cc_base = base\<rparr> bodies (Suc (Suc n), st2) = (Ok (), (n', st'))"
      "steady ce envs known st'" "server_grows st2 st'" "same_names f mid vid (st_meta st2) (st_meta st')"
      "\<forall>cb\<in>set bodies. body_stored st' cb"
    using Cons.IH [OF u2(2) tail, of "Suc (Suc n)"] by blast
  have "put_bodies ce (beside others base envs) \<lparr>cc_base = base\<rparr> (cb # bodies) (n, st) = (Ok (), (n', st'))"
    using u1(1) [where base = base and n = n] u2(1) [where base = base and n = "Suc n"] rest(1) cb c
    by (simp add: calls_beside) (simp add: calls_beside ChunkResponse_new_def chunk_of_def)
  moreover have "server_grows st st'"
    using t1(2) u1(3) t2(2) u2(3) rest(3) by (meson server_grows_trans)
  moreover have "same_names f mid vid (st_meta st) (st_meta st')"
    using t1(3) u1(4) t2(3) u2(4) rest(4) by (meson same_names_trans)
  moreover have "body_stored st' cb" using body_stored_grows [OF rest(3) u2(5)] cb c by simp
  ultimately show ?case using rest(2,5) by auto
qed

section \<open>The chain passes beside others\<close>

text \<open>A call that changes only the metadata.\<close>

lemma meta_steady:
  assumes "steady ce envs known st" "meta_step (st_meta st) g" "s_chunks g = s_chunks (st_meta st)"
  shows "steady ce envs known (st\<lparr>st_meta := g\<rparr>)" "server_grows st (st\<lparr>st_meta := g\<rparr>)"
proof -
  show "steady ce envs known (st\<lparr>st_meta := g\<rparr>)"
    using assms app_inv_meta by (simp add: steady_def)
  have "store_inv (st_meta st)" using assms(1) by (simp add: steady_def app_inv_def)
  then show "server_grows st (st\<lparr>st_meta := g\<rparr>)"
    using meta_step_grows assms(2) by (simp add: server_grows_def)
qed

text \<open>The four calls that change the metadata, each on fresh names: the state they leave.\<close>

lemma new_file_call:
  assumes st: "steady ce envs known st" and name: "\<not> illegal_name name"
    and free: "s_file_idempotency (st_meta st) key = None" "s_files (st_meta st) (env_fresh_file (envs n)) = None"
    and fits: "\<forall>k. body_fits envs k (JCreateFile \<lparr>cfr_parent_id = dir, cfr_name = name, cfr_idempotency_key = key\<rparr>)"
  defines "fl \<equiv> new_file (env_fresh_file (envs n)) (env_now (envs n)) dir name"
  defines "st' \<equiv> st\<lparr>st_meta := add_file (st_meta st) key fl\<rparr>"
  shows "c_create_file ce (over_http base envs) \<lparr>cc_base = base\<rparr> (n, st) dir name key = (Ok fl, (Suc n, st'))"
    and "steady ce envs known st'" "server_grows st st'"
proof -
  have create: "create_file (env_fresh_file (envs n)) (env_now (envs n)) (st_meta st) dir name key
      = (Ok fl, add_file (st_meta st) key fl)"
    using name free by (simp add: create_file_fresh fl_def)
  have "same_world ce envs" "store_inv (st_meta st)" using st by (simp_all add: steady_def app_inv_def)
  then show "c_create_file ce (over_http base envs) \<lparr>cc_base = base\<rparr> (n, st) dir name key = (Ok fl, (Suc n, st'))"
    using rpc_create_file [of ce envs "(n, st)" dir name key base] fits create by (simp add: st'_def)
  have "meta_step (st_meta st) (add_file (st_meta st) key fl)" "s_chunks (add_file (st_meta st) key fl) = s_chunks (st_meta st)"
    using create free(2) step_create_file [of "st_meta st" "env_fresh_file (envs n)" "env_now (envs n)" dir name key]
    by (simp_all add: add_file_def)
  then show "steady ce envs known st'" "server_grows st st'"
    unfolding st'_def by (rule meta_steady [OF st])+
qed

lemma new_manifest_call:
  assumes st: "steady ce envs known st" and plain: "plain_uuids (ce_uuid_show ce)"
    and m: "manifest_ok m" "chunks_registered (st_meta st) m" "s_manifests (st_meta st) (m_manifest_id m) = None"
    and fits: "\<forall>k. body_fits envs k (JPutManifest \<lparr>pmr_manifest = m\<rparr>)"
  defines "st' \<equiv> st\<lparr>st_meta := add_manifest (st_meta st) m\<rparr>"
  shows "c_put_manifest ce (over_http base envs) \<lparr>cc_base = base\<rparr> (n, st) m = (Ok m, (Suc n, st'))"
    and "steady ce envs known st'" "server_grows st st'"
proof -
  have put: "put_manifest (st_meta st) m = (Ok m, add_manifest (st_meta st) m)" using m by (simp add: put_manifest_Ok)
  have "same_world ce envs" using st by (simp add: steady_def)
  then show "c_put_manifest ce (over_http base envs) \<lparr>cc_base = base\<rparr> (n, st) m = (Ok m, (Suc n, st'))"
    using rpc_put_manifest [OF _ plain, of envs "(n, st)" m base] fits put by (simp add: st'_def)
  have "meta_step (st_meta st) (add_manifest (st_meta st) m)" "s_chunks (add_manifest (st_meta st) m) = s_chunks (st_meta st)"
    using put step_put_manifest [of "st_meta st" m] by (simp_all add: add_manifest_def)
  then show "steady ce envs known st'" "server_grows st st'"
    unfolding st'_def by (rule meta_steady [OF st])+
qed

lemma new_version_call:
  fixes n :: nat
  assumes st: "steady ce envs known st" and plain: "plain_uuids (ce_uuid_show ce)"
    and ids: "s_files (st_meta st) f = Some fl" "s_manifests (st_meta st) mid = Some m" "s_versions (st_meta st) vid = None"
    and fits: "\<forall>k. body_fits envs k
      (JCreateVersion \<lparr>cvr_version_id = vid, cvr_parent_version_id = None, cvr_manifest_id = mid\<rparr>)"
  defines "ver \<equiv> candidate (env_now (envs n)) f vid None mid"
  defines "st' \<equiv> st\<lparr>st_meta := add_version (st_meta st) ver\<rparr>"
  shows "c_create_version ce (over_http base envs) \<lparr>cc_base = base\<rparr> (n, st) f vid None mid = (Ok ver, (Suc n, st'))"
    and "steady ce envs known st'" "server_grows st st'"
proof -
  have new: "create_version (env_now (envs n)) (st_meta st) f vid None mid = (Ok ver, add_version (st_meta st) ver)"
    unfolding ver_def using ids by (intro create_version_new) (simp_all add: parent_ok_def)
  have "same_world ce envs" using st by (simp add: steady_def)
  then show "c_create_version ce (over_http base envs) \<lparr>cc_base = base\<rparr> (n, st) f vid None mid = (Ok ver, (Suc n, st'))"
    using rpc_create_version [OF _ plain, of envs "(n, st)" vid None mid base f] fits new by (simp add: st'_def)
  have "meta_step (st_meta st) (add_version (st_meta st) ver)" "s_chunks (add_version (st_meta st) ver) = s_chunks (st_meta st)"
    using new step_create_version [of "st_meta st" "env_now (envs n)" f vid None mid] by (simp_all add: add_version_def)
  then show "steady ce envs known st'" "server_grows st st'"
    unfolding st'_def by (rule meta_steady [OF st])+
qed

lemma first_commit_call:
  fixes n :: nat
  assumes st: "steady ce envs known st" and plain: "plain_uuids (ce_uuid_show ce)"
    and ver: "s_versions (st_meta st) vid = Some ver" "v_state ver = Candidate"
    and m: "s_manifests (st_meta st) (v_manifest_id ver) = Some m" "manifest_ok m"
  defines "st' \<equiv> st\<lparr>st_meta := publish_version (env_now (envs n)) (st_meta st) vid ver\<rparr>"
  shows "c_commit_version ce (over_http base envs) \<lparr>cc_base = base\<rparr> (n, st) vid
      = (Ok (ver\<lparr>v_state := Committed\<rparr>), (Suc n, st'))"
    and "steady ce envs known st'" "server_grows st st'"
proof -
  let ?g = "publish_version (env_now (envs n)) (st_meta st) vid ver"
  have commit: "commit_version (env_now (envs n)) (st_meta st) vid = (Ok (ver\<lparr>v_state := Committed\<rparr>), ?g)"
    using ver m by (simp add: commit_version_publishes)
  have "same_world ce envs" using st by (simp add: steady_def)
  then show "c_commit_version ce (over_http base envs) \<lparr>cc_base = base\<rparr> (n, st) vid
      = (Ok (ver\<lparr>v_state := Committed\<rparr>), (Suc n, st'))"
    using rpc_commit_version [OF _ plain, of envs base "(n, st)" vid] commit by (simp add: st'_def)
  have "meta_step (st_meta st) ?g" "s_chunks ?g = s_chunks (st_meta st)"
    using commit step_commit_version [of "st_meta st" "env_now (envs n)" vid] by (simp_all add: publish_version_def)
  then show "steady ce envs known st'" "server_grows st st'"
    unfolding st'_def by (rule meta_steady [OF st])+
qed

text \<open>The three calls that publish, with a turn of the others before each.\<close>

lemma manifest_beside:
  assumes others: "only_requests (ce_b3hex ce) others" "leave_alone others theirs key f mid vid" "theirs \<subseteq> known"
    and plain: "plain_uuids (ce_uuid_show ce)" and st: "steady ce envs known st"
    and m: "manifest_ok m" "m_manifest_id m = mid" "\<forall>c\<in>set (m_chunks m). s_chunks (st_meta st) (c_chunk_id c) = Some c"
    and ids: "s_files (st_meta st) f = Some fl" "s_manifests (st_meta st) mid = None" "s_versions (st_meta st) vid = None"
    and fits: "\<forall>k. body_fits envs k (JPutManifest \<lparr>pmr_manifest = m\<rparr>)"
  obtains st' where
    "c_put_manifest ce (beside others base envs) \<lparr>cc_base = base\<rparr> (n, st) m = (Ok m, (Suc n, st'))"
    "steady ce envs known st'" "server_grows st st'" "s_files (st_meta st') f = Some fl"
    "s_manifests (st_meta st') mid = Some m" "s_versions (st_meta st') vid = None"
proof -
  note t = turn [OF others(1,2) st others(3), of n]
  have "kept (=) (s_chunks (st_meta st)) (s_chunks (st_meta (others n st)))"
    using t(2) by (simp add: server_grows_def grows_def)
  then have "chunks_registered (st_meta (others n st)) m" using m(3) by (fastforce simp: chunks_registered_def kept_def)
  moreover have "s_manifests (st_meta (others n st)) (m_manifest_id m) = None"
    using t(3) ids(2) m(2) by (simp add: same_names_def)
  ultimately show ?thesis
    using new_manifest_call [OF t(1) plain m(1) _ _ fits]
      server_grows_trans [OF t(2)] t(3) ids m(2)
    by (intro that [of "(others n st)\<lparr>st_meta := add_manifest (st_meta (others n st)) m\<rparr>"])
       (simp_all add: calls_beside same_names_def add_manifest_def)
qed

lemma version_beside:
  assumes others: "only_requests (ce_b3hex ce) others" "leave_alone others theirs key f mid vid" "theirs \<subseteq> known"
    and plain: "plain_uuids (ce_uuid_show ce)" and st: "steady ce envs known st"
    and ids: "s_files (st_meta st) f = Some fl" "s_manifests (st_meta st) mid = Some m" "s_versions (st_meta st) vid = None"
    and fits: "\<forall>k. body_fits envs k
      (JCreateVersion \<lparr>cvr_version_id = vid, cvr_parent_version_id = None, cvr_manifest_id = mid\<rparr>)"
  obtains st' ver where
    "c_create_version ce (beside others base envs) \<lparr>cc_base = base\<rparr> (n, st) f vid None mid = (Ok ver, (Suc n, st'))"
    "v_state ver = Candidate" "v_manifest_id ver = mid" "v_file_id ver = f"
    "steady ce envs known st'" "server_grows st st'" "s_files (st_meta st') f = Some fl"
    "s_manifests (st_meta st') mid = Some m" "s_versions (st_meta st') vid = Some ver"
proof -
  note t = turn [OF others(1,2) st others(3), of n]
  have ids': "s_files (st_meta (others n st)) f = Some fl" "s_manifests (st_meta (others n st)) mid = Some m"
      "s_versions (st_meta (others n st)) vid = None"
    using t(3) ids by (simp_all add: same_names_def)
  note new = new_version_call [OF t(1) plain ids' fits, where n = n]
  then show ?thesis
    using server_grows_trans [OF t(2)] ids'
    by (intro that [of "candidate (env_now (envs n)) f vid None mid" "(others n st)\<lparr>st_meta :=
          add_version (st_meta (others n st)) (candidate (env_now (envs n)) f vid None mid)\<rparr>"])
       (simp_all add: calls_beside add_version_def candidate_def)
qed

lemma commit_beside:
  assumes others: "only_requests (ce_b3hex ce) others" "leave_alone others theirs key f mid vid" "theirs \<subseteq> known"
    and plain: "plain_uuids (ce_uuid_show ce)" and st: "steady ce envs known st" and m: "manifest_ok m"
    and ids: "s_files (st_meta st) f = Some fl" "s_manifests (st_meta st) mid = Some m" "s_versions (st_meta st) vid = Some ver"
    and ver: "v_state ver = Candidate" "v_manifest_id ver = mid" "v_file_id ver = f"
  obtains st' where
    "c_commit_version ce (beside others base envs) \<lparr>cc_base = base\<rparr> (n, st) vid
      = (Ok (ver\<lparr>v_state := Committed\<rparr>), (Suc n, st'))"
    "steady ce envs known st'" "server_grows st st'"
    "s_files (st_meta st') f = Some (point_file_at (env_now (envs n)) vid fl)"
    "s_manifests (st_meta st') mid = Some m" "s_versions (st_meta st') vid = Some (ver\<lparr>v_state := Committed\<rparr>)"
proof -
  note t = turn [OF others(1,2) st others(3), of n]
  have ids': "s_files (st_meta (others n st)) f = Some fl" "s_manifests (st_meta (others n st)) mid = Some m"
      "s_versions (st_meta (others n st)) vid = Some ver"
    using t(3) ids by (simp_all add: same_names_def)
  then have "s_manifests (st_meta (others n st)) (v_manifest_id ver) = Some m" using ver by simp
  note commit = first_commit_call [OF t(1) plain ids'(3) ver(1) this m, where n = n]
  then show ?thesis
    using server_grows_trans [OF t(2)] ids' ver
    by (intro that [of "(others n st)\<lparr>st_meta := publish_version (env_now (envs n)) (st_meta (others n st)) vid ver\<rparr>"])
       (simp_all add: calls_beside publish_version_def)
qed

lemma publish_beside:
  assumes others: "only_requests (ce_b3hex ce) others" "leave_alone others theirs key f mid vid" "theirs \<subseteq> known"
    and plain: "plain_uuids (ce_uuid_show ce)" and st: "steady ce envs known st"
    and m: "manifest_ok m" "m_manifest_id m = mid" "\<forall>c\<in>set (m_chunks m). s_chunks (st_meta st) (c_chunk_id c) = Some c"
    and ids: "s_files (st_meta st) f = Some fl" "s_manifests (st_meta st) mid = None" "s_versions (st_meta st) vid = None"
    and fits: "\<forall>k. body_fits envs k (JPutManifest \<lparr>pmr_manifest = m\<rparr>)"
      "\<forall>k. body_fits envs k (JCreateVersion \<lparr>cvr_version_id = vid, cvr_parent_version_id = None, cvr_manifest_id = mid\<rparr>)"
  obtains st1 st2 st3 ver fl' where
    "c_put_manifest ce (beside others base envs) \<lparr>cc_base = base\<rparr> (n, st) m = (Ok m, (Suc n, st1))"
    "c_create_version ce (beside others base envs) \<lparr>cc_base = base\<rparr> (Suc n, st1) f vid None mid
      = (Ok ver, (Suc (Suc n), st2))" "v_state ver = Candidate"
    "c_commit_version ce (beside others base envs) \<lparr>cc_base = base\<rparr> (Suc (Suc n), st2) vid
      = (Ok (ver\<lparr>v_state := Committed\<rparr>), (Suc (Suc (Suc n)), st3))"
    "steady ce envs known st3" "server_grows st st3" "s_files (st_meta st3) f = Some fl'"
    "f_current_version_id fl' = Some vid" "s_versions (st_meta st3) vid = Some (ver\<lparr>v_state := Committed\<rparr>)"
proof -
  obtain st1 where c1: "c_put_manifest ce (beside others base envs) \<lparr>cc_base = base\<rparr> (n, st) m = (Ok m, (Suc n, st1))"
      "steady ce envs known st1" "server_grows st st1" "s_files (st_meta st1) f = Some fl"
      "s_manifests (st_meta st1) mid = Some m" "s_versions (st_meta st1) vid = None"
    by (rule manifest_beside [OF others plain st m ids fits(1)])
  obtain st2 ver where c2: "c_create_version ce (beside others base envs) \<lparr>cc_base = base\<rparr> (Suc n, st1) f vid None mid
        = (Ok ver, (Suc (Suc n), st2))" "v_state ver = Candidate" "v_manifest_id ver = mid" "v_file_id ver = f"
      "steady ce envs known st2" "server_grows st1 st2" "s_files (st_meta st2) f = Some fl"
      "s_manifests (st_meta st2) mid = Some m" "s_versions (st_meta st2) vid = Some ver"
    by (rule version_beside [OF others plain c1(2,4-6) fits(2)])
  obtain st3 where c3: "c_commit_version ce (beside others base envs) \<lparr>cc_base = base\<rparr> (Suc (Suc n), st2) vid
        = (Ok (ver\<lparr>v_state := Committed\<rparr>), (Suc (Suc (Suc n)), st3))" "steady ce envs known st3" "server_grows st2 st3"
      "s_files (st_meta st3) f = Some (point_file_at (env_now (envs (Suc (Suc n)))) vid fl)"
      "s_versions (st_meta st3) vid = Some (ver\<lparr>v_state := Committed\<rparr>)"
    by (rule commit_beside [OF others plain c2(5) m(1) c2(7-9) c2(2-4)])
  have "server_grows st st3" using c1(3) c2(6) c3(3) by (meson server_grows_trans)
  then show ?thesis
    by (rule that [OF c1(1) c2(1,2) c3(1,2) _ c3(4) _ c3(5)]) (simp add: point_file_at_def)
qed

text \<open>The file is created, and later read and looked at.\<close>

lemma create_beside:
  assumes others: "only_requests (ce_b3hex ce) others" "leave_alone others theirs key f mid vid" "theirs \<subseteq> known"
    and st: "steady ce envs known st" and name: "\<not> illegal_name name"
    and new: "s_file_idempotency (st_meta st) key = None" "s_files (st_meta st) f = None" "env_fresh_file (envs n) = f"
      "s_manifests (st_meta st) mid = None" "s_versions (st_meta st) vid = None"
    and fits: "\<forall>k. body_fits envs k (JCreateFile \<lparr>cfr_parent_id = dir, cfr_name = name, cfr_idempotency_key = key\<rparr>)"
  obtains st' fl where
    "c_create_file ce (beside others base envs) \<lparr>cc_base = base\<rparr> (n, st) dir name key = (Ok fl, (Suc n, st'))"
    "f_file_id fl = f" "steady ce envs known st'" "s_files (st_meta st') f = Some fl"
    "s_manifests (st_meta st') mid = None" "s_versions (st_meta st') vid = None"
proof -
  note t = turn [OF others(1,2) st others(3), of n]
  have free: "s_file_idempotency (st_meta (others n st)) key = None" "s_files (st_meta (others n st)) f = None"
      "s_manifests (st_meta (others n st)) mid = None" "s_versions (st_meta (others n st)) vid = None"
    using leave_alone_sel(1-4) [OF others(2), of n st] new by simp_all
  have f: "f = env_fresh_file (envs n)" using new(3) by simp
  note call = new_file_call [OF t(1) name free(1) free(2) [unfolded f] fits, folded f]
  then show ?thesis
    using free by (intro that [of "new_file f (env_now (envs n)) dir name"
        "(others n st)\<lparr>st_meta := add_file (st_meta (others n st)) key (new_file f (env_now (envs n)) dir name)\<rparr>"])
      (simp_all add: calls_beside new_file_def add_file_def)
qed

lemma stat_beside:
  assumes "same_world ce envs" "plain_uuids (ce_uuid_show ce)" "leave_alone others theirs key f mid vid"
    and "s_files (st_meta st) f = Some fl"
  shows "c_stat_file ce (beside others base envs) \<lparr>cc_base = base\<rparr> (n, st) f = (Ok fl, (Suc n, others n st))"
  using rpc_stat_file [OF assms(1,2), of base "(n, others n st)" f] leave_alone_sel(2) [OF assms(3), of n st] assms(4)
  by (simp add: calls_beside get_file_def)

lemma chain_beside_Ok:
  assumes others: "only_requests (ce_b3hex ce) others"
      "leave_alone others theirs (chain_key size' seed) (env_fresh_file (envs n)) mid vid"
    and w: "world_ok ce envs (n, st)" and plain: "plain_uuids (ce_uuid_show ce)"
    and R: "rng_ok R" and hex: "hex_digest (ce_b3hex ce)" and size': "unat size' < 2 ^ 63"
    and gen: "generate_manifest R (ce_b3hex ce) (ce_profile ce) mid size' E2E_CHUNK seed = Ok (m, bodies)"
    and apart: "inj_on (ce_b3hex ce) (snd ` set bodies \<union> ran (st_blobs st) \<union> theirs)"
    and new: "chain_new envs n (st_meta st) size' seed mid vid"
    and fits: "chain_fits envs dir size' seed m bodies vid"
  shows "\<exists>n' st' ver. run_chain_for_size ce (beside others base envs) \<lparr>cc_base = base\<rparr> R dir mid vid size' seed (n, st)
      = (Ok (), (n', st')) \<and> world_ok ce envs (n', st') \<and> visible (st_meta st') vid = Some ver"
proof -
  let ?known = "snd ` set bodies \<union> ran (st_blobs st) \<union> theirs" and ?f = "env_fresh_file (envs n)"
  have known: "theirs \<subseteq> ?known" and st: "steady ce envs ?known st" and same: "same_world ce envs"
    using w by (auto simp: steady_def world_ok_def)
  have "inj_on (ce_b3hex ce) (snd ` set bodies)" using apart by (rule inj_on_subset) auto
  note g = generated_for_chain [OF R hex size' gen this] and others = others known
  have free: "s_file_idempotency (st_meta st) (chain_key size' seed) = None" "s_files (st_meta st) ?f = None"
      "s_manifests (st_meta st) mid = None" "s_versions (st_meta st) vid = None"
    using new by (simp_all add: chain_new_def)
  have create: "\<forall>k. body_fits envs k (JCreateFile \<lparr>cfr_parent_id = dir, cfr_name = chain_name size',
      cfr_idempotency_key = chain_key size' seed\<rparr>)" using fits by (simp add: chain_fits_def)
  obtain st1 fl where c1: "c_create_file ce (beside others base envs) \<lparr>cc_base = base\<rparr> (n, st) dir (chain_name size')
        (chain_key size' seed) = (Ok fl, (Suc n, st1))" "f_file_id fl = ?f"
      "steady ce envs ?known st1" "s_files (st_meta st1) ?f = Some fl"
      "s_manifests (st_meta st1) mid = None" "s_versions (st_meta st1) vid = None"
    by (rule create_beside [OF others st chain_name_legal free(1,2) refl free(3,4) create])
  have bodies: "\<forall>(c, bs)\<in>set bodies. c = chunk_of (ce_b3hex ce) bs \<and> bs \<in> ?known \<and> fits_memory bs \<and>
      (\<forall>k. body_fits envs k (RawBytes bs))"
  proof clarify
    fix c bs assume cb: "(c, bs) \<in> set bodies"
    then have "bs \<in> snd ` set bodies" by (rule image_eqI [rotated]) simp
    moreover have "\<forall>k. body_fits envs k (RawBytes bs)" using fits cb unfolding chain_fits_def by blast
    ultimately show "c = chunk_of (ce_b3hex ce) bs \<and> bs \<in> ?known \<and> fits_memory bs \<and>
        (\<forall>k. body_fits envs k (RawBytes bs))" using g(5) cb by blast
  qed
  obtain n2 st2 where c2: "put_bodies ce (beside others base envs) \<lparr>cc_base = base\<rparr> bodies (Suc n, st1) = (Ok (), (n2, st2))"
      "steady ce envs ?known st2" "same_names ?f mid vid (st_meta st1) (st_meta st2)" "\<forall>cb\<in>set bodies. body_stored st2 cb"
    using put_bodies_beside [OF others hex apart c1(3) bodies, of base "Suc n"] by blast
  have ids2: "s_files (st_meta st2) ?f = Some fl" "s_manifests (st_meta st2) mid = None" "s_versions (st_meta st2) vid = None"
    using c1(4-6) c2(3) by (simp_all add: same_names_def)
  have reg: "\<forall>c\<in>set (m_chunks m). s_chunks (st_meta st2) (c_chunk_id c) = Some c"
    using g(6) c2(4) by (fastforce simp: body_stored_def)
  have fits': "\<forall>k. body_fits envs k (JPutManifest \<lparr>pmr_manifest = m\<rparr>)" "\<forall>k. body_fits envs k
      (JCreateVersion \<lparr>cvr_version_id = vid, cvr_parent_version_id = None, cvr_manifest_id = mid\<rparr>)"
    using fits g(2) by (simp_all add: chain_fits_def)
  obtain st3 st4 st5 ver fl' where
    c3: "c_put_manifest ce (beside others base envs) \<lparr>cc_base = base\<rparr> (n2, st2) m = (Ok m, (Suc n2, st3))" and
    c4: "c_create_version ce (beside others base envs) \<lparr>cc_base = base\<rparr> (Suc n2, st3) ?f vid None mid
      = (Ok ver, (Suc (Suc n2), st4))" "v_state ver = Candidate" and
    c5: "c_commit_version ce (beside others base envs) \<lparr>cc_base = base\<rparr> (Suc (Suc n2), st4) vid
        = (Ok (ver\<lparr>v_state := Committed\<rparr>), (Suc (Suc (Suc n2)), st5))" "steady ce envs ?known st5" "server_grows st2 st5"
      "s_files (st_meta st5) ?f = Some fl'" "f_current_version_id fl' = Some vid"
      "s_versions (st_meta st5) vid = Some (ver\<lparr>v_state := Committed\<rparr>)"
    by (rule publish_beside [OF others plain c2(2) g(1,2) reg ids2 fits'])
  let ?Q = "\<lambda>st. s_files (st_meta st) ?f = Some fl' \<and> s_versions (st_meta st) vid = Some (ver\<lparr>v_state := Committed\<rparr>)"
  have "\<forall>cb\<in>set bodies. body_stored st5 cb" using c2(4) body_stored_grows [OF c5(3)] by blast
  then have held: "\<forall>(c, bs)\<in>set bodies. st_blobs st5 (c_chunk_id c) = Some bs" by (auto simp: body_stored_def)
  have keep: "?Q (others k s)" if "?Q s" for k s
    using that leave_alone_sel(2,4) [OF others(2), of k s] by simp
  have stored: "manifest_stored (st_blobs st5) m"
    using g(5,6) held by (fastforce simp: manifest_stored_def chunk_of_def unat_len_fits)
  have "world_ok ce envs (Suc (Suc (Suc n2)), st5)" "?Q (snd (Suc (Suc (Suc n2)), st5))"
    using c5(2,4,6) by (simp_all add: steady_world)
  from reassemble_beside [where Q = ?Q and base = base, OF this(1) others(1) keep this(2) g(1) _ g(4)] stored
  obtain n6 st6 where c6: "reassemble ce (beside others base envs) \<lparr>cc_base = base\<rparr> (Suc (Suc (Suc n2)), st5) m
        = (Ok (file_bytes (st_blobs st5) m), (n6, st6))" "world_ok ce envs (n6, st6)" "?Q st6" by auto
  have bytes': "file_bytes (st_blobs st5) m = concat (map snd bodies)" using g(7) held by blast
  have len: "len_u64 (concat (map snd bodies)) = size'"
    using reassemble_result(2) [OF c6(1)] bytes' g(3) by (simp add: len_u64_def)
  note stat = stat_beside [OF same plain others(2), of st6 fl' base n6]
  have "run_chain_for_size ce (beside others base envs) \<lparr>cc_base = base\<rparr> R dir mid vid size' seed (n, st)
      = (Ok (), (Suc n6, others n6 st6))"
    using c1(1,2) c2(1) c3 c4 c5(1,5) c6(1,3) gen g(2) bytes' len stat
    by (simp add: run_chain_for_size_def)
  moreover have "world_ok ce envs (Suc n6, others n6 st6)"
    using others_inv [OF others(1)] c6(2) by (simp add: world_ok_def)
  moreover have "visible (st_meta (others n6 st6)) vid = Some (ver\<lparr>v_state := Committed\<rparr>)"
    using keep [OF c6(3)] by (simp add: visible_def)
  ultimately show ?thesis by blast
qed

text \<open>Without other clients.\<close>

lemma beside_nobody: "beside (\<lambda>_ st. st) base envs = over_http base envs"
  by (intro ext) (simp add: beside_def)

lemma happy_chain_Ok:
  assumes w: "world_ok ce envs (n, st)" and plain: "plain_uuids (ce_uuid_show ce)"
    and R: "rng_ok R" and hex: "hex_digest (ce_b3hex ce)" and size': "unat size' < 2 ^ 63"
    and gen: "generate_manifest R (ce_b3hex ce) (ce_profile ce) mid size' E2E_CHUNK seed = Ok (m, bodies)"
    and apart: "inj_on (ce_b3hex ce) (snd ` set bodies \<union> ran (st_blobs st))"
    and new: "chain_new envs n (st_meta st) size' seed mid vid"
    and fits: "chain_fits envs dir size' seed m bodies vid"
  shows "\<exists>n' st' ver. run_chain_for_size ce (over_http base envs) \<lparr>cc_base = base\<rparr> R dir mid vid size' seed (n, st)
      = (Ok (), (n', st')) \<and> world_ok ce envs (n', st') \<and> visible (st_meta st') vid = Some ver"
proof -
  have nobody: "only_requests (ce_b3hex ce) (\<lambda>_ st. st)"
    "leave_alone (\<lambda>_ st. st) {} (chain_key size' seed) (env_fresh_file (envs n)) mid vid"
    by (simp_all add: only_requests_def leave_alone_def Let_def)
  have "inj_on (ce_b3hex ce) (snd ` set bodies \<union> ran (st_blobs st) \<union> {})" using apart by simp
  from chain_beside_Ok [OF nobody w plain R hex size' gen this new fits, of base] show ?thesis
    by (simp add: beside_nobody)
qed

end
