(* ===== verification/Damage.thy ===== *)
theory Damage
  imports Rpc
begin

text \<open>
  The negative paths of the contract chain (\<^verbatim>\<open>tests/suites/tests/e2e_chain_negative.rs\<close>): what a client
  sees of a stored chunk that was flipped, cut or deleted behind the server's back, and what becomes of
  a manifest that is not valid.  A range read over the network is the store's own range read, so the
  store's error reaches the client with its code.
\<close>

section \<open>A damaged store\<close>

text \<open>What the fetch of an entry gives over a store in any condition.\<close>

lemma fetch_entry_good:
  assumes "same_world ce envs" "fake_inv (st_blobs (snd w))" and e: "entry_in_chunk m e" "0 < e_length e"
    and len: "unat (e_length e) < 2 ^ 32"
    and bs: "st_blobs (snd w) (e_chunk_id e) = Some bs" "ChunkId_verify (ce_b3hex ce) (e_chunk_id e) bs"
      "chunk_size m (e_chunk_id e) = Some sz" "length bs = unat sz"
  shows "fetch_good (ce_b3hex ce) m e
    (fst (get_chunk_range ce (over_http base envs) \<lparr>cc_base = base\<rparr> w (e_chunk_id e) (e_chunk_offset e) (e_length e)))"
proof -
  have r: "unat (e_chunk_offset e) + unat (e_length e) \<le> length bs" and wf: "wf_chunk_id (e_chunk_id e)"
    using e(1) bs(3,4) by (auto simp: entry_in_chunk_def)
  have "covers_chunk m e \<Longrightarrow> take (unat (e_length e)) (drop (unat (e_chunk_offset e)) bs) = bs"
    using bs(3,4) by (simp add: covers_chunk_def)
  then show ?thesis
    using fetch_stored [OF assms(1,2) bs(1) _ wf e(2) len r, of base] bs(2) r
    by (auto simp: fetch_good_def check_whole_chunk_Ok_iff)
qed

lemma small_entry:
  assumes "manifest_ok m" "small_entries m" "e \<in> set (m_entries m)"
  shows "entry_in_chunk m e" "0 < e_length e" "unat (e_length e) < 2 ^ 32" "wf_chunk_id (e_chunk_id e)"
    "unat (e_chunk_offset e) + unat (e_length e) < 2 ^ 64"
  using manifest_ok_entries(3) [OF assms(1)] assms(2,3) entry_range_bounds
  by (auto simp: small_entries_def entry_in_chunk_def)

text \<open>The object a manifest's entry names, as the store holds it before the damage.\<close>

lemma entry_object:
  assumes "manifest_ok m" "manifest_stored content m" "e \<in> set (m_entries m)"
  obtains bs sz where "content (e_chunk_id e) = Some bs" "chunk_size m (e_chunk_id e) = Some sz"
    "length bs = unat sz"
proof -
  obtain sz where sz: "chunk_size m (e_chunk_id e) = Some sz"
    using assms(1,3) by (auto simp: manifest_ok_def entry_in_chunk_def)
  moreover obtain c where "c \<in> set (m_chunks m)" "c_chunk_id c = e_chunk_id e" "c_size c = sz"
    using chunk_size_Some_in [OF sz] by blast
  ultimately obtain bs where "content (e_chunk_id e) = Some bs" "length bs = unat sz"
    using assms(2) by (auto simp: manifest_stored_def)
  then show ?thesis using that sz by blast
qed

text \<open>A manifest whose chunks a consistent server holds, whether or not the manifest itself was stored.\<close>

definition readable_from :: "ClientEnv \<Rightarrow> AppState \<Rightarrow> Manifest \<Rightarrow> bool" where
  "readable_from ce st m \<longleftrightarrow> app_inv (ce_b3hex ce) st \<and> manifest_ok m \<and> manifest_stored (st_blobs st) m \<and> small_entries m"

lemma stored_readable:
  "app_inv (ce_b3hex ce) st \<Longrightarrow> s_manifests (st_meta st) mi = Some m \<Longrightarrow> small_entries m \<Longrightarrow> readable_from ce st m"
  using stored_manifest by (simp add: readable_from_def)

text \<open>
  One object of the store of a running server is replaced or removed; the fetches of its entries decide
  how a reassembly ends.
\<close>

lemma damaged_reassembly:
  assumes m: "readable_from ce st m" and same: "same_world ce envs"
    and g: "fake_inv g" "\<And>i. i \<noteq> v \<Longrightarrow> g i = st_blobs st i"
    and each: "\<And>e. e \<in> set (m_entries m) \<Longrightarrow> e_chunk_id e = v \<Longrightarrow>
      fetch_good (ce_b3hex ce) m e (fake_get_range (ce_b3hex ce) g v (e_chunk_offset e) (ucast (e_length e))) \<or>
      fails_as c (fake_get_range (ce_b3hex ce) g v (e_chunk_offset e) (ucast (e_length e)))"
    and one: "\<exists>e\<in>set (m_entries m). e_chunk_id e = v \<and>
      fails_as c (fake_get_range (ce_b3hex ce) g v (e_chunk_offset e) (ucast (e_length e)))"
  shows "fails_as c (fst (reassemble ce (over_http base envs) \<lparr>cc_base = base\<rparr> (n, st\<lparr>st_blobs := g\<rparr>) m))"
proof -
  let ?fetch = "get_chunk_range ce (over_http base envs) \<lparr>cc_base = base\<rparr>" and ?b3 = "ce_b3hex ce"
  let ?Q = "\<lambda>w :: nat \<times> AppState. snd w = st\<lparr>st_blobs := g\<rparr>"
  have inv: "app_inv ?b3 st" and ok: "manifest_ok m" and stored: "manifest_stored (st_blobs st) m" and sm: "small_entries m"
    using m by (simp_all add: readable_from_def)
  note small = small_entry [OF ok sm]
  have fetch: "?fetch w (e_chunk_id e) (e_chunk_offset e) (e_length e)
      = (fake_get_range ?b3 g (e_chunk_id e) (e_chunk_offset e) (ucast (e_length e)), (Suc (fst w), snd w))"
    if "?Q w" "e \<in> set (m_entries m)" for w e
    using fetch_over_http [OF same, of w "e_chunk_id e" "e_length e" "e_chunk_offset e" base] that g(1)
      small [OF that(2)] by simp
  have other: "fetch_good ?b3 m e (fst (?fetch w (e_chunk_id e) (e_chunk_offset e) (e_length e)))"
    if "?Q w" "e \<in> set (m_entries m)" "e_chunk_id e \<noteq> v" for w e
  proof -
    note here = that small [OF that(2)]
    obtain bs sz where bs: "st_blobs st (e_chunk_id e) = Some bs" "chunk_size m (e_chunk_id e) = Some sz"
        "length bs = unat sz"
      using entry_object [OF ok stored here(2)] .
    then have "ChunkId_verify ?b3 (e_chunk_id e) bs" using inv by (auto simp: app_inv_def blobs_ok_def)
    then show ?thesis
      using fetch_entry_good [OF same, of w m e bs sz base] here g bs by simp
  qed
  note e = manifest_ok_entries [OF ok]
  have "fails_as c (fst (reassemble_loop (ce_profile ce) ?b3 ?fetch m (m_entries m)
      (replicate (unat (m_total_size m)) 0) (n, st\<lparr>st_blobs := g\<rparr>)))"
  proof (rule reassemble_loop_fails [where Q = ?Q and k = 0])
    fix w :: "nat \<times> AppState" and e assume "?Q w" "e \<in> set (m_entries m)"
    then show "?Q (snd (?fetch w (e_chunk_id e) (e_chunk_offset e) (e_length e)))" by (simp add: fetch)
  next
    fix w :: "nat \<times> AppState" and e assume w: "?Q w" "e \<in> set (m_entries m)"
    show "fetch_good ?b3 m e (fst (?fetch w (e_chunk_id e) (e_chunk_offset e) (e_length e))) \<or>
        fails_as c (fst (?fetch w (e_chunk_id e) (e_chunk_offset e) (e_length e)))"
    proof (cases "e_chunk_id e = v")
      case True
      with each [OF w(2)] show ?thesis unfolding fetch [OF w] fst_conv by simp
    qed (use other [OF w] in simp)
  next
    show "\<exists>e\<in>set (m_entries m). \<forall>w. ?Q w \<longrightarrow>
        \<not> fetch_good ?b3 m e (fst (?fetch w (e_chunk_id e) (e_chunk_offset e) (e_length e)))"
      using one fetch by (force simp: fetch_good_def fails_as_def)
  next
    show "tiles 0 (m_entries m)" using e(1) .
  next
    show "length (replicate (unat (m_total_size m)) 0) = 0 + total_length (m_entries m)" using e(2) by simp
  next
    show "length (replicate (unat (m_total_size m)) 0) < 2 ^ 63" using sm by (simp add: small_entries_def)
  qed simp
  then show ?thesis
    by (simp add: reassemble_unfold [OF ok sm [unfolded small_entries_def, THEN conjunct1]])
qed

text \<open>A file whose objects are all as they were reads back as before.\<close>

lemma reassembly_of_kept:
  assumes m: "readable_from ce st m" and same: "same_world ce envs" and "fake_inv g"
    and kept: "\<And>c. c \<in> set (m_chunks m) \<Longrightarrow> g (c_chunk_id c) = st_blobs st (c_chunk_id c)"
  shows "\<exists>k. reassemble ce (over_http base envs) \<lparr>cc_base = base\<rparr> (n, st\<lparr>st_blobs := g\<rparr>) m
    = (Ok (file_bytes (st_blobs st) m), (k, st\<lparr>st_blobs := g\<rparr>))"
proof -
  let ?g = "genuine_part (ce_b3hex ce) g"
  have ok: "manifest_ok m" and stored: "manifest_stored (st_blobs st) m" and sm: "small_entries m"
    and inv: "app_inv (ce_b3hex ce) st" using m by (simp_all add: readable_from_def)
  have whole: "genuine_part (ce_b3hex ce) (st_blobs st) = st_blobs st"
    using inv by (intro genuine_part_blobs_ok) (simp add: app_inv_def)
  have agree: "?g (c_chunk_id c) = st_blobs st (c_chunk_id c)" if "c \<in> set (m_chunks m)" for c
    using fun_cong [OF whole, of "c_chunk_id c"] kept [OF that] unfolding genuine_part_def by simp
  have "manifest_stored ?g m" using stored agree by (simp add: manifest_stored_def)
  moreover have "entry_bytes ?g e = entry_bytes (st_blobs st) e" if e: "e \<in> set (m_entries m)" for e
  proof -
    obtain c where "c \<in> set (m_chunks m)" "c_chunk_id c = e_chunk_id e"
      using small_entry(1) [OF ok sm e] by (auto simp: entry_in_chunk_def dest!: chunk_size_Some_in)
    then show ?thesis using agree [of c] by (simp add: entry_bytes_def)
  qed
  then have "file_bytes ?g m = file_bytes (st_blobs st) m" by (simp add: file_bytes_def cong: map_cong)
  ultimately show ?thesis
    using reassemble_genuine [OF same, of "(n, st\<lparr>st_blobs := g\<rparr>)" m base] \<open>fake_inv g\<close> ok sm by auto
qed

lemma undamaged_reassembly:
  assumes m: "readable_from ce st m" "v \<notin> c_chunk_id ` set (m_chunks m)" and same: "same_world ce envs"
    and g: "fake_inv g" "\<And>i. i \<noteq> v \<Longrightarrow> g i = st_blobs st i"
  shows "fst (reassemble ce (over_http base envs) \<lparr>cc_base = base\<rparr> (n, st\<lparr>st_blobs := g\<rparr>) m)
    = Ok (file_bytes (st_blobs st) m)"
proof -
  have "g (c_chunk_id c) = st_blobs st (c_chunk_id c)" if "c \<in> set (m_chunks m)" for c
    using that m(2) by (intro g(2)) auto
  from reassembly_of_kept [OF m(1) same g(1) this, of base n] show ?thesis by auto
qed

section \<open>The three kinds of damage\<close>

lemma fails_as_new_error [simp]: "fails_as c (Err (new_error c' msg)) \<longleftrightarrow> c' = c"
  by (simp add: fails_as_def)

lemma deleted_range: "fails_as ChunkNotFound (fake_get_range b3hex (snd (fake_delete g v)) v off len)"
  by (simp add: fake_delete_def fake_range_missing)

lemma truncated_range:
  assumes "fake_inv g" "g v = Some bs" "unat off + unat len < 2 ^ 64" "unat at < unat off + unat (len :: u32)"
  shows "fails_as IntegrityLengthMismatch (fake_get_range b3hex (truncate_for_test g v at) v off len)"
proof -
  have t: "truncate_for_test g v at v = Some (take (unat at) bs)" using assms(2) by (simp add: truncate_for_test_def)
  moreover have "fits_memory (take (unat at) bs)"
    using fake_inv_truncate [OF assms(1), of v at] t by (auto simp: fake_inv_def)
  ultimately show ?thesis using assms(3,4) by (simp add: fake_range_past_end)
qed

text \<open>
  A flipped byte is reported to every entry that covers the object; an entry that reads a part of it
  gets the bytes as they are stored.
\<close>

lemma corrupted_range:
  assumes "fake_inv g" "g v = Some bs" "unat at < length bs"
    and bad: "\<not> ChunkId_verify b3hex v (bs[unat at := (bs ! unat at) XOR 0xFF])"
    and e: "entry_in_chunk m e" "e_chunk_id e = v" "unat (e_length e) < 2 ^ 32"
    and size': "chunk_size m v = Some sz" "length bs = unat sz"
  defines "r \<equiv> fake_get_range b3hex (corrupt_for_test g v at) v (e_chunk_offset e) (ucast (e_length e))"
  shows "covers_chunk m e \<Longrightarrow> fails_as IntegrityHashMismatch r"
    and "\<not> covers_chunk m e \<Longrightarrow> fetch_good b3hex m e r"
proof -
  let ?bs = "bs[unat at := (bs ! unat at) XOR 0xFF]"
  have c: "corrupt_for_test g v at v = Some ?bs" using corrupt_for_test_stored assms(2,3) by simp
  have fits: "fits_memory ?bs" using fake_inv_corrupt [OF assms(1), of v at] c by (simp add: fake_inv_def)
  note n = unat_ucast_small [OF e(3)]
  show "fails_as IntegrityHashMismatch r" if "covers_chunk m e"
  proof -
    have "e_chunk_offset e = 0" "unat (ucast (e_length e) :: u32) = length ?bs"
      using that e(2) size' n by (simp_all add: covers_chunk_def)
    with fake_range_whole_corrupt [where g = "corrupt_for_test g v at", OF fits c bad] show ?thesis
      by (simp add: r_def)
  qed
  show "fetch_good b3hex m e r" if "\<not> covers_chunk m e"
  proof -
    have "unat (e_chunk_offset e) + unat (e_length e) \<le> length ?bs"
      using e(1,2) size' by (simp add: entry_in_chunk_def)
    moreover have "e_chunk_offset e \<noteq> 0 \<or> unat (e_length e) \<noteq> length ?bs"
      using that e(2) size' by (auto simp: covers_chunk_def word_unat_eq_iff)
    ultimately have "r = Ok (take (unat (e_length e)) (drop (unat (e_chunk_offset e)) ?bs))"
      using fake_range_exact [where g = "corrupt_for_test g v at", OF fits c, of "e_chunk_offset e" "ucast (e_length e)"] n
      by (simp add: r_def)
    with that \<open>unat (e_chunk_offset e) + unat (e_length e) \<le> length ?bs\<close> show ?thesis
      by (simp add: fetch_good_def check_whole_chunk_Ok_iff)
  qed
qed

section \<open>A manifest that is not valid\<close>

lemma bad_manifest_refused:
  assumes "same_world ce envs" "plain_uuids (ce_uuid_show ce)"
    and "body_fits envs n (JPutManifest \<lparr>pmr_manifest = m\<rparr>)" "\<not> manifest_ok m"
  shows "\<exists>e. c_put_manifest ce (over_http base envs) \<lparr>cc_base = base\<rparr> (n, st) m = (Err e, (Suc n, st)) \<and>
    se_code e = IntegrityManifestInvalid"
proof -
  obtain e where e: "validate_manifest m = Err e" "se_code e = IntegrityManifestInvalid"
    using assms(4) by (rule not_ok_rejected)
  then have "put_manifest (st_meta st) m = (Err e, st_meta st)" by (simp add: put_manifest_def)
  then show ?thesis using rpc_put_manifest [OF assms(1,2), of "(n, st)" m base] assms(3) e(2) by simp
qed

lemma version_needs_manifest:
  assumes "same_world ce envs" "plain_uuids (ce_uuid_show ce)"
    and "body_fits envs n (JCreateVersion \<lparr>cvr_version_id = v, cvr_parent_version_id = p, cvr_manifest_id = i\<rparr>)"
    and "s_files (st_meta st) f = Some file" "s_manifests (st_meta st) i = None"
  shows "\<exists>e. c_create_version ce (over_http base envs) \<lparr>cc_base = base\<rparr> (n, st) f v p i = (Err e, (Suc n, st)) \<and>
    se_code e = ManifestNotFound"
proof -
  have "create_version (env_now (envs n)) (st_meta st) f v p i = (Err (not_found ManifestNotFound ''manifest''), st_meta st)"
    using assms(4,5) by (simp add: create_version_def)
  then have "c_create_version ce (over_http base envs) \<lparr>cc_base = base\<rparr> (n, st) f v p i
      = (Err (not_found ManifestNotFound ''manifest''), (Suc n, st))"
    using rpc_create_version [OF assms(1,2), of "(n, st)" v p i base f] assms(3) by simp
  then show ?thesis by (simp add: not_found_def)
qed

text \<open>None of the three touches another object, and all leave a store that fits memory.\<close>

lemma damage_local:
  assumes "fake_inv blobs"
  shows "fake_inv (snd (fake_delete blobs v))" "fake_inv (truncate_for_test blobs v at)"
    "fake_inv (corrupt_for_test blobs v at)"
    and "i \<noteq> v \<Longrightarrow> snd (fake_delete blobs v) i = blobs i"
    and "i \<noteq> v \<Longrightarrow> truncate_for_test blobs v at i = blobs i"
    and "i \<noteq> v \<Longrightarrow> corrupt_for_test blobs v at i = blobs i"
  using assms fake_inv_truncate [of blobs v at] fake_inv_corrupt [of blobs v at]
  by (simp_all add: fake_delete_def fake_inv_def truncate_for_test_def corrupt_for_test_def split: option.split)

section \<open>Reading through the damage\<close>

definition read_from ::
  "ClientEnv \<Rightarrow> string \<Rightarrow> (nat \<Rightarrow> Env) \<Rightarrow> nat \<Rightarrow> AppState \<Rightarrow> FakeObjectStore \<Rightarrow> Manifest \<Rightarrow> bytes space_result" where
  "read_from ce base envs n st g m =
     fst (reassemble ce (over_http base envs) \<lparr>cc_base = base\<rparr> (n, st\<lparr>st_blobs := g\<rparr>) m)"

lemma read_after_delete:
  assumes m: "readable_from ce st m" and same: "same_world ce envs"
    and e: "e \<in> set (m_entries m)" "e_chunk_id e = v"
  shows "fails_as ChunkNotFound (read_from ce base envs n st (snd (fake_delete (st_blobs st) v)) m)"
  unfolding read_from_def
proof -
  have inv: "fake_inv (st_blobs st)" using m by (simp add: readable_from_def app_inv_def blobs_ok_def)
  show "fails_as ChunkNotFound (fst (reassemble ce (over_http base envs) \<lparr>cc_base = base\<rparr>
      (n, st\<lparr>st_blobs := snd (fake_delete (st_blobs st) v)\<rparr>) m))"
    by (rule damaged_reassembly [OF m same damage_local(1,4) [OF inv]]) (use e deleted_range in blast)+
qed

lemma read_after_truncation:
  assumes m: "readable_from ce st m" and same: "same_world ce envs"
    and e: "e \<in> set (m_entries m)" "e_chunk_id e = v"
    and past: "\<forall>e\<in>set (m_entries m). e_chunk_id e = v \<longrightarrow> unat at < unat (e_chunk_offset e) + unat (e_length e)"
  shows "fails_as IntegrityLengthMismatch (read_from ce base envs n st (truncate_for_test (st_blobs st) v at) m)"
proof -
  let ?g = "truncate_for_test (st_blobs st) v at"
  have ok: "manifest_ok m" and stored: "manifest_stored (st_blobs st) m" and sm: "small_entries m"
    using m by (simp_all add: readable_from_def)
  have inv: "fake_inv (st_blobs st)" using m by (simp add: readable_from_def app_inv_def blobs_ok_def)
  have fails: "fails_as IntegrityLengthMismatch (fake_get_range (ce_b3hex ce) ?g v (e_chunk_offset e) (ucast (e_length e)))"
    if "e \<in> set (m_entries m)" "e_chunk_id e = v" for e
  proof -
    note small = small_entry [OF ok sm that(1)] and v = that
    obtain bs sz where "st_blobs st v = Some bs" "chunk_size m v = Some sz" "length bs = unat sz"
      using entry_object [OF ok stored v(1)] v(2) by blast
    then show ?thesis using truncated_range [OF inv] small past v unat_ucast_small [OF small(3)] by simp
  qed
  show ?thesis unfolding read_from_def
    by (rule damaged_reassembly [OF m same damage_local(2,5) [OF inv]]) (use e fails in blast)+
qed

lemma read_after_corruption:
  assumes m: "readable_from ce st m" and same: "same_world ce envs"
    and e: "e \<in> set (m_entries m)" "e_chunk_id e = v" and bs: "st_blobs st v = Some bs" "unat at < length bs"
    and cover: "covers_chunk m e" and bad: "\<not> ChunkId_verify (ce_b3hex ce) v (bs[unat at := (bs ! unat at) XOR 0xFF])"
  shows "fails_as IntegrityHashMismatch (read_from ce base envs n st (corrupt_for_test (st_blobs st) v at) m)"
proof -
  let ?r = "\<lambda>e. fake_get_range (ce_b3hex ce) (corrupt_for_test (st_blobs st) v at) v (e_chunk_offset e) (ucast (e_length e))"
  have ok: "manifest_ok m" and stored: "manifest_stored (st_blobs st) m" and sm: "small_entries m"
    using m by (simp_all add: readable_from_def)
  have inv: "fake_inv (st_blobs st)" using m by (simp add: readable_from_def app_inv_def blobs_ok_def)
  have each: "(covers_chunk m e \<longrightarrow> fails_as IntegrityHashMismatch (?r e)) \<and>
      (\<not> covers_chunk m e \<longrightarrow> fetch_good (ce_b3hex ce) m e (?r e))"
    if "e \<in> set (m_entries m)" "e_chunk_id e = v" for e
  proof -
    note small = small_entry [OF ok sm that(1)] and v = that
    obtain sz where "chunk_size m v = Some sz" "length bs = unat sz"
      using entry_object [OF ok stored v(1)] v(2) bs(1) by auto
    with corrupted_range [OF inv bs bad small(1) v(2) small(3)] show ?thesis by blast
  qed
  show ?thesis unfolding read_from_def
    by (rule damaged_reassembly [OF m same damage_local(3,6) [OF inv]]) (use e cover each in blast)+
qed

end
