(* ===== verification/Chain_Server.thy ===== *)
theory Chain_Server
  imports Busy_Chain Damage
begin

text \<open>
  What the end-to-end suites share (\<^verbatim>\<open>tests/suites/tests/common/mod.rs\<close>): the server started in the process
  and the reach into its object store, and what a session needs to know of it.  The lemmas carry out the
  life of a file over the network, from its creation to the committed version, on a server that already
  has others.
\<close>

section \<open>The server in the process\<close>

text \<open>The in-process server of \<^verbatim>\<open>common/mod.rs\<close>: the network, its client, and the reach into the object store.\<close>

record 'w InProcCloud =
  ip_net :: "'w transport"
  ip_client :: CloudClient
  ip_reach :: "(FakeObjectStore \<Rightarrow> FakeObjectStore) \<Rightarrow> 'w \<Rightarrow> 'w"

text \<open>The client is asked for the server's health until it answers, a hundred times at most.\<close>

fun await_healthy :: "ClientEnv \<Rightarrow> 'w transport \<Rightarrow> CloudClient \<Rightarrow> nat \<Rightarrow> 'w \<Rightarrow> 'w" where
  "await_healthy ce net c 0 w = w"
| "await_healthy ce net c (Suc k) w =
     (case c_health ce net c w of (Ok _, w') \<Rightarrow> w' | (_, w') \<Rightarrow> await_healthy ce net c k w')"

definition start_cloud ::
  "ClientEnv \<Rightarrow> (nat \<Rightarrow> Env) \<Rightarrow> string \<Rightarrow> nat \<Rightarrow> (nat \<times> AppState) InProcCloud \<times> nat \<times> AppState" where
  "start_cloud ce envs addr n =
     (let client = CloudClient_new (''http://'' @ addr);
          net = over_http (cc_base client) envs
      in (\<lparr>ip_net = net, ip_client = client, ip_reach = (\<lambda>f (k, st). (k, st\<lparr>st_blobs := f (st_blobs st)\<rparr>))\<rparr>,
          await_healthy ce net client 100 (n, AppState_default)))"

record FreshIds =
  fr_dir :: DirectoryId
  fr_manifest :: ManifestId
  fr_version :: VersionId

fun upload ::
  "ClientEnv \<Rightarrow> 'w transport \<Rightarrow> CloudClient \<Rightarrow> (Chunk \<times> bytes) list \<Rightarrow> 'w \<Rightarrow> unit space_result \<times> 'w" where
  "upload ce net c [] w = (Ok (), w)"
| "upload ce net c ((chunk, body) # rest) w =
     and_then_st (or_panic (register_and_put_chunk ce net c w (c_chunk_id chunk) body)) (\<lambda>_ w. upload ce net c rest w)"

definition cloud_at :: "string \<Rightarrow> (nat \<Rightarrow> Env) \<Rightarrow> (nat \<times> AppState) InProcCloud" where
  "cloud_at base envs = \<lparr>ip_net = over_http base envs, ip_client = \<lparr>cc_base = base\<rparr>,
     ip_reach = (\<lambda>f (k, st). (k, st\<lparr>st_blobs := f (st_blobs st)\<rparr>))\<rparr>"

lemma cloud_at_sel [simp]:
  "ip_net (cloud_at base envs) = over_http base envs"
  "ip_client (cloud_at base envs) = \<lparr>cc_base = base\<rparr>"
  "ip_reach (cloud_at base envs) f (k, st) = (k, st\<lparr>st_blobs := f (st_blobs st)\<rparr>)"
  by (simp_all add: cloud_at_def)

text \<open>The server answers the first question for its health.\<close>

lemma c_health_Ok:
  "c_health ce (over_http base envs) \<lparr>cc_base = base\<rparr> (n, st) = (Ok h_health, (Suc n, st))"
proof -
  let ?q = "request ce GET (url \<lparr>cc_base = base\<rparr> ''/health'') None NoBody"
  have "handle (envs n) st (?q\<lparr>q_path := drop (length base) (q_path ?q)\<rparr>)
      = answer (\<lambda>r. json_response 200 (JHealth r)) (Ok h_health, st)"
    by (simp add: rpc_simps route_def pick_def answer_def)
  from call_over_http [where ce = ce and q = ?q and base = base and w = "(n, st)" and envs = envs
      and dec = as_health and g = "\<lambda>r. r", simplified fst_conv snd_conv, OF this]
  show ?thesis by (simp add: c_health_def as_health_def)
qed

lemma start_cloud_eq:
  "start_cloud ce envs addr n = (cloud_at (cc_base (CloudClient_new (''http://'' @ addr))) envs, (Suc n, AppState_default))"
  by (simp add: start_cloud_def cloud_at_def CloudClient_new_def c_health_Ok numeral_eq_Suc Let_def)

section \<open>Uploads and names\<close>

text \<open>The names a server has given away so far.\<close>

definition only_names :: "string set \<Rightarrow> FileId set \<Rightarrow> ManifestId set \<Rightarrow> VersionId set \<Rightarrow> AppState \<Rightarrow> bool" where
  "only_names keys fs ms vs st \<longleftrightarrow> dom (s_file_idempotency (st_meta st)) \<subseteq> keys \<and> dom (s_files (st_meta st)) \<subseteq> fs \<and>
     dom (s_manifests (st_meta st)) \<subseteq> ms \<and> dom (s_versions (st_meta st)) \<subseteq> vs"

lemma only_names_None:
  assumes "only_names keys fs ms vs st"
  shows "key \<notin> keys \<Longrightarrow> s_file_idempotency (st_meta st) key = None" "f \<notin> fs \<Longrightarrow> s_files (st_meta st) f = None"
    "i \<notin> ms \<Longrightarrow> s_manifests (st_meta st) i = None" "v \<notin> vs \<Longrightarrow> s_versions (st_meta st) v = None"
  using assms by (auto simp: only_names_def)

lemma only_names_with_chunk: "only_names keys fs ms vs (with_chunk b3hex bs st) = only_names keys fs ms vs st"
  by (simp add: only_names_def with_chunk_def add_chunk_def)

definition bodies_ok :: "ClientEnv \<Rightarrow> (nat \<Rightarrow> Env) \<Rightarrow> bytes set \<Rightarrow> (Chunk \<times> bytes) list \<Rightarrow> bool" where
  "bodies_ok ce envs known bodies \<longleftrightarrow> (\<forall>(c, bs)\<in>set bodies. c = chunk_of (ce_b3hex ce) bs \<and> bs \<in> known \<and>
     fits_memory bs \<and> (\<forall>k. body_fits envs k (RawBytes bs)))"

text \<open>The state after the bodies are uploaded, once or twice each, and what it has.\<close>

definition with_bodies :: "(bytes \<Rightarrow> string) \<Rightarrow> (Chunk \<times> bytes) list \<Rightarrow> AppState \<Rightarrow> AppState" where
  "with_bodies b3hex bodies st = fold (\<lambda>cb. with_chunk b3hex (snd cb)) bodies st"

lemma with_bodies_simps [simp]:
  "with_bodies b3hex [] st = st"
  "with_bodies b3hex (cb # bodies) st = with_bodies b3hex bodies (with_chunk b3hex (snd cb) st)"
  by (simp_all add: with_bodies_def)

definition uploaded ::
  "ClientEnv \<Rightarrow> (nat \<Rightarrow> Env) \<Rightarrow> bytes set \<Rightarrow> (Chunk \<times> bytes) list \<Rightarrow> AppState \<Rightarrow> AppState \<Rightarrow> bool" where
  "uploaded ce envs known bodies st st' \<longleftrightarrow> steady ce envs known st' \<and> server_grows st st' \<and>
     (\<forall>f mid vid. same_names f mid vid (st_meta st) (st_meta st')) \<and>
     (\<forall>keys fs ms vs. only_names keys fs ms vs st' = only_names keys fs ms vs st) \<and> (\<forall>cb\<in>set bodies. body_stored st' cb)"

lemma bodies_ok_Cons:
  assumes "bodies_ok ce envs known (cb # bodies)"
  obtains bs where "cb = (chunk_of (ce_b3hex ce) bs, bs)" "bs \<in> known" "\<forall>k. body_fits envs k (RawBytes bs)" "fits_memory bs"
    "bodies_ok ce envs known bodies"
  using assms by (cases cb) (auto simp: bodies_ok_def)

lemma uploads_Ok:
  assumes hex: "hex_digest (ce_b3hex ce)" and apart: "inj_on (ce_b3hex ce) known"
    and "steady ce envs known st" "bodies_ok ce envs known bodies"
  shows "uploaded ce envs known bodies st (with_bodies (ce_b3hex ce) bodies st)"
    and "upload ce (over_http base envs) \<lparr>cc_base = base\<rparr> bodies (n, st) = (Ok (), (n + length bodies, with_bodies (ce_b3hex ce) bodies st))"
    and "put_bodies ce (over_http base envs) \<lparr>cc_base = base\<rparr> bodies (n, st)
      = (Ok (), (n + 2 * length bodies, with_bodies (ce_b3hex ce) bodies st))"
proof -
  let ?b3 = "ce_b3hex ce"
  have "uploaded ce envs known bodies st (with_bodies ?b3 bodies st) \<and>
    upload ce (over_http base envs) \<lparr>cc_base = base\<rparr> bodies (n, st) = (Ok (), (n + length bodies, with_bodies ?b3 bodies st))"
    using assms(3,4)
  proof (induction bodies arbitrary: n st)
    case Nil
    then show ?case by (simp add: uploaded_def server_grows_refl same_names_def)
  next
    case (Cons cb bodies)
    obtain bs where cb: "cb = (chunk_of ?b3 bs, bs)" and body: "bs \<in> known" "\<forall>k. body_fits envs k (RawBytes bs)" "fits_memory bs"
      and tail: "bodies_ok ce envs known bodies" by (rule bodies_ok_Cons [OF Cons.prems(2)])
    note u = upload_steady [OF Cons.prems(1) hex body apart]
    note rest = Cons.IH [OF u(2) tail, of "Suc n"]
    then have up: "steady ce envs known (with_bodies ?b3 (cb # bodies) st)"
      "server_grows (with_chunk ?b3 bs st) (with_bodies ?b3 (cb # bodies) st)" by (simp_all add: uploaded_def cb)
    have "same_names f mid vid (st_meta st) (st_meta (with_bodies ?b3 (cb # bodies) st))" for f mid vid
      using u(4) [of f mid vid] rest same_names_trans by (fastforce simp: uploaded_def cb)
    moreover have "body_stored (with_bodies ?b3 (cb # bodies) st) cb"
      using body_stored_grows [OF up(2) u(5)] cb by simp
    ultimately show ?case
      using u(1) [where base = base and n = n] rest up server_grows_trans [OF u(3) up(2)]
      by (simp add: uploaded_def cb only_names_with_chunk)
  qed
  then show "uploaded ce envs known bodies st (with_bodies ?b3 bodies st)"
    "upload ce (over_http base envs) \<lparr>cc_base = base\<rparr> bodies (n, st) = (Ok (), (n + length bodies, with_bodies ?b3 bodies st))" by simp_all
  show "put_bodies ce (over_http base envs) \<lparr>cc_base = base\<rparr> bodies (n, st)
      = (Ok (), (n + 2 * length bodies, with_bodies ?b3 bodies st))"
    using assms(3,4)
  proof (induction bodies arbitrary: n st)
    case (Cons cb bodies)
    obtain bs where cb: "cb = (chunk_of ?b3 bs, bs)" and body: "bs \<in> known" "\<forall>k. body_fits envs k (RawBytes bs)" "fits_memory bs"
      and tail: "bodies_ok ce envs known bodies" by (rule bodies_ok_Cons [OF Cons.prems(2)])
    have "inj_on ?b3 (insert bs (ran (st_blobs st)))"
      using Cons.prems(1) body(1) by (intro inj_on_subset [OF apart]) (auto simp: steady_def)
    from put_body_twice [OF steady_world [OF Cons.prems(1)] hex body(2,3) this, of base bodies n]
      Cons.IH [OF upload_steady(2) [OF Cons.prems(1) hex body apart] tail, of "Suc (Suc n)"]
    show ?case by (simp add: cb)
  qed simp
qed

text \<open>What every session assumes of the client, the server's environments and the contents in play.\<close>

definition chain_world :: "ClientEnv \<Rightarrow> (nat \<Rightarrow> Env) \<Rightarrow> 'r Rng \<Rightarrow> bytes set \<Rightarrow> bool" where
  "chain_world ce envs R known \<longleftrightarrow> same_world ce envs \<and> plain_uuids (ce_uuid_show ce) \<and> hex_digest (ce_b3hex ce) \<and>
     rng_ok R \<and> inj_on (ce_b3hex ce) known \<and> inj (\<lambda>k. env_fresh_file (envs k))"

definition file_for ::
  "ClientEnv \<Rightarrow> (nat \<Rightarrow> Env) \<Rightarrow> 'r Rng \<Rightarrow> bytes set \<Rightarrow> ManifestId \<Rightarrow> u64 \<Rightarrow> u64 \<Rightarrow> Manifest \<Rightarrow> (Chunk \<times> bytes) list \<Rightarrow> bool" where
  "file_for ce envs R known mid size' seed m bodies \<longleftrightarrow> unat size' < 2 ^ 63 \<and>
     generate_manifest R (ce_b3hex ce) (ce_profile ce) mid size' E2E_CHUNK seed = Ok (m, bodies) \<and>
     (\<forall>(c, bs)\<in>set bodies. bs \<in> known \<and> (\<forall>k. body_fits envs k (RawBytes bs))) \<and>
     (\<forall>k. body_fits envs k (JPutManifest \<lparr>pmr_manifest = m\<rparr>))"

definition names_fit :: "(nat \<Rightarrow> Env) \<Rightarrow> FreshIds \<Rightarrow> string \<Rightarrow> string \<Rightarrow> bool" where
  "names_fit envs ids name key \<longleftrightarrow> (\<forall>k.
     body_fits envs k (JCreateFile \<lparr>cfr_parent_id = fr_dir ids, cfr_name = name, cfr_idempotency_key = key\<rparr>) \<and>
     body_fits envs k (JCreateVersion \<lparr>cvr_version_id = fr_version ids, cvr_parent_version_id = None,
       cvr_manifest_id = fr_manifest ids\<rparr>))"

lemma chain_worldD:
  assumes "chain_world ce envs R known"
  shows "same_world ce envs" "plain_uuids (ce_uuid_show ce)" "hex_digest (ce_b3hex ce)" "rng_ok R"
    "inj_on (ce_b3hex ce) known" "env_fresh_file (envs i) = env_fresh_file (envs j) \<Longrightarrow> i = j"
  using assms by (auto simp: chain_world_def dest: injD)

lemma default_steady:
  assumes "chain_world ce envs R known"
  shows "steady ce envs known AppState_default" "only_names {} {} {} {} AppState_default"
  using chain_worldD(1) [OF assms] app_inv_default
  by (simp_all add: steady_def only_names_def AppState_default_def fake_new_def store_new_def)

lemma file_for_facts:
  assumes w: "chain_world ce envs R known" and "file_for ce envs R known mid size' seed m bodies"
  shows "manifest_ok m" "m_manifest_id m = mid" "m_total_size m = size'" "small_entries m" "bodies_ok ce envs known bodies"
    and "\<forall>cb\<in>set bodies. body_stored st cb \<Longrightarrow> chunks_registered (st_meta st) m \<and>
      manifest_stored (st_blobs st) m \<and> file_bytes (st_blobs st) m = concat (map snd bodies)"
    and "set (m_chunks m) \<subseteq> fst ` set bodies"
proof -
  have f: "unat size' < 2 ^ 63" "generate_manifest R (ce_b3hex ce) (ce_profile ce) mid size' E2E_CHUNK seed = Ok (m, bodies)"
    "\<forall>(c, bs)\<in>set bodies. bs \<in> known \<and> (\<forall>k. body_fits envs k (RawBytes bs))"
    using assms(2) by (simp_all add: file_for_def)
  have "inj_on (ce_b3hex ce) (snd ` set bodies)" using f(3) by (intro inj_on_subset [OF chain_worldD(5) [OF w]]) auto
  note g = generated_for_chain [OF chain_worldD(4,3) [OF w] f(1,2) this]
  show "manifest_ok m" "m_manifest_id m = mid" "m_total_size m = size'" "small_entries m"
    "set (m_chunks m) \<subseteq> fst ` set bodies" by (fact g)+
  show "bodies_ok ce envs known bodies" using g(5) f(3) by (fastforce simp: bodies_ok_def)
  show "chunks_registered (st_meta st) m \<and> manifest_stored (st_blobs st) m \<and>
      file_bytes (st_blobs st) m = concat (map snd bodies)" if held: "\<forall>cb\<in>set bodies. body_stored st cb"
  proof (intro conjI)
    show "chunks_registered (st_meta st) m" using g(6) held by (fastforce simp: chunks_registered_def body_stored_def)
    show "manifest_stored (st_blobs st) m"
      using g(5,6) held by (fastforce simp: manifest_stored_def body_stored_def chunk_of_def unat_len_fits)
    show "file_bytes (st_blobs st) m = concat (map snd bodies)"
      using held by (intro g(7)) (auto simp: body_stored_def)
  qed
qed

section \<open>The pieces of a generated file\<close>

lemma own_readable:
  assumes "chain_world ce envs R known" "file_for ce envs R known mid size' seed m bodies"
    and "steady ce envs known st" "\<forall>cb\<in>set bodies. body_stored st cb"
  shows "readable_from ce st m"
  using file_for_facts(1,4) [OF assms(1,2)] file_for_facts(6) [OF assms(1,2,4)] assms(3)
  by (simp add: readable_from_def steady_def)

lemma file_for_pieces:
  assumes w: "chain_world ce envs R known" and own: "file_for ce envs R known mid size' seed m bodies"
  shows "map (length \<circ> snd) bodies = cut_sizes (unat size') 65536" "length (m_entries m) = length bodies"
    "m_chunk_count m = len_u64 (m_entries m)"
    and "i < length bodies \<Longrightarrow> body_of (ce_b3hex ce) (m_entries m ! i) (bodies ! i)"
proof -
  have R: "rng_ok R" and f: "unat size' < 2 ^ 63"
      "generate_manifest R (ce_b3hex ce) (ce_profile ce) mid size' E2E_CHUNK seed = Ok (m, bodies)"
    using chain_worldD(4) [OF w] own by (simp_all add: file_for_def)
  have cs: "0 < E2E_CHUNK" "unat E2E_CHUNK = 65536" by (simp_all add: E2E_CHUNK_def)
  obtain g where gen: "generate_manifest R (ce_b3hex ce) (ce_profile ce) mid size' E2E_CHUNK seed =
        Ok (\<lparr>m_manifest_id = mid, m_total_size = size', m_chunk_count = len_u64 (g_entries g),
          m_entries = g_entries g, m_chunks = g_chunks g\<rparr>, g_bodies g)"
      "generated_ok (ce_b3hex ce) g" "map (length \<circ> snd) (g_bodies g) = cut_sizes (unat size') (unat E2E_CHUNK)"
    by (rule generate_manifest_Ok [OF R f(1) cs(1), of "ce_b3hex ce" "ce_profile ce" mid seed])
  then have g: "m_entries m = g_entries g" "bodies = g_bodies g" "m_chunk_count m = len_u64 (g_entries g)"
      "generated_ok (ce_b3hex ce) g" "map (length \<circ> snd) (g_bodies g) = cut_sizes (unat size') (unat E2E_CHUNK)"
    using f(2) by simp_all
  have all2: "list_all2 (body_of (ce_b3hex ce)) (g_entries g) (g_bodies g)" using g(4) by (simp add: generated_ok_def)
  show "map (length \<circ> snd) bodies = cut_sizes (unat size') 65536" using g(2,5) cs(2) by simp
  show "length (m_entries m) = length bodies" using list_all2_lengthD [OF all2] g(1,2) by simp
  show "m_chunk_count m = len_u64 (m_entries m)" using g(1,3) by simp
  show "body_of (ce_b3hex ce) (m_entries m ! i) (bodies ! i)" if "i < length bodies"
    using all2 that g(1,2) by (simp add: list_all2_conv_all_nth)
qed

text \<open>A body of the file: the entry that names it covers its object.\<close>

lemma piece_entry:
  assumes w: "chain_world ce envs R known" and own: "file_for ce envs R known mid size' seed m bodies"
    and st: "steady ce envs known st" "\<forall>cb\<in>set bodies. body_stored st cb" and i: "i < length bodies"
  obtains bs e where "bodies ! i = (chunk_of (ce_b3hex ce) bs, bs)" "bs \<in> known" "bs \<in> snd ` set bodies"
    "length bs = cut_sizes (unat size') 65536 ! i"
    "st_blobs st (ChunkId_from_bytes (ce_b3hex ce) bs) = Some bs"
    "e \<in> set (m_entries m)" "e_chunk_id e = ChunkId_from_bytes (ce_b3hex ce) bs" "covers_chunk m e"
proof -
  note f = file_for_facts [OF w own] and p = file_for_pieces [OF w own]
  obtain c bs where cb: "bodies ! i = (c, bs)" by fastforce
  have mem: "(c, bs) \<in> set bodies" using i cb nth_mem [of i bodies] by simp
  have c: "c = chunk_of (ce_b3hex ce) bs" and known: "bs \<in> known" using f(5) mem by (auto simp: bodies_ok_def)
  have stored: "st_blobs st (ChunkId_from_bytes (ce_b3hex ce) bs) = Some bs"
    using st(2) mem c by (fastforce simp: body_stored_def chunk_of_def)
  let ?e = "m_entries m ! i"
  have e: "?e \<in> set (m_entries m)" using i p(2) by simp
  have b: "e_chunk_id ?e = ChunkId_from_bytes (ce_b3hex ce) bs" "e_chunk_offset ?e = 0" "unat (e_length ?e) = length bs"
    using p(4) [OF i] cb by (simp_all add: body_of_def)
  have "manifest_stored (st_blobs st) m" using f(6) [OF st(2)] by simp
  then obtain b' sz where "st_blobs st (e_chunk_id ?e) = Some b'" "chunk_size m (e_chunk_id ?e) = Some sz" "length b' = unat sz"
    using entry_object [OF f(1) _ e] by blast
  then have "covers_chunk m ?e" using b stored by (simp add: covers_chunk_def word_unat_eq_iff)
  moreover have "length bs = cut_sizes (unat size') 65536 ! i"
    using arg_cong [OF p(1), of "\<lambda>xs. xs ! i"] i cb by simp
  ultimately show ?thesis using that [OF _ known _ _ stored e b(1)] cb c mem by force
qed


text \<open>A reassembly only reads.\<close>

lemma and_then_st_keeps: "Q (snd r) \<Longrightarrow> (\<And>a s. Q s \<Longrightarrow> Q (snd (f a s))) \<Longrightarrow> Q (snd (and_then_st r f))"
  by (cases "(r, f)" rule: and_then_st.cases) auto

lemma reassemble_loop_keeps:
  assumes "\<And>w e. Q w \<Longrightarrow> e \<in> set es \<Longrightarrow> Q (snd (fetch w (e_chunk_id e) (e_chunk_offset e) (e_length e)))" "Q w"
  shows "Q (snd (reassemble_loop p b3hex fetch m es out w))"
  using assms
proof (induction es arbitrary: out w)
  case (Cons e es)
  have ih: "Q (snd (reassemble_loop p b3hex fetch m es out' w'))" if "Q w'" for out' w'
    using Cons.prems(1) that by (intro Cons.IH) auto
  show ?case
    using Cons.prems by (simp add: and_then_st_keeps [where Q = Q] ih)
qed simp

lemma reassemble_keeps:
  fixes n :: nat and base :: string
  assumes m: "readable_from ce st m" and same: "same_world ce envs" and "fake_inv g"
  defines "r \<equiv> reassemble ce (over_http base envs) \<lparr>cc_base = base\<rparr> (n, st\<lparr>st_blobs := g\<rparr>) m"
  shows "snd (snd r) = st\<lparr>st_blobs := g\<rparr>" "n \<le> fst (snd r)"
proof -
  have ok: "manifest_ok m" and sm: "small_entries m" using m by (simp_all add: readable_from_def)
  let ?Q = "\<lambda>w :: nat \<times> AppState. snd w = st\<lparr>st_blobs := g\<rparr> \<and> n \<le> fst w"
  have fetch: "?Q (snd (get_chunk_range ce (over_http base envs) \<lparr>cc_base = base\<rparr> w (e_chunk_id e) (e_chunk_offset e) (e_length e)))"
    if "?Q w" "e \<in> set (m_entries m)" for w e
    using fetch_over_http [OF same, of w "e_chunk_id e" "e_length e" "e_chunk_offset e" base] assms(3) that
      small_entry [OF ok sm that(2)] by simp
  have "?Q (snd r)"
    unfolding r_def reassemble_unfold [OF ok sm [unfolded small_entries_def, THEN conjunct1]]
    by (rule reassemble_loop_keeps [where Q = ?Q]) (use fetch in simp_all)
  then show "snd (snd r) = st\<lparr>st_blobs := g\<rparr>" "n \<le> fst (snd r)" by simp_all
qed

lemma reads_back:
  assumes "steady ce envs known st" "readable_from ce st m"
  shows "\<exists>k'\<ge>k. reassemble ce (over_http base envs) \<lparr>cc_base = base\<rparr> (k, st) m
    = (Ok (file_bytes (st_blobs st) m), (k', st))"
proof -
  have inv: "fake_inv (st_blobs st)" "same_world ce envs"
    using assms(1) by (simp_all add: steady_def app_inv_def blobs_ok_def)
  from reassembly_of_kept [OF assms(2) inv(2,1) refl, of base k] reassemble_keeps(2) [OF assms(2) inv(2,1), where base = base and n = k]
  show ?thesis by auto
qed

section \<open>The life of a file\<close>

text \<open>
  A file is created, its bodies uploaded (by \<open>run\<close>), its manifest stored, and a version created and committed,
  all under names that are free.
\<close>

lemma publish_file:
  assumes w: "chain_world ce envs R known" and own: "file_for ce envs R known (fr_manifest ids) size' seed m bodies"
    and fits: "names_fit envs ids name key" and name: "\<not> illegal_name name"
    and st: "steady ce envs known st" "only_names keys fs ms vs st"
    and free: "key \<notin> keys" "env_fresh_file (envs n) \<notin> fs" "fr_manifest ids \<notin> ms" "fr_version ids \<notin> vs"
    and run: "\<And>st1. steady ce envs known st1 \<Longrightarrow> run (Suc n, st1) = (Ok (), (k, with_bodies (ce_b3hex ce) bodies st1))"
  obtains st1 st2 st3 st4 st5 fl ver where
    "c_create_file ce (over_http base envs) \<lparr>cc_base = base\<rparr> (n, st) (fr_dir ids) name key = (Ok fl, (Suc n, st1))"
    "f_file_id fl = env_fresh_file (envs n)" "run (Suc n, st1) = (Ok (), (k, st2))"
    "c_put_manifest ce (over_http base envs) \<lparr>cc_base = base\<rparr> (k, st2) m = (Ok m, (Suc k, st3))"
    "c_create_version ce (over_http base envs) \<lparr>cc_base = base\<rparr> (Suc k, st3) (f_file_id fl) (fr_version ids) None
      (m_manifest_id m) = (Ok ver, (Suc (Suc k), st4))" "v_state ver = Candidate"
    "c_commit_version ce (over_http base envs) \<lparr>cc_base = base\<rparr> (Suc (Suc k), st4) (fr_version ids)
      = (Ok (ver\<lparr>v_state := Committed\<rparr>), (Suc (Suc (Suc k)), st5))"
    "steady ce envs known st5" "readable_from ce st5 m" "file_bytes (st_blobs st5) m = concat (map snd bodies)"
    "only_names (insert key keys) (insert (env_fresh_file (envs n)) fs) (insert (fr_manifest ids) ms) (insert (fr_version ids) vs) st5"
    "\<exists>fl'. s_files (st_meta st5) (f_file_id fl) = Some fl' \<and> f_current_version_id fl' = Some (fr_version ids)"
proof -
  let ?f = "env_fresh_file (envs n)" and ?mid = "fr_manifest ids" and ?vid = "fr_version ids"
  note facts = file_for_facts [OF w own] and W = chain_worldD [OF w]
  have put_fits: "\<forall>k. body_fits envs k (JPutManifest \<lparr>pmr_manifest = m\<rparr>)" using own by (simp add: file_for_def)
  have fits': "\<forall>k. body_fits envs k (JCreateFile \<lparr>cfr_parent_id = fr_dir ids, cfr_name = name, cfr_idempotency_key = key\<rparr>)"
    "\<forall>k. body_fits envs k (JCreateVersion \<lparr>cvr_version_id = ?vid, cvr_parent_version_id = None, cvr_manifest_id = ?mid\<rparr>)"
    using fits by (simp_all add: names_fit_def)
  note none = only_names_None [OF st(2)]
  define fl where "fl = new_file ?f (env_now (envs n)) (fr_dir ids) name"
  define st1 where "st1 = st\<lparr>st_meta := add_file (st_meta st) key fl\<rparr>"
  note c1 = new_file_call [OF st(1) name none(1) [OF free(1)] none(2) [OF free(2)] fits'(1), folded fl_def, folded st1_def]
  have f1: "f_file_id fl = ?f" "s_files (st_meta st1) ?f = Some fl" "only_names (insert key keys) (insert ?f fs) ms vs st1"
    using st(2) by (auto simp: fl_def st1_def new_file_def add_file_def only_names_def)
  define st2 where "st2 = with_bodies (ce_b3hex ce) bodies st1"
  have c2: "steady ce envs known st2" "same_names ?f ?mid ?vid (st_meta st1) (st_meta st2)"
      "only_names (insert key keys) (insert ?f fs) ms vs st2" "\<forall>cb\<in>set bodies. body_stored st2 cb"
    using uploads_Ok(1) [OF W(3,5) c1(2) facts(5)] f1(3) by (simp_all add: uploaded_def st2_def)
  note held = facts(6) [OF c2(4)] and none2 = only_names_None [OF c2(3)]
  define st3 where "st3 = st2\<lparr>st_meta := add_manifest (st_meta st2) m\<rparr>"
  have reg: "chunks_registered (st_meta st2) m" and no_m: "s_manifests (st_meta st2) (m_manifest_id m) = None"
    using held none2(3) [OF free(3)] facts(2) by simp_all
  note c3 = new_manifest_call [OF c2(1) W(2) facts(1) reg no_m put_fits, folded st3_def]
  have f3: "s_files (st_meta st3) ?f = Some fl" "s_manifests (st_meta st3) ?mid = Some m" "s_versions (st_meta st3) ?vid = None"
    using c2(2) f1(2) none2(4) [OF free(4)] facts(2) by (simp_all add: st3_def add_manifest_def same_names_def)
  define ver where "ver = candidate (env_now (envs (Suc k))) ?f ?vid None ?mid"
  define st4 where "st4 = st3\<lparr>st_meta := add_version (st_meta st3) ver\<rparr>"
  note c4 = new_version_call [OF c3(2) W(2) f3 fits'(2), where n = "Suc k", folded ver_def, folded st4_def]
  have v: "s_versions (st_meta st4) ?vid = Some ver" "v_state ver = Candidate" "s_manifests (st_meta st4) (v_manifest_id ver) = Some m"
    using f3(2) by (simp_all add: st4_def add_version_def ver_def candidate_def)
  define st5 where "st5 = st4\<lparr>st_meta := publish_version (env_now (envs (Suc (Suc k)))) (st_meta st4) ?vid ver\<rparr>"
  note c5 = first_commit_call [OF c4(2) W(2) v facts(1), where n = "Suc (Suc k)", folded st5_def]
  have blobs: "st_blobs st5 = st_blobs st2" by (simp add: st5_def st4_def st3_def)
  have "readable_from ce st5 m" "file_bytes (st_blobs st5) m = concat (map snd bodies)"
    using c5(2) held facts(1,4) by (simp_all add: readable_from_def steady_def blobs)
  moreover have names4: "only_names (insert key keys) (insert ?f fs) (insert ?mid ms) (insert ?vid vs) st4"
    using c2(3) facts(2)
    by (auto simp: only_names_def st4_def st3_def add_version_def add_manifest_def ver_def candidate_def)
  then have "only_names (insert key keys) (insert ?f fs) (insert ?mid ms) (insert ?vid vs) st5"
    by (auto simp: only_names_def st5_def publish_version_def ver_def candidate_def split: option.splits)
  moreover have "\<exists>fl'. s_files (st_meta st5) (f_file_id fl) = Some fl' \<and> f_current_version_id fl' = Some ?vid"
    using f3(1) f1(1) by (simp add: st5_def st4_def publish_version_def add_version_def ver_def candidate_def point_file_at_def)
  ultimately show ?thesis
    using that [OF c1(1) f1(1) _ c3(1) c4(1) [folded f1(1) facts(2)] v(2) c5(1,2)] run [OF c1(2)] by (simp add: st2_def)
qed

end
