(* ===== verification/Negative_Chain.thy ===== *)
theory Negative_Chain
  imports Chain_Server Corruptor
begin

text \<open>
  The eleven cases of \<^verbatim>\<open>tests/suites/tests/e2e_chain_negative.rs\<close> as programs over the client's calls and
  the server they start: each establishes a committed file, injects one fault, expects its error code
  and reads the committed file again.  The fresh identities a case draws are arguments, those of the
  committed file and those of the rest of the case.  The lemmas show that every case passes.
\<close>

section \<open>The cases\<close>

record GoodVersion =
  gv_manifest :: Manifest
  gv_bytes :: bytes

definition unwrap_err_is :: "ErrorCode \<Rightarrow> 'a space_result \<times> 'w \<Rightarrow> unit space_result \<times> 'w" where
  "unwrap_err_is code r = (case r of (Err e, w) \<Rightarrow> assert_that (se_code e = code) w | (_, w) \<Rightarrow> (Panic, w))"

definition establish_good ::
  "ClientEnv \<Rightarrow> 'r Rng \<Rightarrow> 'w InProcCloud \<Rightarrow> FreshIds \<Rightarrow> 'w \<Rightarrow> GoodVersion space_result \<times> 'w" where
  "establish_good ce R cloud ids w =
     (let net = ip_net cloud; client = ip_client cloud in
     and_then_st (or_panic (c_create_file ce net client w (fr_dir ids) ''good.bin'' ''good-key'')) (\<lambda>file w.
     and_then_st (generate_manifest R (ce_b3hex ce) (ce_profile ce) (fr_manifest ids) (3 * E2E_CHUNK) E2E_CHUNK 7, w)
       (\<lambda>(manifest, bodies) w.
     and_then_st (upload ce (ip_net cloud) (ip_client cloud) bodies w) (\<lambda>_ w.
     and_then_st (or_panic (c_put_manifest ce net client w manifest)) (\<lambda>_ w.
     and_then_st (or_panic (c_create_version ce net client w (f_file_id file) (fr_version ids) None
         (m_manifest_id manifest))) (\<lambda>_ w.
     and_then_st (or_panic (c_commit_version ce net client w (fr_version ids))) (\<lambda>_ w.
     (Ok \<lparr>gv_manifest = manifest, gv_bytes = concat (map snd bodies)\<rparr>, w))))))))"

definition assert_good_still_readable ::
  "ClientEnv \<Rightarrow> 'w InProcCloud \<Rightarrow> GoodVersion \<Rightarrow> 'w \<Rightarrow> unit space_result \<times> 'w" where
  "assert_good_still_readable ce cloud good w =
     and_then_st (or_panic (reassemble ce (ip_net cloud) (ip_client cloud) w (gv_manifest good)))
       (\<lambda>got w. assert_that (got = gv_bytes good) w)"

text \<open>
  What all cases have in common: the server is started, a good version established, the case's own file
  generated and its chunks uploaded; \<open>rest\<close> is what the case does then.
\<close>

definition with_uploaded ::
  "ClientEnv \<Rightarrow> (nat \<Rightarrow> Env) \<Rightarrow> 'r Rng \<Rightarrow> string \<Rightarrow> FreshIds \<Rightarrow> ManifestId \<Rightarrow> u64 \<Rightarrow> u64 \<Rightarrow>
   ((nat \<times> AppState) InProcCloud \<Rightarrow> GoodVersion \<Rightarrow> Manifest \<Rightarrow> (Chunk \<times> bytes) list \<Rightarrow> nat \<times> AppState
      \<Rightarrow> unit space_result \<times> nat \<times> AppState) \<Rightarrow> nat \<Rightarrow> unit space_result \<times> nat \<times> AppState" where
  "with_uploaded ce envs R addr good_ids mid size' seed rest n =
     (let (cloud, w) = start_cloud ce envs addr n in
     and_then_st (establish_good ce R cloud good_ids w) (\<lambda>good w.
     and_then_st (generate_manifest R (ce_b3hex ce) (ce_profile ce) mid size' E2E_CHUNK seed, w) (\<lambda>(manifest, bodies) w.
     and_then_st (upload ce (ip_net cloud) (ip_client cloud) bodies w) (\<lambda>_ w. rest cloud good manifest bodies w))))"

definition case_1 :: "ClientEnv \<Rightarrow> (nat \<Rightarrow> Env) \<Rightarrow> 'r Rng \<Rightarrow> string \<Rightarrow> FreshIds \<Rightarrow> FreshIds \<Rightarrow> nat
    \<Rightarrow> unit space_result \<times> nat \<times> AppState" where
  "case_1 ce envs R addr good_ids ids =
     with_uploaded ce envs R addr good_ids (fr_manifest ids) (2 * E2E_CHUNK) 11 (\<lambda>cloud good manifest bodies w.
     let w = ip_reach cloud (\<lambda>g. corrupt_for_test g (c_chunk_id (fst (bodies ! 0))) 5) w in
     and_then_st (unwrap_err_is IntegrityHashMismatch (reassemble ce (ip_net cloud) (ip_client cloud) w manifest)) (\<lambda>_ w.
     assert_good_still_readable ce cloud good w))"

definition case_2 :: "ClientEnv \<Rightarrow> (nat \<Rightarrow> Env) \<Rightarrow> 'r Rng \<Rightarrow> string \<Rightarrow> FreshIds \<Rightarrow> nat
    \<Rightarrow> unit space_result \<times> nat \<times> AppState" where
  "case_2 ce envs R addr good_ids n =
     (let (cloud, w) = start_cloud ce envs addr n in
     and_then_st (establish_good ce R cloud good_ids w) (\<lambda>good w.
     and_then_st (generate_chunk R (ce_b3hex ce) E2E_CHUNK 21, w) (\<lambda>(chunk_id, body) w.
     and_then_st (or_panic (register_and_put_chunk ce (ip_net cloud) (ip_client cloud) w chunk_id body)) (\<lambda>_ w.
     and_then_st (minus_u64 (ce_profile ce) (len_u64 body) 100, w) (\<lambda>at w.
     let w = ip_reach cloud (\<lambda>g. truncate_for_test g chunk_id at) w in
     and_then_st (unwrap_err_is IntegrityLengthMismatch
         (get_chunk_range ce (ip_net cloud) (ip_client cloud) w chunk_id 0 (len_u64 body))) (\<lambda>_ w.
     assert_good_still_readable ce cloud good w))))))"

definition case_3 :: "ClientEnv \<Rightarrow> (nat \<Rightarrow> Env) \<Rightarrow> 'r Rng \<Rightarrow> string \<Rightarrow> FreshIds \<Rightarrow> FreshIds \<Rightarrow> nat
    \<Rightarrow> unit space_result \<times> nat \<times> AppState" where
  "case_3 ce envs R addr good_ids ids =
     with_uploaded ce envs R addr good_ids (fr_manifest ids) (2 * E2E_CHUNK) 31 (\<lambda>cloud good manifest bodies w.
     let w = ip_reach cloud (\<lambda>g. snd (fake_delete g (c_chunk_id (fst (bodies ! 1))))) w in
     and_then_st (unwrap_err_is ChunkNotFound (reassemble ce (ip_net cloud) (ip_client cloud) w manifest)) (\<lambda>_ w.
     assert_good_still_readable ce cloud good w))"

definition expect_manifest_rejected ::
  "(Manifest \<Rightarrow> (unit, Manifest) outcome) \<Rightarrow> ClientEnv \<Rightarrow> (nat \<Rightarrow> Env) \<Rightarrow> 'r Rng \<Rightarrow> string \<Rightarrow> FreshIds \<Rightarrow> FreshIds \<Rightarrow> nat
    \<Rightarrow> unit space_result \<times> nat \<times> AppState" where
  "expect_manifest_rejected mutate ce envs R addr good_ids ids =
     with_uploaded ce envs R addr good_ids (fr_manifest ids) (3 * E2E_CHUNK) 41 (\<lambda>cloud good manifest bodies w.
     case mutate manifest of
       Ok manifest \<Rightarrow>
         (let net = ip_net cloud; client = ip_client cloud in
          and_then_st (unwrap_err_is IntegrityManifestInvalid (c_put_manifest ce net client w manifest)) (\<lambda>_ w.
          and_then_st (or_panic (c_create_file ce net client w (fr_dir ids) ''x'' ''x'')) (\<lambda>file w.
          and_then_st (unwrap_err_is ManifestNotFound (c_create_version ce net client w (f_file_id file)
              (fr_version ids) None (m_manifest_id manifest))) (\<lambda>_ w.
          assert_good_still_readable ce cloud good w))))
     | _ \<Rightarrow> (Panic, w))"

definition case_4 :: "ClientEnv \<Rightarrow> (nat \<Rightarrow> Env) \<Rightarrow> 'r Rng \<Rightarrow> string \<Rightarrow> FreshIds \<Rightarrow> FreshIds \<Rightarrow> nat
    \<Rightarrow> unit space_result \<times> nat \<times> AppState" where
  "case_4 ce = expect_manifest_rejected (\<lambda>m. introduce_gap (ce_profile ce) m 0) ce"

definition case_5 :: "ClientEnv \<Rightarrow> (nat \<Rightarrow> Env) \<Rightarrow> 'r Rng \<Rightarrow> string \<Rightarrow> FreshIds \<Rightarrow> FreshIds \<Rightarrow> nat
    \<Rightarrow> unit space_result \<times> nat \<times> AppState" where
  "case_5 ce = expect_manifest_rejected (\<lambda>m. introduce_overlap (ce_profile ce) m 0) ce"

definition case_6 :: "ClientEnv \<Rightarrow> (nat \<Rightarrow> Env) \<Rightarrow> 'r Rng \<Rightarrow> string \<Rightarrow> FreshIds \<Rightarrow> FreshIds \<Rightarrow> nat
    \<Rightarrow> unit space_result \<times> nat \<times> AppState" where
  "case_6 ce = expect_manifest_rejected (\<lambda>m. Ok (alter_total_size m 1)) ce"

definition case_7 :: "ClientEnv \<Rightarrow> (nat \<Rightarrow> Env) \<Rightarrow> 'r Rng \<Rightarrow> string \<Rightarrow> FreshIds \<Rightarrow> FreshIds \<Rightarrow> nat
    \<Rightarrow> unit space_result \<times> nat \<times> AppState" where
  "case_7 ce = expect_manifest_rejected (\<lambda>m. Ok (alter_chunk_count m 1)) ce"

definition case_8 :: "ClientEnv \<Rightarrow> (nat \<Rightarrow> Env) \<Rightarrow> 'r Rng \<Rightarrow> string \<Rightarrow> FreshIds \<Rightarrow> FreshIds \<Rightarrow> nat
    \<Rightarrow> unit space_result \<times> nat \<times> AppState" where
  "case_8 ce = expect_manifest_rejected (\<lambda>m. swap_entries m 0 2) ce"

definition case_9 :: "ClientEnv \<Rightarrow> (nat \<Rightarrow> Env) \<Rightarrow> 'r Rng \<Rightarrow> string \<Rightarrow> FreshIds \<Rightarrow> FreshIds \<Rightarrow> nat
    \<Rightarrow> unit space_result \<times> nat \<times> AppState" where
  "case_9 ce envs R addr good_ids ids =
     with_uploaded ce envs R addr good_ids (fr_manifest ids) E2E_CHUNK 51 (\<lambda>cloud good manifest bodies w.
     let net = ip_net cloud; client = ip_client cloud in
     and_then_st (or_panic (c_put_manifest ce net client w manifest)) (\<lambda>_ w.
     and_then_st (or_panic (c_create_file ce net client w (fr_dir ids) ''cand.bin'' ''cand'')) (\<lambda>file w.
     and_then_st (or_panic (c_create_version ce net client w (f_file_id file) (fr_version ids) None
         (m_manifest_id manifest))) (\<lambda>_ w.
     and_then_st (or_panic (c_stat_file ce net client w (f_file_id file))) (\<lambda>stat w.
     and_then_st (assert_that (f_current_version_id stat = None) w) (\<lambda>_ w.
     assert_good_still_readable ce cloud good w))))))"

definition case_10 :: "ClientEnv \<Rightarrow> (nat \<Rightarrow> Env) \<Rightarrow> 'r Rng \<Rightarrow> string \<Rightarrow> FreshIds \<Rightarrow> nat
    \<Rightarrow> unit space_result \<times> nat \<times> AppState" where
  "case_10 ce envs R addr good_ids n =
     (let (cloud, w) = start_cloud ce envs addr n in
     and_then_st (establish_good ce R cloud good_ids w) (\<lambda>good w.
     and_then_st (generate_chunk R (ce_b3hex ce) 4096 61, w) (\<lambda>(i, body) w.
     and_then_st (or_panic (register_and_put_chunk ce (ip_net cloud) (ip_client cloud) w i body)) (\<lambda>_ w.
     and_then_st (if body = [] then Panic else Ok (body[0 := (body ! 0) XOR 0xFF]), w) (\<lambda>different w.
     and_then_st (unwrap_err_is IntegrityChunkIdConflict
         (register_and_put_chunk ce (ip_net cloud) (ip_client cloud) w i different)) (\<lambda>_ w.
     assert_good_still_readable ce cloud good w))))))"

definition case_11 :: "ClientEnv \<Rightarrow> (nat \<Rightarrow> Env) \<Rightarrow> 'r Rng \<Rightarrow> string \<Rightarrow> FreshIds \<Rightarrow> FreshIds \<Rightarrow> nat
    \<Rightarrow> unit space_result \<times> nat \<times> AppState" where
  "case_11 ce envs R addr good_ids ids =
     with_uploaded ce envs R addr good_ids (fr_manifest ids) (E2E_CHUNK + 1) 71 (\<lambda>cloud good manifest bodies w.
     let net = ip_net cloud; client = ip_client cloud in
     and_then_st (or_panic (c_put_manifest ce net client w manifest)) (\<lambda>_ w.
     and_then_st (or_panic (c_create_file ce net client w (fr_dir ids) ''twice.bin'' ''twice'')) (\<lambda>file w.
     and_then_st (or_panic (c_create_version ce net client w (f_file_id file) (fr_version ids) None
         (m_manifest_id manifest))) (\<lambda>_ w.
     and_then_st (or_panic (c_commit_version ce net client w (fr_version ids))) (\<lambda>a w.
     and_then_st (or_panic (c_commit_version ce net client w (fr_version ids))) (\<lambda>b w.
     and_then_st (assert_that (v_version_id a = v_version_id b) w) (\<lambda>_ w.
     assert_that (debug_state (v_state b) = ''Committed'') w)))))))"

section \<open>The committed file\<close>

text \<open>A good version on a server, and that it stays one while the server only grows.\<close>

definition good_at :: "ClientEnv \<Rightarrow> (nat \<Rightarrow> Env) \<Rightarrow> bytes set \<Rightarrow> GoodVersion \<Rightarrow> AppState \<Rightarrow> bool" where
  "good_at ce envs known good st \<longleftrightarrow> steady ce envs known st \<and> readable_from ce st (gv_manifest good) \<and>
     file_bytes (st_blobs st) (gv_manifest good) = gv_bytes good"

lemma good_grows:
  assumes "good_at ce envs known good st" "steady ce envs known st'" "server_grows st st'"
  shows "good_at ce envs known good st'"
proof -
  have more: "st_blobs st \<subseteq>\<^sub>m st_blobs st'"
    using assms(3) by (auto simp: server_grows_def kept_def map_le_def)
  then show ?thesis
    using assms manifest_stored_mono [OF _ more] file_bytes_mono [OF _ _ more]
    by (auto simp: good_at_def readable_from_def steady_def)
qed

lemma still_readable:
  assumes good: "good_at ce envs known good st" and "fake_inv g"
    and kept: "\<And>c. c \<in> set (m_chunks (gv_manifest good)) \<Longrightarrow> g (c_chunk_id c) = st_blobs st (c_chunk_id c)"
  shows "fst (assert_good_still_readable ce (cloud_at base envs) good (n, st\<lparr>st_blobs := g\<rparr>)) = Ok ()"
proof -
  have "readable_from ce st (gv_manifest good)" "same_world ce envs" using good by (simp_all add: good_at_def steady_def)
  from reassembly_of_kept [OF this assms(2) kept, of base n]
  obtain k where "reassemble ce (over_http base envs) \<lparr>cc_base = base\<rparr> (n, st\<lparr>st_blobs := g\<rparr>) (gv_manifest good)
      = (Ok (file_bytes (st_blobs st) (gv_manifest good)), (k, st\<lparr>st_blobs := g\<rparr>))" by blast
  then show ?thesis using good by (simp add: assert_good_still_readable_def good_at_def)
qed

lemma good_readable:
  assumes "good_at ce envs known good st"
  shows "fst (assert_good_still_readable ce (cloud_at base envs) good (n, st)) = Ok ()"
proof -
  have "fake_inv (st_blobs st)" using assms by (simp add: good_at_def steady_def app_inv_def blobs_ok_def)
  from still_readable [OF assms this refl, of base n] show ?thesis by simp
qed

lemma establish_good_Ok:
  assumes w: "chain_world ce envs R known"
    and gm: "file_for ce envs R known (fr_manifest ids) (3 * E2E_CHUNK) 7 gm gb" "names_fit envs ids ''good.bin'' ''good-key''"
  shows "\<exists>k st. establish_good ce R (cloud_at base envs) ids (n, AppState_default)
      = (Ok \<lparr>gv_manifest = gm, gv_bytes = concat (map snd gb)\<rparr>, (k, st)) \<and> n < k \<and>
    good_at ce envs known \<lparr>gv_manifest = gm, gv_bytes = concat (map snd gb)\<rparr> st \<and>
    only_names {''good-key''} {env_fresh_file (envs n)} {fr_manifest ids} {fr_version ids} st"
proof -
  note W = chain_worldD [OF w] and facts = file_for_facts [OF w gm(1)]
  have gen: "generate_manifest R (ce_b3hex ce) (ce_profile ce) (fr_manifest ids) (3 * E2E_CHUNK) E2E_CHUNK 7 = Ok (gm, gb)"
    using gm(1) by (simp add: file_for_def)
  have name: "\<not> illegal_name ''good.bin''" by (simp add: illegal_name_def)
  obtain st1 st2 st3 st4 st5 fl ver where
    c: "c_create_file ce (over_http base envs) \<lparr>cc_base = base\<rparr> (n, AppState_default) (fr_dir ids) ''good.bin'' ''good-key'' = (Ok fl, (Suc n, st1))"
      "upload ce (over_http base envs) \<lparr>cc_base = base\<rparr> gb (Suc n, st1) = (Ok (), (Suc n + length gb, st2))"
      "c_put_manifest ce (over_http base envs) \<lparr>cc_base = base\<rparr> (Suc n + length gb, st2) gm = (Ok gm, (Suc (Suc n + length gb), st3))"
      "c_create_version ce (over_http base envs) \<lparr>cc_base = base\<rparr> (Suc (Suc n + length gb), st3) (f_file_id fl) (fr_version ids) None
        (m_manifest_id gm) = (Ok ver, (Suc (Suc (Suc n + length gb)), st4))"
      "c_commit_version ce (over_http base envs) \<lparr>cc_base = base\<rparr> (Suc (Suc (Suc n + length gb)), st4) (fr_version ids)
        = (Ok (ver\<lparr>v_state := Committed\<rparr>), (Suc (Suc (Suc (Suc n + length gb))), st5))"
    and st5: "steady ce envs known st5" "readable_from ce st5 gm" "file_bytes (st_blobs st5) gm = concat (map snd gb)"
      "only_names {''good-key''} {env_fresh_file (envs n)} {fr_manifest ids} {fr_version ids} st5"
    by (rule publish_file [OF w gm name default_steady [OF w], of n
          "upload ce (over_http base envs) \<lparr>cc_base = base\<rparr> gb" "Suc n + length gb" base])
       (use uploads_Ok(2) [OF W(3,5) _ facts(5)] in simp_all)
  have "establish_good ce R (cloud_at base envs) ids (n, AppState_default)
      = (Ok \<lparr>gv_manifest = gm, gv_bytes = concat (map snd gb)\<rparr>, (Suc (Suc (Suc (Suc n + length gb))), st5))"
    using c gen by (simp add: establish_good_def)
  with st5 show ?thesis by (fastforce simp: good_at_def)
qed

section \<open>The start of a case\<close>

text \<open>
  Server started and good version established: the first steps of every case.  The case's own bodies are
  among the known ones and are not those of the good version.
\<close>

definition good_ready ::
  "ClientEnv \<Rightarrow> (nat \<Rightarrow> Env) \<Rightarrow> 'r Rng \<Rightarrow> bytes set \<Rightarrow> FreshIds \<Rightarrow> Manifest \<Rightarrow> (Chunk \<times> bytes) list \<Rightarrow> bool" where
  "good_ready ce envs R known ids gm gb \<longleftrightarrow> chain_world ce envs R known \<and>
     file_for ce envs R known (fr_manifest ids) (3 * E2E_CHUNK) 7 gm gb \<and> names_fit envs ids ''good.bin'' ''good-key''"

definition good_names :: "(nat \<Rightarrow> Env) \<Rightarrow> FreshIds \<Rightarrow> nat \<Rightarrow> AppState \<Rightarrow> bool" where
  "good_names envs ids n = only_names {''good-key''} {env_fresh_file (envs (Suc n))} {fr_manifest ids} {fr_version ids}"

lemma started:
  assumes "good_ready ce envs R known ids gm gb"
  obtains base good k st where
    "start_cloud ce envs addr n = (cloud_at base envs, (Suc n, AppState_default))"
    "establish_good ce R (cloud_at base envs) ids (Suc n, AppState_default) = (Ok good, (k, st))"
    "Suc n < k" "gv_manifest good = gm" "good_at ce envs known good st" "good_names envs ids n st"
proof -
  let ?base = "cc_base (CloudClient_new (''http://'' @ addr))"
  obtain k st where "establish_good ce R (cloud_at ?base envs) ids (Suc n, AppState_default)
      = (Ok \<lparr>gv_manifest = gm, gv_bytes = concat (map snd gb)\<rparr>, (k, st))" "Suc n < k"
    "good_at ce envs known \<lparr>gv_manifest = gm, gv_bytes = concat (map snd gb)\<rparr> st" "good_names envs ids n st"
    using establish_good_Ok [of ce envs R known ids gm gb ?base "Suc n"] assms
    by (auto simp: good_ready_def good_names_def)
  then show ?thesis using that [OF start_cloud_eq] by simp
qed

lemma with_uploaded_Ok:
  assumes ready: "good_ready ce envs R known ids gm gb" and own: "file_for ce envs R known mid size' seed m bodies"
  obtains base good k st where
    "with_uploaded ce envs R addr ids mid size' seed rest n = rest (cloud_at base envs) good m bodies (k, st)"
    "Suc n < k" "gv_manifest good = gm" "good_at ce envs known good st" "good_names envs ids n st"
    "\<forall>cb\<in>set bodies. body_stored st cb"
proof -
  obtain base good k st where s: "start_cloud ce envs addr n = (cloud_at base envs, (Suc n, AppState_default))"
      "establish_good ce R (cloud_at base envs) ids (Suc n, AppState_default) = (Ok good, (k, st))"
      "Suc n < k" "gv_manifest good = gm" "good_at ce envs known good st" "good_names envs ids n st"
    by (rule started [OF ready])
  have w: "chain_world ce envs R known" using ready by (simp add: good_ready_def)
  have "steady ce envs known st" using s(5) by (simp add: good_at_def)
  note up = uploads_Ok [OF chain_worldD(3,5) [OF w] this file_for_facts(5) [OF w own]]
  define st' where "st' = with_bodies (ce_b3hex ce) bodies st"
  have u: "upload ce (over_http base envs) \<lparr>cc_base = base\<rparr> bodies (k, st) = (Ok (), (k + length bodies, st'))" "steady ce envs known st'"
      "server_grows st st'" "\<forall>keys fs ms vs. only_names keys fs ms vs st' = only_names keys fs ms vs st"
      "\<forall>cb\<in>set bodies. body_stored st' cb"
    using up(1,2) by (simp_all add: uploaded_def st'_def)
  have "generate_manifest R (ce_b3hex ce) (ce_profile ce) mid size' E2E_CHUNK seed = Ok (m, bodies)"
    using own by (simp add: file_for_def)
  then have "with_uploaded ce envs R addr ids mid size' seed rest n
      = rest (cloud_at base envs) good m bodies (k + length bodies, st')"
    using s(1,2) u(1) by (simp add: with_uploaded_def)
  then show ?thesis
    using that [of base good "k + length bodies" st'] s(3-6) u(2-5) good_grows
    by (simp add: good_names_def)
qed

lemma with_uploaded_passes:
  assumes ready: "good_ready ce envs R known ids gm gb" and own: "file_for ce envs R known mid size' seed m bodies"
    and rest: "\<And>base good k st. Suc n < k \<Longrightarrow> gv_manifest good = gm \<Longrightarrow> good_at ce envs known good st \<Longrightarrow>
      good_names envs ids n st \<Longrightarrow> \<forall>cb\<in>set bodies. body_stored st cb \<Longrightarrow>
      fst (rest (cloud_at base envs) good m bodies (k, st)) = Ok ()"
  shows "fst (with_uploaded ce envs R addr ids mid size' seed rest n) = Ok ()"
  by (rule with_uploaded_Ok [OF ready own, where rest = rest and n = n and addr = addr]) (simp add: rest)

text \<open>Where the case's file has none of the good version's bodies, it has none of its objects either.\<close>

lemma not_of_good:
  assumes w: "chain_world ce envs R known" and gm: "file_for ce envs R known gmid gsize gseed gm gb"
    and "bs \<in> known" "bs \<notin> snd ` set gb" "c \<in> set (m_chunks gm)"
  shows "c_chunk_id c \<noteq> ChunkId_from_bytes (ce_b3hex ce) bs"
proof
  assume same: "c_chunk_id c = ChunkId_from_bytes (ce_b3hex ce) bs"
  have "c \<in> fst ` set gb" using file_for_facts(7) [OF w gm] assms(5) by blast
  then obtain b where b: "(c, b) \<in> set gb" by auto
  then have "c = chunk_of (ce_b3hex ce) b" "b \<in> known"
    using file_for_facts(5) [OF w gm] by (auto simp: bodies_ok_def)
  then have "b = bs" using same assms(3) by (auto simp: chunk_of_def ChunkId_from_bytes_def dest: inj_onD [OF chain_worldD(5) [OF w]])
  then show False using b assms(4) by force
qed

lemma unwrap_err_is_fails: "fails_as code (fst r) \<Longrightarrow> unwrap_err_is code r = (Ok (), snd r)"
  by (cases r) (auto simp: unwrap_err_is_def fails_as_def)

section \<open>A damaged object (cases 1 to 3)\<close>

text \<open>The end of a case with a damaged store: the expected error, then the good version.\<close>

lemma damaged_read:
  assumes good: "good_at ce envs known good st" and m: "readable_from ce st m"
    and g: "fake_inv g" "\<And>i. i \<noteq> v \<Longrightarrow> g i = st_blobs st i"
    and apart: "\<And>c. c \<in> set (m_chunks (gv_manifest good)) \<Longrightarrow> c_chunk_id c \<noteq> v"
    and fails: "fails_as code (read_from ce base envs k st g m)"
  shows "fst (and_then_st (unwrap_err_is code (reassemble ce (over_http base envs) \<lparr>cc_base = base\<rparr> (k, st\<lparr>st_blobs := g\<rparr>) m))
    (\<lambda>_ w. assert_good_still_readable ce (cloud_at base envs) good w)) = Ok ()"
proof -
  let ?r = "reassemble ce (over_http base envs) \<lparr>cc_base = base\<rparr> (k, st\<lparr>st_blobs := g\<rparr>) m"
  have "same_world ce envs" using good by (simp add: good_at_def steady_def)
  then have "snd ?r = (fst (snd ?r), st\<lparr>st_blobs := g\<rparr>)"
    using reassemble_keeps(1) [OF m _ g(1), where envs = envs and base = base and n = k] by (simp add: prod_eq_iff)
  moreover have "unwrap_err_is code ?r = (Ok (), snd ?r)"
    using fails by (intro unwrap_err_is_fails) (simp add: read_from_def)
  ultimately have "unwrap_err_is code ?r = (Ok (), (fst (snd ?r), st\<lparr>st_blobs := g\<rparr>))" by simp
  then show ?thesis using still_readable [OF good g(1)] g(2) apart by simp
qed

lemma damaged_case:
  assumes ready: "good_ready ce envs R known good_ids gm gb" and own: "file_for ce envs R known mid size' seed m bodies"
    and new: "snd ` set bodies \<inter> snd ` set gb = {}" and i: "i < length bodies"
    and local: "\<And>v g. fake_inv g \<Longrightarrow> fake_inv (damage v g)" "\<And>v g i. fake_inv g \<Longrightarrow> i \<noteq> v \<Longrightarrow> damage v g i = g i"
    and fails: "\<And>base k st bs e. readable_from ce st m \<Longrightarrow> bodies ! i = (chunk_of (ce_b3hex ce) bs, bs) \<Longrightarrow> bs \<in> known \<Longrightarrow>
      length bs = cut_sizes (unat size') 65536 ! i \<Longrightarrow> st_blobs st (ChunkId_from_bytes (ce_b3hex ce) bs) = Some bs \<Longrightarrow>
      e \<in> set (m_entries m) \<Longrightarrow> e_chunk_id e = ChunkId_from_bytes (ce_b3hex ce) bs \<Longrightarrow> covers_chunk m e \<Longrightarrow>
      fails_as code (read_from ce base envs k st (damage (ChunkId_from_bytes (ce_b3hex ce) bs) (st_blobs st)) m)"
  shows "fst (with_uploaded ce envs R addr good_ids mid size' seed (\<lambda>cloud good manifest bodies w.
     let w = ip_reach cloud (damage (c_chunk_id (fst (bodies ! i)))) w in
     and_then_st (unwrap_err_is code (reassemble ce (ip_net cloud) (ip_client cloud) w manifest)) (\<lambda>_ w.
     assert_good_still_readable ce cloud good w)) n) = Ok ()"
proof (rule with_uploaded_passes [OF ready own], goal_cases)
  case run: (1 base good k st)
  have w: "chain_world ce envs R known" and gm: "file_for ce envs R known (fr_manifest good_ids) (3 * E2E_CHUNK) 7 gm gb"
    using ready by (simp_all add: good_ready_def)
  have st: "steady ce envs known st" using run(3) by (simp add: good_at_def)
  obtain bs e where bs: "bodies ! i = (chunk_of (ce_b3hex ce) bs, bs)" "bs \<in> known" "bs \<in> snd ` set bodies"
      "length bs = cut_sizes (unat size') 65536 ! i" "st_blobs st (ChunkId_from_bytes (ce_b3hex ce) bs) = Some bs"
      and e: "e \<in> set (m_entries m)" "e_chunk_id e = ChunkId_from_bytes (ce_b3hex ce) bs" "covers_chunk m e"
    by (rule piece_entry [OF w own st run(5) i])
  note own_m = own_readable [OF w own st run(5)]
  have inv: "fake_inv (st_blobs st)" using st by (simp add: steady_def app_inv_def blobs_ok_def)
  have apart: "c_chunk_id c \<noteq> ChunkId_from_bytes (ce_b3hex ce) bs" if "c \<in> set (m_chunks (gv_manifest good))" for c
    using not_of_good [OF w gm bs(2) _ that [unfolded run(2)]] bs(3) new by blast
  show ?case
    using damaged_read [OF run(3) own_m local [OF inv] apart fails [OF own_m bs(1,2,4,5) e]] bs(1)
    by (simp add: chunk_of_def)
qed

lemma two_pieces:
  assumes "chain_world ce envs R known" "file_for ce envs R known mid (2 * E2E_CHUNK) seed m bodies"
  shows "length bodies = 2" "cut_sizes (unat (2 * E2E_CHUNK)) 65536 = [65536, 65536]"
proof -
  show "cut_sizes (unat (2 * E2E_CHUNK)) 65536 = [65536, 65536]"
    by (simp add: cut_sizes_def E2E_CHUNK_def) (simp add: numeral_2_eq_2)
  with arg_cong [OF file_for_pieces(1) [OF assms], of length] show "length bodies = 2" by simp
qed

lemma case_1_passes:
  assumes ready: "good_ready ce envs R known good_ids gm gb"
    and own: "file_for ce envs R known (fr_manifest ids) (2 * E2E_CHUNK) 11 m bodies"
    and new: "snd ` set bodies \<inter> snd ` set gb = {}" and flip: "flip_byte (snd (bodies ! 0)) 5 \<in> known"
  shows "fst (case_1 ce envs R addr good_ids ids n) = Ok ()"
  unfolding case_1_def
proof (rule damaged_case [OF ready own new])
  have w: "chain_world ce envs R known" using ready by (simp add: good_ready_def)
  note two = two_pieces [OF w own]
  show "0 < length bodies" using two by simp
  fix base k st bs e
  assume m: "readable_from ce st m" and bs: "bodies ! 0 = (chunk_of (ce_b3hex ce) bs, bs)" "bs \<in> known"
      "length bs = cut_sizes (unat (2 * E2E_CHUNK)) 65536 ! 0" "st_blobs st (ChunkId_from_bytes (ce_b3hex ce) bs) = Some bs"
    and e: "e \<in> set (m_entries m)" "e_chunk_id e = ChunkId_from_bytes (ce_b3hex ce) bs" "covers_chunk m e"
  let ?bs = "bs[unat (5 :: usize) := bs ! unat (5 :: usize) XOR 0xFF]"
  have len: "length bs = 65536" using bs(3) two(2) by simp
  have "?bs \<in> known" "?bs ! 5 \<noteq> bs ! 5" using flip bs(1) len flip_changes by (simp_all add: flip_byte_def)
  then have "ce_b3hex ce ?bs \<noteq> ce_b3hex ce bs"
    using inj_onD [OF chain_worldD(5) [OF w], of ?bs bs] bs(2) by metis
  then have bad: "\<not> ChunkId_verify (ce_b3hex ce) (ChunkId_from_bytes (ce_b3hex ce) bs) ?bs"
    by (simp add: ChunkId_verify_def ChunkId_from_bytes_def)
  show "fails_as IntegrityHashMismatch (read_from ce base envs k st
      (corrupt_for_test (st_blobs st) (ChunkId_from_bytes (ce_b3hex ce) bs) 5) m)"
    by (rule read_after_corruption [OF m chain_worldD(1) [OF w] e(1,2) bs(4) _ e(3) bad]) (simp add: len)
qed (simp_all add: damage_local)

lemma case_3_passes:
  assumes ready: "good_ready ce envs R known good_ids gm gb"
    and own: "file_for ce envs R known (fr_manifest ids) (2 * E2E_CHUNK) 31 m bodies"
    and new: "snd ` set bodies \<inter> snd ` set gb = {}"
  shows "fst (case_3 ce envs R addr good_ids ids n) = Ok ()"
  unfolding case_3_def
proof (rule damaged_case [OF ready own new])
  have w: "chain_world ce envs R known" using ready by (simp add: good_ready_def)
  show "1 < length bodies" using two_pieces [OF w own] by simp
  fix base k st bs e
  assume m: "readable_from ce st m" and e: "e \<in> set (m_entries m)" "e_chunk_id e = ChunkId_from_bytes (ce_b3hex ce) bs"
  show "fails_as ChunkNotFound (read_from ce base envs k st
      (snd (fake_delete (st_blobs st) (ChunkId_from_bytes (ce_b3hex ce) bs))) m)"
    by (rule read_after_delete [OF m chain_worldD(1) [OF w] e])
qed (simp_all add: damage_local)

lemma case_2_passes:
  assumes ready: "good_ready ce envs R known good_ids gm gb"
    and gen: "generate_chunk R (ce_b3hex ce) E2E_CHUNK 21 = Ok (v, bs)"
    and bs: "bs \<in> known" "bs \<notin> snd ` set gb" "\<forall>k. body_fits envs k (RawBytes bs)"
  shows "fst (case_2 ce envs R addr good_ids n) = Ok ()"
proof -
  have w: "chain_world ce envs R known" and gm: "file_for ce envs R known (fr_manifest good_ids) (3 * E2E_CHUNK) 7 gm gb"
    using ready by (simp_all add: good_ready_def)
  note W = chain_worldD [OF w]
  obtain base good k st where s: "start_cloud ce envs addr n = (cloud_at base envs, (Suc n, AppState_default))"
      "establish_good ce R (cloud_at base envs) good_ids (Suc n, AppState_default) = (Ok good, (k, st))"
      "gv_manifest good = gm" "good_at ce envs known good st"
    by (rule started [OF ready])
  have st: "steady ce envs known st" using s(4) by (simp add: good_at_def)
  have v: "v = ChunkId_from_bytes (ce_b3hex ce) bs" and len: "length bs = 65536"
    using gen generate_file_bytes_Ok [OF W(4), of E2E_CHUNK 21] by (auto simp: generate_chunk_def outcome_simps E2E_CHUNK_def)
  then have fits: "fits_memory bs" and u64: "len_u64 bs = 65536" by (simp_all add: fits_memory_def len_u64_def)
  define st' where "st' = with_chunk (ce_b3hex ce) bs st"
  note put = upload_steady [OF st W(3) bs(1,3) fits W(5), folded st'_def v]
  have good: "good_at ce envs known good st'" using good_grows [OF s(4) put(2,3)] .
  have stored: "st_blobs st' v = Some bs" using put(5) v by (simp add: body_stored_def chunk_of_def)
  have inv: "fake_inv (st_blobs st')" using put(2) by (simp add: steady_def app_inv_def blobs_ok_def)
  let ?g = "truncate_for_test (st_blobs st') v 65436"
  have range: "get_chunk_range ce (over_http base envs) \<lparr>cc_base = base\<rparr> (Suc k, st'\<lparr>st_blobs := ?g\<rparr>) v 0 65536
      = (fake_get_range (ce_b3hex ce) ?g v 0 65536, (Suc (Suc k), st'\<lparr>st_blobs := ?g\<rparr>))"
    using fetch_over_http [OF W(1), of "(Suc k, st'\<lparr>st_blobs := ?g\<rparr>)" v 65536 0 base] damage_local(2) [OF inv]
      wf_from_bytes [OF W(3)] v by simp
  have fails: "fails_as IntegrityLengthMismatch (fake_get_range (ce_b3hex ce) ?g v 0 65536)"
    using truncated_range [OF inv stored, of 0 65536 65436] by simp
  have "c_chunk_id c \<noteq> v" if "c \<in> set (m_chunks (gv_manifest good))" for c
    using not_of_good [OF w gm bs(1,2)] that s(3) v by blast
  then have "fst (assert_good_still_readable ce (cloud_at base envs) good (Suc (Suc k), st'\<lparr>st_blobs := ?g\<rparr>)) = Ok ()"
    using still_readable [OF good damage_local(2) [OF inv]] damage_local(5) [OF inv] by simp
  then show ?thesis
    using s(1,2) gen put(1) [where base = base and n = k] v u64 range fails
    by (simp add: case_2_def minus_u64_def chunk_of_def unwrap_err_is_fails)
qed

section \<open>A manifest that is refused (cases 4 to 8)\<close>

text \<open>A file of the case beside the good one: its names are free.\<close>

lemma names_free:
  assumes w: "chain_world ce envs R known" and "good_names envs good_ids n st" "Suc n < k"
  shows "key \<noteq> ''good-key'' \<Longrightarrow> s_file_idempotency (st_meta st) key = None"
    "s_files (st_meta st) (env_fresh_file (envs k)) = None"
    "mid \<noteq> fr_manifest good_ids \<Longrightarrow> s_manifests (st_meta st) mid = None"
    "vid \<noteq> fr_version good_ids \<Longrightarrow> s_versions (st_meta st) vid = None"
  using only_names_None [OF assms(2) [unfolded good_names_def]] chain_worldD(6) [OF w, of k "Suc n"] assms(3) by auto

lemma rejected_case:
  assumes ready: "good_ready ce envs R known good_ids gm gb"
    and own: "file_for ce envs R known (fr_manifest ids) (3 * E2E_CHUNK) 41 m bodies"
    and names: "names_fit envs ids ''x'' ''x''" "fr_manifest ids \<noteq> fr_manifest good_ids"
    and bad: "mutate m = Ok m'" "\<not> manifest_ok m'" "m_manifest_id m' = m_manifest_id m"
    and fits: "\<forall>k. body_fits envs k (JPutManifest \<lparr>pmr_manifest = m'\<rparr>)"
  shows "fst (expect_manifest_rejected mutate ce envs R addr good_ids ids n) = Ok ()"
  unfolding expect_manifest_rejected_def
proof (rule with_uploaded_passes [OF ready own], goal_cases)
  case run: (1 base good k st)
  have w: "chain_world ce envs R known" using ready by (simp add: good_ready_def)
  note W = chain_worldD [OF w]
  have st: "steady ce envs known st" using run(3) by (simp add: good_at_def)
  have free: "s_file_idempotency (st_meta st) ''x'' = None" "s_files (st_meta st) (env_fresh_file (envs (Suc k))) = None"
    "s_manifests (st_meta st) (m_manifest_id m') = None"
    using names_free [OF w run(4), of "Suc k"] run(1) names(2) bad(3) file_for_facts(2) [OF w own] by simp_all
  obtain e1 where c1: "c_put_manifest ce (over_http base envs) \<lparr>cc_base = base\<rparr> (k, st) m' = (Err e1, (Suc k, st))"
      "se_code e1 = IntegrityManifestInvalid"
    using bad_manifest_refused [OF W(1,2) _ bad(2)] fits by blast
  have create_fits: "\<forall>k. body_fits envs k (JCreateFile \<lparr>cfr_parent_id = fr_dir ids, cfr_name = ''x'', cfr_idempotency_key = ''x''\<rparr>)"
    and version_fits: "\<forall>k. body_fits envs k (JCreateVersion \<lparr>cvr_version_id = fr_version ids,
      cvr_parent_version_id = None, cvr_manifest_id = fr_manifest ids\<rparr>)"
    using names(1) by (simp_all add: names_fit_def)
  have name: "\<not> illegal_name ''x''" by (simp add: illegal_name_def)
  define fl where "fl = new_file (env_fresh_file (envs (Suc k))) (env_now (envs (Suc k))) (fr_dir ids) ''x''"
  define st1 where "st1 = st\<lparr>st_meta := add_file (st_meta st) ''x'' fl\<rparr>"
  note c2 = new_file_call [OF st name free(1,2) create_fits, folded fl_def, folded st1_def]
  have f1: "s_files (st_meta st1) (f_file_id fl) = Some fl" "s_manifests (st_meta st1) (m_manifest_id m') = None"
    using free(3) by (simp_all add: st1_def add_file_def)
  have mid: "m_manifest_id m' = fr_manifest ids" using bad(3) file_for_facts(2) [OF w own] by simp
  obtain e3 where c3: "c_create_version ce (over_http base envs) \<lparr>cc_base = base\<rparr> (Suc (Suc k), st1) (f_file_id fl)
        (fr_version ids) None (m_manifest_id m') = (Err e3, (Suc (Suc (Suc k)), st1))" "se_code e3 = ManifestNotFound"
    using version_needs_manifest [OF W(1,2) _ f1, of "Suc (Suc k)" "fr_version ids" None base] version_fits mid by auto
  show ?case
    using c1 c2(1) c3 bad(1) good_readable [OF good_grows [OF run(3) c2(2,3)]]
    by (simp add: Let_def unwrap_err_is_def)
qed

text \<open>What the five cases assume: the good version, a file of three pieces of their own, and free names.\<close>

definition rejection_ready ::
  "ClientEnv \<Rightarrow> (nat \<Rightarrow> Env) \<Rightarrow> 'r Rng \<Rightarrow> bytes set \<Rightarrow> FreshIds \<Rightarrow> FreshIds \<Rightarrow> (Manifest \<Rightarrow> (unit, Manifest) outcome) \<Rightarrow> Manifest \<Rightarrow> bool" where
  "rejection_ready ce envs R known good_ids ids mutate m \<longleftrightarrow>
     (\<exists>gm gb bodies. good_ready ce envs R known good_ids gm gb \<and>
        file_for ce envs R known (fr_manifest ids) (3 * E2E_CHUNK) 41 m bodies) \<and>
     names_fit envs ids ''x'' ''x'' \<and> fr_manifest ids \<noteq> fr_manifest good_ids \<and>
     (\<forall>k m'. mutate m = Ok m' \<longrightarrow> body_fits envs k (JPutManifest \<lparr>pmr_manifest = m'\<rparr>))"

lemma rejection_facts:
  assumes "rejection_ready ce envs R known good_ids ids mutate m"
  shows "manifest_ok m" "m_total_size m = 3 * E2E_CHUNK" "length (m_entries m) = 3" "m_chunk_count m = 3"
proof -
  obtain gm gb bodies where w: "chain_world ce envs R known"
      and own: "file_for ce envs R known (fr_manifest ids) (3 * E2E_CHUNK) 41 m bodies"
    using assms by (auto simp: rejection_ready_def good_ready_def)
  show "manifest_ok m" "m_total_size m = 3 * E2E_CHUNK" using file_for_facts [OF w own] by simp_all
  show three: "length (m_entries m) = 3"
    using file_for_pieces(2) [OF w own] arg_cong [OF file_for_pieces(1) [OF w own], of length]
    by (simp add: cut_sizes_def E2E_CHUNK_def)
  show "m_chunk_count m = 3" using file_for_pieces(3) [OF w own] three by (simp add: len_u64_def)
qed

lemma rejected:
  assumes ready: "rejection_ready ce envs R known good_ids ids mutate m"
    and bad: "mutate m = Ok m'" "corrupts m m'" "m_manifest_id m' = m_manifest_id m"
  shows "fst (expect_manifest_rejected mutate ce envs R addr good_ids ids n) = Ok ()"
proof -
  obtain gm gb bodies where "good_ready ce envs R known good_ids gm gb"
      "file_for ce envs R known (fr_manifest ids) (3 * E2E_CHUNK) 41 m bodies"
    using ready by (auto simp: rejection_ready_def)
  moreover have "\<not> manifest_ok m'" using corrupts_not_ok [OF rejection_facts(1) [OF ready] bad(2)] .
  ultimately show ?thesis
    using ready bad(1,3) by (intro rejected_case [of ce envs R known good_ids gm gb ids m bodies mutate m'])
      (auto simp: rejection_ready_def)
qed

lemma case_4_passes:
  assumes ready: "rejection_ready ce envs R known good_ids ids (\<lambda>m. introduce_gap (ce_profile ce) m 0) m"
  shows "fst (case_4 ce envs R addr good_ids ids n) = Ok ()"
proof -
  note f = rejection_facts [OF ready]
  obtain m' where m': "introduce_gap (ce_profile ce) m 0 = Ok m'"
    using introduce_gap_total [OF f(1)] f(2) by (auto simp: E2E_CHUNK_def)
  show ?thesis unfolding case_4_def
    by (rule rejected [OF ready m' corrupt_gap [OF m'] corrupted_id(1) [OF m']])
qed

lemma case_5_passes:
  assumes ready: "rejection_ready ce envs R known good_ids ids (\<lambda>m. introduce_overlap (ce_profile ce) m 0) m"
  shows "fst (case_5 ce envs R addr good_ids ids n) = Ok ()"
proof -
  note f = rejection_facts [OF ready]
  obtain m' where m': "introduce_overlap (ce_profile ce) m 0 = Ok m'"
    using f(3) by (auto simp: introduce_overlap_def plus_u64_exact Let_def)
  have "corrupts m m'" using corrupt_overlap [OF m'] f(3) by simp
  then show ?thesis unfolding case_5_def by (rule rejected [OF ready m' _ corrupted_id(2) [OF m']])
qed

lemma case_6_passes:
  assumes ready: "rejection_ready ce envs R known good_ids ids (\<lambda>m. Ok (alter_total_size m 1)) m"
  shows "fst (case_6 ce envs R addr good_ids ids n) = Ok ()"
proof -
  have "corrupts m (alter_total_size m 1)"
    using rejection_facts(2) [OF ready] by (intro corrupt_total) (simp add: nudge_def E2E_CHUNK_def)
  then show ?thesis unfolding case_6_def by (rule rejected [OF ready refl _ corrupted_id(4)])
qed

lemma case_7_passes:
  assumes ready: "rejection_ready ce envs R known good_ids ids (\<lambda>m. Ok (alter_chunk_count m 1)) m"
  shows "fst (case_7 ce envs R addr good_ids ids n) = Ok ()"
proof -
  have "corrupts m (alter_chunk_count m 1)"
    using rejection_facts(4) [OF ready] by (intro corrupt_count) (simp add: nudge_def)
  then show ?thesis unfolding case_7_def by (rule rejected [OF ready refl _ corrupted_id(5)])
qed

lemma case_8_passes:
  assumes ready: "rejection_ready ce envs R known good_ids ids (\<lambda>m. swap_entries m 0 2) m"
  shows "fst (case_8 ce envs R addr good_ids ids n) = Ok ()"
proof -
  have "m_entries m \<noteq> []" using rejection_facts(3) [OF ready] by auto
  then obtain m' where m': "swap_entries m 0 2 = Ok m'"
    using rejection_facts(3) [OF ready] by (auto simp: swap_entries_def Let_def)
  have "corrupts m m'" using corrupt_swap [OF m'] by simp
  then show ?thesis unfolding case_8_def by (rule rejected [OF ready m' _ corrupted_id(3) [OF m']])
qed

section \<open>Uncommitted, conflicting and repeated writes (cases 9 to 11)\<close>

text \<open>A candidate beside the good version, as cases 9 and 11 make one.\<close>

lemma own_candidate:
  assumes w: "chain_world ce envs R known" and own: "file_for ce envs R known (fr_manifest ids) size' seed m bodies"
    and at: "good_at ce envs known good st" "good_names envs good_ids n st" "Suc n < k" "\<forall>cb\<in>set bodies. body_stored st cb"
    and names: "names_fit envs ids name key" "\<not> illegal_name name" "key \<noteq> ''good-key''"
      "fr_manifest ids \<noteq> fr_manifest good_ids" "fr_version ids \<noteq> fr_version good_ids"
  obtains st1 st2 st3 fl ver where
    "c_put_manifest ce (over_http base envs) \<lparr>cc_base = base\<rparr> (k, st) m = (Ok m, (Suc k, st1))"
    "c_create_file ce (over_http base envs) \<lparr>cc_base = base\<rparr> (Suc k, st1) (fr_dir ids) name key = (Ok fl, (Suc (Suc k), st2))"
    "c_create_version ce (over_http base envs) \<lparr>cc_base = base\<rparr> (Suc (Suc k), st2) (f_file_id fl) (fr_version ids) None
      (m_manifest_id m) = (Ok ver, (Suc (Suc (Suc k)), st3))"
    "good_at ce envs known good st3" "s_files (st_meta st3) (f_file_id fl) = Some fl" "f_current_version_id fl = None"
    "s_versions (st_meta st3) (fr_version ids) = Some ver" "v_state ver = Candidate"
    "s_manifests (st_meta st3) (v_manifest_id ver) = Some m"
proof -
  note W = chain_worldD [OF w] and facts = file_for_facts [OF w own]
  have st: "steady ce envs known st" using at(1) by (simp add: good_at_def)
  have fits: "\<forall>k. body_fits envs k (JPutManifest \<lparr>pmr_manifest = m\<rparr>)"
    "\<forall>k. body_fits envs k (JCreateFile \<lparr>cfr_parent_id = fr_dir ids, cfr_name = name, cfr_idempotency_key = key\<rparr>)"
    "\<forall>k. body_fits envs k (JCreateVersion \<lparr>cvr_version_id = fr_version ids, cvr_parent_version_id = None, cvr_manifest_id = fr_manifest ids\<rparr>)"
    using own names(1) by (simp_all add: file_for_def names_fit_def)
  note free = names_free [OF w at(2)]
  have k: "Suc n < Suc k" using at(3) by simp
  define st1 where "st1 = st\<lparr>st_meta := add_manifest (st_meta st) m\<rparr>"
  have reg: "chunks_registered (st_meta st) m" using facts(6) [OF at(4)] by simp
  have no_m: "s_manifests (st_meta st) (m_manifest_id m) = None" using free(3) [OF at(3) names(4)] facts(2) by simp
  note c1 = new_manifest_call [OF st W(2) facts(1) reg no_m fits(1), folded st1_def]
  define fl where "fl = new_file (env_fresh_file (envs (Suc k))) (env_now (envs (Suc k))) (fr_dir ids) name"
  define st2 where "st2 = st1\<lparr>st_meta := add_file (st_meta st1) key fl\<rparr>"
  have "s_file_idempotency (st_meta st1) key = None" "s_files (st_meta st1) (env_fresh_file (envs (Suc k))) = None"
    using free(1) [OF at(3) names(3)] free(2) [OF k] by (simp_all add: st1_def add_manifest_def)
  note c2 = new_file_call [OF c1(2) names(2) this fits(2), folded fl_def, folded st2_def]
  define ver where "ver = candidate (env_now (envs (Suc (Suc k)))) (f_file_id fl) (fr_version ids) None (fr_manifest ids)"
  define st3 where "st3 = st2\<lparr>st_meta := add_version (st_meta st2) ver\<rparr>"
  have ids: "s_files (st_meta st2) (f_file_id fl) = Some fl" "s_manifests (st_meta st2) (fr_manifest ids) = Some m"
      "s_versions (st_meta st2) (fr_version ids) = None"
    using facts(2) free(4) [OF at(3) names(5)] by (simp_all add: st2_def st1_def add_file_def add_manifest_def)
  note c3 = new_version_call [OF c2(2) W(2) ids fits(3), where n = "Suc (Suc k)", folded ver_def, folded st3_def]
  have "server_grows st st3" using c1(3) c2(3) c3(3) by (meson server_grows_trans)
  note good = good_grows [OF at(1) c3(2) this]
  show ?thesis
    by (rule that [OF c1(1) c2(1) c3(1) [folded facts(2)] good])
       (use ids in \<open>simp_all add: st3_def add_version_def ver_def candidate_def fl_def new_file_def\<close>)
qed

lemma case_9_passes:
  assumes ready: "good_ready ce envs R known good_ids gm gb"
    and own: "file_for ce envs R known (fr_manifest ids) E2E_CHUNK 51 m bodies"
    and names: "names_fit envs ids ''cand.bin'' ''cand''" "fr_manifest ids \<noteq> fr_manifest good_ids"
      "fr_version ids \<noteq> fr_version good_ids"
  shows "fst (case_9 ce envs R addr good_ids ids n) = Ok ()"
  unfolding case_9_def
proof (rule with_uploaded_passes [OF ready own], goal_cases)
  case run: (1 base good k st)
  have w: "chain_world ce envs R known" using ready by (simp add: good_ready_def)
  note W = chain_worldD [OF w]
  have name: "\<not> illegal_name ''cand.bin''" "''cand'' \<noteq> ''good-key''" by (simp_all add: illegal_name_def)
  obtain st1 st2 st3 fl ver where
    c: "c_put_manifest ce (over_http base envs) \<lparr>cc_base = base\<rparr> (k, st) m = (Ok m, (Suc k, st1))"
      "c_create_file ce (over_http base envs) \<lparr>cc_base = base\<rparr> (Suc k, st1) (fr_dir ids) ''cand.bin'' ''cand'' = (Ok fl, (Suc (Suc k), st2))"
      "c_create_version ce (over_http base envs) \<lparr>cc_base = base\<rparr> (Suc (Suc k), st2) (f_file_id fl) (fr_version ids) None
        (m_manifest_id m) = (Ok ver, (Suc (Suc (Suc k)), st3))"
    and good: "good_at ce envs known good st3" and fl: "s_files (st_meta st3) (f_file_id fl) = Some fl" "f_current_version_id fl = None"
    by (rule own_candidate [OF w own run(3,4,1,5) names(1) name names(2,3)])
  have "c_stat_file ce (over_http base envs) \<lparr>cc_base = base\<rparr> (Suc (Suc (Suc k)), st3) (f_file_id fl)
      = (Ok fl, (Suc (Suc (Suc (Suc k))), st3))"
    using rpc_stat_file [OF W(1,2), of base "(Suc (Suc (Suc k)), st3)" "f_file_id fl"] fl(1) by (simp add: get_file_def)
  then show ?case using c fl(2) good_readable [OF good] by (simp add: Let_def)
qed

lemma case_11_passes:
  assumes ready: "good_ready ce envs R known good_ids gm gb"
    and own: "file_for ce envs R known (fr_manifest ids) (E2E_CHUNK + 1) 71 m bodies"
    and names: "names_fit envs ids ''twice.bin'' ''twice''" "fr_manifest ids \<noteq> fr_manifest good_ids"
      "fr_version ids \<noteq> fr_version good_ids"
  shows "fst (case_11 ce envs R addr good_ids ids n) = Ok ()"
  unfolding case_11_def
proof (rule with_uploaded_passes [OF ready own], goal_cases)
  case run: (1 base good k st)
  have w: "chain_world ce envs R known" using ready by (simp add: good_ready_def)
  note W = chain_worldD [OF w]
  have name: "\<not> illegal_name ''twice.bin''" "''twice'' \<noteq> ''good-key''" by (simp_all add: illegal_name_def)
  obtain st1 st2 st3 fl ver where
    c: "c_put_manifest ce (over_http base envs) \<lparr>cc_base = base\<rparr> (k, st) m = (Ok m, (Suc k, st1))"
      "c_create_file ce (over_http base envs) \<lparr>cc_base = base\<rparr> (Suc k, st1) (fr_dir ids) ''twice.bin'' ''twice'' = (Ok fl, (Suc (Suc k), st2))"
      "c_create_version ce (over_http base envs) \<lparr>cc_base = base\<rparr> (Suc (Suc k), st2) (f_file_id fl) (fr_version ids) None
        (m_manifest_id m) = (Ok ver, (Suc (Suc (Suc k)), st3))"
    and good: "good_at ce envs known good st3"
    and ver: "s_versions (st_meta st3) (fr_version ids) = Some ver" "v_state ver = Candidate"
      "s_manifests (st_meta st3) (v_manifest_id ver) = Some m"
    by (rule own_candidate [OF w own run(3,4,1,5) names(1) name names(2,3)])
  have st3: "steady ce envs known st3" using good by (simp add: good_at_def)
  let ?k = "Suc (Suc (Suc k))"
  define st4 where "st4 = st3\<lparr>st_meta := publish_version (env_now (envs ?k)) (st_meta st3) (fr_version ids) ver\<rparr>"
  have first: "c_commit_version ce (over_http base envs) \<lparr>cc_base = base\<rparr> (?k, st3) (fr_version ids)
      = (Ok (ver\<lparr>v_state := Committed\<rparr>), (Suc ?k, st4))"
    using first_commit_call(1) [OF st3 W(2) ver file_for_facts(1) [OF w own], where n = ?k] by (simp add: st4_def)
  have "s_versions (st_meta st4) (fr_version ids) = Some (ver\<lparr>v_state := Committed\<rparr>)"
    by (simp add: st4_def publish_version_def)
  then have "c_commit_version ce (over_http base envs) \<lparr>cc_base = base\<rparr> (Suc ?k, st4) (fr_version ids)
      = (Ok (ver\<lparr>v_state := Committed\<rparr>), (Suc (Suc ?k), st4))"
    using rpc_commit_version [OF W(1,2), of base "(Suc ?k, st4)" "fr_version ids"] by (simp add: commit_version_def)
  then show ?case using c first by (simp add: Let_def)
qed

text \<open>Other bytes under an address in use are refused, because the digest tells them apart.\<close>

lemma case_10_passes:
  assumes ready: "good_ready ce envs R known good_ids gm gb"
    and gen: "generate_chunk R (ce_b3hex ce) 4096 61 = Ok (v, bs)"
    and bs: "bs \<in> known" "bs[0 := bs ! 0 XOR 0xFF] \<in> known"
    and fits: "\<forall>k. body_fits envs k (RawBytes bs) \<and> body_fits envs k (RawBytes (bs[0 := bs ! 0 XOR 0xFF]))"
  shows "fst (case_10 ce envs R addr good_ids n) = Ok ()"
proof -
  have w: "chain_world ce envs R known" using ready by (simp add: good_ready_def)
  note W = chain_worldD [OF w]
  obtain base good k st where s: "start_cloud ce envs addr n = (cloud_at base envs, (Suc n, AppState_default))"
      "establish_good ce R (cloud_at base envs) good_ids (Suc n, AppState_default) = (Ok good, (k, st))"
      "good_at ce envs known good st"
    by (rule started [OF ready])
  have st: "steady ce envs known st" using s(3) by (simp add: good_at_def)
  have v: "v = ChunkId_from_bytes (ce_b3hex ce) bs" and len: "length bs = 4096"
    using gen generate_file_bytes_Ok [OF W(4), of 4096 61] by (auto simp: generate_chunk_def outcome_simps)
  have ne: "bs \<noteq> []" and memory: "fits_memory bs" using len by (auto simp: fits_memory_def)
  define st' where "st' = with_chunk (ce_b3hex ce) bs st"
  have raw: "\<forall>k. body_fits envs k (RawBytes bs)" using fits by simp
  note put = upload_steady [OF st W(3) bs(1) raw memory W(5), folded st'_def v]
  have good: "good_at ce envs known good st'" using good_grows [OF s(3) put(2,3)] .
  let ?bs = "bs[0 := bs ! 0 XOR 0xFF]"
  have "?bs ! 0 \<noteq> bs ! 0" using ne flip_changes by simp
  then have "ce_b3hex ce ?bs \<noteq> ce_b3hex ce bs" using inj_onD [OF W(5), of ?bs bs] bs by metis
  then have "\<not> ChunkId_verify (ce_b3hex ce) v ?bs" by (simp add: v ChunkId_verify_def ChunkId_from_bytes_def)
  then have "h_put_chunk (ce_b3hex ce) st' (as_str v) ?bs
      = (Err (new_error IntegrityChunkIdConflict ''chunk_id does not address these bytes''), st')"
    using wf_from_bytes [OF W(3), of bs] v by (simp add: h_put_chunk_def ChunkId_parse_as_str [THEN iffD2] fake_put_def)
  then have "register_and_put_chunk ce (over_http base envs) \<lparr>cc_base = base\<rparr> (Suc k, st') v ?bs
      = (Err (new_error IntegrityChunkIdConflict ''chunk_id does not address these bytes''), (Suc (Suc k), st'))"
    using rpc_put_chunk [OF W(1), of v "(Suc k, st')" ?bs base] wf_from_bytes [OF W(3), of bs] v fits by simp
  then show ?thesis
    using s(1,2) gen put(1) [where base = base and n = k] v ne good_readable [OF good]
    by (simp add: case_10_def chunk_of_def unwrap_err_is_def new_error_def)
qed

end

