(* ===== verification/Happy_Suite.thy ===== *)
theory Happy_Suite
  imports Chain_Server
begin

text \<open>
  The two tests of \<^verbatim>\<open>tests/suites/tests/e2e_chain_happy.rs\<close>: the chain for every boundary size on one server,
  and a chain over the URL of a server process.  The fresh identities of the \<open>i\<close>-th round are an argument.
\<close>

section \<open>The tests\<close>

fun run_sizes ::
  "ClientEnv \<Rightarrow> 'w InProcCloud \<Rightarrow> 'r Rng \<Rightarrow> (nat \<Rightarrow> FreshIds) \<Rightarrow> nat \<Rightarrow> u64 list \<Rightarrow> 'w \<Rightarrow> unit space_result \<times> 'w" where
  "run_sizes ce cloud R fresh i [] w = (Ok (), w)"
| "run_sizes ce cloud R fresh i (size' # sizes) w =
     and_then_st (plus_u64 (ce_profile ce) 1000 (word_of_nat i), w) (\<lambda>seed w.
     and_then_st (run_chain_for_size ce (ip_net cloud) (ip_client cloud) R (fr_dir (fresh i)) (fr_manifest (fresh i))
         (fr_version (fresh i)) size' seed w) (\<lambda>_ w.
     run_sizes ce cloud R fresh (Suc i) sizes w))"

definition happy_chain_across_boundary_sizes ::
  "ClientEnv \<Rightarrow> (nat \<Rightarrow> Env) \<Rightarrow> 'r Rng \<Rightarrow> string \<Rightarrow> (nat \<Rightarrow> FreshIds) \<Rightarrow> nat \<Rightarrow> unit space_result \<times> nat \<times> AppState" where
  "happy_chain_across_boundary_sizes ce envs R addr fresh n =
     (let (cloud, w) = start_cloud ce envs addr n in
     and_then_st (boundary_sizes_for (ce_profile ce) E2E_CHUNK, w) (\<lambda>sizes w.
     run_sizes ce cloud R fresh 0 sizes w))"

definition happy_chain_over_a_real_cloud_process ::
  "ClientEnv \<Rightarrow> 'w transport \<Rightarrow> 'r Rng \<Rightarrow> string \<Rightarrow> FreshIds \<Rightarrow> 'w \<Rightarrow> unit space_result \<times> 'w" where
  "happy_chain_over_a_real_cloud_process ce net R cloud_url ids w =
     (let client = CloudClient_new cloud_url in
     and_then_st (or_panic (c_create_file ce net client w (fr_dir ids) ''proc.bin'' ''proc-key'')) (\<lambda>file w.
     and_then_st (generate_manifest R (ce_b3hex ce) (ce_profile ce) (fr_manifest ids) (3 * E2E_CHUNK + 7) E2E_CHUNK 42, w)
       (\<lambda>(manifest, bodies) w.
     and_then_st (upload ce net client bodies w) (\<lambda>_ w.
     and_then_st (or_panic (c_put_manifest ce net client w manifest)) (\<lambda>_ w.
     and_then_st (or_panic (c_create_version ce net client w (f_file_id file) (fr_version ids) None
         (m_manifest_id manifest))) (\<lambda>_ w.
     and_then_st (or_panic (c_commit_version ce net client w (fr_version ids))) (\<lambda>_ w.
     and_then_st (or_panic (reassemble ce net client w manifest)) (\<lambda>got w.
     assert_that (got = concat (map snd bodies)) w))))))))"

section \<open>They pass\<close>

lemma size_chain_Ok:
  assumes w: "chain_world ce envs R known" and own: "file_for ce envs R known (fr_manifest ids) size' seed m bodies"
    and fits: "names_fit envs ids (chain_name size') (chain_key size' seed)"
    and st: "steady ce envs known st" "only_names keys fs ms vs st"
    and free: "chain_key size' seed \<notin> keys" "env_fresh_file (envs n) \<notin> fs" "fr_manifest ids \<notin> ms" "fr_version ids \<notin> vs"
  shows "\<exists>k st'. run_chain_for_size ce (over_http base envs) \<lparr>cc_base = base\<rparr> R (fr_dir ids) (fr_manifest ids) (fr_version ids)
      size' seed (n, st) = (Ok (), (k, st')) \<and> n < k \<and> steady ce envs known st' \<and>
    only_names (insert (chain_key size' seed) keys) (insert (env_fresh_file (envs n)) fs) (insert (fr_manifest ids) ms)
      (insert (fr_version ids) vs) st'"
proof -
  note W = chain_worldD [OF w] and facts = file_for_facts [OF w own]
  have gen: "generate_manifest R (ce_b3hex ce) (ce_profile ce) (fr_manifest ids) size' E2E_CHUNK seed = Ok (m, bodies)"
    using own by (simp add: file_for_def)
  let ?k = "Suc n + 2 * length bodies"
  obtain st1 st2 st3 st4 st5 fl ver where
    c: "c_create_file ce (over_http base envs) \<lparr>cc_base = base\<rparr> (n, st) (fr_dir ids) (chain_name size') (chain_key size' seed) = (Ok fl, (Suc n, st1))"
      "put_bodies ce (over_http base envs) \<lparr>cc_base = base\<rparr> bodies (Suc n, st1) = (Ok (), (?k, st2))"
      "c_put_manifest ce (over_http base envs) \<lparr>cc_base = base\<rparr> (?k, st2) m = (Ok m, (Suc ?k, st3))"
      "c_create_version ce (over_http base envs) \<lparr>cc_base = base\<rparr> (Suc ?k, st3) (f_file_id fl) (fr_version ids) None
        (m_manifest_id m) = (Ok ver, (Suc (Suc ?k), st4))" "v_state ver = Candidate"
      "c_commit_version ce (over_http base envs) \<lparr>cc_base = base\<rparr> (Suc (Suc ?k), st4) (fr_version ids)
        = (Ok (ver\<lparr>v_state := Committed\<rparr>), (Suc (Suc (Suc ?k)), st5))"
    and st5: "steady ce envs known st5" "readable_from ce st5 m" "file_bytes (st_blobs st5) m = concat (map snd bodies)"
      "only_names (insert (chain_key size' seed) keys) (insert (env_fresh_file (envs n)) fs) (insert (fr_manifest ids) ms)
        (insert (fr_version ids) vs) st5"
      "\<exists>fl'. s_files (st_meta st5) (f_file_id fl) = Some fl' \<and> f_current_version_id fl' = Some (fr_version ids)"
    by (rule publish_file [OF w own fits chain_name_legal st free, of
          "put_bodies ce (over_http base envs) \<lparr>cc_base = base\<rparr> bodies" ?k base])
       (use uploads_Ok(3) [OF W(3,5) _ facts(5)] in simp_all)
  obtain k' where re: "reassemble ce (over_http base envs) \<lparr>cc_base = base\<rparr> (Suc (Suc (Suc ?k)), st5) m
      = (Ok (concat (map snd bodies)), (k', st5))" "Suc (Suc (Suc ?k)) \<le> k'"
    using reads_back [OF st5(1,2), of "Suc (Suc (Suc ?k))" base] st5(3) by auto
  have len: "len_u64 (concat (map snd bodies)) = size'"
    using reassemble_result(2) [OF re(1)] facts(3) by (simp add: len_u64_def)
  obtain fl' where fl': "s_files (st_meta st5) (f_file_id fl) = Some fl'" "f_current_version_id fl' = Some (fr_version ids)"
    using st5(5) by blast
  have stat: "c_stat_file ce (over_http base envs) \<lparr>cc_base = base\<rparr> (k', st5) (f_file_id fl) = (Ok fl', (Suc k', st5))"
    using rpc_stat_file [OF W(1,2), of base "(k', st5)" "f_file_id fl"] fl'(1) by (simp add: get_file_def)
  have "run_chain_for_size ce (over_http base envs) \<lparr>cc_base = base\<rparr> R (fr_dir ids) (fr_manifest ids) (fr_version ids)
      size' seed (n, st) = (Ok (), (Suc k', st5))"
    using c re(1) stat gen len fl'(2) by (simp add: run_chain_for_size_def)
  moreover have "n < Suc k'" using re(2) by simp
  ultimately show ?thesis using st5(1,4) by blast
qed

lemma chain_key_inj: "chain_key a s = chain_key b t \<Longrightarrow> a = b \<and> s = t"
proof -
  assume "chain_key a s = chain_key b t"
  then have eq: "show_u64 a @ ''-'' @ show_u64 s = show_u64 b @ ''-'' @ show_u64 t" by (simp add: chain_key_def)
  have cut: "takeWhile (\<lambda>c. c \<noteq> CHR ''-'') (show_u64 x @ ''-'' @ y) = show_u64 x" for x y
    using show_u64_no_dash [of x] by (subst takeWhile_append2) auto
  have ab: "show_u64 a = show_u64 b"
    using arg_cong [OF eq, of "takeWhile (\<lambda>c. c \<noteq> CHR ''-'')"] unfolding cut .
  then have "show_u64 s = show_u64 t" using eq by simp
  then show "a = b \<and> s = t" using ab parse_show_u64 by (metis option.inject)
qed

text \<open>The names the rounds before the \<open>i\<close>-th have given away, the server having served \<open>n\<close> requests.\<close>

definition round_names :: "(nat \<Rightarrow> Env) \<Rightarrow> (nat \<Rightarrow> FreshIds) \<Rightarrow> nat \<Rightarrow> nat \<Rightarrow> AppState \<Rightarrow> bool" where
  "round_names envs fresh i n = only_names {chain_key s (1000 + word_of_nat j) | s j. j < i} {env_fresh_file (envs j) | j. j < n}
     ((\<lambda>j. fr_manifest (fresh j)) ` {..<i}) ((\<lambda>j. fr_version (fresh j)) ` {..<i})"

definition round_ready ::
  "ClientEnv \<Rightarrow> (nat \<Rightarrow> Env) \<Rightarrow> 'r Rng \<Rightarrow> bytes set \<Rightarrow> (nat \<Rightarrow> FreshIds) \<Rightarrow> nat \<Rightarrow> u64 \<Rightarrow> bool" where
  "round_ready ce envs R known fresh i size' \<longleftrightarrow>
     (\<exists>m bodies. file_for ce envs R known (fr_manifest (fresh i)) size' (1000 + word_of_nat i) m bodies) \<and>
     names_fit envs (fresh i) (chain_name size') (chain_key size' (1000 + word_of_nat i))"

lemma round_Ok:
  assumes w: "chain_world ce envs R known" and ready: "round_ready ce envs R known fresh i size'"
    and apart: "inj (\<lambda>i. fr_manifest (fresh i))" "inj (\<lambda>i. fr_version (fresh i))" and i: "i < 1000"
    and st: "steady ce envs known st" "round_names envs fresh i n st"
  shows "\<exists>k st'. run_chain_for_size ce (over_http base envs) \<lparr>cc_base = base\<rparr> R (fr_dir (fresh i)) (fr_manifest (fresh i))
      (fr_version (fresh i)) size' (1000 + word_of_nat i) (n, st) = (Ok (), (k, st')) \<and>
    steady ce envs known st' \<and> round_names envs fresh (Suc i) k st'"
proof -
  let ?seed = "\<lambda>j. 1000 + word_of_nat j :: u64"
  obtain m bodies where own: "file_for ce envs R known (fr_manifest (fresh i)) size' (?seed i) m bodies"
      and fits: "names_fit envs (fresh i) (chain_name size') (chain_key size' (?seed i))"
    using ready by (auto simp: round_ready_def)
  have seeds: "?seed i \<noteq> ?seed j" if "j < i" for j
  proof -
    have "(word_of_nat i :: u64) \<noteq> word_of_nat j" using that i by (simp add: of_nat_inverse word_unat_eq_iff unat_of_nat)
    then show ?thesis by simp
  qed
  have "chain_key size' (?seed i) \<notin> {chain_key s (?seed j) | s j. j < i}" using chain_key_inj seeds by blast
  moreover have "env_fresh_file (envs n) \<notin> {env_fresh_file (envs j) | j. j < n}" using chain_worldD(6) [OF w] by blast
  moreover have "fr_manifest (fresh i) \<notin> (\<lambda>j. fr_manifest (fresh j)) ` {..<i}"
    "fr_version (fresh i) \<notin> (\<lambda>j. fr_version (fresh j)) ` {..<i}" using apart by (auto dest: injD)
  ultimately obtain k st' where run: "run_chain_for_size ce (over_http base envs) \<lparr>cc_base = base\<rparr> R (fr_dir (fresh i))
        (fr_manifest (fresh i)) (fr_version (fresh i)) size' (?seed i) (n, st) = (Ok (), (k, st'))" "n < k"
      "steady ce envs known st'" "only_names (insert (chain_key size' (?seed i)) {chain_key s (?seed j) | s j. j < i})
        (insert (env_fresh_file (envs n)) {env_fresh_file (envs j) | j. j < n})
        (insert (fr_manifest (fresh i)) ((\<lambda>j. fr_manifest (fresh j)) ` {..<i}))
        (insert (fr_version (fresh i)) ((\<lambda>j. fr_version (fresh j)) ` {..<i})) st'"
    using size_chain_Ok [OF w own fits st(1) st(2) [unfolded round_names_def], of n base] by blast
  have sub: "insert (chain_key size' (?seed i)) {chain_key s (?seed j) | s j. j < i} \<subseteq> {chain_key s (?seed j) | s j. j < Suc i}"
    "insert (env_fresh_file (envs n)) {env_fresh_file (envs j) | j. j < n} \<subseteq> {env_fresh_file (envs j) | j. j < k}"
    using run(2) by (auto simp: less_Suc_eq intro: less_trans)
  have "round_names envs fresh (Suc i) k st'"
    using run(4) sub unfolding round_names_def only_names_def lessThan_Suc image_insert by blast
  then show ?thesis using run(1,3) by blast
qed

lemma run_sizes_Ok:
  assumes w: "chain_world ce envs R known" and apart: "inj (\<lambda>i. fr_manifest (fresh i))" "inj (\<lambda>i. fr_version (fresh i))"
    and "\<And>j. j < length sizes \<Longrightarrow> round_ready ce envs R known fresh (i + j) (sizes ! j)" "i + length sizes \<le> 1000"
    and "steady ce envs known st" "round_names envs fresh i n st"
  shows "fst (run_sizes ce (cloud_at base envs) R fresh i sizes (n, st)) = Ok ()"
  using assms(4-)
proof (induction sizes arbitrary: i n st)
  case (Cons size' sizes)
  have seed: "plus_u64 (ce_profile ce) 1000 (word_of_nat i) = Ok (1000 + word_of_nat i)"
    using Cons.prems(2) by (intro plus_u64_exact) (simp add: unat_of_nat)
  have now: "round_ready ce envs R known fresh i size'" and i: "i < 1000"
    using Cons.prems(1) [of 0] Cons.prems(2) by simp_all
  obtain k st' where run: "run_chain_for_size ce (over_http base envs) \<lparr>cc_base = base\<rparr> R (fr_dir (fresh i))
        (fr_manifest (fresh i)) (fr_version (fresh i)) size' (1000 + word_of_nat i) (n, st) = (Ok (), (k, st'))"
      and st': "steady ce envs known st'" "round_names envs fresh (Suc i) k st'"
    using round_Ok [OF w now apart i Cons.prems(3,4), of base] by blast
  have "round_ready ce envs R known fresh (Suc i + j) (sizes ! j)" if "j < length sizes" for j
    using Cons.prems(1) [of "Suc j"] that by simp
  from Cons.IH [OF this _ st'] Cons.prems(2) show ?case by (simp add: seed run)
qed simp

theorem happy_chain_across_boundary_sizes_passes:
  assumes w: "chain_world ce envs R known" and apart: "inj (\<lambda>i. fr_manifest (fresh i))" "inj (\<lambda>i. fr_version (fresh i))"
    and ready: "\<And>i sizes. boundary_sizes_for (ce_profile ce) E2E_CHUNK = Ok sizes \<Longrightarrow> i < length sizes \<Longrightarrow>
      round_ready ce envs R known fresh i (sizes ! i)"
  shows "fst (happy_chain_across_boundary_sizes ce envs R addr fresh n) = Ok ()"
proof -
  obtain sizes where sizes: "boundary_sizes_for (ce_profile ce) E2E_CHUNK = Ok sizes" "length sizes = 9"
    by (simp add: boundary_sizes_for_def E2E_CHUNK_def minus_u64_def plus_u64_def times_u64_def)
  have "round_names envs fresh 0 (Suc n) AppState_default"
    using default_steady(2) [OF w] by (simp add: round_names_def only_names_def)
  from run_sizes_Ok [OF w apart _ _ default_steady(1) [OF w] this, of sizes] ready sizes
  show ?thesis by (simp add: happy_chain_across_boundary_sizes_def start_cloud_eq)
qed

theorem happy_chain_over_a_real_cloud_process_passes:
  fixes cloud_url :: string
  assumes w: "chain_world ce envs R known" and own: "file_for ce envs R known (fr_manifest ids) (3 * E2E_CHUNK + 7) 42 m bodies"
    and fits: "names_fit envs ids ''proc.bin'' ''proc-key''"
  defines "base \<equiv> cc_base (CloudClient_new cloud_url)"
  shows "fst (happy_chain_over_a_real_cloud_process ce (over_http base envs) R cloud_url ids (n, AppState_default)) = Ok ()"
proof -
  note W = chain_worldD [OF w] and facts = file_for_facts [OF w own]
  have gen: "generate_manifest R (ce_b3hex ce) (ce_profile ce) (fr_manifest ids) (3 * E2E_CHUNK + 7) E2E_CHUNK 42 = Ok (m, bodies)"
    using own by (simp add: file_for_def)
  have name: "\<not> illegal_name ''proc.bin''" by (simp add: illegal_name_def)
  have client: "CloudClient_new cloud_url = \<lparr>cc_base = base\<rparr>" by (simp add: base_def CloudClient_new_def)
  let ?k = "Suc n + length bodies"
  obtain st1 st2 st3 st4 st5 fl ver where
    c: "c_create_file ce (over_http base envs) \<lparr>cc_base = base\<rparr> (n, AppState_default) (fr_dir ids) ''proc.bin'' ''proc-key'' = (Ok fl, (Suc n, st1))"
      "upload ce (over_http base envs) \<lparr>cc_base = base\<rparr> bodies (Suc n, st1) = (Ok (), (?k, st2))"
      "c_put_manifest ce (over_http base envs) \<lparr>cc_base = base\<rparr> (?k, st2) m = (Ok m, (Suc ?k, st3))"
      "c_create_version ce (over_http base envs) \<lparr>cc_base = base\<rparr> (Suc ?k, st3) (f_file_id fl) (fr_version ids) None
        (m_manifest_id m) = (Ok ver, (Suc (Suc ?k), st4))"
      "c_commit_version ce (over_http base envs) \<lparr>cc_base = base\<rparr> (Suc (Suc ?k), st4) (fr_version ids)
        = (Ok (ver\<lparr>v_state := Committed\<rparr>), (Suc (Suc (Suc ?k)), st5))"
    and st5: "steady ce envs known st5" "readable_from ce st5 m" "file_bytes (st_blobs st5) m = concat (map snd bodies)"
    by (rule publish_file [OF w own fits name default_steady [OF w], of n
          "upload ce (over_http base envs) \<lparr>cc_base = base\<rparr> bodies" ?k base])
       (use uploads_Ok(2) [OF W(3,5) _ facts(5)] in simp_all)
  obtain k' where "reassemble ce (over_http base envs) \<lparr>cc_base = base\<rparr> (Suc (Suc (Suc ?k)), st5) m
      = (Ok (concat (map snd bodies)), (k', st5))"
    using reads_back [OF st5(1,2), of "Suc (Suc (Suc ?k))" base] st5(3) by auto
  then show ?thesis using c gen by (simp add: happy_chain_over_a_real_cloud_process_def client)
qed

end
