(* ===== verification/Service_Properties.thy ===== *)
theory Service_Properties
  imports Samples
begin

text \<open>
  The properties of the cloud API and of its client: every request is answered, errors keep their
  code and shape, request ids are carried, ranges and uploads do what they say up to the limits
  found, and the client never returns a wrong file.
\<close>

section \<open>The server answers\<close>

lemma h_get_chunk_Release:
  assumes "fake_inv (st_blobs st)"
  shows "h_get_chunk Release b3hex st i r \<noteq> Panic"
  using assms fake_get_not_Panic fake_get_range_not_Panic
  by (auto simp: h_get_chunk_def outcome_simps fake_head_def minus_u64_def plus_u64_def split: option.splits)

lemma answer_Some: "fst rs \<noteq> Panic \<Longrightarrow> \<exists>r. fst (answer f rs) = Some r"
  by (cases "fst rs") (simp_all add: answer_def)

lemma with_body_Some:
  "(\<And>a. wanted = Some a \<Longrightarrow> \<exists>r. fst (k a) = Some r) \<Longrightarrow> \<exists>r. fst (with_body env st b wanted k) = Some r"
  by (auto simp: with_body_def split: option.split)

lemma fst_and_then_st_parse:
  assumes "r \<noteq> Panic" "\<And>a. fst (f a st) \<noteq> Panic"
  shows "fst (and_then_st (r, st) f) \<noteq> Panic"
  using assms by (cases r) auto

lemma handlers_not_Panic:
  assumes "store_inv (st_meta st)"
  shows "fst (h_create_file fresh now st rq1) \<noteq> Panic" "h_stat_file up st i \<noteq> Panic"
    "h_list_children up order st i \<noteq> Panic" "fst (h_create_version up now st i rq2) \<noteq> Panic"
    "fst (h_commit_version up now st i) \<noteq> Panic" "fst (h_put_manifest up st i rq3) \<noteq> Panic"
    "h_get_manifest up st i \<noteq> Panic"
proof -
  show "fst (h_create_file fresh now st rq1) \<noteq> Panic"
    using create_file_not_Panic [OF assms] by (simp add: h_create_file_def split_beta Let_def map_ok_iff)
  show "h_stat_file up st i \<noteq> Panic"
    by (simp add: h_stat_file_def outcome_simps id_parse_defs get_file_not_Panic)
  show "h_list_children up order st i \<noteq> Panic"
    by (simp add: h_list_children_def outcome_simps id_parse_defs list_children_def)
  show "h_get_manifest up st i \<noteq> Panic"
    by (simp add: h_get_manifest_def outcome_simps id_parse_defs get_manifest_not_Panic)
  show "fst (h_create_version up now st i rq2) \<noteq> Panic"
    unfolding h_create_version_def using create_version_not_Panic
    by (intro fst_and_then_st_parse) (simp_all add: id_parse_defs split_beta Let_def map_ok_iff)
  show "fst (h_commit_version up now st i) \<noteq> Panic"
    unfolding h_commit_version_def using commit_version_not_Panic
    by (intro fst_and_then_st_parse) (simp_all add: id_parse_defs split_beta Let_def map_ok_iff)
  show "fst (h_put_manifest up st i rq3) \<noteq> Panic"
    unfolding h_put_manifest_def using put_manifest_not_Panic
    by (intro fst_and_then_st_parse) (simp_all add: id_parse_defs split_beta Let_def map_ok_iff)
qed

lemma handle_answers:
  assumes "app_inv b3hex st" "env_profile env = Release"
  shows "\<exists>r. fst (handle env st q) = Some r"
proof -
  have inv: "store_inv (st_meta st)" "fake_inv (st_blobs st)"
    using assms(1) by (simp_all add: app_inv_def blobs_ok_def)
  note np = handlers_not_Panic [OF inv(1)] h_put_chunk_not_Panic h_get_chunk_Release [OF inv(2)]
  show ?thesis
    using assms(2) np
    by (cases "route (q_method q) (q_path q)")
       (auto simp: handle_def Let_def intro!: with_body_Some answer_Some split: option.split)
qed

text \<open>C23: A release build of the server answers every request on every state it can reach: no handler
  panics, so no connection is dropped without a response.\<close>

theorem server_always_answers:
  assumes "(server_step (env_b3hex env))\<^sup>*\<^sup>* AppState_default st" and "env_profile env = Release"
  shows "\<exists>r. fst (request_id_layer env st q) = Some r"
proof -
  have "\<exists>r. fst (handle env st q) = Some r"
    using server.reachable_inv [OF assms(1)] assms(2) by (rule handle_answers)
  then show ?thesis by (auto simp: request_id_layer_def split_beta Let_def)
qed

definition sample_request :: HttpRequest where
  "sample_request = \<lparr>q_method = GET, q_path = ''/v1/chunks/b3:0'', q_range = Some None,
     q_request_id = Some (Some ''r_aaa''), q_body = NoBody\<rparr>"

theorem server_always_answers_witness:
  "\<exists>r. fst (request_id_layer (sample_envs 0) sample_app sample_request) = Some r"
proof -
  have "env_b3hex (sample_envs 0) = zero_hex" "env_profile (sample_envs 0) = Release"
    by (simp_all add: sample_envs_def)
  then show ?thesis
    using server_always_answers [of "sample_envs 0" sample_app sample_request] sample_app_reached by simp
qed

section \<open>The shape of responses\<close>

text \<open>
  The requests the web framework refuses itself, before a handler runs, and its answer: a body over the
  limit or of the wrong type, a path parameter that is not a number, a wrong method on a known path.
\<close>

definition body_refusal :: "Env \<Rightarrow> ReqBody \<Rightarrow> 'a option \<Rightarrow> (nat \<times> string) option" where
  "body_refusal env b wanted =
     (if env_body_limit env < length (body_bytes env b)
      then Some (413, ''Failed to buffer the request body: length limit exceeded'')
      else (case wanted of None \<Rightarrow> Some (env_json_rejection env) | Some a \<Rightarrow> None))"

definition framework_refusal :: "Env \<Rightarrow> HttpRequest \<Rightarrow> (nat \<times> string) option" where
  "framework_refusal env q =
     (case route (q_method q) (q_path q) of
        ECreateFile \<Rightarrow> body_refusal env (q_body q) (as_create_file (q_body q))
      | ECreateVersion i \<Rightarrow> body_refusal env (q_body q) (as_create_version (q_body q))
      | EPutManifest i \<Rightarrow> body_refusal env (q_body q) (as_put_manifest (q_body q))
      | EPutChunk i \<Rightarrow> body_refusal env (q_body q) (Some (body_bytes env (q_body q)))
      | ESlow ms \<Rightarrow> (if parse_u64 ms = None then Some (400, env_path_rejection env) else None)
      | EMethodNotAllowed \<Rightarrow> Some (405, [])
      | _ \<Rightarrow> None)"

definition refused :: "(nat \<times> string) option \<Rightarrow> HttpResponse \<Rightarrow> bool" where
  "refused f r \<longleftrightarrow> (\<exists>n t. f = Some (n, t) \<and> r_status r = n \<and> r_body r = Plain t)"

text \<open>The type of a successful body, per endpoint: what the handler's signature in the router declares.\<close>

primrec declared_body :: "Endpoint \<Rightarrow> Body \<Rightarrow> bool" where
  "declared_body EHealth b = (\<exists>r. b = JHealth r)"
| "declared_body ECreateFile b = (\<exists>r. b = JFile r)"
| "declared_body (EStatFile i) b = (\<exists>r. b = JFile r)"
| "declared_body (EListChildren i) b = (\<exists>r. b = JChildren r)"
| "declared_body (ECreateVersion i) b = (\<exists>r. b = JVersion r)"
| "declared_body (ECommitVersion i) b = (\<exists>r. b = JVersion r)"
| "declared_body (EPutManifest i) b = (\<exists>r. b = JManifest r)"
| "declared_body (EGetManifest i) b = (\<exists>r. b = JManifest r)"
| "declared_body (EPutChunk i) b = (\<exists>r. b = JChunk r)"
| "declared_body (EGetChunk i) b = (\<exists>bs. b = Octets bs)"
| "declared_body (ESlow ms) b = (b = Plain ''done'')"
| "declared_body EMethodNotAllowed b = False"
| "declared_body ENotFound b = False"

text \<open>
  The answer of a handler at an endpoint: a success with the declared body and the contract's version, or
  an error body under the status of its code.
\<close>

definition proper :: "Endpoint \<Rightarrow> HttpResponse \<Rightarrow> bool" where
  "proper ep r \<longleftrightarrow>
     (r_status r < 400 \<and> declared_body ep (r_body r) \<and> body_contract_version (r_body r) \<in> {None, Some CONTRACT_VERSION}) \<or>
     (400 \<le> r_status r \<and> (\<exists>er. r_body r = JError er \<and> er_contract_version er = CONTRACT_VERSION \<and>
        r_status r = status_for (se_code (er_error er))))"

lemma proper_error: "proper ep (error_response e)"
  using status_for_error by (auto simp: proper_def error_response_def json_response_def ErrorResponse_from_def)

lemma proper_answer:
  assumes "\<And>a. fst rs = Ok a \<Longrightarrow> proper ep (f a)"
  shows "fst (answer f rs) = Some r \<Longrightarrow> proper ep r"
  using assms proper_error by (auto simp: answer_def split: outcome.splits)

lemma refused_or:
  assumes "fst (with_body env st b wanted k) = Some r"
    and "\<And>a. wanted = Some a \<Longrightarrow> fst (k a) = Some r \<Longrightarrow> proper ep r"
  shows "case body_refusal env b wanted of Some f \<Rightarrow> refused (Some f) r | None \<Rightarrow> proper ep r"
  using assms
  by (auto simp: with_body_def body_refusal_def refused_def json_response_def split: if_splits option.splits)

lemma map_ok_OkD: "map_ok f r = Ok b \<Longrightarrow> \<exists>a. b = f a"
  by (auto simp: outcome_simps)

text \<open>The body of a successful response of each kind carries the version its constructor fills in.\<close>

lemma handler_versions:
  "fst (h_create_file fresh now st rq1) = Ok a1 \<Longrightarrow> fr_contract_version a1 = CONTRACT_VERSION"
  "h_stat_file up st i = Ok a1 \<Longrightarrow> fr_contract_version a1 = CONTRACT_VERSION"
  "h_list_children up order st i = Ok a2 \<Longrightarrow> lcr_contract_version a2 = CONTRACT_VERSION"
  "fst (h_create_version up now st i rq2) = Ok a3 \<Longrightarrow> vr_contract_version a3 = CONTRACT_VERSION"
  "fst (h_commit_version up now st i) = Ok a3 \<Longrightarrow> vr_contract_version a3 = CONTRACT_VERSION"
  "fst (h_put_manifest up st i rq3) = Ok a4 \<Longrightarrow> mr_contract_version a4 = CONTRACT_VERSION"
  "h_get_manifest up st i = Ok a4 \<Longrightarrow> mr_contract_version a4 = CONTRACT_VERSION"
proof -
  show "fst (h_create_file fresh now st rq1) = Ok a1 \<Longrightarrow> fr_contract_version a1 = CONTRACT_VERSION"
    by (auto simp: h_create_file_def split_beta Let_def outcome_simps response_new_defs)
  show "h_stat_file up st i = Ok a1 \<Longrightarrow> fr_contract_version a1 = CONTRACT_VERSION"
    by (auto simp: h_stat_file_def outcome_simps response_new_defs)
  show "h_list_children up order st i = Ok a2 \<Longrightarrow> lcr_contract_version a2 = CONTRACT_VERSION"
    by (auto simp: h_list_children_def outcome_simps response_new_defs)
  show "h_get_manifest up st i = Ok a4 \<Longrightarrow> mr_contract_version a4 = CONTRACT_VERSION"
    by (auto simp: h_get_manifest_def outcome_simps response_new_defs)
  show "fst (h_create_version up now st i rq2) = Ok a3 \<Longrightarrow> vr_contract_version a3 = CONTRACT_VERSION"
    by (cases "FileId_parse up i :: FileId space_result")
       (auto simp: h_create_version_def split_beta Let_def outcome_simps response_new_defs)
  show "fst (h_commit_version up now st i) = Ok a3 \<Longrightarrow> vr_contract_version a3 = CONTRACT_VERSION"
    by (cases "VersionId_parse up i :: VersionId space_result")
       (auto simp: h_commit_version_def split_beta Let_def outcome_simps response_new_defs)
  show "fst (h_put_manifest up st i rq3) = Ok a4 \<Longrightarrow> mr_contract_version a4 = CONTRACT_VERSION"
    by (cases "ManifestId_parse up i :: ManifestId space_result")
       (auto simp: h_put_manifest_def split_beta Let_def outcome_simps response_new_defs split: if_splits)
qed

lemma h_put_chunk_version:
  "fst (h_put_chunk b3hex st i bs) = Ok a \<Longrightarrow> cr_contract_version a = CONTRACT_VERSION"
proof -
  assume ok: "fst (h_put_chunk b3hex st i bs) = Ok a"
  then obtain r st' where r: "h_put_chunk b3hex st i bs = (r, st')" "r = Ok a" by (cases "h_put_chunk b3hex st i bs") auto
  then show ?thesis
    by (auto simp: h_put_chunk_def outcome_simps split_beta Let_def response_new_defs)
qed

lemma h_get_chunk_shape:
  "h_get_chunk p b3hex st i rh = Ok r \<Longrightarrow> \<exists>bs. r_body r = Octets bs \<and> r_status r < 400"
  by (cases rh) (auto simp: h_get_chunk_def outcome_simps json_response_def)

lemma proper_json:
  "declared_body ep b \<Longrightarrow> body_contract_version b \<in> {None, Some CONTRACT_VERSION} \<Longrightarrow> proper ep (json_response 200 b)"
  by (simp add: proper_def json_response_def)

lemma proper_octets: "h_get_chunk p b3hex st i rh = Ok r \<Longrightarrow> proper (EGetChunk i') r"
  using h_get_chunk_shape [of p b3hex st i rh r] by (auto simp: proper_def)

text \<open>Every answer is the framework's refusal or proper.\<close>

lemma handle_proper:
  assumes r: "fst (handle env st q) = Some r"
  shows "case framework_refusal env q of
      Some f \<Rightarrow> refused (Some f) r | None \<Rightarrow> proper (route (q_method q) (q_path q)) r"
proof (cases "route (q_method q) (q_path q)")
  case (EGetChunk i)
  with r show ?thesis
    by (auto simp: handle_def framework_refusal_def Let_def elim!: proper_answer [rotated] intro: proper_octets)
next
  case (ESlow ms)
  with r show ?thesis
    by (auto simp: handle_def framework_refusal_def h_slow_def refused_def json_response_def Let_def proper_def
        split: option.splits)
next
  case EMethodNotAllowed
  with r show ?thesis
    by (auto simp: handle_def framework_refusal_def refused_def json_response_def Let_def)
next
  case ENotFound
  with r show ?thesis
    by (auto simp: handle_def framework_refusal_def h_not_found_def Let_def intro: proper_error)
qed (use r in \<open>auto simp: handle_def framework_refusal_def HealthResponse_ok_def Let_def
    dest: handler_versions h_put_chunk_version elim!: refused_or proper_answer [rotated] intro!: proper_json\<close>)

text \<open>C24: A request that the web framework refuses itself (a body over the limit or of the wrong type, a
  parameter that is not a number, a wrong method) gets its status and text; every other response has the
  contract's shape: a JSON body carries the contract version, and every status of 400 or more has an error
  body whose code maps to that status.\<close>

theorem responses_are_shaped:
  assumes "fst (request_id_layer env st q) = Some r"
  shows "case framework_refusal env q of
      Some (n, t) \<Rightarrow> r_status r = n \<and> r_body r = Plain t
    | None \<Rightarrow> body_contract_version (r_body r) \<in> {None, Some CONTRACT_VERSION} \<and>
        (400 \<le> r_status r \<longleftrightarrow> (\<exists>er. r_body r = JError er)) \<and>
        (\<forall>er. r_body r = JError er \<longrightarrow> r_status r = status_for (se_code (er_error er)))"
proof -
  from assms obtain r0 where r: "fst (handle env st q) = Some r0" "r_body r = r_body r0" "r_status r = r_status r0"
    by (auto simp: request_id_layer_def split_beta Let_def split: if_splits)
  have "r_body r0 \<noteq> JError er" if "declared_body (route (q_method q) (q_path q)) (r_body r0)" for er
    using that by (cases "route (q_method q) (q_path q)") auto
  then show ?thesis using handle_proper [OF r(1)] r(2,3)
    by (auto simp: proper_def refused_def split: option.splits)
qed

theorem responses_are_shaped_witness:
  "\<exists>er. r_body (h_not_found\<lparr>r_request_id := Some ''r_aaa''\<rparr>) = JError er \<and>
     r_status h_not_found = status_for (se_code (er_error er))"
proof -
  let ?q = "sample_request\<lparr>q_path := ''/nope''\<rparr>"
  have "route GET ''/nope'' = ENotFound" by (simp add: route_def)
  then have "fst (request_id_layer (sample_envs 0) sample_app ?q) = Some (h_not_found\<lparr>r_request_id := Some ''r_aaa''\<rparr>)"
    by (simp add: request_id_layer_def handle_def request_id_of_def sample_request_def sample_envs_def
        RequestId_parse_def parse_uuid_id_def strip_prefix_def unary_parse_def)
  moreover have "framework_refusal (sample_envs 0) ?q = None"
    using \<open>route GET ''/nope'' = ENotFound\<close> by (simp add: framework_refusal_def sample_request_def)
  ultimately show ?thesis
    using responses_are_shaped [of "sample_envs 0" sample_app ?q]
    by (auto simp: h_not_found_def error_response_def json_response_def)
qed

text \<open>C25: Responses are typed: unless the web framework refuses the request itself, in which case the response
  is its status and text, a status below 400 always comes with the body type that the endpoint declares, so a
  client that trusts the status can decode the body, and every other status comes with the error body.\<close>

theorem responses_are_typed:
  assumes "fst (request_id_layer env st q) = Some r"
  shows "case framework_refusal env q of
      Some (n, t) \<Rightarrow> r_status r = n \<and> r_body r = Plain t
    | None \<Rightarrow> if r_status r < 400 then declared_body (route (q_method q) (q_path q)) (r_body r)
        else (\<exists>er. r_body r = JError er)"
proof -
  from assms obtain r0 where r: "fst (handle env st q) = Some r0" "r_body r = r_body r0" "r_status r = r_status r0"
    by (auto simp: request_id_layer_def split_beta Let_def split: if_splits)
  then show ?thesis using handle_proper [OF r(1)] by (auto simp: proper_def refused_def split: option.splits)
qed

theorem responses_are_typed_witness:
  "\<exists>r. fst (request_id_layer (sample_envs 0) sample_app
       (sample_request\<lparr>q_path := ''/health''\<rparr>)) = Some r \<and> declared_body EHealth (r_body r)"
proof -
  let ?q = "sample_request\<lparr>q_path := ''/health''\<rparr>"
  have route: "route (q_method ?q) (q_path ?q) = EHealth" by (simp add: route_def sample_request_def pick_def)
  then obtain r where r: "fst (request_id_layer (sample_envs 0) sample_app ?q) = Some r" "r_status r = 200"
    by (auto simp: request_id_layer_def handle_def Let_def json_response_def)
  have "framework_refusal (sample_envs 0) ?q = None" using route by (simp add: framework_refusal_def)
  with responses_are_typed [OF r(1)] r route show ?thesis by simp
qed

text \<open>Request ids: an inbound id that parses is echoed, a missing or malformed one is replaced by a
  fresh id, and the id the response carries always parses.\<close>

theorem request_id_carried:
  assumes "fst (request_id_layer env st q) = Some r"
    and "uuid_text (env_uuid_parse env) (env_uuid_show env)" and "\<forall>s. env_header_value_ok env s"
  shows "\<exists>s i. r_request_id r = Some s \<and> RequestId_parse (env_uuid_parse env) s = Ok i \<and>
    (\<forall>s'. q_request_id q = Some (Some s') \<longrightarrow>
      (\<exists>j. RequestId_parse (env_uuid_parse env) s' = Ok j) \<longrightarrow> s = s')"
proof -
  have "r_request_id r = Some (request_id_of env (q_request_id q))"
    using assms(1,3) by (auto simp: request_id_layer_def split_beta Let_def)
  moreover have "RequestId_parse (env_uuid_parse env)
      (RequestId_show (env_uuid_show env) (env_fresh_request env)) = Ok (env_fresh_request env)"
    using assms(2) by (simp add: RequestId_parse_def RequestId_show_def parse_show_uuid_id)
  ultimately show ?thesis
    by (auto simp: request_id_of_def Let_def split: option.splits outcome.splits)
qed

theorem request_id_carried_witness:
  "request_id_of (sample_envs 0) (Some (Some ''r_aaa'')) = ''r_aaa''"
proof -
  obtain r where r: "fst (request_id_layer (sample_envs 0) sample_app sample_request) = Some r"
    using handle_answers [OF sample_app_inv, of "sample_envs 0" sample_request]
    by (auto simp: request_id_layer_def split_beta Let_def sample_envs_def)
  then have "r_request_id r = Some (request_id_of (sample_envs 0) (Some (Some ''r_aaa'')))"
    by (auto simp: request_id_layer_def split_beta Let_def sample_envs_def sample_request_def)
  moreover have "RequestId_parse (env_uuid_parse (sample_envs 0)) ''r_aaa'' = Ok (UuidId 3)"
    by (simp add: RequestId_parse_def parse_uuid_id_def strip_prefix_def sample_envs_def unary_parse_def)
  moreover have "uuid_text (env_uuid_parse (sample_envs 0)) (env_uuid_show (sample_envs 0))"
      "\<forall>s. env_header_value_ok (sample_envs 0) s" "q_request_id sample_request = Some (Some ''r_aaa'')"
    by (simp_all add: sample_envs_def unary_uuid_text sample_request_def)
  ultimately show ?thesis using request_id_carried [OF r] by auto
qed

section \<open>Range requests\<close>

text \<open>C26: A request for a range shorter than 4 GiB of a stored, genuine chunk: if the range is inside the
  chunk the answer is 206 with exactly its bytes; if it reaches past the end the answer is
  \<^verbatim>\<open>INTEGRITY_LENGTH_MISMATCH\<close>, or, when the end of the range is the last 64-bit number, the
  \<^verbatim>\<open>INVALID_PARAMETER\<close> of the store's checked addition; never a short read.\<close>

theorem range_request_exact:
  assumes "blobs_ok b3hex (st_blobs st)" and "st_blobs st i = Some bs" and "wf_chunk_id i"
    and "s \<le> e" and "range_length s e < 2 ^ 32"
  shows "h_get_chunk p b3hex st (as_str i) (Some (Some (range_header s e))) =
    (if unat e < length bs
     then Ok (partial_content s e (len_u64 bs) (take (range_length s e) (drop (unat s) bs)))
     else if unat e = 2 ^ 64 - 1 then Err (invalid_param ''offset + length overflow'')
     else Err (new_error IntegrityLengthMismatch ''requested range extends past the object''))"
proof -
  let ?n = "of_nat (range_length s e) :: u32"
  have fits: "fits_memory bs" and ver: "ChunkId_verify b3hex i bs"
    using assms(1,2) by (auto simp: blobs_ok_def fake_inv_def)
  have n: "unat ?n = range_length s e"
    using assms(5) by (simp add: unat_of_nat take_bit_nat_eq_self)
  then have sum: "unat s + unat ?n = unat e + 1"
    using assms(4) by (simp add: range_length_def word_le_nat_alt)
  have "unat e < 18446744073709551616" using unsigned_less [of e, where 'a = nat] by simp
  then have last: "unat e < 18446744073709551615 \<or> unat e = 18446744073709551615" by linarith
  have "fake_get_range b3hex (st_blobs st) i s ?n =
      (if unat e < length bs then Ok (take (range_length s e) (drop (unat s) bs))
       else if unat e = 2 ^ 64 - 1 then Err (invalid_param ''offset + length overflow'')
       else Err (new_error IntegrityLengthMismatch ''requested range extends past the object''))"
    using fake_range_exact [of bs "st_blobs st" i s ?n b3hex] fake_range_past_end [of bs "st_blobs st" i s ?n b3hex]
      fake_range_overflow [of "st_blobs st" i bs s ?n b3hex] fits ver assms(2) sum n last by auto
  then show ?thesis
    using h_get_chunk_ranged [OF assms(3,4), of p b3hex st] assms(2,5) by simp
qed

lemma sample_blobs_ok: "blobs_ok zero_hex (st_blobs sample_app)" "st_blobs sample_app sample_id = Some sample_bytes"
  using sample_app_inv by (simp_all add: app_inv_def) (simp add: sample_app_def)

theorem range_request_exact_witness:
  "h_get_chunk Debug zero_hex sample_app (as_str sample_id) (Some (Some (range_header 1 2)))
    = Ok (partial_content 1 2 4 [20, 30])"
proof -
  have "range_length 1 2 = 2" by (simp add: range_length_def)
  then show ?thesis
    using range_request_exact [OF sample_blobs_ok sample_wf, of 1 2 Debug]
    by (simp add: sample_bytes_def len_u64_def take_Cons' drop_Cons')
qed

text \<open>C39: Beyond 4 GiB the length of a range is truncated to 32 bits before the store sees it: a request
  of \<^verbatim>\<open>2^32 + k\<close> bytes is answered 206 with only \<open>k\<close> bytes whenever those lie in the chunk, under a
  \<^verbatim>\<open>Content-Range\<close> that still claims all of them, where the contract promises a length fault.\<close>

theorem long_range_is_truncated:
  assumes "st_blobs st i = Some bs" and "blobs_ok b3hex (st_blobs st)" and "wf_chunk_id i"
    and "s \<le> e" and "range_length s e = 2 ^ 32 + k" and "k < 2 ^ 32" and "unat s + k \<le> length bs"
  shows "h_get_chunk p b3hex st (as_str i) (Some (Some (range_header s e)))
    = Ok (partial_content s e (len_u64 bs) (take k (drop (unat s) bs)))"
proof -
  let ?n = "of_nat (range_length s e) :: u32"
  have fits: "fits_memory bs" and ver: "ChunkId_verify b3hex i bs"
    using assms(1,2) by (auto simp: blobs_ok_def fake_inv_def)
  have "(of_nat (2 ^ 32 + k) :: u32) = of_nat k"
    by (simp only: word_of_nat_eq_iff) (simp add: take_bit_eq_mod)
  then have n: "unat ?n = k"
    unfolding assms(5) using assms(6) by (simp only: unat_of_nat) (simp add: take_bit_nat_eq_self)
  then have "fake_get_range b3hex (st_blobs st) i s ?n = Ok (take k (drop (unat s) bs))"
    using fake_range_exact [of bs "st_blobs st" i s ?n b3hex] fits ver assms(1,7) by simp
  moreover have "range_length s e < 2 ^ 64" using assms(5,6) by simp
  ultimately show ?thesis using h_get_chunk_ranged [OF assms(3,4), of p b3hex st] assms(1) by simp
qed

theorem long_range_is_truncated_witness:
  "h_get_chunk Release zero_hex sample_app (as_str sample_id) (Some (Some (range_header 0 4294967297)))
    = Ok (partial_content 0 4294967297 4 [10, 20])"
proof -
  have "range_length 0 4294967297 = 2 ^ 32 + 2" by (simp add: range_length_def)
  then show ?thesis
    using long_range_is_truncated [OF sample_blobs_ok(2,1) sample_wf, of 0 4294967297 2 Release]
    by (simp add: sample_bytes_def len_u64_def take_Cons')
qed

section \<open>Uploads\<close>

text \<open>
  The range read of the whole of an empty chunk asks for the bytes up to \<open>0 + 0 - 1\<close>: a panic with
  overflow checks; without them a wrapped end, which the server wraps back to the length 0.
\<close>

lemma empty_read_Debug:
  "ce_profile ce = Debug \<Longrightarrow> fst (get_chunk_range ce net c w i 0 0) = Panic"
  by (simp add: get_chunk_range_def plus_u64_def minus_u64_def)

lemma empty_read_Release:
  assumes "same_world ce envs" "wf_chunk_id i" "st_blobs st i = Some []" "ChunkId_verify (ce_b3hex ce) i []"
    and "ce_profile ce = Release" "env_profile (envs n) = Release"
  shows "fst (get_chunk_range ce (over_http base envs) \<lparr>cc_base = base\<rparr> (n, st) i 0 0) = Ok []"
proof -
  have b3: "env_b3hex (envs n) = ce_b3hex ce" using assms(1) by (simp add: same_world_def)
  have "fake_get_range (ce_b3hex ce) (st_blobs st) i 0 0 = Ok []"
    using fake_range_exact [of "[]" "st_blobs st" i 0 0 "ce_b3hex ce"] assms(3,4) by (simp add: fits_memory_def)
  then have "h_get_chunk Release (ce_b3hex ce) st (as_str i) (Some (Some (range_header 0 (- 1))))
      = Ok (partial_content 0 (- 1) 0 [])"
    using assms(2,3) parse_range_shown [of 0 "- 1"]
    by (simp add: h_get_chunk_def range_header_def partial_content_def fake_head_def len_u64_def
        ChunkId_parse_as_str [THEN iffD2] minus_u64_def plus_u64_def)
  then show ?thesis
    using b3 route_chunk(1) [OF assms(2)] assms(5,6)
    by (simp add: get_chunk_range_def range_header_def plus_u64_def minus_u64_def exchange_def over_http_def
        request_id_layer_def handle_def request_def url_def Let_def answer_def partial_content_def range_body_def
        is_success_def response_bytes_def)
qed

text \<open>C16: An upload through the client, of a chunk shorter than 4 GiB, to a consistent server: if the body
  fits the server's limit, is addressed by its id, and no other body is stored under the id, the call
  succeeds with the registered size, and at every later time, whatever the server has done since, a range
  read of the whole chunk over the network returns the bytes that were sent.  The empty chunk is the
  exception: the same read panics in a debug build of the client, and returns no bytes when client and
  server are release builds.\<close>

theorem upload_then_read:
  assumes "world_ok ce envs w" and "wf_chunk_id i" and "ChunkId_verify (ce_b3hex ce) i bs"
    and "st_blobs (snd w) i = None \<or> st_blobs (snd w) i = Some bs"
    and "body_fits envs (fst w) (RawBytes bs)" and "length bs < 2 ^ 32"
  shows "\<exists>st'. register_and_put_chunk ce (over_http base envs) \<lparr>cc_base = base\<rparr> w i bs
      = (Ok (ChunkResponse_new \<lparr>c_chunk_id = i, c_size = len_u64 bs\<rparr>), (Suc (fst w), st')) \<and>
    (\<forall>n st''. (server_step (ce_b3hex ce))\<^sup>*\<^sup>* st' st'' \<longrightarrow>
      (let read = fst (get_chunk_range ce (over_http base envs) \<lparr>cc_base = base\<rparr> (n, st'') i 0 (len_u64 bs))
       in if bs \<noteq> [] then read = Ok bs
          else (ce_profile ce = Debug \<longrightarrow> read = Panic) \<and>
            (ce_profile ce = Release \<longrightarrow> env_profile (envs n) = Release \<longrightarrow> read = Ok [])))"
proof -
  have same: "same_world ce envs" and inv: "app_inv (ce_b3hex ce) (snd w)"
    using assms(1) by (simp_all add: world_ok_def)
  have fits: "fits_memory bs" using assms(6) by (simp add: fits_memory_def)
  obtain st' where st': "h_put_chunk (ce_b3hex ce) (snd w) (as_str i) bs
      = (Ok (ChunkResponse_new \<lparr>c_chunk_id = i, c_size = len_u64 bs\<rparr>), st')"
    "st_blobs st' i = Some bs"
    using h_put_chunk_exact [OF inv assms(2-4)] by simp
  have run: "(server_step (ce_b3hex ce))\<^sup>*\<^sup>* (snd w) st'"
    using h_put_chunk_run [OF fits, of "ce_b3hex ce" "snd w" "as_str i"] st'(1) by simp
  have u: "unat (len_u64 bs) = length bs" using fits by (simp add: unat_len_fits)
  have stored: "st_blobs st'' i = Some bs" "fake_inv (st_blobs st'')"
    if "(server_step (ce_b3hex ce))\<^sup>*\<^sup>* st' st''" for st''
    using blob_stable_run [OF that] server.run_inv [OF run inv] server.run_inv [OF that] st'(2)
    by (auto simp: app_inv_def blobs_ok_def)
  have read: "get_chunk_range ce (over_http base envs) \<lparr>cc_base = base\<rparr> (n, st'') i 0 (len_u64 bs)
      = (Ok bs, (Suc n, st''))" if "(server_step (ce_b3hex ce))\<^sup>*\<^sup>* st' st''" "bs \<noteq> []" for n st''
    using fetch_stored [OF same, of "(n, st'')" i bs 0 "len_u64 bs" base] stored [OF that(1)] that(2) assms(2,3,6) u
    by (simp add: word_less_nat_alt)
  have "fst (get_chunk_range ce (over_http base envs) \<lparr>cc_base = base\<rparr> (n, st'') i 0 (len_u64 [])) = Ok []"
    if "(server_step (ce_b3hex ce))\<^sup>*\<^sup>* st' st''" "bs = []" "ce_profile ce = Release" "env_profile (envs n) = Release"
    for n st''
    using empty_read_Release [OF same assms(2)] stored(1) [OF that(1)] that assms(3) by (simp add: len_u64_def)
  then show ?thesis
    using rpc_put_chunk [OF same assms(2,5), of base] st'(1) read by (auto simp: Let_def empty_read_Debug len_u64_def)
qed

theorem upload_then_read_witness:
  "fst (register_and_put_chunk sample_client (over_http ''http://h'' sample_envs) \<lparr>cc_base = ''http://h''\<rparr>
      (0, AppState_default) sample_id sample_bytes)
    = Ok (ChunkResponse_new \<lparr>c_chunk_id = sample_id, c_size = len_u64 sample_bytes\<rparr>)"
proof -
  have "world_ok sample_client sample_envs (0, AppState_default)"
    using sample_world app_inv_default by (simp add: world_ok_def)
  moreover have "ChunkId_verify (ce_b3hex sample_client) sample_id sample_bytes"
    using sample_verify by (simp add: sample_client_def)
  moreover have "st_blobs (snd (0 :: nat, AppState_default)) sample_id = None"
    by (simp add: AppState_default_def fake_new_def)
  moreover have "body_fits sample_envs (fst (0 :: nat, AppState_default)) (RawBytes sample_bytes)"
    by (simp add: body_fits_def body_bytes_def sample_envs_def sample_bytes_def)
  moreover have "length sample_bytes < 2 ^ 32" by (simp add: sample_bytes_def)
  ultimately show ?thesis
    using upload_then_read [where ce = sample_client and envs = sample_envs and w = "(0, AppState_default)"
        and i = sample_id and bs = sample_bytes and base = "''http://h''"] sample_wf by force
qed

text \<open>C40: The router sets no body limit of its own, so a chunk larger than the framework's default (2 MiB,
  where the default chunk is 32 MiB) is refused: the client gets \<^verbatim>\<open>PROTOCOL_VIOLATION\<close> because the
  refusal is not the contract's error shape, and nothing is stored.\<close>

theorem oversized_upload_refused:
  assumes "env_body_limit (envs (fst w)) < length bs" and "wf_chunk_id i"
  shows "\<exists>e. register_and_put_chunk ce (over_http base envs) \<lparr>cc_base = base\<rparr> w i bs
      = (Err e, (Suc (fst w), snd w)) \<and> se_code e = ProtocolViolation"
proof -
  let ?q = "request ce PUT (url \<lparr>cc_base = base\<rparr> (''/v1/chunks/'' @ as_str i)) None (RawBytes bs)"
  have "handle (envs (fst w)) (snd w) (?q\<lparr>q_path := drop (length base) (q_path ?q)\<rparr>)
      = (Some (json_response 413 (Plain ''Failed to buffer the request body: length limit exceeded'')), snd w)"
    using assms(1) route_chunk(2) [OF assms(2), simplified]
    by (simp add: handle_def request_def url_def with_body_def body_bytes_def Let_def)
  then obtain r where "over_http base envs w ?q = (Inr r, (Suc (fst w), snd w))" "r_status r = 413"
      "r_body r = Plain ''Failed to buffer the request body: length limit exceeded''"
    by (auto simp: over_http_def request_id_layer_def Let_def json_response_def)
  then show ?thesis
    by (simp add: register_and_put_chunk_def send_def exchange_def decode_response_def is_success_def as_error_def)
qed

theorem oversized_upload_refused_witness:
  "\<exists>e. register_and_put_chunk sample_client (over_http ''http://h'' sample_envs) \<lparr>cc_base = ''http://h''\<rparr>
      (0, AppState_default) sample_id (replicate 33554432 1) = (Err e, (1, AppState_default)) \<and>
      se_code e = ProtocolViolation"
proof -
  have "env_body_limit (sample_envs (fst (0 :: nat, AppState_default))) < length (replicate 33554432 (1 :: u8))"
    by (simp add: sample_envs_def)
  from oversized_upload_refused [where envs = sample_envs and w = "(0, AppState_default)" and ce = sample_client
      and base = "''http://h''", OF this sample_wf]
  show ?thesis by simp
qed

section \<open>The client\<close>

text \<open>C9: Against any network and any server, honest or not: if reassembly returns a file, the file has
  the size the manifest announces, and wherever an entry covers a whole chunk the bytes at its place
  have the digest its address names.\<close>

theorem reassembly_sound:
  assumes "fst (reassemble ce net c w m) = Ok out"
  shows "length out = unat (m_total_size m) \<and> validate_manifest m = Ok () \<and>
    (\<forall>e\<in>set (m_entries m). covers_chunk m e \<longrightarrow>
       ChunkId_verify (ce_b3hex ce) (e_chunk_id e) (slice_at e out))"
proof -
  obtain w' where "reassemble ce net c w m = (Ok out, w')"
    using assms by (cases "reassemble ce net c w m") auto
  from reassemble_result [OF this] show ?thesis by simp
qed

lemma sample_reassembled:
  "\<exists>w'. reassemble sample_client (over_http ''http://h'' sample_envs) \<lparr>cc_base = ''http://h''\<rparr>
      (0, sample_app) sample_manifest = (Ok [20, 30, 40, 10, 20], w')"
proof -
  have "world_ok sample_client sample_envs (0, sample_app)"
    using sample_world sample_app_inv by (simp add: world_ok_def sample_client_def)
  moreover have "s_manifests (st_meta (snd (0 :: nat, sample_app))) (UuidId 7) = Some sample_manifest"
    using sample_manifest_stored by (simp add: sample_app_def)
  moreover have "file_bytes (st_blobs sample_app) sample_manifest = [20, 30, 40, 10, 20]"
    by (simp add: file_bytes_def entry_bytes_def sample_app_def sample_manifest_def sample_bytes_def
        take_Cons' drop_Cons')
  ultimately show ?thesis
    using reassemble_over_http [where w = "(0, sample_app)" and i = "UuidId 7" and base = "''http://h''"
        and ce = sample_client and envs = sample_envs] sample_small by force
qed

theorem reassembly_sound_witness: "length [20, 30, 40, 10, 20 :: u8] = unat (m_total_size sample_manifest)"
proof -
  have "fst (reassemble sample_client (over_http ''http://h'' sample_envs) \<lparr>cc_base = ''http://h''\<rparr>
      (0, sample_app) sample_manifest) = Ok [20, 30, 40, 10, 20]"
    using sample_reassembled by auto
  from reassembly_sound [OF this] show ?thesis by blast
qed

text \<open>C22: Reassembly never panics on a manifest whose size fits the address space, whatever the manifest
  and whatever the network answers, in either build profile: no range end overflows, no copy leaves
  the buffer.\<close>

theorem reassembly_never_panics:
  assumes "unat (m_total_size m) < 2 ^ 63"
  shows "fst (reassemble ce net c w m) \<noteq> Panic"
proof (cases "manifest_ok m")
  case True
  note e = manifest_ok_entries [OF True]
  have "fst (get_chunk_range ce net c w (e_chunk_id en) (e_chunk_offset en) (e_length en)) \<noteq> Panic"
    if "en \<in> set (m_entries m)" for w en
    using that e(3) entry_range_bounds by (intro get_chunk_range_no_Panic) auto
  then have "reassemble_loop (ce_profile ce) (ce_b3hex ce) (get_chunk_range ce net c) m (m_entries m)
      (replicate (unat (m_total_size m)) 0) w \<noteq> (Panic, w')" for w'
    using e(1,2) assms by (intro reassemble_loop_no_Panic [OF get_chunk_range_length]) auto
  then show ?thesis
    using reassemble_unfold [OF True assms, of ce net c w]
    by (metis prod.collapse)
next
  case False
  then obtain e where "validate_manifest m = Err e" by (rule not_ok_rejected)
  then show ?thesis by (simp add: reassemble_def)
qed

theorem reassembly_never_panics_witness:
  "fst (reassemble sample_client (\<lambda>w q. (Inl (NetFailure True ''timed out''), w)) \<lparr>cc_base = []\<rparr> () sample_manifest)
    \<noteq> Panic"
  by (rule reassembly_never_panics) (simp add: sample_manifest_def)

text \<open>C18: The calls of the client are the methods of the server's stores: over the network, each
  metadata read gives the very result of the method, errors included, and changes nothing.\<close>

theorem read_calls_are_transparent:
  assumes "same_world ce envs" and "plain_uuids (ce_uuid_show ce)"
  shows "c_stat_file ce (over_http base envs) \<lparr>cc_base = base\<rparr> w f
      = (get_file (st_meta (snd w)) f, (Suc (fst w), snd w)) \<and>
    c_list_children ce (over_http base envs) \<lparr>cc_base = base\<rparr> w d
      = (list_children (env_order (envs (fst w))) (st_meta (snd w)) d, (Suc (fst w), snd w)) \<and>
    c_get_manifest ce (over_http base envs) \<lparr>cc_base = base\<rparr> w i
      = (get_manifest (st_meta (snd w)) i, (Suc (fst w), snd w))"
  using rpc_stat_file [OF assms] rpc_list_children [OF assms] rpc_get_manifest [OF assms] by simp

theorem read_calls_are_transparent_witness:
  "fst (c_get_manifest sample_client (over_http ''http://h'' sample_envs) \<lparr>cc_base = ''http://h''\<rparr>
     (0, sample_app) (UuidId 7)) = Ok sample_manifest"
  using read_calls_are_transparent [OF sample_world sample_plain, where w = "(0, sample_app)" and i = "UuidId 7"
      and base = "''http://h''"] sample_manifest_stored
  by (simp add: get_manifest_def sample_app_def)

lemma rpc_put_chunk_methods:
  assumes "same_world ce envs" "wf_chunk_id i" "body_fits envs (fst w) (RawBytes bs)"
  shows "register_and_put_chunk ce (over_http base envs) \<lparr>cc_base = base\<rparr> w i bs
    = (case fake_put (ce_b3hex ce) (st_blobs (snd w)) i bs of
         (Ok _, bl) \<Rightarrow> (case register_chunk (st_meta (snd w)) i (len_u64 bs) of
             (r, g) \<Rightarrow> (map_ok ChunkResponse_new r, (Suc (fst w), \<lparr>st_meta = g, st_blobs = bl\<rparr>)))
       | (Err e, bl) \<Rightarrow> (Err e, (Suc (fst w), snd w\<lparr>st_blobs := bl\<rparr>))
       | (Panic, bl) \<Rightarrow> (Panic, (Suc (fst w), snd w\<lparr>st_blobs := bl\<rparr>)))"
  using rpc_put_chunk [OF assms, of base] assms(2)
  by (cases "fake_put (ce_b3hex ce) (st_blobs (snd w)) i bs")
     (auto simp: h_put_chunk_def ChunkId_parse_as_str [THEN iffD2] Let_def split_beta split: outcome.split)

text \<open>C17: The client's calls that change the server's state are the methods of its stores, too.  When client
  and server agree on the text of ids and on the digest, the body is within the server's limit, the
  metadata store is consistent and the chunk id well formed, the result of each metadata call is the
  method's, errors included, and the server's state is the one the method leaves; an upload is the object
  store's put followed, where that succeeds, by the registration of the chunk with its length, and the
  error of a refused put is the answer.\<close>

theorem write_calls_are_transparent:
  assumes "same_world ce envs" and "plain_uuids (ce_uuid_show ce)" and "store_inv (st_meta st)"
    and "body_fits envs n (JCreateFile \<lparr>cfr_parent_id = d, cfr_name = name, cfr_idempotency_key = key\<rparr>)"
    and "body_fits envs n (JPutManifest \<lparr>pmr_manifest = m\<rparr>)"
    and "body_fits envs n
      (JCreateVersion \<lparr>cvr_version_id = v, cvr_parent_version_id = p, cvr_manifest_id = mi\<rparr>)"
    and "wf_chunk_id i" and "body_fits envs n (RawBytes bs)"
  shows "c_create_file ce (over_http base envs) \<lparr>cc_base = base\<rparr> (n, st) d name key
      = (case create_file (env_fresh_file (envs n)) (env_now (envs n)) (st_meta st) d name key of
           (r, g) \<Rightarrow> (r, (Suc n, st\<lparr>st_meta := g\<rparr>))) \<and>
    c_put_manifest ce (over_http base envs) \<lparr>cc_base = base\<rparr> (n, st) m
      = (case put_manifest (st_meta st) m of (r, g) \<Rightarrow> (r, (Suc n, st\<lparr>st_meta := g\<rparr>))) \<and>
    c_create_version ce (over_http base envs) \<lparr>cc_base = base\<rparr> (n, st) f v p mi
      = (case create_version (env_now (envs n)) (st_meta st) f v p mi of
           (r, g) \<Rightarrow> (r, (Suc n, st\<lparr>st_meta := g\<rparr>))) \<and>
    c_commit_version ce (over_http base envs) \<lparr>cc_base = base\<rparr> (n, st) v
      = (case commit_version (env_now (envs n)) (st_meta st) v of
           (r, g) \<Rightarrow> (r, (Suc n, st\<lparr>st_meta := g\<rparr>))) \<and>
    register_and_put_chunk ce (over_http base envs) \<lparr>cc_base = base\<rparr> (n, st) i bs
      = (case fake_put (ce_b3hex ce) (st_blobs st) i bs of
           (Ok _, bl) \<Rightarrow> (case register_chunk (st_meta st) i (len_u64 bs) of
               (r, g) \<Rightarrow> (map_ok ChunkResponse_new r, (Suc n, \<lparr>st_meta = g, st_blobs = bl\<rparr>)))
         | (Err e, bl) \<Rightarrow> (Err e, (Suc n, st\<lparr>st_blobs := bl\<rparr>))
         | (Panic, bl) \<Rightarrow> (Panic, (Suc n, st\<lparr>st_blobs := bl\<rparr>)))"
  using rpc_create_file [OF assms(1), of "(n, st)" d name key base]
    rpc_put_manifest [OF assms(1,2), of "(n, st)" m base]
    rpc_create_version [OF assms(1,2), of "(n, st)" v p mi base f]
    rpc_commit_version [OF assms(1,2), of base "(n, st)" v]
    rpc_put_chunk_methods [OF assms(1,7), of "(n, st)" bs base, unfolded fst_conv snd_conv] assms(3-6,8) by simp

theorem write_calls_are_transparent_witness:
  "c_commit_version sample_client (over_http ''http://h'' sample_envs) \<lparr>cc_base = ''http://h''\<rparr>
     (30, app_with sample_candidate_store) (UuidId 9)
   = (Ok (sample_version\<lparr>v_state := Committed\<rparr>), (31, sample_app))"
proof -
  have fits: "body_fits sample_envs n (JCreateFile r1)" "body_fits sample_envs n (JPutManifest r2)"
    "body_fits sample_envs n (JCreateVersion r3)" for n r1 r2 r3
    by (simp_all add: body_fits_def body_bytes_def sample_envs_def)
  have "store_inv (st_meta (app_with sample_candidate_store))"
    using sample_candidate_store_inv by simp
  moreover have "body_fits sample_envs 30 (RawBytes sample_bytes)"
    by (simp add: body_fits_def body_bytes_def sample_envs_def sample_bytes_def)
  ultimately have w: "c_commit_version sample_client (over_http ''http://h'' sample_envs) \<lparr>cc_base = ''http://h''\<rparr>
      (30, app_with sample_candidate_store) (UuidId 9)
    = (case commit_version (env_now (sample_envs 30)) (st_meta (app_with sample_candidate_store)) (UuidId 9) of
         (r, g) \<Rightarrow> (r, (Suc 30, (app_with sample_candidate_store)\<lparr>st_meta := g\<rparr>)))"
    using write_calls_are_transparent [OF sample_world sample_plain _ fits sample_wf, where base = "''http://h''"]
    by blast
  have "commit_version (env_now (sample_envs 30)) sample_candidate_store (UuidId 9)
      = (Ok (sample_version\<lparr>v_state := Committed\<rparr>), sample_store)"
    using sample_candidate_lookup sample_manifest_ok
    by (simp add: commit_version_publishes sample_store_def sample_envs_def)
  moreover have "(app_with sample_candidate_store)\<lparr>st_meta := sample_store\<rparr> = sample_app"
    by (simp add: app_with_def sample_app_def)
  ultimately show ?thesis using w by simp
qed

end
