(* ===== verification/Serde.thy ===== *)
theory Serde
  imports Prelude "HOL-Library.Monad_Syntax" "HOL-Library.Multiset"
begin

text \<open>
  What the attributes of serde on the structs of the repository mean: a document of the data model that
  JSON and TOML share, and the reading of a struct from it.  A missing field is an error unless it is
  an \<^verbatim>\<open>Option\<close> or has \<^verbatim>\<open>#[serde(default)]\<close>, a repeated field is an error, and an unknown one is ignored
  unless the struct has \<^verbatim>\<open>#[serde(deny_unknown_fields)]\<close>.  The texts of JSON and TOML are the libraries';
  whether a format lets a sequence of some length stand for a struct, fields in order, is a parameter.
\<close>

section \<open>Documents\<close>

datatype Doc =
    DNull
  | DBool bool
  | DInt int
  | DStr string
  | DOther string
  | DSeq "Doc list"
  | DMap "(string \<times> Doc) list"

text \<open>A field of a struct: given, missing from a map, or beyond the end of a sequence.\<close>

datatype Slot = Given Doc | Missing | CutOff

definition read_fields ::
  "(nat \<Rightarrow> nat \<Rightarrow> bool) \<Rightarrow> bool \<Rightarrow> string list \<Rightarrow> Doc \<Rightarrow> (string \<Rightarrow> Slot) option" where
  "read_fields seq_ok deny_unknown names d =
     (case d of
        DMap kvs \<Rightarrow>
          if deny_unknown \<and> \<not> set (map fst kvs) \<subseteq> set names
            \<or> \<not> distinct (filter (\<lambda>k. k \<in> set names) (map fst kvs))
          then None
          else Some (\<lambda>n. case map_of kvs n of Some v \<Rightarrow> Given v | None \<Rightarrow> Missing)
      | DSeq vs \<Rightarrow>
          if seq_ok (length names) (length vs)
          then Some (\<lambda>n. case map_of (zip names vs) n of Some v \<Rightarrow> Given v | None \<Rightarrow> CutOff)
          else None
      | _ \<Rightarrow> None)"

definition required :: "(Doc \<Rightarrow> 'a option) \<Rightarrow> Slot \<Rightarrow> 'a option" where
  "required dec s = (case s of Given d \<Rightarrow> dec d | _ \<Rightarrow> None)"

definition dec_option :: "(Doc \<Rightarrow> 'a option) \<Rightarrow> Doc \<Rightarrow> 'a option option" where
  "dec_option dec d = (if d = DNull then Some None else map_option Some (dec d))"

definition optional :: "(Doc \<Rightarrow> 'a option) \<Rightarrow> Slot \<Rightarrow> 'a option option" where
  "optional dec s = (case s of Given d \<Rightarrow> dec_option dec d | Missing \<Rightarrow> Some None | CutOff \<Rightarrow> None)"

definition defaulted :: "'a \<Rightarrow> (Doc \<Rightarrow> 'a option) \<Rightarrow> Slot \<Rightarrow> 'a option" where
  "defaulted a dec s = (case s of Given d \<Rightarrow> dec d | _ \<Rightarrow> Some a)"

definition dec_string :: "Doc \<Rightarrow> string option" where
  "dec_string d = (case d of DStr s \<Rightarrow> Some s | _ \<Rightarrow> None)"

definition dec_word :: "Doc \<Rightarrow> 'a::len word option" where
  "dec_word d = (case d of DInt n \<Rightarrow> if 0 \<le> n \<and> n < 2 ^ LENGTH('a) then Some (word_of_int n) else None | _ \<Rightarrow> None)"

definition dec_list :: "(Doc \<Rightarrow> 'a option) \<Rightarrow> Doc \<Rightarrow> 'a list option" where
  "dec_list dec d = (case d of DSeq ds \<Rightarrow> those (map dec ds) | _ \<Rightarrow> None)"

definition enc_word :: "'a::len word \<Rightarrow> Doc" where
  "enc_word w = DInt (uint w)"

definition enc_option :: "('a \<Rightarrow> Doc) \<Rightarrow> 'a option \<Rightarrow> Doc" where
  "enc_option enc x = (case x of None \<Rightarrow> DNull | Some a \<Rightarrow> enc a)"

definition enc_list :: "('a \<Rightarrow> Doc) \<Rightarrow> 'a list \<Rightarrow> Doc" where
  "enc_list enc xs = DSeq (map enc xs)"

named_theorems serde_simps \<open>reading back what was written\<close>

lemma slots [serde_simps]:
  "required dec (Given d) = dec d" "required dec Missing = None" "required dec CutOff = None"
  "optional dec (Given d) = dec_option dec d" "optional dec Missing = Some None" "optional dec CutOff = None"
  "defaulted a dec (Given d) = dec d" "defaulted a dec Missing = Some a" "defaulted a dec CutOff = Some a"
  by (simp_all add: required_def optional_def defaulted_def)

lemma dec_string_DStr [serde_simps]: "dec_string (DStr s) = Some s"
  by (simp add: dec_string_def)

lemma dec_enc_word [serde_simps]: "dec_word (enc_word w) = Some w"
  using uint_lt2p [of w] by (simp add: dec_word_def enc_word_def)

lemma dec_word_Some_iff: "dec_word d = Some w \<longleftrightarrow> d = DInt (uint w)"
  using uint_lt2p [of w]
  by (auto simp: dec_word_def word_of_int_uint uint_word_of_int_eq take_bit_int_eq_self split: Doc.splits if_splits)

lemma dec_string_Some_iff: "dec_string d = Some s \<longleftrightarrow> d = DStr s"
  by (auto simp: dec_string_def split: Doc.splits)

lemma read_fields_map:
  "read_fields seq_ok deny names (DMap kvs) =
     (if deny \<and> \<not> set (map fst kvs) \<subseteq> set names \<or> \<not> distinct (filter (\<lambda>k. k \<in> set names) (map fst kvs))
      then None else Some (\<lambda>n. case map_of kvs n of Some v \<Rightarrow> Given v | None \<Rightarrow> Missing))"
  by (simp add: read_fields_def)

lemma read_fields_unknown [serde_simps]:
  "k \<in> set (map fst kvs) \<Longrightarrow> k \<notin> set names \<Longrightarrow> read_fields seq_ok True names (DMap kvs) = None"
  by (auto simp: read_fields_map)

text \<open>A field is smaller than the struct it is read from.\<close>

lemma map_value_smaller: "(k, v) \<in> set kvs \<Longrightarrow> size v < size (DMap kvs)"
  by (induction kvs) auto

lemma seq_value_smaller: "v \<in> set vs \<Longrightarrow> size v < size (DSeq vs)"
  by (induction vs) auto

lemma read_fields_smaller:
  assumes "read_fields seq_ok deny names d = Some fs" "fs n = Given v"
  shows "size v < size d"
proof (cases d)
  case (DSeq vs)
  then have "map_of (zip names vs) n = Some v"
    using assms by (auto simp: read_fields_def split: if_splits option.splits)
  then have "v \<in> set vs" by (auto dest!: map_of_SomeD set_zip_rightD)
  then show ?thesis using DSeq seq_value_smaller by simp
next
  case (DMap kvs)
  then have "map_of kvs n = Some v"
    using assms by (auto simp: read_fields_def split: if_splits option.splits)
  then show ?thesis using DMap by (auto dest!: map_of_SomeD map_value_smaller)
qed (use assms in \<open>simp_all add: read_fields_def\<close>)

section \<open>Exact reading\<close>

text \<open>
  The documents of a struct whose fields are all required and that denies unknown ones: a map with exactly
  these fields, in any order, or a sequence, where the format allows one, that begins with their values.
\<close>

definition struct_doc :: "(nat \<Rightarrow> nat \<Rightarrow> bool) \<Rightarrow> (string \<times> Doc) list \<Rightarrow> Doc \<Rightarrow> bool" where
  "struct_doc seq_ok kvs d \<longleftrightarrow>
     (case d of
        DMap kvs' \<Rightarrow> mset kvs' = mset kvs
      | DSeq vs \<Rightarrow> seq_ok (length kvs) (length vs) \<and> take (length kvs) vs = map snd kvs
      | _ \<Rightarrow> False)"

lemma map_of_all:
  assumes "distinct (map fst kvs)" "distinct (map fst kvs')" "set (map fst kvs') \<subseteq> set (map fst kvs)"
  shows "(\<forall>(k, v)\<in>set kvs. map_of kvs' k = Some v) \<longleftrightarrow> mset kvs' = mset kvs"
proof
  assume all: "\<forall>(k, v)\<in>set kvs. map_of kvs' k = Some v"
  have "set kvs \<subseteq> set kvs'" using all by (auto dest: map_of_SomeD)
  moreover have "set kvs' \<subseteq> set kvs"
  proof
    fix p assume p: "p \<in> set kvs'"
    then have "fst p \<in> set (map fst kvs)" using assms(3) by auto
    then obtain v where v: "(fst p, v) \<in> set kvs" by auto
    then have "map_of kvs' (fst p) = Some v" using all by auto
    moreover have "map_of kvs' (fst p) = Some (snd p)"
      using p assms(2) by (simp add: map_of_is_SomeI)
    ultimately show "p \<in> set kvs" using v by (metis option.inject prod.collapse)
  qed
  ultimately show "mset kvs' = mset kvs"
    using assms(1,2) by (metis distinct_map set_eq_iff_mset_eq_distinct subset_antisym)
next
  assume "mset kvs' = mset kvs"
  then have "set kvs' = set kvs" by (rule mset_eq_setD)
  then show "\<forall>(k, v)\<in>set kvs. map_of kvs' k = Some v"
    using assms(2) by (auto intro: map_of_is_SomeI)
qed

lemma zip_all:
  assumes "distinct (map fst kvs)"
  shows "(\<forall>(k, v)\<in>set kvs. map_of (zip (map fst kvs) vs) k = Some v) \<longleftrightarrow> take (length kvs) vs = map snd kvs"
  using assms
proof (induction kvs arbitrary: vs)
  case (Cons p kvs)
  obtain k v where p: "p = (k, v)" by fastforce
  show ?case
  proof (cases vs)
    case vs: (Cons w ws)
    have "(\<forall>(k', v')\<in>set kvs. map_of (zip (map fst (p # kvs)) vs) k' = Some v') \<longleftrightarrow>
        (\<forall>(k', v')\<in>set kvs. map_of (zip (map fst kvs) ws) k' = Some v')"
    proof (intro ball_cong refl)
      fix q assume "q \<in> set kvs"
      then have "fst q \<noteq> k" using Cons.prems by (auto simp: p)
      then show "(case q of (k', v') \<Rightarrow> map_of (zip (map fst (p # kvs)) vs) k' = Some v') =
          (case q of (k', v') \<Rightarrow> map_of (zip (map fst kvs) ws) k' = Some v')"
        by (cases q) (simp add: p vs)
    qed
    with Cons.IH [of ws] Cons.prems show ?thesis by (auto simp: p vs)
  qed (auto simp: p)
qed simp

lemma read_fields_exact:
  assumes "distinct (map fst kvs)"
  shows "(\<exists>field. read_fields seq_ok True (map fst kvs) d = Some field \<and> (\<forall>(k, v)\<in>set kvs. field k = Given v))
    \<longleftrightarrow> struct_doc seq_ok kvs d"
proof (cases d)
  case (DMap kvs')
  let ?known = "filter (\<lambda>k. k \<in> set (map fst kvs)) (map fst kvs')"
  have given: "(case map_of kvs' k of Some v \<Rightarrow> Given v | None \<Rightarrow> Missing) = Given v \<longleftrightarrow> map_of kvs' k = Some v" for k v
    by (simp split: option.splits)
  show ?thesis
  proof (cases "set (map fst kvs') \<subseteq> set (map fst kvs)")
    case True
    then have "?known = map fst kvs'" by (auto simp: filter_id_conv)
    moreover have "distinct (map fst kvs')" if "mset kvs' = mset kvs"
      using that assms by (metis mset_eq_imp_distinct_iff mset_map)
    ultimately show ?thesis
      using True map_of_all [OF assms, of kvs'] by (auto simp: DMap read_fields_map struct_doc_def given)
  next
    case False
    then have "mset kvs' \<noteq> mset kvs" by (metis mset_eq_setD set_map subset_refl)
    with False show ?thesis by (auto simp: DMap read_fields_map struct_doc_def)
  qed
next
  case (DSeq vs)
  have given: "(case map_of (zip (map fst kvs) vs) k of Some v \<Rightarrow> Given v | None \<Rightarrow> CutOff) = Given v
      \<longleftrightarrow> map_of (zip (map fst kvs) vs) k = Some v" for k v
    by (simp split: option.splits)
  show ?thesis
    using zip_all [OF assms, of vs] by (simp add: DSeq read_fields_def struct_doc_def given)
qed (simp_all add: read_fields_def struct_doc_def)

text \<open>The same with one optional field left out: only a map can leave out a field.\<close>

lemma read_fields_missing:
  assumes "distinct (map fst kvs)" "set names = insert n (set (map fst kvs))" "n \<notin> set (map fst kvs)"
  shows "(\<exists>field. read_fields seq_ok True names d = Some field \<and> (\<forall>(k, v)\<in>set kvs. field k = Given v) \<and>
      field n = Missing) \<longleftrightarrow> (\<exists>kvs'. d = DMap kvs' \<and> mset kvs' = mset kvs)"
proof (cases d)
  case (DMap kvs')
  have given: "(case map_of kvs' k of Some v \<Rightarrow> Given v | None \<Rightarrow> Missing) = Given v \<longleftrightarrow> map_of kvs' k = Some v"
    "(case map_of kvs' k of Some v \<Rightarrow> Given v | None \<Rightarrow> Missing) = Missing \<longleftrightarrow> k \<notin> fst ` set kvs'" for k v
    using map_of_eq_None_iff [of kvs' k] by (auto split: option.splits)
  have subset: "set (map fst kvs') \<subseteq> set names \<and> n \<notin> fst ` set kvs' \<longleftrightarrow> set (map fst kvs') \<subseteq> set (map fst kvs)"
    using assms(2,3) by auto
  show ?thesis
  proof (cases "set (map fst kvs') \<subseteq> set (map fst kvs)")
    case True
    then have "filter (\<lambda>k. k \<in> set names) (map fst kvs') = map fst kvs'"
      using assms(2) by (auto simp: filter_id_conv)
    moreover have "distinct (map fst kvs')" if "mset kvs' = mset kvs"
      using that assms(1) by (metis mset_eq_imp_distinct_iff mset_map)
    ultimately show ?thesis
      using True subset map_of_all [OF assms(1), of kvs'] by (auto simp: DMap read_fields_map given)
  next
    case False
    then have "mset kvs' \<noteq> mset kvs" by (metis mset_eq_setD set_map subset_refl)
    with False subset show ?thesis by (auto simp: DMap read_fields_map given)
  qed
qed (auto simp: read_fields_def split: option.splits)

lemma required_Some_iff: "required dec s = Some x \<longleftrightarrow> (\<exists>v. s = Given v \<and> dec v = Some x)"
  by (simp add: required_def split: Slot.splits)

section \<open>Codecs\<close>

text \<open>A writer and a reader that undo each other, when what the libraries are documented to do holds.\<close>

locale codec =
  fixes ok :: bool and enc :: "'a \<Rightarrow> Doc" and dec :: "Doc \<Rightarrow> 'a option"
  assumes round_trip: "ok \<Longrightarrow> dec (enc x) = Some x"
    and enc_not_null: "enc x \<noteq> DNull"
begin

lemma option_round_trip: "ok \<Longrightarrow> dec_option dec (enc_option enc x) = Some x"
  by (cases x) (simp_all add: dec_option_def enc_option_def enc_not_null round_trip)

lemma list_round_trip: "ok \<Longrightarrow> dec_list dec (enc_list enc xs) = Some xs"
proof -
  assume "ok"
  then have "those (map dec (map enc xs)) = Some xs" by (induction xs) (simp_all add: round_trip)
  then show ?thesis by (simp add: dec_list_def enc_list_def)
qed

lemma enc_inject: "ok \<Longrightarrow> enc x = enc y \<longleftrightarrow> x = y"
  using round_trip [of x] round_trip [of y] by (metis option.inject)

end

lemma enc_word_not_null: "enc_word w \<noteq> DNull"
  by (simp add: enc_word_def)

interpretation word: codec True "enc_word :: 'a::len word \<Rightarrow> Doc" dec_word
  by (rule codec.intro [OF dec_enc_word enc_word_not_null])

interpretation str: codec True DStr dec_string
  by (rule codec.intro) (simp_all add: dec_string_def)

end
