(* ===== verification/Config_Format.thy ===== *)
theory Config_Format
  imports Serde
begin

text \<open>
  The typed configuration of \<^verbatim>\<open>client/config/src/lib.rs\<close> and what serde's derives make of a TOML document:
  every struct has \<^verbatim>\<open>deny_unknown_fields\<close> and no field has a default,
      so a document is a configuration exactly
  when its tables have these keys, each once and of the right kind, and no others.
\<close>

section \<open>The configuration\<close>

record ClientConfig =
  worker_threads :: u32
  callback_timeout_ms :: u64
  shutdown_deadline_ms :: u64
  mount_drive_letter :: string

record PathsConfig =
  runtime_dir :: string
  cache_dir :: string
  durable_dir :: string
  log_dir :: string

record ChunkingConfig =
  chunk_size_bytes :: u64
  hash_algorithm :: string

record CacheConfig =
  max_bytes :: u64
  eviction_policy :: string

record TransferConfig =
  max_concurrent_requests :: u32
  connect_timeout_ms :: u64
  request_timeout_ms :: u64
  max_retries :: u32
  backoff_base_ms :: u64

record WriteConfig =
  max_dirty_bytes :: u64
  wal_fsync_policy :: string

record SchedulerConfig =
  foreground_priority :: u32
  background_priority :: u32
  max_prefetch_requests :: u32

record CloudConfig =
  base_url :: string
  auth_mode :: string

record LoggingConfig =
  log_level :: string
  log_format :: string

record Config =
  config_version :: u32
  cfg_client :: ClientConfig
  cfg_paths :: PathsConfig
  cfg_chunking :: ChunkingConfig
  cfg_cache :: CacheConfig
  cfg_transfer :: TransferConfig
  cfg_write :: WriteConfig
  cfg_scheduler :: SchedulerConfig
  cfg_cloud :: CloudConfig
  cfg_logging :: LoggingConfig

section \<open>Reading a document\<close>

text \<open>The parameter tells which sequences the TOML library lets stand for a struct.\<close>

definition dec_ClientConfig :: "(nat \<Rightarrow> nat \<Rightarrow> bool) \<Rightarrow> Doc \<Rightarrow> ClientConfig option" where
  "dec_ClientConfig seq_ok d = do {
     field \<leftarrow> read_fields seq_ok True
       [''worker_threads'', ''callback_timeout_ms'', ''shutdown_deadline_ms'', ''mount_drive_letter''] d;
     x0 \<leftarrow> required dec_word (field ''worker_threads'');
     x1 \<leftarrow> required dec_word (field ''callback_timeout_ms'');
     x2 \<leftarrow> required dec_word (field ''shutdown_deadline_ms'');
     x3 \<leftarrow> required dec_string (field ''mount_drive_letter'');
     Some \<lparr>worker_threads = x0, callback_timeout_ms = x1, shutdown_deadline_ms = x2,
         mount_drive_letter = x3\<rparr> }"

definition dec_PathsConfig :: "(nat \<Rightarrow> nat \<Rightarrow> bool) \<Rightarrow> Doc \<Rightarrow> PathsConfig option" where
  "dec_PathsConfig seq_ok d = do {
     field \<leftarrow> read_fields seq_ok True
       [''runtime_dir'', ''cache_dir'', ''durable_dir'', ''log_dir''] d;
     x0 \<leftarrow> required dec_string (field ''runtime_dir'');
     x1 \<leftarrow> required dec_string (field ''cache_dir'');
     x2 \<leftarrow> required dec_string (field ''durable_dir'');
     x3 \<leftarrow> required dec_string (field ''log_dir'');
     Some \<lparr>runtime_dir = x0, cache_dir = x1, durable_dir = x2, log_dir = x3\<rparr> }"

definition dec_ChunkingConfig :: "(nat \<Rightarrow> nat \<Rightarrow> bool) \<Rightarrow> Doc \<Rightarrow> ChunkingConfig option" where
  "dec_ChunkingConfig seq_ok d = do {
     field \<leftarrow> read_fields seq_ok True
       [''chunk_size_bytes'', ''hash_algorithm''] d;
     x0 \<leftarrow> required dec_word (field ''chunk_size_bytes'');
     x1 \<leftarrow> required dec_string (field ''hash_algorithm'');
     Some \<lparr>chunk_size_bytes = x0, hash_algorithm = x1\<rparr> }"

definition dec_CacheConfig :: "(nat \<Rightarrow> nat \<Rightarrow> bool) \<Rightarrow> Doc \<Rightarrow> CacheConfig option" where
  "dec_CacheConfig seq_ok d = do {
     field \<leftarrow> read_fields seq_ok True
       [''max_bytes'', ''eviction_policy''] d;
     x0 \<leftarrow> required dec_word (field ''max_bytes'');
     x1 \<leftarrow> required dec_string (field ''eviction_policy'');
     Some \<lparr>max_bytes = x0, eviction_policy = x1\<rparr> }"

definition dec_TransferConfig :: "(nat \<Rightarrow> nat \<Rightarrow> bool) \<Rightarrow> Doc \<Rightarrow> TransferConfig option" where
  "dec_TransferConfig seq_ok d = do {
     field \<leftarrow> read_fields seq_ok True
       [''max_concurrent_requests'', ''connect_timeout_ms'', ''request_timeout_ms'', ''max_retries'',
           ''backoff_base_ms''] d;
     x0 \<leftarrow> required dec_word (field ''max_concurrent_requests'');
     x1 \<leftarrow> required dec_word (field ''connect_timeout_ms'');
     x2 \<leftarrow> required dec_word (field ''request_timeout_ms'');
     x3 \<leftarrow> required dec_word (field ''max_retries'');
     x4 \<leftarrow> required dec_word (field ''backoff_base_ms'');
     Some \<lparr>max_concurrent_requests = x0, connect_timeout_ms = x1, request_timeout_ms = x2,
         max_retries = x3, backoff_base_ms = x4\<rparr> }"

definition dec_WriteConfig :: "(nat \<Rightarrow> nat \<Rightarrow> bool) \<Rightarrow> Doc \<Rightarrow> WriteConfig option" where
  "dec_WriteConfig seq_ok d = do {
     field \<leftarrow> read_fields seq_ok True
       [''max_dirty_bytes'', ''wal_fsync_policy''] d;
     x0 \<leftarrow> required dec_word (field ''max_dirty_bytes'');
     x1 \<leftarrow> required dec_string (field ''wal_fsync_policy'');
     Some \<lparr>max_dirty_bytes = x0, wal_fsync_policy = x1\<rparr> }"

definition dec_SchedulerConfig :: "(nat \<Rightarrow> nat \<Rightarrow> bool) \<Rightarrow> Doc \<Rightarrow> SchedulerConfig option" where
  "dec_SchedulerConfig seq_ok d = do {
     field \<leftarrow> read_fields seq_ok True
       [''foreground_priority'', ''background_priority'', ''max_prefetch_requests''] d;
     x0 \<leftarrow> required dec_word (field ''foreground_priority'');
     x1 \<leftarrow> required dec_word (field ''background_priority'');
     x2 \<leftarrow> required dec_word (field ''max_prefetch_requests'');
     Some \<lparr>foreground_priority = x0, background_priority = x1, max_prefetch_requests = x2\<rparr> }"

definition dec_CloudConfig :: "(nat \<Rightarrow> nat \<Rightarrow> bool) \<Rightarrow> Doc \<Rightarrow> CloudConfig option" where
  "dec_CloudConfig seq_ok d = do {
     field \<leftarrow> read_fields seq_ok True
       [''base_url'', ''auth_mode''] d;
     x0 \<leftarrow> required dec_string (field ''base_url'');
     x1 \<leftarrow> required dec_string (field ''auth_mode'');
     Some \<lparr>base_url = x0, auth_mode = x1\<rparr> }"

definition dec_LoggingConfig :: "(nat \<Rightarrow> nat \<Rightarrow> bool) \<Rightarrow> Doc \<Rightarrow> LoggingConfig option" where
  "dec_LoggingConfig seq_ok d = do {
     field \<leftarrow> read_fields seq_ok True
       [''level'', ''format''] d;
     x0 \<leftarrow> required dec_string (field ''level'');
     x1 \<leftarrow> required dec_string (field ''format'');
     Some \<lparr>log_level = x0, log_format = x1\<rparr> }"

definition dec_Config :: "(nat \<Rightarrow> nat \<Rightarrow> bool) \<Rightarrow> Doc \<Rightarrow> Config option" where
  "dec_Config seq_ok d = do {
     field \<leftarrow> read_fields seq_ok True
       [''config_version'', ''client'', ''paths'', ''chunking'', ''cache'', ''transfer'', ''write'',
           ''scheduler'', ''cloud'', ''logging''] d;
     x0 \<leftarrow> required dec_word (field ''config_version'');
     x1 \<leftarrow> required (dec_ClientConfig seq_ok) (field ''client'');
     x2 \<leftarrow> required (dec_PathsConfig seq_ok) (field ''paths'');
     x3 \<leftarrow> required (dec_ChunkingConfig seq_ok) (field ''chunking'');
     x4 \<leftarrow> required (dec_CacheConfig seq_ok) (field ''cache'');
     x5 \<leftarrow> required (dec_TransferConfig seq_ok) (field ''transfer'');
     x6 \<leftarrow> required (dec_WriteConfig seq_ok) (field ''write'');
     x7 \<leftarrow> required (dec_SchedulerConfig seq_ok) (field ''scheduler'');
     x8 \<leftarrow> required (dec_CloudConfig seq_ok) (field ''cloud'');
     x9 \<leftarrow> required (dec_LoggingConfig seq_ok) (field ''logging'');
     Some \<lparr>config_version = x0, cfg_client = x1, cfg_paths = x2, cfg_chunking = x3, cfg_cache = x4,
         cfg_transfer = x5, cfg_write = x6, cfg_scheduler = x7, cfg_cloud = x8, cfg_logging = x9\<rparr> }"

section \<open>The document of a configuration\<close>

definition enc_ClientConfig :: "ClientConfig \<Rightarrow> (string \<times> Doc) list" where
  "enc_ClientConfig c =
     [(''worker_threads'', enc_word (worker_threads c)),
      (''callback_timeout_ms'', enc_word (callback_timeout_ms c)),
      (''shutdown_deadline_ms'', enc_word (shutdown_deadline_ms c)),
      (''mount_drive_letter'', DStr (mount_drive_letter c))]"

definition enc_PathsConfig :: "PathsConfig \<Rightarrow> (string \<times> Doc) list" where
  "enc_PathsConfig c =
     [(''runtime_dir'', DStr (runtime_dir c)), (''cache_dir'', DStr (cache_dir c)),
      (''durable_dir'', DStr (durable_dir c)), (''log_dir'', DStr (log_dir c))]"

definition enc_ChunkingConfig :: "ChunkingConfig \<Rightarrow> (string \<times> Doc) list" where
  "enc_ChunkingConfig c =
     [(''chunk_size_bytes'', enc_word (chunk_size_bytes c)), (''hash_algorithm'', DStr (hash_algorithm c))]"

definition enc_CacheConfig :: "CacheConfig \<Rightarrow> (string \<times> Doc) list" where
  "enc_CacheConfig c =
     [(''max_bytes'', enc_word (max_bytes c)), (''eviction_policy'', DStr (eviction_policy c))]"

definition enc_TransferConfig :: "TransferConfig \<Rightarrow> (string \<times> Doc) list" where
  "enc_TransferConfig c =
     [(''max_concurrent_requests'', enc_word (max_concurrent_requests c)),
      (''connect_timeout_ms'', enc_word (connect_timeout_ms c)),
      (''request_timeout_ms'', enc_word (request_timeout_ms c)),
      (''max_retries'', enc_word (max_retries c)), (''backoff_base_ms'', enc_word (backoff_base_ms c))]"

definition enc_WriteConfig :: "WriteConfig \<Rightarrow> (string \<times> Doc) list" where
  "enc_WriteConfig c =
     [(''max_dirty_bytes'', enc_word (max_dirty_bytes c)),
      (''wal_fsync_policy'', DStr (wal_fsync_policy c))]"

definition enc_SchedulerConfig :: "SchedulerConfig \<Rightarrow> (string \<times> Doc) list" where
  "enc_SchedulerConfig c =
     [(''foreground_priority'', enc_word (foreground_priority c)),
      (''background_priority'', enc_word (background_priority c)),
      (''max_prefetch_requests'', enc_word (max_prefetch_requests c))]"

definition enc_CloudConfig :: "CloudConfig \<Rightarrow> (string \<times> Doc) list" where
  "enc_CloudConfig c =
     [(''base_url'', DStr (base_url c)), (''auth_mode'', DStr (auth_mode c))]"

definition enc_LoggingConfig :: "LoggingConfig \<Rightarrow> (string \<times> Doc) list" where
  "enc_LoggingConfig c =
     [(''level'', DStr (log_level c)), (''format'', DStr (log_format c))]"

definition enc_Config :: "Config \<Rightarrow> (string \<times> Doc) list" where
  "enc_Config cfg =
     [(''config_version'', enc_word (config_version cfg)),
      (''client'', DMap (enc_ClientConfig (cfg_client cfg))),
      (''paths'', DMap (enc_PathsConfig (cfg_paths cfg))),
      (''chunking'', DMap (enc_ChunkingConfig (cfg_chunking cfg))),
      (''cache'', DMap (enc_CacheConfig (cfg_cache cfg))),
      (''transfer'', DMap (enc_TransferConfig (cfg_transfer cfg))),
      (''write'', DMap (enc_WriteConfig (cfg_write cfg))),
      (''scheduler'', DMap (enc_SchedulerConfig (cfg_scheduler cfg))),
      (''cloud'', DMap (enc_CloudConfig (cfg_cloud cfg))),
      (''logging'', DMap (enc_LoggingConfig (cfg_logging cfg)))]"

lemmas enc_section_defs = enc_ClientConfig_def enc_PathsConfig_def enc_ChunkingConfig_def enc_CacheConfig_def enc_TransferConfig_def enc_WriteConfig_def enc_SchedulerConfig_def enc_CloudConfig_def enc_LoggingConfig_def

lemmas enc_config_defs = enc_section_defs enc_Config_def

lemmas dec_config_defs = dec_ClientConfig_def dec_PathsConfig_def dec_ChunkingConfig_def dec_CacheConfig_def dec_TransferConfig_def dec_WriteConfig_def dec_SchedulerConfig_def dec_CloudConfig_def dec_LoggingConfig_def dec_Config_def

lemma dec_enc_Config: "dec_Config seq_ok (DMap (enc_Config cfg)) = Some cfg"
  by (simp add: dec_config_defs enc_config_defs read_fields_map serde_simps)

text \<open>
  A document is read as a configuration exactly when it is the configuration's, up to the order of the
  keys of each table and to sequences in place of tables where the format allows them.
\<close>

definition config_doc :: "(nat \<Rightarrow> nat \<Rightarrow> bool) \<Rightarrow> Config \<Rightarrow> Doc \<Rightarrow> bool" where
  "config_doc seq_ok cfg d \<longleftrightarrow>
     (\<exists>client paths chunking cache transfer writing scheduler cloud logging.
        struct_doc seq_ok
          [(''config_version'', enc_word (config_version cfg)), (''client'', client), (''paths'', paths),
           (''chunking'', chunking), (''cache'', cache), (''transfer'', transfer), (''write'', writing),
           (''scheduler'', scheduler), (''cloud'', cloud), (''logging'', logging)] d \<and>
        struct_doc seq_ok (enc_ClientConfig (cfg_client cfg)) client \<and>
        struct_doc seq_ok (enc_PathsConfig (cfg_paths cfg)) paths \<and>
        struct_doc seq_ok (enc_ChunkingConfig (cfg_chunking cfg)) chunking \<and>
        struct_doc seq_ok (enc_CacheConfig (cfg_cache cfg)) cache \<and>
        struct_doc seq_ok (enc_TransferConfig (cfg_transfer cfg)) transfer \<and>
        struct_doc seq_ok (enc_WriteConfig (cfg_write cfg)) writing \<and>
        struct_doc seq_ok (enc_SchedulerConfig (cfg_scheduler cfg)) scheduler \<and>
        struct_doc seq_ok (enc_CloudConfig (cfg_cloud cfg)) cloud \<and>
        struct_doc seq_ok (enc_LoggingConfig (cfg_logging cfg)) logging)"

lemmas exact_reading = bind_eq_Some_conv required_Some_iff dec_word_Some_iff dec_string_Some_iff

lemma ClientConfig_reads: "dec_ClientConfig seq_ok d = Some c \<longleftrightarrow> struct_doc seq_ok (enc_ClientConfig c) d"
  using read_fields_exact [of "enc_ClientConfig c" seq_ok d]
  by (cases c) (auto simp: dec_ClientConfig_def enc_ClientConfig_def enc_word_def exact_reading)

lemma PathsConfig_reads: "dec_PathsConfig seq_ok d = Some c \<longleftrightarrow> struct_doc seq_ok (enc_PathsConfig c) d"
  using read_fields_exact [of "enc_PathsConfig c" seq_ok d]
  by (cases c) (auto simp: dec_PathsConfig_def enc_PathsConfig_def enc_word_def exact_reading)

lemma ChunkingConfig_reads: "dec_ChunkingConfig seq_ok d = Some c \<longleftrightarrow> struct_doc seq_ok (enc_ChunkingConfig c) d"
  using read_fields_exact [of "enc_ChunkingConfig c" seq_ok d]
  by (cases c) (auto simp: dec_ChunkingConfig_def enc_ChunkingConfig_def enc_word_def exact_reading)

lemma CacheConfig_reads: "dec_CacheConfig seq_ok d = Some c \<longleftrightarrow> struct_doc seq_ok (enc_CacheConfig c) d"
  using read_fields_exact [of "enc_CacheConfig c" seq_ok d]
  by (cases c) (auto simp: dec_CacheConfig_def enc_CacheConfig_def enc_word_def exact_reading)

lemma TransferConfig_reads: "dec_TransferConfig seq_ok d = Some c \<longleftrightarrow> struct_doc seq_ok (enc_TransferConfig c) d"
  using read_fields_exact [of "enc_TransferConfig c" seq_ok d]
  by (cases c) (auto simp: dec_TransferConfig_def enc_TransferConfig_def enc_word_def exact_reading)

lemma WriteConfig_reads: "dec_WriteConfig seq_ok d = Some c \<longleftrightarrow> struct_doc seq_ok (enc_WriteConfig c) d"
  using read_fields_exact [of "enc_WriteConfig c" seq_ok d]
  by (cases c) (auto simp: dec_WriteConfig_def enc_WriteConfig_def enc_word_def exact_reading)

lemma SchedulerConfig_reads: "dec_SchedulerConfig seq_ok d = Some c \<longleftrightarrow> struct_doc seq_ok (enc_SchedulerConfig c) d"
  using read_fields_exact [of "enc_SchedulerConfig c" seq_ok d]
  by (cases c) (auto simp: dec_SchedulerConfig_def enc_SchedulerConfig_def enc_word_def exact_reading)

lemma CloudConfig_reads: "dec_CloudConfig seq_ok d = Some c \<longleftrightarrow> struct_doc seq_ok (enc_CloudConfig c) d"
  using read_fields_exact [of "enc_CloudConfig c" seq_ok d]
  by (cases c) (auto simp: dec_CloudConfig_def enc_CloudConfig_def enc_word_def exact_reading)

lemma LoggingConfig_reads: "dec_LoggingConfig seq_ok d = Some c \<longleftrightarrow> struct_doc seq_ok (enc_LoggingConfig c) d"
  using read_fields_exact [of "enc_LoggingConfig c" seq_ok d]
  by (cases c) (auto simp: dec_LoggingConfig_def enc_LoggingConfig_def enc_word_def exact_reading)

lemmas sections_read = ClientConfig_reads PathsConfig_reads ChunkingConfig_reads CacheConfig_reads TransferConfig_reads WriteConfig_reads SchedulerConfig_reads CloudConfig_reads LoggingConfig_reads

lemma Config_reads: "dec_Config seq_ok d = Some cfg \<longleftrightarrow> config_doc seq_ok cfg d"
proof -
  let ?kvs = "\<lambda>client paths chunking cache transfer writing scheduler cloud logging.
     [(''config_version'', enc_word (config_version cfg)), (''client'', client), (''paths'', paths),
      (''chunking'', chunking), (''cache'', cache), (''transfer'', transfer), (''write'', writing),
      (''scheduler'', scheduler), (''cloud'', cloud), (''logging'', logging)]"
  have top: "struct_doc seq_ok (?kvs client paths chunking cache transfer writing scheduler cloud logging) d \<longleftrightarrow>
      (\<exists>field. read_fields seq_ok True
         [''config_version'', ''client'', ''paths'', ''chunking'', ''cache'', ''transfer'', ''write'',
          ''scheduler'', ''cloud'', ''logging''] d = Some field \<and>
       (\<forall>(k, v)\<in>set (?kvs client paths chunking cache transfer writing scheduler cloud logging). field k = Given v))"
    for client paths chunking cache transfer writing scheduler cloud logging
    using read_fields_exact [of "?kvs client paths chunking cache transfer writing scheduler cloud logging" seq_ok d]
    by simp
  show ?thesis
    unfolding config_doc_def top
    by (cases cfg) (auto simp: dec_Config_def enc_word_def exact_reading sections_read)
qed

end
