(* ===== verification/Config.thy ===== *)
theory Config
  imports Errors Config_Format
begin

text \<open>
  Configuration (\<^verbatim>\<open>client/config/src/lib.rs\<close>): the typed configuration, the scan of the raw TOML for
  keys that look like credentials, the bounds, the probe of the configured directories and the
  release-only rules.  The TOML library and the file system are outside the program: \<open>Loader\<close> holds
  the parser of raw TOML and the text of its error when a document is no configuration, the texts the
  standard library renders and the build profile; \<open>Disk\<close> is the part of the file system the loader
  reads and writes.
\<close>

section \<open>The paths\<close>

definition all_paths :: "PathsConfig \<Rightarrow> (string \<times> string) list" where
  "all_paths p =
     [(''paths.runtime_dir'', runtime_dir p), (''paths.cache_dir'', cache_dir p),
      (''paths.durable_dir'', durable_dir p), (''paths.log_dir'', log_dir p)]"

section \<open>The world outside\<close>

text \<open>Parsed TOML is a \<open>Doc\<close>; a table lists its keys in the order the library iterates over them.\<close>

record Loader =
  ld_toml :: "string \<Rightarrow> string + Doc"
  ld_seq_ok :: "nat \<Rightarrow> nat \<Rightarrow> bool"
  ld_misfit :: "string \<Rightarrow> string"
  ld_debug :: "string \<Rightarrow> string"
  ld_debug_list :: "string list \<Rightarrow> string"
  ld_display :: "string \<Rightarrow> string"
  ld_join :: "string \<Rightarrow> string \<Rightarrow> string"
  ld_profile :: profile

record Disk =
  dk_files :: "string \<Rightarrow> bytes option"
  dk_utf8 :: "bytes \<Rightarrow> string option"
  dk_is_dir :: "string \<Rightarrow> bool"
  dk_writable :: "string \<Rightarrow> bool"
  dk_removable :: "string \<Rightarrow> bool"
  dk_partial :: "string \<Rightarrow> bytes option \<Rightarrow> bytes option"

text \<open>
  A write that fails may leave its file created, truncated or as it was: \<open>dk_partial\<close> says what is there then.
\<close>

definition fs_write :: "string \<Rightarrow> bytes \<Rightarrow> Disk \<Rightarrow> bool \<times> Disk" where
  "fs_write path bs d =
     (if dk_writable d path then (True, d\<lparr>dk_files := (dk_files d)(path \<mapsto> bs)\<rparr>)
      else (False, d\<lparr>dk_files := (dk_files d)(path := dk_partial d path (dk_files d path))\<rparr>))"

definition fs_remove :: "string \<Rightarrow> Disk \<Rightarrow> Disk" where
  "fs_remove path d =
     (if dk_removable d path then d\<lparr>dk_files := (dk_files d)(path := None)\<rparr> else d)"

section \<open>Checks\<close>

definition config_invalid :: "string \<Rightarrow> SpaceError" where
  "config_invalid msg = new_error ConfigInvalid msg"

definition range_check :: "string \<Rightarrow> u64 \<Rightarrow> u64 \<Rightarrow> u64 \<Rightarrow> unit space_result" where
  "range_check name value lo hi =
     fail_if (value < lo \<or> value > hi)
       (config_invalid (name @ '' = '' @ show_u64 value @ '' out of range ['' @ show_u64 lo @ '', ''
          @ show_u64 hi @ '']''))"

definition one_of :: "Loader \<Rightarrow> string \<Rightarrow> string \<Rightarrow> string list \<Rightarrow> unit space_result" where
  "one_of ld name value allowed =
     fail_if (value \<notin> set allowed)
       (config_invalid (name @ '' = '' @ ld_debug ld value @ '' not one of '' @ ld_debug_list ld allowed))"

definition is_ascii_alphabetic :: "char \<Rightarrow> bool" where
  "is_ascii_alphabetic c \<longleftrightarrow>
     (let n = of_char c :: nat in (65 \<le> n \<and> n \<le> 90) \<or> (97 \<le> n \<and> n \<le> 122))"

text \<open>\<^verbatim>\<open>validate\<close> up to the two checks of the environment, in the order of the code.\<close>

definition check_version :: "Config \<Rightarrow> unit space_result" where
  "check_version cfg =
     fail_if (config_version cfg \<noteq> 1)
       (new_error ConfigUnsupportedVersion (''config_version '' @ show_nat (unat (config_version cfg))
          @ '' is not supported (expected 1)''))"

definition check_client :: "ClientConfig \<Rightarrow> unit space_result" where
  "check_client c =
     and_then (range_check ''client.worker_threads'' (ucast (worker_threads c)) 1 64) (\<lambda>_.
     and_then (range_check ''client.callback_timeout_ms'' (callback_timeout_ms c) 100 300000) (\<lambda>_.
     and_then (range_check ''client.shutdown_deadline_ms'' (shutdown_deadline_ms c) 100 120000) (\<lambda>_.
     if length (mount_drive_letter c) \<noteq> 1 then Err (config_invalid ''client.mount_drive_letter must be a single A-Z'')
     else (case mount_drive_letter c of
         [] \<Rightarrow> Panic
       | ch # _ \<Rightarrow> fail_if (\<not> is_ascii_alphabetic ch)
                    (config_invalid ''client.mount_drive_letter must be a single A-Z'')))))"

definition check_storage :: "Loader \<Rightarrow> Config \<Rightarrow> unit space_result" where
  "check_storage ld cfg =
     (let chunk = chunk_size_bytes (cfg_chunking cfg) in
      and_then (range_check ''chunking.chunk_size_bytes'' chunk 4096 (push_bit 30 1)) (\<lambda>_.
      and_then (one_of ld ''chunking.hash_algorithm'' (hash_algorithm (cfg_chunking cfg)) [''blake3'']) (\<lambda>_.
      and_then (range_check ''cache.max_bytes'' (max_bytes (cfg_cache cfg)) chunk (- 1)) (\<lambda>_.
      one_of ld ''cache.eviction_policy'' (eviction_policy (cfg_cache cfg)) [''lru'', ''slru'']))))"

definition check_transfer :: "TransferConfig \<Rightarrow> unit space_result" where
  "check_transfer t =
     and_then (range_check ''transfer.max_concurrent_requests'' (ucast (max_concurrent_requests t)) 1 256) (\<lambda>_.
     and_then (range_check ''transfer.connect_timeout_ms'' (connect_timeout_ms t) 100 120000) (\<lambda>_.
     and_then (range_check ''transfer.request_timeout_ms'' (request_timeout_ms t) 100 600000) (\<lambda>_.
     and_then (range_check ''transfer.max_retries'' (ucast (max_retries t)) 0 20) (\<lambda>_.
     range_check ''transfer.backoff_base_ms'' (backoff_base_ms t) 1 60000))))"

definition check_write :: "Loader \<Rightarrow> Config \<Rightarrow> unit space_result" where
  "check_write ld cfg =
     and_then (range_check ''write.max_dirty_bytes'' (max_dirty_bytes (cfg_write cfg))
                 (chunk_size_bytes (cfg_chunking cfg)) (- 1)) (\<lambda>_.
     one_of ld ''write.wal_fsync_policy'' (wal_fsync_policy (cfg_write cfg))
       [''always'', ''interval'', ''never''])"

definition check_scheduler :: "SchedulerConfig \<Rightarrow> unit space_result" where
  "check_scheduler s =
     and_then (range_check ''scheduler.foreground_priority'' (ucast (foreground_priority s)) 1 100) (\<lambda>_.
     and_then (range_check ''scheduler.background_priority'' (ucast (background_priority s)) 1 100) (\<lambda>_.
     and_then (fail_if (background_priority s \<ge> foreground_priority s)
        (config_invalid ''scheduler.background_priority must be < scheduler.foreground_priority'')) (\<lambda>_.
     range_check ''scheduler.max_prefetch_requests'' (ucast (max_prefetch_requests s)) 0 64)))"

definition check_cloud :: "Loader \<Rightarrow> CloudConfig \<Rightarrow> unit space_result" where
  "check_cloud ld c =
     and_then (one_of ld ''cloud.auth_mode'' (auth_mode c) [''token'', ''none'']) (\<lambda>_.
     fail_if (split_once ''://'' (base_url c) = None)
       (config_invalid ''cloud.base_url must be an absolute URL''))"

definition check_logging :: "Loader \<Rightarrow> LoggingConfig \<Rightarrow> unit space_result" where
  "check_logging ld l =
     and_then (one_of ld ''logging.level'' (log_level l) [''trace'', ''debug'', ''info'', ''warn'', ''error'']) (\<lambda>_.
     one_of ld ''logging.format'' (log_format l) [''json''])"

definition probe_name :: string where
  "probe_name = ''.space-write-probe''"

definition probe_bytes :: bytes where
  "probe_bytes = map of_char ''probe''"

text \<open>One directory: it must exist, and a probe file must be writable; the probe is removed.\<close>

definition check_path :: "Loader \<Rightarrow> string \<times> string \<Rightarrow> Disk \<Rightarrow> unit space_result \<times> Disk" where
  "check_path ld np d =
     (let (name, dir) = np in
      if \<not> dk_is_dir d dir
      then (Err (config_invalid (name @ '' = '' @ ld_display ld dir @ '' is not a directory'')), d)
      else
        (let probe = ld_join ld dir probe_name; (ok, d1) = fs_write probe probe_bytes d in
         if ok then (Ok (), fs_remove probe d1)
         else (Err (config_invalid (name @ '' = '' @ ld_display ld dir @ '' is not writable'')), d1)))"

fun check_paths :: "Loader \<Rightarrow> (string \<times> string) list \<Rightarrow> Disk \<Rightarrow> unit space_result \<times> Disk" where
  "check_paths ld [] d = (Ok (), d)"
| "check_paths ld (np # nps) d = and_then_st (check_path ld np d) (\<lambda>_ d. check_paths ld nps d)"

definition check_paths_writable :: "Loader \<Rightarrow> Config \<Rightarrow> Disk \<Rightarrow> unit space_result \<times> Disk" where
  "check_paths_writable ld cfg d = check_paths ld (all_paths (cfg_paths cfg)) d"

definition check_release_only_rules :: "profile \<Rightarrow> Config \<Rightarrow> unit space_result" where
  "check_release_only_rules p cfg =
     (case p of
        Debug \<Rightarrow> Ok ()
      | Release \<Rightarrow>
          and_then (fail_if (wal_fsync_policy (cfg_write cfg) = ''never'')
             (config_invalid ''write.wal_fsync_policy = \"never\" is test-only and refused in a release build'')) (\<lambda>_.
          fail_if (auth_mode (cfg_cloud cfg) = ''none'')
             (config_invalid ''cloud.auth_mode = \"none\" is test-only and refused in a release build'')))"

definition check_values :: "Loader \<Rightarrow> Config \<Rightarrow> unit space_result" where
  "check_values ld cfg =
     and_then (check_version cfg) (\<lambda>_.
     and_then (check_client (cfg_client cfg)) (\<lambda>_.
     and_then (check_storage ld cfg) (\<lambda>_.
     and_then (check_transfer (cfg_transfer cfg)) (\<lambda>_.
     and_then (check_write ld cfg) (\<lambda>_.
     and_then (check_scheduler (cfg_scheduler cfg)) (\<lambda>_.
     and_then (check_cloud ld (cfg_cloud cfg)) (\<lambda>_.
     check_logging ld (cfg_logging cfg))))))))"

definition validate_config :: "Loader \<Rightarrow> Config \<Rightarrow> Disk \<Rightarrow> unit space_result \<times> Disk" where
  "validate_config ld cfg d =
     and_then_st (check_values ld cfg, d) (\<lambda>_ d.
     and_then_st (check_paths_writable ld cfg d) (\<lambda>_ d.
     (check_release_only_rules (ld_profile ld) cfg, d)))"

section \<open>Credential-like keys\<close>

definition SUFFIXES :: "string list" where
  "SUFFIXES = [''_password'', ''_secret'', ''_token'', ''_key'']"

text \<open>\<^verbatim>\<open>walk_keys\<close>: the paths its callback is given, in order; it enters tables only.\<close>

fun walk_keys :: "Doc \<Rightarrow> string \<Rightarrow> string list"
  and walk_table :: "(string \<times> Doc) list \<Rightarrow> string \<Rightarrow> string list" where
  "walk_keys (DMap table) pre = walk_table table pre"
| "walk_keys (DSeq vs) pre = []"
| "walk_keys (DStr s) pre = []"
| "walk_keys (DInt n) pre = []"
| "walk_keys (DBool b) pre = []"
| "walk_keys DNull pre = []"
| "walk_keys (DOther s) pre = []"
| "walk_table [] pre = []"
| "walk_table ((k, v) # kvs) pre =
     (let path = (if pre = [] then k else pre @ ''.'' @ k)
      in path # walk_keys v path @ walk_table kvs pre)"

definition is_secret_key :: "string \<Rightarrow> bool" where
  "is_secret_key key \<longleftrightarrow> list_ex (\<lambda>s. ends_with (rsplit_first (CHR ''.'') key) s) SUFFIXES"

fun join_with :: "string \<Rightarrow> string list \<Rightarrow> string" where
  "join_with sep [] = []"
| "join_with sep [x] = x"
| "join_with sep (x # y # zs) = x @ sep @ join_with sep (y # zs)"

definition reject_secret_keys :: "Loader \<Rightarrow> string \<Rightarrow> unit space_result" where
  "reject_secret_keys ld raw =
     (case ld_toml ld raw of
        Inl e \<Rightarrow> Err (config_invalid e)
      | Inr value \<Rightarrow>
          (let offenders = filter is_secret_key (walk_keys value []) in
           if offenders = [] then Ok ()
           else Err (config_invalid (''config carries credential-like keys: '' @ join_with '', '' offenders
                  @ ''. Move secrets out of the config file.''))))"

text \<open>\<^verbatim>\<open>toml::from_str\<close> into the typed configuration.\<close>

definition deserialise :: "Loader \<Rightarrow> string \<Rightarrow> string + Config" where
  "deserialise ld text' =
     (case ld_toml ld text' of
        Inl e \<Rightarrow> Inl e
      | Inr d \<Rightarrow> (case dec_Config (ld_seq_ok ld) d of Some c \<Rightarrow> Inr c | None \<Rightarrow> Inl (ld_misfit ld text')))"

definition from_str_validated :: "Loader \<Rightarrow> string \<Rightarrow> Disk \<Rightarrow> Config space_result \<times> Disk" where
  "from_str_validated ld text' d =
     and_then_st (reject_secret_keys ld text', d) (\<lambda>_ d.
     and_then_st (case deserialise ld text' of Inl e \<Rightarrow> Err (config_invalid e) | Inr c \<Rightarrow> Ok c, d) (\<lambda>cfg d.
     and_then_st (validate_config ld cfg d) (\<lambda>_ d. (Ok cfg, d))))"

definition load :: "Loader \<Rightarrow> string \<Rightarrow> Disk \<Rightarrow> Config space_result \<times> Disk" where
  "load ld path d =
     and_then_st (ok_or (new_error ConfigMissing ''config file not found'')
                    (Option.bind (dk_files d path) (dk_utf8 d)), d)
       (\<lambda>text' d. from_str_validated ld text' d)"

section \<open>What an accepted configuration satisfies\<close>

definition between :: "nat \<Rightarrow> nat \<Rightarrow> nat \<Rightarrow> bool" where
  "between lo n hi \<longleftrightarrow> lo \<le> n \<and> n \<le> hi"

definition client_ok :: "ClientConfig \<Rightarrow> bool" where
  "client_ok c \<longleftrightarrow> between 1 (unat (worker_threads c)) 64 \<and>
     between 100 (unat (callback_timeout_ms c)) 300000 \<and>
     between 100 (unat (shutdown_deadline_ms c)) 120000 \<and>
     (\<exists>ch. mount_drive_letter c = [ch] \<and> is_ascii_alphabetic ch)"

definition storage_ok :: "Config \<Rightarrow> bool" where
  "storage_ok cfg \<longleftrightarrow>
     (let chunk = unat (chunk_size_bytes (cfg_chunking cfg)) in
      between 4096 chunk (2 ^ 30) \<and> chunk \<le> unat (max_bytes (cfg_cache cfg)) \<and>
      chunk \<le> unat (max_dirty_bytes (cfg_write cfg)) \<and>
      hash_algorithm (cfg_chunking cfg) = ''blake3'' \<and>
      eviction_policy (cfg_cache cfg) \<in> {''lru'', ''slru''} \<and>
      wal_fsync_policy (cfg_write cfg) \<in> {''always'', ''interval'', ''never''})"

definition transfer_ok :: "TransferConfig \<Rightarrow> bool" where
  "transfer_ok t \<longleftrightarrow> between 1 (unat (max_concurrent_requests t)) 256 \<and>
     between 100 (unat (connect_timeout_ms t)) 120000 \<and>
     between 100 (unat (request_timeout_ms t)) 600000 \<and>
     unat (max_retries t) \<le> 20 \<and> between 1 (unat (backoff_base_ms t)) 60000"

definition scheduler_ok :: "SchedulerConfig \<Rightarrow> bool" where
  "scheduler_ok s \<longleftrightarrow> 1 \<le> unat (background_priority s) \<and>
     unat (background_priority s) < unat (foreground_priority s) \<and>
     unat (foreground_priority s) \<le> 100 \<and> unat (max_prefetch_requests s) \<le> 64"

definition services_ok :: "Config \<Rightarrow> bool" where
  "services_ok cfg \<longleftrightarrow> auth_mode (cfg_cloud cfg) \<in> {''token'', ''none''} \<and>
     sublist ''://'' (base_url (cfg_cloud cfg)) \<and>
     log_level (cfg_logging cfg) \<in> {''trace'', ''debug'', ''info'', ''warn'', ''error''} \<and>
     log_format (cfg_logging cfg) = ''json''"

definition config_ok :: "Config \<Rightarrow> bool" where
  "config_ok cfg \<longleftrightarrow> config_version cfg = 1 \<and> client_ok (cfg_client cfg) \<and> storage_ok cfg \<and>
     transfer_ok (cfg_transfer cfg) \<and> scheduler_ok (cfg_scheduler cfg) \<and> services_ok cfg"

definition release_ok :: "profile \<Rightarrow> Config \<Rightarrow> bool" where
  "release_ok p cfg \<longleftrightarrow> p = Debug \<or>
     wal_fsync_policy (cfg_write cfg) \<noteq> ''never'' \<and> auth_mode (cfg_cloud cfg) \<noteq> ''none''"

lemma range_check_Ok_iff [outcome_simps]:
  "range_check name v lo hi = Ok u \<longleftrightarrow> between (unat lo) (unat v) (unat hi)"
  by (auto simp: range_check_def outcome_simps between_def word_less_nat_alt)

lemma one_of_Ok_iff [outcome_simps]: "one_of ld name v allowed = Ok u \<longleftrightarrow> v \<in> set allowed"
  by (auto simp: one_of_def outcome_simps)

lemma unat_ucast_32 [simp]: "unat (ucast (w :: u32) :: u64) = unat w"
proof -
  have "unat w < 2 ^ 32" using unsigned_less [of w] by simp
  then show ?thesis by (simp add: unsigned_ucast_eq take_bit_nat_eq_self)
qed

lemma check_client_iff: "check_client c = Ok () \<longleftrightarrow> client_ok c"
  by (auto simp: check_client_def client_ok_def outcome_simps length_Suc_conv split: list.splits)

lemma check_transfer_iff: "check_transfer t = Ok () \<longleftrightarrow> transfer_ok t"
  by (auto simp: check_transfer_def transfer_ok_def outcome_simps between_def)

lemma check_scheduler_iff: "check_scheduler s = Ok () \<longleftrightarrow> scheduler_ok s"
  by (auto simp: check_scheduler_def scheduler_ok_def outcome_simps between_def word_le_nat_alt)

lemma unat_max_u64: "unat (- 1 :: u64) = 18446744073709551615"
  by (simp add: unsigned_minus_1_eq_mask mask_eq_exp_minus_1)

lemma check_storage_iff:
  "check_storage ld cfg = Ok () \<and> check_write ld cfg = Ok () \<longleftrightarrow> storage_ok cfg"
proof -
  have "unat w \<le> 18446744073709551615" for w :: u64
    using unat_lt_u64 [of w] by linarith
  then show ?thesis
    by (auto simp: check_storage_def check_write_def storage_ok_def outcome_simps between_def Let_def
        unat_max_u64)
qed

lemma check_services_iff:
  "check_cloud ld (cfg_cloud cfg) = Ok () \<and> check_logging ld (cfg_logging cfg) = Ok () \<longleftrightarrow> services_ok cfg"
  by (auto simp: check_cloud_def check_logging_def services_ok_def outcome_simps split_once_None_iff)

lemma check_values_iff: "check_values ld cfg = Ok () \<longleftrightarrow> config_ok cfg"
proof -
  have "check_values ld cfg = Ok () \<longleftrightarrow>
      check_version cfg = Ok () \<and> check_client (cfg_client cfg) = Ok () \<and>
      (check_storage ld cfg = Ok () \<and> check_write ld cfg = Ok ()) \<and>
      check_transfer (cfg_transfer cfg) = Ok () \<and> check_scheduler (cfg_scheduler cfg) = Ok () \<and>
      (check_cloud ld (cfg_cloud cfg) = Ok () \<and> check_logging ld (cfg_logging cfg) = Ok ())"
    unfolding check_values_def by (auto simp: outcome_simps)
  then show ?thesis
    by (simp add: check_client_iff check_storage_iff check_transfer_iff check_scheduler_iff
        check_services_iff config_ok_def check_version_def outcome_simps)
qed

lemma check_release_iff: "check_release_only_rules p cfg = Ok () \<longleftrightarrow> release_ok p cfg"
  by (cases p) (auto simp: check_release_only_rules_def release_ok_def outcome_simps)

section \<open>The directory probe\<close>

definition usable :: "Loader \<Rightarrow> Disk \<Rightarrow> string \<times> string \<Rightarrow> bool" where
  "usable ld d np \<longleftrightarrow> dk_is_dir d (snd np) \<and> dk_writable d (ld_join ld (snd np) probe_name)"

text \<open>No probe file is there beforehand, and what can be written can be removed.\<close>

definition probes_clear :: "Loader \<Rightarrow> Disk \<Rightarrow> bool" where
  "probes_clear ld d \<longleftrightarrow> (\<forall>dir. dk_files d (ld_join ld dir probe_name) = None \<and>
     (dk_writable d (ld_join ld dir probe_name) \<longrightarrow> dk_removable d (ld_join ld dir probe_name)))"

lemma check_path_clear:
  assumes "probes_clear ld d" "fst (check_path ld np d) = Ok ()"
  shows "snd (check_path ld np d) = d"
proof -
  have "dk_files d (ld_join ld (snd np) probe_name) = None"
    using assms(1) by (simp add: probes_clear_def)
  then have "(dk_files d)(ld_join ld (snd np) probe_name := None) = dk_files d"
    by (simp add: fun_upd_idem)
  then show ?thesis
    using assms
    by (auto simp: check_path_def fs_write_def fs_remove_def probes_clear_def Let_def split_beta split: if_splits)
qed

lemma check_path_Ok_iff: "fst (check_path ld np d) = Ok () \<longleftrightarrow> usable ld d np"
  by (auto simp: check_path_def fs_write_def usable_def Let_def split_beta)

lemma check_path_not_Panic: "fst (check_path ld np d) \<noteq> Panic"
  by (auto simp: check_path_def fs_write_def Let_def split_beta)

lemma check_paths_clear:
  assumes "probes_clear ld d"
  shows "check_paths ld nps d = (Ok (), d') \<longleftrightarrow> (\<forall>np\<in>set nps. usable ld d np) \<and> d' = d"
proof (induction nps)
  case (Cons np nps)
  show ?case
  proof (cases "usable ld d np")
    case True
    then have "check_path ld np d = (Ok (), d)"
      using check_path_Ok_iff check_path_clear [OF assms] by (simp add: prod_eq_iff)
    then show ?thesis using Cons.IH True by simp
  next
    case False
    then have "fst (check_path ld np d) \<noteq> Ok ()" using check_path_Ok_iff by simp
    then show ?thesis using False by (auto simp: outcome_simps)
  qed
qed auto

section \<open>The scan for credentials\<close>

inductive key_in :: "Doc \<Rightarrow> string \<Rightarrow> bool" where
  key_here: "(k, v) \<in> set table \<Longrightarrow> key_in (DMap table) k"
| key_below: "(k, v) \<in> set table \<Longrightarrow> key_in v k' \<Longrightarrow> key_in (DMap table) k'"

inductive_simps key_in_simps: "key_in (DMap table) k" "key_in (DSeq vs) k" "key_in (DStr s) k"
  "key_in (DInt n) k" "key_in (DBool b) k" "key_in DNull k" "key_in (DOther s) k"

lemma rsplit_first_path: "rsplit_first (CHR ''.'') (pre @ ''.'' @ k) = rsplit_first (CHR ''.'') k"
  by (simp add: rsplit_first_def takeWhile_tail)

lemma is_secret_path: "is_secret_key (if pre = [] then k else pre @ ''.'' @ k) = is_secret_key k"
  by (simp add: is_secret_key_def rsplit_first_path [simplified])

lemma walk_keys_secret:
  "list_ex is_secret_key (walk_keys v pre) \<longleftrightarrow> (\<exists>k. key_in v k \<and> is_secret_key k)"
  "list_ex is_secret_key (walk_table table pre) \<longleftrightarrow>
     (\<exists>k v. (k, v) \<in> set table \<and> (is_secret_key k \<or> (\<exists>k'. key_in v k' \<and> is_secret_key k')))"
proof (induction v pre and table pre rule: walk_keys_walk_table.induct)
  case (1 table pre)
  then show ?case by (auto simp: key_in_simps)
next
  case (9 k v kvs pre)
  then show ?case by (simp add: Let_def is_secret_path) blast
qed (simp_all add: key_in_simps)

lemma reject_secret_keys_Ok_iff:
  "reject_secret_keys ld raw = Ok () \<longleftrightarrow>
     (\<exists>t. ld_toml ld raw = Inr t \<and> (\<forall>k. key_in t k \<longrightarrow> \<not> is_secret_key k))"
proof -
  have "filter is_secret_key ks = [] \<longleftrightarrow> \<not> list_ex is_secret_key ks" for ks
    by (simp add: filter_empty_conv list_ex_iff)
  then show ?thesis
    using walk_keys_secret(1) [of _ "[]"]
    by (auto simp: reject_secret_keys_def Let_def split: sum.splits)
qed

text \<open>No key of a configuration looks like a credential.\<close>

lemma enc_Config_no_secrets:
  assumes "ld_toml ld t = Inr (DMap (enc_Config cfg))"
  shows "reject_secret_keys ld t = Ok ()"
  by (simp add: reject_secret_keys_def assms enc_config_defs enc_word_def Let_def is_secret_key_def SUFFIXES_def
      ends_with_def rsplit_first_def suffix_def)

lemma deserialise_Inr_iff:
  "deserialise ld t = Inr cfg \<longleftrightarrow> (\<exists>doc. ld_toml ld t = Inr doc \<and> dec_Config (ld_seq_ok ld) doc = Some cfg)"
  by (auto simp: deserialise_def split: sum.splits option.splits)

section \<open>Failures\<close>

lemma config_invalid_code [simp]: "se_code (config_invalid m) = ConfigInvalid"
  by (simp add: config_invalid_def)

lemma checks_fail_with:
  "fails_with (\<lambda>e. is_startup_only (se_code e)) (range_check name v lo hi)"
  "fails_with (\<lambda>e. is_startup_only (se_code e)) (one_of ld name s allowed)"
  by (simp_all add: range_check_def one_of_def is_startup_only_def)

lemma check_values_fails_with:
  "fails_with (\<lambda>e. is_startup_only (se_code e)) (check_values ld cfg)"
  unfolding check_values_def check_version_def check_client_def check_storage_def check_transfer_def
    check_write_def check_scheduler_def check_cloud_def check_logging_def Let_def
  by (intro fails_with_and_then checks_fail_with)
     (auto simp: is_startup_only_def split: list.splits intro: checks_fail_with)

lemma check_release_fails_with:
  "fails_with (\<lambda>e. is_startup_only (se_code e)) (check_release_only_rules p cfg)"
  by (cases p) (auto simp: check_release_only_rules_def is_startup_only_def)

lemma check_paths_fails_with:
  "fails_with (\<lambda>e. is_startup_only (se_code e)) (fst (check_paths ld nps d))"
proof (induction nps arbitrary: d)
  case Nil
  then show ?case by simp
next
  case (Cons np nps)
  obtain r d' where r: "check_path ld np d = (r, d')" by fastforce
  have "fails_with (\<lambda>e. is_startup_only (se_code e)) r"
    using r by (auto simp: check_path_def is_startup_only_def Let_def split_beta split: if_splits)
  with r Cons.IH [of d'] show ?case by (cases r) simp_all
qed

lemma validate_config_fails_with:
  "fails_with (\<lambda>e. is_startup_only (se_code e)) (fst (validate_config ld cfg d))"
proof (cases "check_values ld cfg")
  case (Ok u)
  obtain r d' where r: "check_paths ld (all_paths (cfg_paths cfg)) d = (r, d')" by fastforce
  then have "fails_with (\<lambda>e. is_startup_only (se_code e)) r"
    using check_paths_fails_with [of ld "all_paths (cfg_paths cfg)" d] by simp
  with Ok r show ?thesis
    by (cases r) (simp_all add: validate_config_def check_paths_writable_def check_release_fails_with)
qed (use check_values_fails_with [of ld cfg] in \<open>simp_all add: validate_config_def\<close>)

lemma from_str_fails_with:
  "fails_with (\<lambda>e. is_startup_only (se_code e)) (fst (from_str_validated ld t d))"
proof -
  have r: "fails_with (\<lambda>e. is_startup_only (se_code e)) (reject_secret_keys ld t)"
    by (auto simp: reject_secret_keys_def is_startup_only_def Let_def split: sum.splits)
  show ?thesis
  proof (cases "reject_secret_keys ld t")
    case ok: (Ok u)
    show ?thesis
    proof (cases "deserialise ld t")
      case (Inl e)
      with ok show ?thesis by (simp add: from_str_validated_def is_startup_only_def)
    next
      case (Inr cfg)
      obtain r d' where v: "validate_config ld cfg d = (r, d')" by fastforce
      then have "fails_with (\<lambda>e. is_startup_only (se_code e)) r"
        using validate_config_fails_with [of ld cfg d] by simp
      with ok Inr v show ?thesis by (cases r) (simp_all add: from_str_validated_def)
    qed
  qed (use r in \<open>simp_all add: from_str_validated_def\<close>)
qed

lemma load_fails_with:
  "fails_with (\<lambda>e. is_startup_only (se_code e)) (fst (load ld path d))"
proof (cases "Option.bind (dk_files d path) (dk_utf8 d)")
  case None
  then show ?thesis by (simp add: load_def is_startup_only_def)
next
  case (Some t)
  then show ?thesis using from_str_fails_with [of ld t d] by (simp add: load_def)
qed

lemma deserialised_Ok_iff:
  "(case x of Inl e \<Rightarrow> Err (f e) | Inr c \<Rightarrow> Ok c) = Ok a \<longleftrightarrow> x = Inr a"
  by (auto split: sum.splits)

lemma validate_config_Ok_iff:
  assumes "probes_clear ld d"
  shows "validate_config ld cfg d = (Ok (), d') \<longleftrightarrow> config_ok cfg \<and>
      (\<forall>np\<in>set (all_paths (cfg_paths cfg)). usable ld d np) \<and> release_ok (ld_profile ld) cfg \<and> d' = d"
  by (auto simp: validate_config_def outcome_simps check_values_iff check_release_iff
       check_paths_writable_def check_paths_clear [OF assms])

lemma from_str_Ok_iff:
  assumes "probes_clear ld d"
  shows "from_str_validated ld t d = (Ok cfg, d') \<longleftrightarrow>
    reject_secret_keys ld t = Ok () \<and> deserialise ld t = Inr cfg \<and> config_ok cfg \<and>
    (\<forall>np\<in>set (all_paths (cfg_paths cfg)). usable ld d np) \<and> release_ok (ld_profile ld) cfg \<and> d' = d"
  by (auto simp: from_str_validated_def outcome_simps validate_config_Ok_iff [OF assms] deserialised_Ok_iff)

lemma load_Ok_iff:
  assumes "probes_clear ld d"
  shows "load ld path d = (Ok cfg, d') \<longleftrightarrow>
    (\<exists>t. Option.bind (dk_files d path) (dk_utf8 d) = Some t \<and> reject_secret_keys ld t = Ok () \<and>
         deserialise ld t = Inr cfg) \<and>
    config_ok cfg \<and> (\<forall>np\<in>set (all_paths (cfg_paths cfg)). usable ld d np) \<and>
    release_ok (ld_profile ld) cfg \<and> d' = d"
  by (auto simp: load_def outcome_simps from_str_Ok_iff [OF assms])

end
