(* ===== verification/Logging.thy ===== *)
theory Logging
  imports Prelude
begin

text \<open>
  The line a log event becomes (\<^verbatim>\<open>contracts/src/logging.rs\<close>).  A \<^verbatim>\<open>BTreeMap\<close> and a \<^verbatim>\<open>serde_json::Map\<close>
  (a sorted map, since the workspace does not enable \<^verbatim>\<open>preserve_order\<close>) are maps from keys to
  values; the tracing library hands the layer the fields of spans and events as a list of recorded
  values and the stack of enclosing spans, outermost first.  The rendering of the JSON text and the
  rotation of files belong to the libraries.  At the end, where the lines go: the sinks, the process-wide
  subscriber that \<^verbatim>\<open>init\<close> installs once, and the buffer for tests.
\<close>

datatype Value = VNull | VBool bool | VNumber int | VString string

definition REQUIRED_FIELDS :: "string list" where
  "REQUIRED_FIELDS =
     [''ts'', ''level'', ''component'', ''request_id'', ''operation_id'', ''file_id'', ''version_id'',
      ''chunk_id'', ''operation'', ''duration_ms'', ''result'', ''error_code'', ''msg'']"

text \<open>The calls of the visitor, one per recorded field.\<close>

datatype Recorded =
    record_debug string
  | record_str string
  | record_i64 i64
  | record_u64 u64
  | record_bool bool

type_synonym FieldBag = "string \<Rightarrow> Value option"

primrec recorded_value :: "Recorded \<Rightarrow> Value" where
  "recorded_value (record_debug s) = VString s"
| "recorded_value (record_str s) = VString s"
| "recorded_value (record_i64 n) = VNumber (sint n)"
| "recorded_value (record_u64 n) = VNumber (uint n)"
| "recorded_value (record_bool b) = VBool b"

text \<open>An emitted event: its level and the fields of the macro call.\<close>

type_synonym LogEvent = "string \<times> (string \<times> Recorded) list"

definition record_fields :: "(string \<times> Recorded) list \<Rightarrow> FieldBag \<Rightarrow> FieldBag" where
  "record_fields recs bag = fold (\<lambda>(k, v) b. b(k \<mapsto> recorded_value v)) recs bag"

text \<open>The extensions of the live spans: one bag per span that has one.\<close>

type_synonym Spans = "u64 \<Rightarrow> FieldBag option"

definition on_new_span :: "u64 \<Rightarrow> (string \<times> Recorded) list \<Rightarrow> Spans \<Rightarrow> Spans" where
  "on_new_span i attrs spans = spans(i \<mapsto> record_fields attrs Map.empty)"

definition on_record :: "u64 \<Rightarrow> (string \<times> Recorded) list \<Rightarrow> Spans \<Rightarrow> Spans" where
  "on_record i values spans =
     (case spans i of None \<Rightarrow> spans | Some bag \<Rightarrow> spans(i \<mapsto> record_fields values bag))"

text \<open>Merging: outer spans first, then inner ones, then the event, each over what came before.\<close>

definition merge_bag :: "FieldBag \<Rightarrow> FieldBag \<Rightarrow> FieldBag" where
  "merge_bag merged bag = merged ++ bag"

definition merged_fields :: "Spans \<Rightarrow> u64 list \<Rightarrow> (string \<times> Recorded) list \<Rightarrow> FieldBag" where
  "merged_fields spans scope recs =
     merge_bag (fold (\<lambda>i m. case spans i of None \<Rightarrow> m | Some bag \<Rightarrow> merge_bag m bag) scope Map.empty)
       (record_fields recs Map.empty)"

text \<open>\<^verbatim>\<open>msg\<close> is the format string (\<^verbatim>\<open>message\<close>) or else the explicit field.\<close>

definition take_msg :: "FieldBag \<Rightarrow> Value \<times> FieldBag" where
  "take_msg merged =
     (case merged ''message'' of
        Some v \<Rightarrow> (v, merged(''message'' := None))
      | None \<Rightarrow>
          (case merged ''msg'' of
             Some v \<Rightarrow> (v, merged(''msg'' := None))
           | None \<Rightarrow> (VNull, merged)))"

record LineEnv =
  le_ts :: string
  le_level :: string
  le_component :: string

definition insert_required ::
  "LineEnv \<Rightarrow> Value \<Rightarrow> string \<Rightarrow> FieldBag \<times> FieldBag \<Rightarrow> FieldBag \<times> FieldBag" where
  "insert_required env msg key st =
     (let (line, merged) = st in
      if key = ''ts'' then (line(key \<mapsto> VString (le_ts env)), merged)
      else if key = ''level'' then (line(key \<mapsto> VString (le_level env)), merged)
      else if key = ''component'' then (line(key \<mapsto> VString (le_component env)), merged)
      else if key = ''msg'' then (line(key \<mapsto> msg), merged)
      else (line(key \<mapsto> (case merged key of Some v \<Rightarrow> v | None \<Rightarrow> VNull)), merged(key := None)))"

text \<open>The extra fields: \<^verbatim>\<open>line.entry(k).or_insert(v)\<close> for every one that is left.\<close>

definition add_extras :: "FieldBag \<Rightarrow> FieldBag \<Rightarrow> FieldBag" where
  "add_extras line merged = (\<lambda>k. case line k of Some v \<Rightarrow> Some v | None \<Rightarrow> merged k)"

definition on_event ::
  "LineEnv \<Rightarrow> Spans \<Rightarrow> u64 list \<Rightarrow> (string \<times> Recorded) list \<Rightarrow> FieldBag" where
  "on_event env spans scope recs =
     (let (msg, merged) = take_msg (merged_fields spans scope recs);
          (line, rest) = fold (insert_required env msg) REQUIRED_FIELDS (Map.empty, merged)
      in add_extras line rest)"

section \<open>What a line holds\<close>

definition schema_value :: "LineEnv \<Rightarrow> Value \<Rightarrow> FieldBag \<Rightarrow> string \<Rightarrow> Value" where
  "schema_value env msg merged key =
     (if key = ''ts'' then VString (le_ts env)
      else if key = ''level'' then VString (le_level env)
      else if key = ''component'' then VString (le_component env)
      else if key = ''msg'' then msg
      else (case merged key of Some v \<Rightarrow> v | None \<Rightarrow> VNull))"

definition keeps_merged :: "string \<Rightarrow> bool" where
  "keeps_merged key \<longleftrightarrow> key \<in> {''ts'', ''level'', ''component'', ''msg''}"

lemma fold_insert_required:
  "distinct keys \<Longrightarrow>
   fold (insert_required env msg) keys (line, merged)
     = (\<lambda>k. if k \<in> set keys then Some (schema_value env msg merged k) else line k,
        \<lambda>k. if k \<in> set keys \<and> \<not> keeps_merged k then None else merged k)"
proof (induction keys arbitrary: line merged)
  case Nil
  then show ?case by simp
next
  case (Cons key keys)
  then show ?case
    by (auto simp: insert_required_def schema_value_def keeps_merged_def fun_eq_iff
        split: option.splits)
qed

lemma REQUIRED_FIELDS_distinct: "distinct REQUIRED_FIELDS"
  by (simp add: REQUIRED_FIELDS_def)

lemma keeps_merged_required: "keeps_merged k \<Longrightarrow> k \<in> set REQUIRED_FIELDS"
  by (auto simp: keeps_merged_def REQUIRED_FIELDS_def)

lemma on_event_value:
  assumes "take_msg (merged_fields spans scope recs) = (msg, merged)"
  shows "on_event env spans scope recs k
    = (if k \<in> set REQUIRED_FIELDS then Some (schema_value env msg merged k) else merged k)"
  using assms keeps_merged_required
  by (auto simp: on_event_def add_extras_def fold_insert_required REQUIRED_FIELDS_distinct)

lemma take_msg_other: "k \<noteq> ''message'' \<Longrightarrow> k \<noteq> ''msg'' \<Longrightarrow> snd (take_msg m) k = m k"
  by (auto simp: take_msg_def split: option.splits)

section \<open>Sinks\<close>

datatype LogSink = Directory string | Stderr | Buffer

record JsonLineLayer =
  jl_component :: string
  jl_writer :: LogSink

text \<open>
  The two process-wide cells: the worker guard of a file sink, set at most once and possibly to \<^verbatim>\<open>None\<close>,
  and the subscriber.  Building the appender of a directory may fail, which is a panic (\<^verbatim>\<open>expect\<close>).
\<close>

record LogGlobals =
  lg_guard :: "bool option"
  lg_subscriber :: "JsonLineLayer option"

definition no_logging :: LogGlobals where
  "no_logging = \<lparr>lg_guard = None, lg_subscriber = None\<rparr>"

definition set_once :: "'a \<Rightarrow> 'a option \<Rightarrow> 'a option" where
  "set_once a cell = (case cell of None \<Rightarrow> Some a | Some b \<Rightarrow> Some b)"

definition init ::
  "(string \<Rightarrow> bool) \<Rightarrow> string \<Rightarrow> LogSink \<Rightarrow> LogGlobals \<Rightarrow> ('e, unit) outcome \<times> LogGlobals" where
  "init appender_builds component sink g =
     (case (case sink of
              Directory dir \<Rightarrow> if appender_builds dir then Some True else None
            | _ \<Rightarrow> Some False) of
        None \<Rightarrow> (Panic, g)
      | Some guard \<Rightarrow>
          (Ok (), \<lparr>lg_guard = set_once guard (lg_guard g),
                   lg_subscriber = set_once \<lparr>jl_component = component, jl_writer = sink\<rparr> (lg_subscriber g)\<rparr>))"

definition sink_opens :: "(string \<Rightarrow> bool) \<Rightarrow> LogSink \<Rightarrow> bool" where
  "sink_opens appender_builds sink = (case sink of Directory dir \<Rightarrow> appender_builds dir | _ \<Rightarrow> True)"

lemma init_fresh:
  "sink_opens builds sink \<Longrightarrow> init builds component sink no_logging =
     (Ok (), \<lparr>lg_guard = Some (\<exists>dir. sink = Directory dir),
              lg_subscriber = Some \<lparr>jl_component = component, jl_writer = sink\<rparr>\<rparr>)"
  by (cases sink) (simp_all add: init_def sink_opens_def no_logging_def set_once_def)

lemma init_closed: "\<not> sink_opens builds sink \<Longrightarrow> init builds component sink g = (Panic, g)"
  by (cases sink) (simp_all add: init_def sink_opens_def)

text \<open>A second call changes nothing; it does panic when its own directory cannot be opened.\<close>

lemma init_once:
  assumes "init builds c sink g = (Ok (), g')"
  shows "init builds c' sink' g' = (if sink_opens builds sink' then Ok () else Panic, g')"
  using assms by (cases sink; cases sink')
    (auto simp: init_def sink_opens_def set_once_def split: if_splits option.splits)

text \<open>The buffer sink: every write appends and reports the full length; \<^verbatim>\<open>memory_sink\<close> starts it empty.\<close>

definition memory_sink :: "LogSink \<times> string" where
  "memory_sink = (Buffer, [])"

definition buf_write :: "string \<Rightarrow> string \<Rightarrow> ('e, nat) outcome \<times> string" where
  "buf_write line buf = (Ok (length line), buf @ line)"

text \<open>What an event writes: the rendered line, then a newline.\<close>

definition write_line :: "(FieldBag \<Rightarrow> string) \<Rightarrow> FieldBag \<Rightarrow> string \<Rightarrow> string" where
  "write_line render line buf =
     snd (buf_write [CHR 0x0A] (snd (buf_write (render line) buf :: (unit, nat) outcome \<times> string))
       :: (unit, nat) outcome \<times> string)"

lemma write_line_appends: "write_line render line buf = buf @ render line @ [CHR 0x0A]"
  by (simp add: write_line_def buf_write_def)

end
