(* ===== verification/Startup.thy ===== *)
theory Startup
  imports Config Logging
begin

text \<open>
  The start of the client binary (\<^verbatim>\<open>client/core/src/startup.rs\<close>): the argument parser, the steps up to
  a validated configuration, and the exit code.  What the process prints and logs is returned as
  \<open>Io\<close>, with the log sink installed at the end.  \<open>Host\<close> is the surrounding system: the loader of theory
  Config, the variable \<^verbatim>\<open>SPACE_CLIENT_LOG_DIR\<close>, the directories in which a log file can be opened, the
  rendered startup id, and whether the shutdown block ends before its deadline.
\<close>

record Args =
  a_config :: string
  a_print_version :: bool

fun parse_args_loop :: "string list \<Rightarrow> Args \<Rightarrow> Args space_result" where
  "parse_args_loop [] args = Ok args"
| "parse_args_loop (arg # it) args =
     (if arg = ''--version'' \<or> arg = ''-V'' then parse_args_loop it (args\<lparr>a_print_version := True\<rparr>)
      else if arg = ''--config''
      then (case it of
              [] \<Rightarrow> Err (invalid_param ''--config requires a path'')
            | p # it' \<Rightarrow> parse_args_loop it' (args\<lparr>a_config := p\<rparr>))
      else Err (invalid_param (''unknown argument: '' @ arg)))"

definition parse_args :: "string list \<Rightarrow> Args space_result" where
  "parse_args argv = parse_args_loop argv \<lparr>a_config = ''config.toml'', a_print_version = False\<rparr>"

datatype Startup = PrintedVersion | ConfigRejected SpaceError | Ready Config

record Io =
  io_stdout :: "string list"
  io_stderr :: "string list"
  io_log :: "LogEvent list"
  io_logging :: LogGlobals

definition quiet :: Io where
  "quiet = \<lparr>io_stdout = [], io_stderr = [], io_log = [], io_logging = no_logging\<rparr>"

definition CLIENT_VERSION :: string where
  "CLIENT_VERSION = ''0.0.1''"

record Host =
  h_loader :: Loader
  h_log_dir :: "string option"
  h_appender_builds :: "string \<Rightarrow> bool"
  h_startup_id :: string
  h_shutdown_in_time :: bool

definition startup_event :: "Host \<Rightarrow> Config \<Rightarrow> LogEvent" where
  "startup_event host cfg =
     (''INFO'',
      [(''request_id'', record_debug (h_startup_id host)),
       (''operation'', record_str ''startup''),
       (''result'', record_str ''ok''),
       (''version'', record_str CLIENT_VERSION),
       (''worker_threads'', record_u64 (ucast (worker_threads (cfg_client cfg)))),
       (''chunk_size_bytes'', record_u64 (chunk_size_bytes (cfg_chunking cfg))),
       (''cloud_base_url'', record_debug (base_url (cfg_cloud cfg))),
       (''mount_drive_letter'', record_debug (mount_drive_letter (cfg_client cfg))),
       (''msg'', record_str ''client starting (no mount in Phase 0)'')])"

definition prepare :: "Host \<Rightarrow> Args \<Rightarrow> LogSink \<Rightarrow> Disk \<Rightarrow> Startup space_result \<times> Io \<times> Disk" where
  "prepare host args log_sink d =
     (if a_print_version args
      then (Ok PrintedVersion, quiet\<lparr>io_stdout := [''space-client '' @ CLIENT_VERSION]\<rparr>, d)
      else (case load (h_loader host) (a_config args) d of
          (Err e, d') \<Rightarrow> (Ok (ConfigRejected e), quiet, d')
        | (Panic, d') \<Rightarrow> (Panic, quiet, d')
        | (Ok cfg, d') \<Rightarrow>
            (case init (h_appender_builds host) ''space-client'' log_sink no_logging of
               (Ok u, g) \<Rightarrow>
                 (Ok (Ready cfg), quiet\<lparr>io_logging := g, io_log := [startup_event host cfg]\<rparr>, d')
             | (Err e, g) \<Rightarrow> (Err e, quiet, d')
             | (Panic, g) \<Rightarrow> (Panic, quiet, d'))))"

text \<open>The sink \<^verbatim>\<open>run\<close> chooses.\<close>

definition log_sink_of :: "string option \<Rightarrow> LogSink" where
  "log_sink_of dir = (case dir of Some d \<Rightarrow> Directory d | None \<Rightarrow> Stderr)"

definition rejected_label :: "ErrorCode \<Rightarrow> string" where
  "rejected_label c =
     (if c = ConfigMissing then ''CONFIG_MISSING''
      else if c = ConfigUnsupportedVersion then ''CONFIG_UNSUPPORTED_VERSION''
      else ''CONFIG_INVALID'')"

definition shutdown_event :: "bool \<Rightarrow> LogEvent" where
  "shutdown_event in_time =
     (if in_time
      then (''INFO'', [(''operation'', record_str ''shutdown''), (''result'', record_str ''ok''),
                       (''msg'', record_str ''clean shutdown'')])
      else (''ERROR'', [(''operation'', record_str ''shutdown''), (''result'', record_str ''error''),
                       (''error_code'', record_str ''CANCELLED''),
                       (''msg'', record_str ''shutdown exceeded deadline'')]))"

definition run :: "Host \<Rightarrow> string list \<Rightarrow> Disk \<Rightarrow> int space_result \<times> Io \<times> Disk" where
  "run host argv d =
     (case parse_args argv of
        Err e \<Rightarrow> (Ok 2, quiet\<lparr>io_stderr := [show_error e]\<rparr>, d)
      | Panic \<Rightarrow> (Panic, quiet, d)
      | Ok args \<Rightarrow>
          (case prepare host args (log_sink_of (h_log_dir host)) d of
             (Panic, io, d') \<Rightarrow> (Panic, io, d')
           | (Err e, io, d') \<Rightarrow> (Err e, io, d')
           | (Ok PrintedVersion, io, d') \<Rightarrow> (Ok 0, io, d')
           | (Ok (ConfigRejected e), io, d') \<Rightarrow>
               (Ok 1, io\<lparr>io_stderr := io_stderr io @ [rejected_label (se_code e) @ '': '' @ se_message e]\<rparr>, d')
           | (Ok (Ready cfg), io, d') \<Rightarrow>
               (Ok (if h_shutdown_in_time host then 0 else 1),
                io\<lparr>io_log := io_log io @ [shutdown_event (h_shutdown_in_time host)]\<rparr>, d')))"

text \<open>The binary (\<^verbatim>\<open>client/main/src/main.rs\<close>): the arguments after the program's name, and the exit code.\<close>

definition client_main :: "Host \<Rightarrow> string list \<Rightarrow> Disk \<Rightarrow> int space_result \<times> Io \<times> Disk" where
  "client_main host args d = run host (drop 1 args) d"

lemma parse_args_loop_fails_with:
  "fails_with (\<lambda>e. se_code e = InvalidParameter) (parse_args_loop argv args)"
proof (induction argv args rule: parse_args_loop.induct)
  case (2 arg it args)
  then show ?case by (cases it) auto
qed simp

lemma parse_args_not_Panic: "parse_args argv \<noteq> Panic"
  unfolding parse_args_def by (rule fails_with_not_Panic [OF parse_args_loop_fails_with])

text \<open>The label on the error line is the wire name of the code the loader failed with.\<close>

lemma rejected_label_wire:
  "is_startup_only c \<Longrightarrow> rejected_label c = wire_code c"
  by (auto simp: is_startup_only_def rejected_label_def)

lemma load_cases:
  obtains cfg where "fst (load ld path d) = Ok cfg"
  | e where "fst (load ld path d) = Err e" "is_startup_only (se_code e)"
  using load_fails_with [of ld path d] by (cases "fst (load ld path d)") auto

end
