(* ===== verification/Faults.thy ===== *)
theory Faults
  imports Errors
begin

text \<open>
  Fault-injection points (\<^verbatim>\<open>faults/src/lib.rs\<close>), with and without the \<^verbatim>\<open>fault-injection\<close> feature.
  The registry is a static behind a mutex, so a state that each call takes and returns.
\<close>

datatype FaultAction =
    FaultNone
  | FaultPanic
  | FaultDelay nat
  | FaultError ErrorCode
  | FaultCorruptBytes

definition FAULT_POINTS :: "string list" where
  "FAULT_POINTS =
     [''post_wal_write'', ''pre_chunk_publish'', ''post_chunk_publish'', ''pre_manifest_build'',
      ''pre_manifest_commit'', ''post_manifest_commit'', ''mid_upload'', ''mid_download'',
      ''pre_cache_write'', ''post_cache_write'', ''pre_db_commit'', ''post_db_commit'']"

type_synonym Registry = "(string \<Rightarrow> FaultAction option) option"

text \<open>Without the feature a fault point does nothing; with it the registry decides.\<close>

definition fault_point_off :: "string \<Rightarrow> FaultAction" where
  "fault_point_off name = FaultNone"

definition fault_point :: "Registry \<Rightarrow> string \<Rightarrow> FaultAction" where
  "fault_point reg name =
     (case Option.bind reg (\<lambda>m. m name) of Some a \<Rightarrow> a | None \<Rightarrow> FaultNone)"

definition arm :: "string \<Rightarrow> FaultAction \<Rightarrow> Registry \<Rightarrow> (unit, unit) outcome \<times> Registry" where
  "arm name action reg =
     (if name \<notin> set FAULT_POINTS then (Panic, reg)
      else (let m = (case reg of Some m \<Rightarrow> m | None \<Rightarrow> Map.empty)
            in (Ok (), Some (m(name \<mapsto> action)))))"

definition disarm_all :: "Registry \<Rightarrow> Registry" where
  "disarm_all reg = (case reg of Some m \<Rightarrow> Some Map.empty | None \<Rightarrow> None)"

text \<open>What tests do with the registry: arm a point or disarm them all.\<close>

inductive registry_step :: "Registry \<Rightarrow> Registry \<Rightarrow> bool" where
  reg_arm: "registry_step reg (snd (arm name action reg))"
| reg_disarm: "registry_step reg (disarm_all reg)"

inductive_cases registry_stepE: "registry_step reg reg'"

definition registry_inv :: "Registry \<Rightarrow> bool" where
  "registry_inv reg \<longleftrightarrow> (\<forall>m. reg = Some m \<longrightarrow> dom m \<subseteq> set FAULT_POINTS)"

lemma registry_step_inv: "registry_step reg reg' \<Longrightarrow> registry_inv reg \<Longrightarrow> registry_inv reg'"
  by (erule registry_stepE)
     (auto simp: registry_inv_def arm_def disarm_all_def Let_def split: option.splits if_splits)

lemma fault_point_unknown: "registry_inv reg \<Longrightarrow> name \<notin> set FAULT_POINTS \<Longrightarrow> fault_point reg name = FaultNone"
  by (cases reg) (auto simp: registry_inv_def fault_point_def dom_def split: option.splits)

end
