(* ===== verification/Client_Properties.thy ===== *)
theory Client_Properties
  imports Startup Faults
begin

text \<open>
  The properties of the client's start: which configurations are accepted and which exit code and
  output each outcome gives; of the log lines; and of the fault-injection registry.  The sample
  configuration is the one of \<^verbatim>\<open>config.example.toml\<close>.
\<close>

definition sample_config :: Config where
  "sample_config = \<lparr>config_version = 1,
     cfg_client = \<lparr>worker_threads = 4, callback_timeout_ms = 30000, shutdown_deadline_ms = 10000,
       mount_drive_letter = ''S''\<rparr>,
     cfg_paths = \<lparr>runtime_dir = ''r'', cache_dir = ''c'', durable_dir = ''d'', log_dir = ''l''\<rparr>,
     cfg_chunking = \<lparr>chunk_size_bytes = 33554432, hash_algorithm = ''blake3''\<rparr>,
     cfg_cache = \<lparr>max_bytes = 10737418240, eviction_policy = ''slru''\<rparr>,
     cfg_transfer = \<lparr>max_concurrent_requests = 16, connect_timeout_ms = 10000,
       request_timeout_ms = 60000, max_retries = 5, backoff_base_ms = 200\<rparr>,
     cfg_write = \<lparr>max_dirty_bytes = 1073741824, wal_fsync_policy = ''always''\<rparr>,
     cfg_scheduler = \<lparr>foreground_priority = 10, background_priority = 1, max_prefetch_requests = 4\<rparr>,
     cfg_cloud = \<lparr>base_url = ''http://127.0.0.1:8080'', auth_mode = ''token''\<rparr>,
     cfg_logging = \<lparr>log_level = ''info'', log_format = ''json''\<rparr>\<rparr>"

definition sample_loader :: Loader where
  "sample_loader = \<lparr>ld_toml = (\<lambda>t. Inr (DMap (enc_Config sample_config))), ld_seq_ok = (\<lambda>n k. False),
     ld_misfit = (\<lambda>t. ''no configuration''), ld_debug = (\<lambda>s. s), ld_debug_list = concat,
     ld_display = (\<lambda>s. s), ld_join = (\<lambda>d f. d @ ''/'' @ f), ld_profile = Release\<rparr>"

definition sample_disk :: Disk where
  "sample_disk = \<lparr>dk_files = [''cfg'' \<mapsto> []], dk_utf8 = (\<lambda>bs. Some []), dk_is_dir = (\<lambda>d. True),
     dk_writable = (\<lambda>p. True), dk_removable = (\<lambda>p. True),
     dk_partial = (\<lambda>p f. f)\<rparr>"

lemma sample_config_ok: "config_ok sample_config"
proof -
  have "sublist ''://'' ''http://127.0.0.1:8080''"
    by (simp add: sublist_Cons_right)
  then show ?thesis
    by (simp add: config_ok_def client_ok_def storage_ok_def transfer_ok_def scheduler_ok_def
        services_ok_def sample_config_def between_def is_ascii_alphabetic_def)
qed

lemma sample_clear: "probes_clear sample_loader sample_disk"
proof -
  have "length (d @ ''/'' @ probe_name) \<noteq> length ''cfg''" for d
    by (simp add: probe_name_def)
  then have "d @ ''/'' @ probe_name \<noteq> ''cfg''" for d by metis
  then show ?thesis by (simp add: probes_clear_def sample_loader_def sample_disk_def)
qed

lemma sample_no_secrets: "reject_secret_keys sample_loader t = Ok ()"
  by (simp add: sample_loader_def enc_Config_no_secrets)

section \<open>Configuration\<close>

text \<open>C30: On a disk without left-over probe files, where every probe that can be created can also be
  removed again (the code ignores a failed removal), loading succeeds exactly when the file is there and is
  UTF-8, is a TOML document without a credential-like key and with exactly the keys of the configuration,
  no one twice and each with a value of its type, whose values the result has; satisfies every bound, names
  four usable directories and no test-only value in a release build; and the probes leave the disk as it was.\<close>

theorem load_accepts_exactly:
  assumes "probes_clear ld d"
  shows "load ld path d = (Ok cfg, d') \<longleftrightarrow>
    (\<exists>t doc. Option.bind (dk_files d path) (dk_utf8 d) = Some t \<and> ld_toml ld t = Inr doc \<and>
         (\<forall>k. key_in doc k \<longrightarrow> \<not> is_secret_key k) \<and> config_doc (ld_seq_ok ld) cfg doc) \<and>
    config_ok cfg \<and> (\<forall>np\<in>set (all_paths (cfg_paths cfg)). usable ld d np) \<and>
    release_ok (ld_profile ld) cfg \<and> d' = d"
  unfolding load_Ok_iff [OF assms] reject_secret_keys_Ok_iff deserialise_Inr_iff Config_reads by auto

theorem load_accepts_exactly_witness:
  "load sample_loader ''cfg'' sample_disk = (Ok sample_config, sample_disk)"
proof -
  have "\<forall>np\<in>set (all_paths (cfg_paths sample_config)). usable sample_loader sample_disk np"
    by (simp add: usable_def sample_disk_def)
  moreover have "release_ok (ld_profile sample_loader) sample_config"
    by (simp add: release_ok_def sample_config_def)
  moreover have "Option.bind (dk_files sample_disk ''cfg'') (dk_utf8 sample_disk) = Some []"
    "ld_toml sample_loader [] = Inr (DMap (enc_Config sample_config))"
    by (simp_all add: sample_disk_def sample_loader_def)
  moreover have "\<forall>k. key_in (DMap (enc_Config sample_config)) k \<longrightarrow> \<not> is_secret_key k"
    using sample_no_secrets [of "[]"] calculation(4) by (auto simp: reject_secret_keys_Ok_iff)
  ultimately show ?thesis
    using load_accepts_exactly [OF sample_clear, of "''cfg''" sample_config sample_disk]
      sample_config_ok dec_enc_Config [unfolded Config_reads] by blast
qed

text \<open>Loading never panics, and every failure carries one of the three startup-only codes.\<close>

theorem load_fails_cleanly:
  "(case fst (load ld path d) of
      Ok cfg \<Rightarrow> True | Err e \<Rightarrow> is_startup_only (se_code e) \<and> err_ntstatus e = None | Panic \<Rightarrow> False)"
proof -
  have "code_ntstatus c = None" if "is_startup_only c" for c
    using that by (auto simp: is_startup_only_def)
  then show ?thesis
    using load_fails_with [of ld path d] by (cases "fst (load ld path d)") (simp_all add: err_ntstatus_def)
qed

section \<open>Start and exit\<close>

definition client_logging :: "Host \<Rightarrow> LogGlobals" where
  "client_logging host =
     \<lparr>lg_guard = Some (h_log_dir host \<noteq> None),
      lg_subscriber = Some \<lparr>jl_component = ''space-client'', jl_writer = log_sink_of (h_log_dir host)\<rparr>\<rparr>"

lemma prepare_cases:
  assumes "\<not> a_print_version args" "sink_opens (h_appender_builds host) (log_sink_of (h_log_dir host))"
  obtains cfg where "fst (load (h_loader host) (a_config args) d) = Ok cfg"
      "prepare host args (log_sink_of (h_log_dir host)) d =
        (Ok (Ready cfg), quiet\<lparr>io_logging := client_logging host, io_log := [startup_event host cfg]\<rparr>,
         snd (load (h_loader host) (a_config args) d))"
  | e where "fst (load (h_loader host) (a_config args) d) = Err e" "is_startup_only (se_code e)"
      "prepare host args (log_sink_of (h_log_dir host)) d =
        (Ok (ConfigRejected e), quiet, snd (load (h_loader host) (a_config args) d))"
proof (cases rule: load_cases [of "h_loader host" "a_config args" d])
  case (1 cfg)
  have "(\<exists>dir. log_sink_of (h_log_dir host) = Directory dir) \<longleftrightarrow> h_log_dir host \<noteq> None"
    by (cases "h_log_dir host") (simp_all add: log_sink_of_def)
  then have "init (h_appender_builds host) ''space-client'' (log_sink_of (h_log_dir host)) no_logging
      = (Ok () :: unit space_result, client_logging host)"
    using init_fresh [OF assms(2)] by (simp add: client_logging_def)
  then show ?thesis
    using 1 that(1) assms(1)
    by (cases "load (h_loader host) (a_config args) d") (auto simp: prepare_def)
next
  case (2 e)
  then show ?thesis
    using that(2) assms(1)
    by (cases "load (h_loader host) (a_config args) d") (auto simp: prepare_def)
qed

text \<open>C37: The client's exit, when its log sink opens: 2 for arguments it does not understand; 0 after
  printing the version; 1 with one message on standard error, the wire code of the reason and its text,
  when the configuration is rejected; otherwise 0 after a clean shutdown and 1 past the deadline, with the
  start and the end logged to the sink that the environment names.  Nothing is logged before.\<close>

theorem exit_code_spec:
  assumes "sink_opens (h_appender_builds host) (log_sink_of (h_log_dir host))"
  shows "(case parse_args argv of
      Err e \<Rightarrow> run host argv d = (Ok 2, quiet\<lparr>io_stderr := [show_error e]\<rparr>, d) \<and> se_code e = InvalidParameter
    | Panic \<Rightarrow> False
    | Ok args \<Rightarrow>
        if a_print_version args
        then run host argv d = (Ok 0, quiet\<lparr>io_stdout := [''space-client '' @ CLIENT_VERSION]\<rparr>, d)
        else (case fst (load (h_loader host) (a_config args) d) of
            Err e \<Rightarrow> fst (run host argv d) = Ok 1 \<and>
              fst (snd (run host argv d)) = quiet\<lparr>io_stderr := [wire_code (se_code e) @ '': '' @ se_message e]\<rparr>
          | Panic \<Rightarrow> False
          | Ok cfg \<Rightarrow> fst (run host argv d) = Ok (if h_shutdown_in_time host then 0 else 1) \<and>
              fst (snd (run host argv d)) =
                quiet\<lparr>io_logging := client_logging host,
                  io_log := [startup_event host cfg, shutdown_event (h_shutdown_in_time host)]\<rparr>))"
proof (cases "parse_args argv")
  case (Err e)
  moreover have "se_code e = InvalidParameter"
    using Err parse_args_loop_fails_with [of argv "\<lparr>a_config = ''config.toml'', a_print_version = False\<rparr>"]
    by (simp add: parse_args_def)
  ultimately show ?thesis by (simp add: run_def)
next
  case Panic
  then show ?thesis using parse_args_not_Panic by simp
next
  case (Ok args)
  show ?thesis
  proof (cases "a_print_version args")
    case True
    with Ok show ?thesis by (simp add: run_def prepare_def quiet_def)
  next
    case False
    then show ?thesis using assms
    proof (cases rule: prepare_cases [of args host d])
      case (1 cfg)
      with Ok False show ?thesis by (simp add: run_def quiet_def)
    next
      case (2 e)
      with Ok False show ?thesis by (simp add: run_def quiet_def rejected_label_wire)
    qed
  qed
qed

definition sample_host :: Host where
  "sample_host = \<lparr>h_loader = sample_loader, h_log_dir = Some ''logs'', h_appender_builds = (\<lambda>d. d = ''logs''), h_startup_id = ''r_1'',
     h_shutdown_in_time = True\<rparr>"

theorem exit_code_spec_witness:
  "fst (run sample_host [''--config'', ''missing''] sample_disk) = Ok 1 \<and>
   fst (snd (run sample_host [''--config'', ''missing''] sample_disk))
     = quiet\<lparr>io_stderr := [''CONFIG_MISSING: config file not found'']\<rparr>"
proof -
  have "parse_args [''--config'', ''missing''] = Ok \<lparr>a_config = ''missing'', a_print_version = False\<rparr>"
    by (simp add: parse_args_def)
  moreover have "fst (load (h_loader sample_host) ''missing'' sample_disk)
      = Err (new_error ConfigMissing ''config file not found'')"
    by (simp add: load_def sample_disk_def)
  moreover have "sink_opens (h_appender_builds sample_host) (log_sink_of (h_log_dir sample_host))"
    by (simp add: sample_host_def sink_opens_def log_sink_of_def)
  ultimately show ?thesis
    using exit_code_spec [of sample_host "[''--config'', ''missing'']" sample_disk] by simp
qed

section \<open>Log lines\<close>

text \<open>
  The value a line's field takes: the event's, the last one where a name is recorded twice, or else that of
  the innermost span in scope that has the field.
\<close>

definition field_value :: "Spans \<Rightarrow> u64 list \<Rightarrow> (string \<times> Recorded) list \<Rightarrow> string \<Rightarrow> Value option" where
  "field_value spans scope fs k =
     (case map_of (rev fs) k of
        Some v \<Rightarrow> Some (recorded_value v)
      | None \<Rightarrow> Option.bind (find (\<lambda>i. Option.bind (spans i) (\<lambda>bag. bag k) \<noteq> None) (rev scope))
                  (\<lambda>i. Option.bind (spans i) (\<lambda>bag. bag k)))"

lemma record_fields_map_of: "record_fields fs bag k = (case map_of (rev fs) k of Some v \<Rightarrow> Some (recorded_value v) | None \<Rightarrow> bag k)"
  by (induction fs arbitrary: bag) (auto simp: record_fields_def split: option.splits)

lemma merged_fields_value: "merged_fields spans scope fs k = field_value spans scope fs k"
proof -
  have "fold (\<lambda>i m. case spans i of None \<Rightarrow> m | Some bag \<Rightarrow> merge_bag m bag) scope Map.empty k
      = Option.bind (find (\<lambda>i. Option.bind (spans i) (\<lambda>bag. bag k) \<noteq> None) (rev scope))
          (\<lambda>i. Option.bind (spans i) (\<lambda>bag. bag k))"
    by (induction scope rule: rev_induct) (auto simp: merge_bag_def map_add_def split: option.splits)
  then show ?thesis
    by (simp add: merged_fields_def merge_bag_def map_add_def field_value_def record_fields_map_of split: option.split)
qed

text \<open>C38: Every log line, field by field: the timestamp, the level and the component are the layer's, whatever
  spans and event call themselves; \<^verbatim>\<open>msg\<close> is the \<^verbatim>\<open>message\<close> field (the format string), or else an explicit
  \<^verbatim>\<open>msg\<close> field, or else null; each of the other nine required keys has the value of its field, or null where
  there is none; every field that is not one of the thirteen is kept with its value, except \<^verbatim>\<open>message\<close>.  A
  field of the event wins over the same field of a span, and an inner span over an outer one.\<close>

theorem log_line_schema:
  "on_event env spans scope fs k =
     (if k = ''ts'' then Some (VString (le_ts env))
      else if k = ''level'' then Some (VString (le_level env))
      else if k = ''component'' then Some (VString (le_component env))
      else if k = ''msg'' then Some (case field_value spans scope fs ''message'' of
          Some v \<Rightarrow> v
        | None \<Rightarrow> (case field_value spans scope fs ''msg'' of Some v \<Rightarrow> v | None \<Rightarrow> VNull))
      else if k \<in> {''request_id'', ''operation_id'', ''file_id'', ''version_id'', ''chunk_id'', ''operation'',
          ''duration_ms'', ''result'', ''error_code''}
        then Some (case field_value spans scope fs k of Some v \<Rightarrow> v | None \<Rightarrow> VNull)
      else if k = ''message'' then None
      else field_value spans scope fs k)"
proof -
  obtain msg merged where t: "take_msg (merged_fields spans scope fs) = (msg, merged)" by fastforce
  have msg: "msg = (case field_value spans scope fs ''message'' of Some v \<Rightarrow> v
      | None \<Rightarrow> (case field_value spans scope fs ''msg'' of Some v \<Rightarrow> v | None \<Rightarrow> VNull))" "merged ''message'' = None"
    using t by (auto simp: take_msg_def merged_fields_value split: option.splits)
  have other: "merged k = field_value spans scope fs k" if "k \<noteq> ''message''" "k \<noteq> ''msg''" for k
    using take_msg_other [OF that, of "merged_fields spans scope fs"] t by (simp add: merged_fields_value)
  show ?thesis
    using on_event_value [OF t, of env k] msg other [of k] by (auto simp: schema_value_def REQUIRED_FIELDS_def)
qed

theorem log_line_schema_witness:
  "on_event \<lparr>le_ts = ''t'', le_level = ''INFO'', le_component = ''space-cloud''\<rparr>
     [1 \<mapsto> [''request_id'' \<mapsto> VString ''r_1'', ''bytes'' \<mapsto> VNumber 1]] [1]
     [(''bytes'', record_u64 9), (''message'', record_debug ''stored'')] ''request_id'' = Some (VString ''r_1'') \<and>
   on_event \<lparr>le_ts = ''t'', le_level = ''INFO'', le_component = ''space-cloud''\<rparr>
     [1 \<mapsto> [''request_id'' \<mapsto> VString ''r_1'', ''bytes'' \<mapsto> VNumber 1]] [1]
     [(''bytes'', record_u64 9), (''message'', record_debug ''stored'')] ''msg'' = Some (VString ''stored'')"
  by (simp add: log_line_schema field_value_def)

section \<open>Fault points\<close>

text \<open>Fault points misbehave only on demand: without the feature every point answers "none"; with it,
  in whatever state tests leave the registry, an armed point answers its action until all are disarmed,
  and a name outside the canonical list never answers anything else than "none".\<close>

theorem fault_points_on_demand:
  assumes "registry_step\<^sup>*\<^sup>* None reg"
  shows "fault_point_off name = FaultNone \<and>
    (name \<notin> set FAULT_POINTS \<longrightarrow> fault_point reg name = FaultNone \<and> fst (arm name a reg) = Panic) \<and>
    (name \<in> set FAULT_POINTS \<longrightarrow> fault_point (snd (arm name a reg)) name = a) \<and>
    fault_point (disarm_all reg) name = FaultNone"
proof -
  have "registry_inv reg"
    using assms
    by (induction rule: rtranclp_induct) (auto intro: registry_step_inv simp: registry_inv_def [of None])
  then show ?thesis
    using fault_point_unknown [of reg name]
    by (auto simp: fault_point_off_def fault_point_def arm_def disarm_all_def Let_def split: option.splits)
qed

theorem fault_points_on_demand_witness:
  "fault_point (snd (arm ''mid_upload'' (FaultError NetworkTimeout) None)) ''mid_upload'' = FaultError NetworkTimeout \<and>
   fault_point None ''no_such_point'' = FaultNone"
proof -
  have "''mid_upload'' \<in> set FAULT_POINTS" "''no_such_point'' \<notin> set FAULT_POINTS"
    by (simp_all add: FAULT_POINTS_def)
  then show ?thesis
    using fault_points_on_demand [OF rtranclp.rtrancl_refl, of "''mid_upload''" "FaultError NetworkTimeout"]
      fault_points_on_demand [OF rtranclp.rtrancl_refl, of "''no_such_point''" FaultNone] by blast
qed

end
