(* ===== verification/Conformance.thy ===== *)
theory Conformance
  imports Object_Store Rust_Strings "HOL-Library.Monad_Syntax"
begin

text \<open>
  The conformance suite of \<^verbatim>\<open>objectstore/src/conformance.rs\<close>: a program over any implementation of the
  trait, here a record of its methods.  A case runs from a state of the store to the state it leaves; a
  failed \<^verbatim>\<open>expect\<close> or assertion ends the suite, which is the value \<open>None\<close>.  The suite is proved to pass in
  an extension of the locale that states the contract of a store, for any store and any digest that
  tells the contents of the suite apart.
\<close>

record 's ObjectStore =
  os_put :: "'s \<Rightarrow> ChunkId \<Rightarrow> bytes \<Rightarrow> unit space_result \<times> 's"
  os_get :: "'s \<Rightarrow> ChunkId \<Rightarrow> bytes space_result"
  os_get_range :: "'s \<Rightarrow> ChunkId \<Rightarrow> u64 \<Rightarrow> u32 \<Rightarrow> bytes space_result"
  os_head :: "'s \<Rightarrow> ChunkId \<Rightarrow> u64 space_result"
  os_exists :: "'s \<Rightarrow> ChunkId \<Rightarrow> bool space_result"

definition expect :: "'a space_result \<Rightarrow> 'a option" where
  "expect r = (case r of Ok a \<Rightarrow> Some a | _ \<Rightarrow> None)"

definition expect_code :: "ErrorCode \<Rightarrow> 'a space_result \<Rightarrow> unit option" where
  "expect_code c r = (case r of Err e \<Rightarrow> if se_code e = c then Some () else None | _ \<Rightarrow> None)"

definition check :: "bool \<Rightarrow> unit option" where
  "check b = (if b then Some () else None)"

definition expect_put :: "'s ObjectStore \<Rightarrow> 's \<Rightarrow> ChunkId \<Rightarrow> bytes \<Rightarrow> 's option" where
  "expect_put S s i bs = map_option (\<lambda>_. snd (os_put S s i bs)) (expect (fst (os_put S s i bs)))"

definition expect_put_code :: "ErrorCode \<Rightarrow> 's ObjectStore \<Rightarrow> 's \<Rightarrow> ChunkId \<Rightarrow> bytes \<Rightarrow> 's option" where
  "expect_put_code c S s i bs =
     map_option (\<lambda>_. snd (os_put S s i bs)) (expect_code c (fst (os_put S s i bs)))"

definition id_for :: "(bytes \<Rightarrow> string) \<Rightarrow> bytes \<Rightarrow> ChunkId" where
  "id_for b3hex bs = ChunkId_from_bytes b3hex bs"

definition literal :: "string \<Rightarrow> bytes" where
  "literal s = map of_char s"

definition cycled_bytes :: bytes where
  "cycled_bytes = map of_nat [0..<1000]"

definition LARGE_SIZE :: nat where
  "LARGE_SIZE = 64 * 1024 * 1024"

definition large_bytes :: bytes where
  "large_bytes = map (\<lambda>i. of_nat (i mod 251)) [0..<LARGE_SIZE]"

definition repeated_bytes :: bytes where
  "repeated_bytes = replicate 12345 7"

section \<open>The cases\<close>

definition put_then_get_returns_identical_bytes ::
  "(bytes \<Rightarrow> string) \<Rightarrow> 's ObjectStore \<Rightarrow> 's \<Rightarrow> 's option" where
  "put_then_get_returns_identical_bytes b3hex S s =
     (let bs = literal ''hello object store''; i = id_for b3hex bs in do {
        s \<leftarrow> expect_put S s i bs;
        got \<leftarrow> expect (os_get S s i);
        check (got = bs);
        Some s })"

definition put_twice_identical_is_ok :: "(bytes \<Rightarrow> string) \<Rightarrow> 's ObjectStore \<Rightarrow> 's \<Rightarrow> 's option" where
  "put_twice_identical_is_ok b3hex S s =
     (let bs = literal ''idempotent put''; i = id_for b3hex bs in do {
        s \<leftarrow> expect_put S s i bs;
        expect_put S s i bs })"

definition put_same_id_different_bytes_conflicts ::
  "(bytes \<Rightarrow> string) \<Rightarrow> 's ObjectStore \<Rightarrow> 's \<Rightarrow> 's option" where
  "put_same_id_different_bytes_conflicts b3hex S s =
     (let bs = literal ''original content''; i = id_for b3hex bs in do {
        s \<leftarrow> expect_put S s i bs;
        expect_put_code IntegrityChunkIdConflict S s i (literal ''different content entirely!!'') })"

definition put_id_not_addressing_bytes_conflicts ::
  "(bytes \<Rightarrow> string) \<Rightarrow> 's ObjectStore \<Rightarrow> 's \<Rightarrow> 's option" where
  "put_id_not_addressing_bytes_conflicts b3hex S s =
     expect_put_code IntegrityChunkIdConflict S s (id_for b3hex (literal ''claimed content''))
       (literal ''actual different content'')"

fun check_ranges :: "'s ObjectStore \<Rightarrow> 's \<Rightarrow> ChunkId \<Rightarrow> bytes \<Rightarrow> (u64 \<times> u32) list \<Rightarrow> unit option" where
  "check_ranges S s i bs [] = Some ()"
| "check_ranges S s i bs ((off, len) # rs) = do {
     got \<leftarrow> expect (os_get_range S s i off len);
     check (length got = unat len);
     check (got = take (unat len) (drop (unat off) bs));
     check_ranges S s i bs rs }"

definition range_get_returns_exactly_length_at_three_offsets ::
  "(bytes \<Rightarrow> string) \<Rightarrow> 's ObjectStore \<Rightarrow> 's \<Rightarrow> 's option" where
  "range_get_returns_exactly_length_at_three_offsets b3hex S s =
     (let bs = cycled_bytes; i = id_for b3hex bs in do {
        s \<leftarrow> expect_put S s i bs;
        check_ranges S s i bs [(0, 10), (500, 200), (990, 10)];
        Some s })"

definition range_beyond_eof_is_an_error_not_a_short_read ::
  "(bytes \<Rightarrow> string) \<Rightarrow> 's ObjectStore \<Rightarrow> 's \<Rightarrow> 's option" where
  "range_beyond_eof_is_an_error_not_a_short_read b3hex S s =
     (let bs = literal ''short''; i = id_for b3hex bs in do {
        s \<leftarrow> expect_put S s i bs;
        expect_code IntegrityLengthMismatch (os_get_range S s i 3 10);
        Some s })"

definition offset_plus_length_overflow_is_invalid_parameter ::
  "(bytes \<Rightarrow> string) \<Rightarrow> 's ObjectStore \<Rightarrow> 's \<Rightarrow> 's option" where
  "offset_plus_length_overflow_is_invalid_parameter b3hex S s =
     (let bs = literal ''overflow probe''; i = id_for b3hex bs in do {
        s \<leftarrow> expect_put S s i bs;
        expect_code InvalidParameter (os_get_range S s i (- 1) 8);
        Some s })"

definition zero_byte_object_round_trips :: "(bytes \<Rightarrow> string) \<Rightarrow> 's ObjectStore \<Rightarrow> 's \<Rightarrow> 's option" where
  "zero_byte_object_round_trips b3hex S s =
     (let i = id_for b3hex [] in do {
        s \<leftarrow> expect_put S s i [];
        got \<leftarrow> expect (os_get S s i);
        check (length got = 0);
        n \<leftarrow> expect (os_head S s i);
        check (n = 0);
        b \<leftarrow> expect (os_exists S s i);
        check b;
        Some s })"

definition large_object_round_trips :: "(bytes \<Rightarrow> string) \<Rightarrow> 's ObjectStore \<Rightarrow> 's \<Rightarrow> 's option" where
  "large_object_round_trips b3hex S s =
     (let bs = large_bytes; i = id_for b3hex bs in do {
        s \<leftarrow> expect_put S s i bs;
        n \<leftarrow> expect (os_head S s i);
        check (n = len_u64 bs);
        tail \<leftarrow> expect (os_get_range S s i (len_u64 bs - 4) 4);
        check (tail = drop (length bs - 4) bs);
        Some s })"

definition missing_object_is_chunk_not_found :: "(bytes \<Rightarrow> string) \<Rightarrow> 's ObjectStore \<Rightarrow> 's \<Rightarrow> 's option" where
  "missing_object_is_chunk_not_found b3hex S s =
     (let i = id_for b3hex (literal ''never stored anywhere at all'') in do {
        expect_code ChunkNotFound (os_get S s i);
        expect_code ChunkNotFound (os_head S s i);
        Some s })"

definition head_returns_correct_size :: "(bytes \<Rightarrow> string) \<Rightarrow> 's ObjectStore \<Rightarrow> 's \<Rightarrow> 's option" where
  "head_returns_correct_size b3hex S s =
     (let bs = repeated_bytes; i = id_for b3hex bs in do {
        s \<leftarrow> expect_put S s i bs;
        n \<leftarrow> expect (os_head S s i);
        check (n = 12345);
        Some s })"

definition exists_matches_reality :: "(bytes \<Rightarrow> string) \<Rightarrow> 's ObjectStore \<Rightarrow> 's \<Rightarrow> 's option" where
  "exists_matches_reality b3hex S s =
     (let bs = literal ''presence check''; i = id_for b3hex bs in do {
        before \<leftarrow> expect (os_exists S s i);
        check (\<not> before);
        s \<leftarrow> expect_put S s i bs;
        after \<leftarrow> expect (os_exists S s i);
        check after;
        Some s })"

text \<open>The sixteen puts are created first and then awaited one after the other.\<close>

fun put_times :: "nat \<Rightarrow> 's ObjectStore \<Rightarrow> ChunkId \<Rightarrow> bytes \<Rightarrow> 's \<Rightarrow> 's option" where
  "put_times 0 S i bs s = Some s"
| "put_times (Suc n) S i bs s = do { s \<leftarrow> expect_put S s i bs; put_times n S i bs s }"

definition concurrent_puts_of_same_id_all_succeed ::
  "(bytes \<Rightarrow> string) \<Rightarrow> 's ObjectStore \<Rightarrow> 's \<Rightarrow> 's option" where
  "concurrent_puts_of_same_id_all_succeed b3hex S s =
     (let bs = literal ''concurrent put target''; i = id_for b3hex bs in do {
        s \<leftarrow> put_times 16 S i bs s;
        n \<leftarrow> expect (os_head S s i);
        check (n = len_u64 bs);
        Some s })"

definition run_conformance_suite :: "(bytes \<Rightarrow> string) \<Rightarrow> 's ObjectStore \<Rightarrow> 's \<Rightarrow> 's option" where
  "run_conformance_suite b3hex S s = do {
     s \<leftarrow> put_then_get_returns_identical_bytes b3hex S s;
     s \<leftarrow> put_twice_identical_is_ok b3hex S s;
     s \<leftarrow> put_same_id_different_bytes_conflicts b3hex S s;
     s \<leftarrow> put_id_not_addressing_bytes_conflicts b3hex S s;
     s \<leftarrow> range_get_returns_exactly_length_at_three_offsets b3hex S s;
     s \<leftarrow> range_beyond_eof_is_an_error_not_a_short_read b3hex S s;
     s \<leftarrow> offset_plus_length_overflow_is_invalid_parameter b3hex S s;
     s \<leftarrow> zero_byte_object_round_trips b3hex S s;
     s \<leftarrow> large_object_round_trips b3hex S s;
     s \<leftarrow> missing_object_is_chunk_not_found b3hex S s;
     s \<leftarrow> head_returns_correct_size b3hex S s;
     s \<leftarrow> exists_matches_reality b3hex S s;
     concurrent_puts_of_same_id_all_succeed b3hex S s }"

section \<open>The suite passes on every store that keeps the contract\<close>

text \<open>\<open>passes\<close>: from states that hold the objects \<open>K\<close> a case succeeds and leaves the objects \<open>K'\<close>.\<close>

definition passes ::
  "('s \<Rightarrow> bool) \<Rightarrow> ('s \<Rightarrow> ChunkId \<Rightarrow> bytes option) \<Rightarrow> ('s \<Rightarrow> 's option)
     \<Rightarrow> (ChunkId \<Rightarrow> bytes option) \<Rightarrow> (ChunkId \<Rightarrow> bytes option) \<Rightarrow> bool" where
  "passes ok objects f K K' \<longleftrightarrow>
     (\<forall>s. ok s \<longrightarrow> objects s = K \<longrightarrow> (\<exists>s'. f s = Some s' \<and> ok s' \<and> objects s' = K'))"

lemma passes_bind:
  "passes ok objects f K K' \<Longrightarrow> passes ok objects g K' K'' \<Longrightarrow>
   passes ok objects (\<lambda>s. Option.bind (f s) g) K K''"
  by (fastforce simp: passes_def)

lemma passes_eq: "passes ok objects f K K' \<Longrightarrow> K' = K'' \<Longrightarrow> passes ok objects f K K''"
  by simp

lemma verify_id_for [simp]: "ChunkId_verify b3hex (id_for b3hex bs) bs"
  by (simp add: id_for_def)

lemma length_literal [simp]: "length (literal s) = length s"
  by (simp add: literal_def)

lemma length_suite_bytes [simp]:
  "length cycled_bytes = 1000" "length large_bytes = LARGE_SIZE" "length repeated_bytes = 12345"
  by (simp_all add: cycled_bytes_def large_bytes_def repeated_bytes_def del: upt_conv_Cons upt_rec_numeral)

lemma suite_fits [simp]:
  "length s < 2 ^ 63 \<Longrightarrow> fits_memory (literal s)" "fits_memory []"
  "fits_memory cycled_bytes" "fits_memory large_bytes" "fits_memory repeated_bytes"
  by (simp_all add: fits_memory_def LARGE_SIZE_def)

lemma expect_simps [simp]:
  "expect (Ok a) = Some a" "check True = Some ()"
  "se_code e = c \<Longrightarrow> expect_code c (Err e) = Some ()"
  by (simp_all add: expect_def check_def expect_code_def)

text \<open>The contents whose addresses the suite uses; all but three of them are stored.\<close>

definition suite_contents :: "bytes list" where
  "suite_contents =
     [literal ''hello object store'', literal ''idempotent put'', literal ''original content'',
      cycled_bytes, literal ''short'', literal ''overflow probe'', [], large_bytes, repeated_bytes,
      literal ''presence check'', literal ''concurrent put target'',
      literal ''claimed content'', literal ''actual different content'',
      literal ''never stored anywhere at all'']"

definition stored_by_suite :: "bytes list" where
  "stored_by_suite = take 11 suite_contents"

locale hashed_store =
  object_store "ChunkId_verify b3hex" "os_put S" "os_get S" "os_get_range S" "os_head S" "os_exists S"
    stored inv
  for b3hex :: "bytes \<Rightarrow> string" and S :: "'s ObjectStore"
    and stored :: "'s \<Rightarrow> ChunkId \<Rightarrow> bytes option" and inv :: "'s \<Rightarrow> bool"
begin

lemma put_passes:
  assumes "fits_memory bs" "K (id_for b3hex bs) = None \<or> K (id_for b3hex bs) = Some bs"
  shows "passes inv stored (\<lambda>s. expect_put S s (id_for b3hex bs) bs) K (K(id_for b3hex bs \<mapsto> bs))"
  using assms put_stores [of _ "id_for b3hex bs" bs] put_inv [of _ bs "id_for b3hex bs"]
  by (auto simp: passes_def expect_put_def)

lemma conflict_passes:
  assumes "\<not> ChunkId_verify b3hex i bs \<or> (K i \<noteq> None \<and> K i \<noteq> Some bs)"
  shows "passes inv stored (\<lambda>s. expect_put_code IntegrityChunkIdConflict S s i bs) K K"
  using assms put_conflict [of _ i bs] by (fastforce simp: passes_def expect_put_code_def)

lemma check_ranges_passes:
  assumes "inv s" "stored s i = Some bs" "ChunkId_verify b3hex i bs"
    and "list_all (\<lambda>(off, len). unat off + unat len \<le> length bs) rs"
  shows "check_ranges S s i bs rs = Some ()"
  using assms(4)
proof (induction rs)
  case (Cons r rs)
  obtain off len where r: "r = (off, len)" by (cases r)
  then have "unat len \<le> length bs - unat off" "unat off + unat len \<le> length bs" using Cons.prems by auto
  with Cons r assms(1-3) show ?case using range_exact [of s i bs off len] by (simp add: min_absorb2)
qed simp

text \<open>A case that puts its content and then only reads.\<close>

lemma put_then_read_passes:
  assumes "fits_memory bs" "K (id_for b3hex bs) = None \<or> K (id_for b3hex bs) = Some bs"
    and "\<And>s. inv s \<Longrightarrow> stored s (id_for b3hex bs) = Some bs \<Longrightarrow> reads s = Some s"
  shows "passes inv stored (\<lambda>s. Option.bind (expect_put S s (id_for b3hex bs) bs) reads)
    K (K(id_for b3hex bs \<mapsto> bs))"
  by (rule passes_bind [OF put_passes [of bs K, OF assms(1,2)]]) (simp add: passes_def assms(3))

lemma put_then_get_returns_identical_bytes_passes:
  assumes "K (id_for b3hex (literal ''hello object store'')) = None \<or> K (id_for b3hex (literal ''hello object store'')) = Some (literal ''hello object store'')"
  shows "passes inv stored (put_then_get_returns_identical_bytes b3hex S) K (K(id_for b3hex (literal ''hello object store'') \<mapsto> (literal ''hello object store'')))"
  unfolding put_then_get_returns_identical_bytes_def [abs_def] Let_def
  by (rule put_then_read_passes [of "literal ''hello object store''" K, OF _ assms]) (simp_all add: get_genuine)

lemma range_get_returns_exactly_length_at_three_offsets_passes:
  assumes "K (id_for b3hex cycled_bytes) = None \<or> K (id_for b3hex cycled_bytes) = Some cycled_bytes"
  shows "passes inv stored (range_get_returns_exactly_length_at_three_offsets b3hex S) K (K(id_for b3hex cycled_bytes \<mapsto> cycled_bytes))"
  unfolding range_get_returns_exactly_length_at_three_offsets_def [abs_def] Let_def
  by (rule put_then_read_passes [of "cycled_bytes" K, OF _ assms]) (simp_all add: check_ranges_passes del: check_ranges.simps)

lemma range_beyond_eof_is_an_error_not_a_short_read_passes:
  assumes "K (id_for b3hex (literal ''short'')) = None \<or> K (id_for b3hex (literal ''short'')) = Some (literal ''short'')"
  shows "passes inv stored (range_beyond_eof_is_an_error_not_a_short_read b3hex S) K (K(id_for b3hex (literal ''short'') \<mapsto> (literal ''short'')))"
  unfolding range_beyond_eof_is_an_error_not_a_short_read_def [abs_def] Let_def
  proof (rule put_then_read_passes [of "literal ''short''" K, OF _ assms], goal_cases)
  case (2 s)
  then obtain e where "os_get_range S s (id_for b3hex (literal ''short'')) 3 10 = Err e"
    "se_code e = IntegrityLengthMismatch"
    using range_past_end [of s _ "literal ''short''" 3 10] by auto
  then show ?case by simp
qed simp

lemma offset_plus_length_overflow_is_invalid_parameter_passes:
  assumes "K (id_for b3hex (literal ''overflow probe'')) = None \<or> K (id_for b3hex (literal ''overflow probe'')) = Some (literal ''overflow probe'')"
  shows "passes inv stored (offset_plus_length_overflow_is_invalid_parameter b3hex S) K (K(id_for b3hex (literal ''overflow probe'') \<mapsto> (literal ''overflow probe'')))"
  unfolding offset_plus_length_overflow_is_invalid_parameter_def [abs_def] Let_def
  proof (rule put_then_read_passes [of "literal ''overflow probe''" K, OF _ assms], goal_cases)
  case (2 s)
  then obtain e where "os_get_range S s (id_for b3hex (literal ''overflow probe'')) (- 1) 8 = Err e"
    "se_code e = InvalidParameter"
    using range_overflow [of s _ "literal ''overflow probe''" "- 1" 8] by (auto simp: unsigned_minus_1_eq_mask mask_eq_exp_minus_1)
  then show ?case by simp
qed simp

lemma zero_byte_object_round_trips_passes:
  assumes "K (id_for b3hex []) = None \<or> K (id_for b3hex []) = Some []"
  shows "passes inv stored (zero_byte_object_round_trips b3hex S) K (K(id_for b3hex [] \<mapsto> []))"
  unfolding zero_byte_object_round_trips_def [abs_def] Let_def
  by (rule put_then_read_passes [of "[]" K, OF _ assms]) (simp_all add: get_genuine head_size has_iff len_u64_def)

lemma large_object_round_trips_passes:
  assumes "K (id_for b3hex large_bytes) = None \<or> K (id_for b3hex large_bytes) = Some large_bytes"
  shows "passes inv stored (large_object_round_trips b3hex S) K (K(id_for b3hex large_bytes \<mapsto> large_bytes))"
  unfolding large_object_round_trips_def [abs_def] Let_def
  proof (rule put_then_read_passes [of "large_bytes" K, OF _ assms], goal_cases)
  case (2 s)
  have len: "unat (len_u64 large_bytes) = LARGE_SIZE" by (simp add: u64_simps)
  have four: "unat (len_u64 large_bytes - 4) = LARGE_SIZE - 4"
    using len by (simp add: unat_sub word_le_nat_alt LARGE_SIZE_def)
  then have "os_get_range S s (id_for b3hex large_bytes) (len_u64 large_bytes - 4) 4
      = Ok (take 4 (drop (LARGE_SIZE - 4) large_bytes))"
    using 2 range_exact [of s _ large_bytes "len_u64 large_bytes - 4" 4] by (simp add: LARGE_SIZE_def)
  then show ?case using 2 by (simp add: head_size LARGE_SIZE_def)
qed simp

lemma head_returns_correct_size_passes:
  assumes "K (id_for b3hex repeated_bytes) = None \<or> K (id_for b3hex repeated_bytes) = Some repeated_bytes"
  shows "passes inv stored (head_returns_correct_size b3hex S) K (K(id_for b3hex repeated_bytes \<mapsto> repeated_bytes))"
  unfolding head_returns_correct_size_def [abs_def] Let_def
  by (rule put_then_read_passes [of "repeated_bytes" K, OF _ assms]) (simp_all add: head_size len_u64_def)

lemma put_twice_identical_is_ok_passes:
  assumes "K (id_for b3hex (literal ''idempotent put'')) = None
      \<or> K (id_for b3hex (literal ''idempotent put'')) = Some (literal ''idempotent put'')"
  shows "passes inv stored (put_twice_identical_is_ok b3hex S) K
    (K(id_for b3hex (literal ''idempotent put'') \<mapsto> literal ''idempotent put''))"
  unfolding put_twice_identical_is_ok_def [abs_def] Let_def
  using passes_bind [OF put_passes [of "literal ''idempotent put''" K, OF _ assms]
      put_passes [of "literal ''idempotent put''" "K(id_for b3hex (literal ''idempotent put'') \<mapsto>
        literal ''idempotent put'')"]]
  by simp

lemma put_same_id_different_bytes_conflicts_passes:
  assumes "K (id_for b3hex (literal ''original content'')) = None
      \<or> K (id_for b3hex (literal ''original content'')) = Some (literal ''original content'')"
  shows "passes inv stored (put_same_id_different_bytes_conflicts b3hex S) K
    (K(id_for b3hex (literal ''original content'') \<mapsto> literal ''original content''))"
proof -
  have "literal ''original content'' \<noteq> literal ''different content entirely!!''"
  proof
    assume "literal ''original content'' = literal ''different content entirely!!''"
    then have "length (literal ''original content'') = length (literal ''different content entirely!!'')" by simp
    then show False by simp
  qed
  then show ?thesis
    unfolding put_same_id_different_bytes_conflicts_def [abs_def] Let_def
    by (intro passes_bind [OF put_passes [of "literal ''original content''" K, OF _ assms] conflict_passes]) simp_all
qed

lemma put_id_not_addressing_bytes_conflicts_passes:
  assumes "id_for b3hex (literal ''claimed content'') \<noteq> id_for b3hex (literal ''actual different content'')"
  shows "passes inv stored (put_id_not_addressing_bytes_conflicts b3hex S) K K"
  unfolding put_id_not_addressing_bytes_conflicts_def [abs_def]
  by (rule conflict_passes) (use assms in \<open>simp add: ChunkId_verify_def id_for_def\<close>)

lemma missing_object_is_chunk_not_found_passes:
  assumes "K (id_for b3hex (literal ''never stored anywhere at all'')) = None"
  shows "passes inv stored (missing_object_is_chunk_not_found b3hex S) K K"
  using assms get_missing [of _ "id_for b3hex (literal ''never stored anywhere at all'')"]
    head_missing [of _ "id_for b3hex (literal ''never stored anywhere at all'')"]
  by (fastforce simp: passes_def missing_object_is_chunk_not_found_def Let_def)

lemma exists_matches_reality_passes:
  assumes "K (id_for b3hex (literal ''presence check'')) = None"
  shows "passes inv stored (exists_matches_reality b3hex S) K
    (K(id_for b3hex (literal ''presence check'') \<mapsto> literal ''presence check''))"
  using assms put_passes [of "literal ''presence check''" K]
  by (fastforce simp: passes_def exists_matches_reality_def Let_def has_iff)

lemma put_times_passes:
  assumes "fits_memory bs" "K (id_for b3hex bs) = Some bs"
  shows "passes inv stored (put_times n S (id_for b3hex bs) bs) K K"
proof (induction n)
  case 0
  then show ?case by (simp add: passes_def)
next
  case (Suc n)
  have "passes inv stored (\<lambda>s. expect_put S s (id_for b3hex bs) bs) K K"
    using put_passes [of bs K] assms by (simp add: map_upd_triv)
  from passes_bind [OF this Suc] show ?case by (simp add: passes_def)
qed

lemma concurrent_puts_of_same_id_all_succeed_passes:
  assumes "K (id_for b3hex (literal ''concurrent put target'')) = None"
  shows "passes inv stored (concurrent_puts_of_same_id_all_succeed b3hex S) K
    (K(id_for b3hex (literal ''concurrent put target'') \<mapsto> literal ''concurrent put target''))"
proof -
  let ?bs = "literal ''concurrent put target''"
  let ?K = "K(id_for b3hex ?bs \<mapsto> ?bs)"
  have "put_times 16 S (id_for b3hex ?bs) ?bs =
      (\<lambda>s. Option.bind (expect_put S s (id_for b3hex ?bs) ?bs) (put_times 15 S (id_for b3hex ?bs) ?bs))"
    by (simp add: eval_nat_numeral fun_eq_iff)
  then have "passes inv stored (put_times 16 S (id_for b3hex ?bs) ?bs) K ?K"
    using passes_bind [OF put_passes [of ?bs K] put_times_passes [of ?bs ?K 15]] assms by simp
  then show ?thesis
    unfolding concurrent_puts_of_same_id_all_succeed_def [abs_def] Let_def
    by (rule passes_bind) (simp add: passes_def head_size)
qed

lemmas suite_steps =
  passes_bind [OF put_twice_identical_is_ok_passes]
  passes_bind [OF put_same_id_different_bytes_conflicts_passes]
  passes_bind [OF put_id_not_addressing_bytes_conflicts_passes]
  passes_bind [OF range_get_returns_exactly_length_at_three_offsets_passes]
  passes_bind [OF range_beyond_eof_is_an_error_not_a_short_read_passes]
  passes_bind [OF offset_plus_length_overflow_is_invalid_parameter_passes]
  passes_bind [OF zero_byte_object_round_trips_passes]
  passes_bind [OF large_object_round_trips_passes]
  passes_bind [OF missing_object_is_chunk_not_found_passes]
  passes_bind [OF head_returns_correct_size_passes]
  passes_bind [OF exists_matches_reality_passes]

lemma suite_passes:
  assumes new: "\<forall>bs\<in>set suite_contents. K (id_for b3hex bs) = None"
    and dist: "distinct (map (id_for b3hex) suite_contents)"
  shows "passes inv stored (run_conformance_suite b3hex S) K
    (fold (\<lambda>bs K. K(id_for b3hex bs \<mapsto> bs)) stored_by_suite K)"
proof -
  have sym: "distinct (rev (map (id_for b3hex) suite_contents))" using dist by simp
  note differ = dist [unfolded suite_contents_def, simplified] sym [unfolded suite_contents_def, simplified]
  note absent = new [unfolded suite_contents_def, simplified]
  show ?thesis
    unfolding run_conformance_suite_def [abs_def]
    by (rule passes_eq, rule passes_bind [OF put_then_get_returns_identical_bytes_passes],
        simp add: absent, intro suite_steps)
      (simp_all add: absent differ stored_by_suite_def suite_contents_def
        concurrent_puts_of_same_id_all_succeed_passes)
qed

end

text \<open>The in-memory store as a record of its methods; it keeps the contract, so it passes.\<close>

definition fake_store :: "(bytes \<Rightarrow> string) \<Rightarrow> FakeObjectStore ObjectStore" where
  "fake_store b3hex =
     \<lparr>os_put = fake_put b3hex, os_get = fake_get b3hex, os_get_range = fake_get_range b3hex,
      os_head = fake_head, os_exists = fake_exists\<rparr>"

interpretation suite: hashed_store b3hex "fake_store b3hex" "\<lambda>g. g" fake_inv for b3hex
  unfolding hashed_store_def
  by (simp add: fake_store_def fake.object_store_axioms)

end
