(* ===== verification/Tool_Properties.thy ===== *)
theory Tool_Properties
  imports Contract_Properties Conformance Generators
begin

text \<open>
  The properties of the programs the repository uses to test itself: the conformance suite of an
  object store and the generators of test data.  The instances use a digest that spells out the
  content and a generator of zero bytes.
\<close>

definition spelled :: "bytes \<Rightarrow> string" where
  "spelled bs = map (\<lambda>b. char_of (unat b)) bs"

definition zero_rng :: "unit Rng" where
  "zero_rng = \<lparr>rng_seed_from_u64 = (\<lambda>s. ()), rng_fill_bytes = (\<lambda>r n. (replicate n 0, ())),
     rng_next_u32 = (\<lambda>r. (0, ()))\<rparr>"

lemma zero_rng_ok: "rng_ok zero_rng"
  by (simp add: rng_ok_def zero_rng_def)

lemma inj_spelled: "inj spelled"
proof -
  have "inj (\<lambda>b :: u8. (char_of (unat b) :: char))"
  proof (rule injI)
    fix b c :: u8
    assume "(char_of (unat b) :: char) = char_of (unat c)"
    then have "(of_char (char_of (unat b)) :: nat) = of_char (char_of (unat c))" by simp
    then have "unat b mod 256 = unat c mod 256" by simp
    then show "b = c" using unsigned_less [of b, where 'a=nat] unsigned_less [of c, where 'a=nat]
      by (simp add: word_unat_eq_iff)
  qed
  then show ?thesis unfolding spelled_def [abs_def] by (rule inj_mapI)
qed

section \<open>The conformance suite\<close>

text \<open>The contents of the suite differ in their lengths, or else in their first byte.\<close>

lemma suite_contents_distinct: "distinct suite_contents"
proof -
  have "distinct (map (\<lambda>bs. (length bs, take 1 bs)) suite_contents)"
    by (simp add: suite_contents_def LARGE_SIZE_def literal_def)
  then show ?thesis by (simp only: distinct_map)
qed

lemma inj_id_for: "inj b3hex \<Longrightarrow> inj (id_for b3hex)"
  by (simp add: inj_def id_for_def ChunkId_from_bytes_def)

lemma fold_stored:
  assumes "distinct (map f xs)"
  shows "fold (\<lambda>x K. K(f x \<mapsto> x)) xs K = K ++ map_of (map (\<lambda>x. (f x, x)) xs)"
  using assms
proof (induction xs arbitrary: K)
  case (Cons x xs)
  then have "f x \<notin> dom (map_of (map (\<lambda>x. (f x, x)) xs))" by (simp add: dom_map_of_conv_image_fst image_image)
  then have "K(f x \<mapsto> x) ++ map_of (map (\<lambda>x. (f x, x)) xs)
      = (K ++ map_of (map (\<lambda>x. (f x, x)) xs))(f x \<mapsto> x)"
    by (rule map_add_upd_left)
  then show ?case using Cons by (simp del: fun_upd_apply)
qed simp

text \<open>C34: The conformance suite passes on the in-memory store, from any state in which the contents of the
  suite are not stored yet and with any digest that tells them apart; it leaves every earlier object in
  place, and each object it put reads back as the bytes that were put.\<close>

theorem conformance_suite_passes:
  assumes "fake_inv g" "\<forall>bs\<in>set suite_contents. g (id_for b3hex bs) = None"
    and "distinct (map (id_for b3hex) suite_contents)"
  shows "\<exists>g'. run_conformance_suite b3hex (fake_store b3hex) g = Some g' \<and> g \<subseteq>\<^sub>m g' \<and>
    (\<forall>bs\<in>set stored_by_suite. fake_get b3hex g' (id_for b3hex bs) = Ok bs)"
proof -
  let ?new = "map_of (map (\<lambda>bs. (id_for b3hex bs, bs)) stored_by_suite)"
  have dist: "distinct (map (id_for b3hex) stored_by_suite)"
    using assms(3) by (simp add: stored_by_suite_def take_map [symmetric])
  have sub: "set stored_by_suite \<subseteq> set suite_contents"
    by (simp add: stored_by_suite_def set_take_subset)
  obtain g' where g': "run_conformance_suite b3hex (fake_store b3hex) g = Some g'" "g' = g ++ ?new"
    using suite.suite_passes [OF assms(2,3)] assms(1) by (auto simp: passes_def fold_stored [OF dist])
  have "g' (id_for b3hex bs) = Some bs" if "bs \<in> set stored_by_suite" for bs
    using that dist by (simp add: g'(2) map_add_Some_iff map_of_eq_Some_iff comp_def)
  moreover have "g \<subseteq>\<^sub>m g'"
  proof (unfold map_le_def, rule ballI)
    fix i assume "i \<in> dom g"
    then have "?new i = None" using assms(2) sub by (auto simp: map_of_eq_None_iff)
    then show "g i = g' i" by (simp add: g'(2) map_add_def)
  qed
  ultimately show ?thesis using g'(1) by (auto simp: fake_get_def)
qed

theorem conformance_suite_passes_witness:
  "\<exists>g'. run_conformance_suite spelled (fake_store spelled) fake_new = Some g' \<and>
     fake_get spelled g' (id_for spelled repeated_bytes) = Ok repeated_bytes"
proof -
  have "distinct (map (id_for spelled) suite_contents)"
    using suite_contents_distinct inj_on_subset [OF inj_id_for [OF inj_spelled] subset_UNIV] by (simp add: distinct_map)
  moreover have "repeated_bytes \<in> set stored_by_suite" by (simp add: stored_by_suite_def suite_contents_def)
  ultimately show ?thesis
    using conformance_suite_passes [of fake_new spelled] by (auto simp: fake_inv_def fake_new_def)
qed

section \<open>Generated data\<close>

text \<open>C35: Generating a file in blocks terminates for every size and every block that a buffer can have (at
  least one byte, shorter than \<^verbatim>\<open>2^63\<close>), whatever the random number generator does as long as it fills the
  buffers it is given: it hands out full blocks and one rest, and joined they are the bytes that generating
  the file at once gives where the file fits a buffer, none of them zero.  A block of 0 or of \<^verbatim>\<open>2^63\<close> bytes
  and more is a panic, and so is a whole file of such a size.\<close>

theorem streaming_equals_whole:
  assumes "rng_ok R"
  shows "if 0 < block \<and> unat block < 2 ^ 63
    then \<exists>pieces. generate_file_streaming R n seed block = Ok pieces \<and>
      map length pieces = cut_sizes (unat n) (unat block) \<and> 0 \<notin> set (concat pieces) \<and>
      generate_file_bytes R n seed = (if unat n < 2 ^ 63 then Ok (concat pieces) else Panic)
    else generate_file_streaming R n seed block = Panic"
proof (cases "0 < block \<and> unat block < 2 ^ 63")
  case True
  then have block: "0 < unat block" "block \<noteq> 0" "unat block < 2 ^ 63" by (auto simp: word_less_nat_alt)
  obtain pieces st where p: "streaming_loop R (unat block) (unat n) (ByteStream_new R seed) = Ok pieces"
    "fill R (unat n) (ByteStream_new R seed) = Ok (concat pieces, st)"
    "map length pieces = cut_sizes (unat n) (unat block)"
    using streaming_loop_spec [OF assms block(1) stream_ok_new] by blast
  moreover have "0 \<notin> set (concat pieces)"
    using fill_total [OF assms stream_ok_new [of R seed], of "unat n"] p(2) by auto
  ultimately show ?thesis
    using True block by (simp add: generate_file_streaming_def generate_file_bytes_def zeroed_def map_ok_def)
next
  case False
  then have "block = 0 \<or> \<not> unat block < 2 ^ 63" by (auto simp: word_gt_0)
  then show ?thesis using False by (auto simp: generate_file_streaming_def zeroed_def)
qed

theorem streaming_equals_whole_witness:
  "\<exists>pieces. generate_file_streaming zero_rng 10000 3 4096 = Ok pieces \<and>
     map length pieces = [4096, 4096, 1808] \<and> generate_file_bytes zero_rng 10000 3 = Ok (concat pieces)"
proof -
  have "unat (10000 :: u64) = 10000" "unat (4096 :: u64) = 4096" "replicate 2 x = [x, x]" for x :: nat
    by (simp_all, simp add: numeral_2_eq_2)
  then have "cut_sizes (unat (10000 :: u64)) (unat (4096 :: u64)) = [4096, 4096, 1808]"
    by (simp add: cut_sizes_def)
  then show ?thesis using streaming_equals_whole [OF zero_rng_ok, of 4096 10000 3] by auto
qed

text \<open>C36: Generating a manifest succeeds for every file shorter than \<^verbatim>\<open>2^63\<close> bytes and every chunk size but 0
  (on which the source panics), as long as the random number generator fills the buffers it is given: the
  bodies are the generated file, cut into full chunks and one rest; if no two of them collide under the
  digest, the manifest passes the validator, and whatever store holds the bodies under their ids, the
  manifest names exactly the generated file.\<close>

theorem generated_manifest_valid:
  assumes "rng_ok R" "hex_digest b3hex" "unat file_size < 2 ^ 63" "0 < chunk_size'"
  shows "\<exists>m bodies. generate_manifest R b3hex p fresh file_size chunk_size' seed = Ok (m, bodies) \<and>
    map (length \<circ> snd) bodies = cut_sizes (unat file_size) (unat chunk_size') \<and>
    generate_file_bytes R file_size seed = Ok (concat (map snd bodies)) \<and>
    (inj_on b3hex (snd ` set bodies) \<longrightarrow> validate_manifest m = Ok ()) \<and>
    (\<forall>content. (\<forall>(c, bs)\<in>set bodies. content (c_chunk_id c) = Some bs) \<longrightarrow>
      file_bytes content m = concat (map snd bodies))"
proof -
  obtain g where g: "generate_manifest R b3hex p fresh file_size chunk_size' seed =
      Ok (\<lparr>m_manifest_id = fresh, m_total_size = file_size, m_chunk_count = len_u64 (g_entries g),
           m_entries = g_entries g, m_chunks = g_chunks g\<rparr>, g_bodies g)" (is "_ = Ok (?m, _)")
    "generated_ok b3hex g" "g_offset g = file_size"
    "generate_file_bytes R file_size seed = Ok (concat (map snd (g_bodies g)))"
    "map (length \<circ> snd) (g_bodies g) = cut_sizes (unat file_size) (unat chunk_size')"
    by (rule generate_manifest_Ok [OF assms(1,3,4), of b3hex p fresh seed])
  have "validate_manifest ?m = Ok ()" if "inj_on b3hex (snd ` set (g_bodies g))"
    using generated_manifest_ok [OF g(2) _ assms(2) that, of fresh] assms(3) g(3)
    by (simp add: manifest_ok_validates)
  moreover have "file_bytes content ?m = concat (map snd (g_bodies g))"
    if "\<forall>(c, bs)\<in>set (g_bodies g). content (c_chunk_id c) = Some bs" for content
    using generated_file_bytes [OF g(2) that] by simp
  ultimately show ?thesis using g(1,4,5) by blast
qed

theorem generated_manifest_valid_witness:
  "\<exists>m c bs. generate_manifest zero_rng zero_hex Debug (UuidId 7) 5 8 1 = Ok (m, [(c, bs)]) \<and>
     length bs = 5 \<and> validate_manifest m = Ok ()"
proof -
  have "cut_sizes (unat (5 :: u64)) (unat (8 :: u64)) = [5]" by (simp add: cut_sizes_def)
  then obtain m bodies where m: "generate_manifest zero_rng zero_hex Debug (UuidId 7) 5 8 1 = Ok (m, bodies)"
      "map (length \<circ> snd) bodies = [5]" "inj_on zero_hex (snd ` set bodies) \<longrightarrow> validate_manifest m = Ok ()"
    using generated_manifest_valid [OF zero_rng_ok zero_hex_digest, of 5 8 Debug "UuidId 7" 1] by auto
  then obtain c bs where "bodies = [(c, bs)]" "length bs = 5" by (auto simp: map_eq_Cons_conv)
  with m show ?thesis by auto
qed

end
