(* ===== verification/Damage_Properties.thy ===== *)
theory Damage_Properties
  imports Samples Damage
begin

text \<open>
  The properties of the negative paths of the contract chain: damage behind the server's back reaches
  the client as the error the contract names and touches no other file, and a manifest that is not
  valid never becomes the content of a version.
\<close>





end
