(* ===== verification/Wire_Format.thy ===== *)
theory Wire_Format
  imports Serde Api_Contract Cloud_Client
begin

text \<open>
  The JSON documents of the contract: what the serde derives on the types of \<^verbatim>\<open>contracts/src\<close> write and
  read, field by field.  \<open>WireEnv\<close> holds what belongs to the libraries: the texts of UUIDs and times, which
  sequences may stand for a struct and which documents other than a string name a variant.  What the
  model of the service takes a body to be, the value it was written from, is proved to be what these
  readers make of the document, also for a body of another type than the reader expects.
\<close>

section \<open>What the libraries do\<close>

record WireEnv =
  we_uuid_show :: "Uuid \<Rightarrow> string"
  we_uuid_parse :: "string \<Rightarrow> Uuid option"
  we_time_show :: "DateTime \<Rightarrow> string"
  we_time_parse :: "string \<Rightarrow> DateTime option"
  we_seq_ok :: "nat \<Rightarrow> nat \<Rightarrow> bool"
  we_variant :: "Doc \<Rightarrow> string option"

definition wire_ok :: "WireEnv \<Rightarrow> bool" where
  "wire_ok we \<longleftrightarrow> uuid_text (we_uuid_parse we) (we_uuid_show we) \<and>
     (\<forall>t. we_time_parse we (we_time_show we t) = Some t)"

section \<open>Identities, times and enumerations\<close>

definition enc_id :: "WireEnv \<Rightarrow> 'k uuid_id \<Rightarrow> Doc" where
  "enc_id we i = DStr (we_uuid_show we (as_uuid i))"

definition dec_id :: "WireEnv \<Rightarrow> Doc \<Rightarrow> 'k uuid_id option" where
  "dec_id we d = do { s \<leftarrow> dec_string d; u \<leftarrow> we_uuid_parse we s; Some (UuidId u) }"

definition enc_chunk_id :: "ChunkId \<Rightarrow> Doc" where
  "enc_chunk_id i = DStr (as_str i)"

definition dec_chunk_id :: "Doc \<Rightarrow> ChunkId option" where
  "dec_chunk_id d = do { s \<leftarrow> dec_string d; Some (ChunkId s) }"

definition enc_time :: "WireEnv \<Rightarrow> DateTime \<Rightarrow> Doc" where
  "enc_time we t = DStr (we_time_show we t)"

definition dec_time :: "WireEnv \<Rightarrow> Doc \<Rightarrow> DateTime option" where
  "dec_time we d = do { s \<leftarrow> dec_string d; we_time_parse we s }"

text \<open>\<^verbatim>\<open>rename_all = "SCREAMING_SNAKE_CASE"\<close>: an underscore before every capital but the first, all in capitals.\<close>

definition is_upper :: "char \<Rightarrow> bool" where
  "is_upper c \<longleftrightarrow> (let n = of_char c :: nat in 65 \<le> n \<and> n \<le> 90)"

definition to_upper :: "char \<Rightarrow> char" where
  "to_upper c = (let n = of_char c :: nat in if 97 \<le> n \<and> n \<le> 122 then char_of (n - 32) else c)"

fun snake_tail :: "string \<Rightarrow> string" where
  "snake_tail [] = []"
| "snake_tail (c # cs) = (if is_upper c then [CHR ''_'', c] else [to_upper c]) @ snake_tail cs"

fun screaming_snake :: "string \<Rightarrow> string" where
  "screaming_snake [] = []"
| "screaming_snake (c # cs) = to_upper c # snake_tail cs"

declare screaming_snake.simps [simp del] snake_tail.simps [simp del]

definition variant_name :: "WireEnv \<Rightarrow> Doc \<Rightarrow> string option" where
  "variant_name we d = (case d of DStr s \<Rightarrow> Some s | _ \<Rightarrow> we_variant we d)"

definition enc_code :: "ErrorCode \<Rightarrow> Doc" where
  "enc_code c = DStr (screaming_snake (debug_code c))"

definition dec_code :: "WireEnv \<Rightarrow> Doc \<Rightarrow> ErrorCode option" where
  "dec_code we d = do { s \<leftarrow> variant_name we d; find (\<lambda>c. screaming_snake (debug_code c) = s) ALL_CODES }"

definition enc_state :: "VersionState \<Rightarrow> Doc" where
  "enc_state s = DStr (screaming_snake (debug_state s))"

definition dec_state :: "WireEnv \<Rightarrow> Doc \<Rightarrow> VersionState option" where
  "dec_state we d =
     do { s \<leftarrow> variant_name we d; find (\<lambda>v. screaming_snake (debug_state v) = s) [Candidate, Committed] }"

section \<open>The domain model\<close>

definition enc_File :: "WireEnv \<Rightarrow> File \<Rightarrow> Doc" where
  "enc_File we f = DMap
     [(''file_id'', enc_id we (f_file_id f)),
      (''parent_id'', enc_id we (f_parent_id f)),
      (''name'', DStr (f_name f)),
      (''current_version_id'', enc_option (enc_id we) (f_current_version_id f)),
      (''created_at'', enc_time we (f_created_at f)),
      (''modified_at'', enc_time we (f_modified_at f))]"

definition dec_File :: "WireEnv \<Rightarrow> Doc \<Rightarrow> File option" where
  "dec_File we d = do {
     field \<leftarrow> read_fields (we_seq_ok we) False
       [''file_id'', ''parent_id'', ''name'', ''current_version_id'', ''created_at'', ''modified_at''] d;
     fid \<leftarrow> required (dec_id we) (field ''file_id'');
     parent \<leftarrow> required (dec_id we) (field ''parent_id'');
     name \<leftarrow> required dec_string (field ''name'');
     current \<leftarrow> optional (dec_id we) (field ''current_version_id'');
     created \<leftarrow> required (dec_time we) (field ''created_at'');
     modified \<leftarrow> required (dec_time we) (field ''modified_at'');
     Some \<lparr>f_file_id = fid, f_parent_id = parent, f_name = name, f_current_version_id = current,
           f_created_at = created, f_modified_at = modified\<rparr> }"

definition enc_Version :: "WireEnv \<Rightarrow> Version \<Rightarrow> Doc" where
  "enc_Version we v = DMap
     [(''version_id'', enc_id we (v_version_id v)),
      (''file_id'', enc_id we (v_file_id v)),
      (''parent_version_id'', enc_option (enc_id we) (v_parent_version_id v)),
      (''manifest_id'', enc_id we (v_manifest_id v)),
      (''state'', enc_state (v_state v)),
      (''created_at'', enc_time we (v_created_at v))]"

definition dec_Version :: "WireEnv \<Rightarrow> Doc \<Rightarrow> Version option" where
  "dec_Version we d = do {
     field \<leftarrow> read_fields (we_seq_ok we) False
       [''version_id'', ''file_id'', ''parent_version_id'', ''manifest_id'', ''state'', ''created_at''] d;
     vid \<leftarrow> required (dec_id we) (field ''version_id'');
     fid \<leftarrow> required (dec_id we) (field ''file_id'');
     parent \<leftarrow> optional (dec_id we) (field ''parent_version_id'');
     mid \<leftarrow> required (dec_id we) (field ''manifest_id'');
     state \<leftarrow> required (dec_state we) (field ''state'');
     created \<leftarrow> required (dec_time we) (field ''created_at'');
     Some \<lparr>v_version_id = vid, v_file_id = fid, v_parent_version_id = parent, v_manifest_id = mid,
           v_state = state, v_created_at = created\<rparr> }"

definition enc_Chunk :: "Chunk \<Rightarrow> Doc" where
  "enc_Chunk c = DMap [(''chunk_id'', enc_chunk_id (c_chunk_id c)), (''size'', enc_word (c_size c))]"

definition dec_Chunk :: "WireEnv \<Rightarrow> Doc \<Rightarrow> Chunk option" where
  "dec_Chunk we d = do {
     field \<leftarrow> read_fields (we_seq_ok we) False [''chunk_id'', ''size''] d;
     i \<leftarrow> required dec_chunk_id (field ''chunk_id'');
     n \<leftarrow> required dec_word (field ''size'');
     Some \<lparr>c_chunk_id = i, c_size = n\<rparr> }"

definition enc_ManifestEntry :: "ManifestEntry \<Rightarrow> Doc" where
  "enc_ManifestEntry e = DMap
     [(''logical_offset'', enc_word (e_logical_offset e)),
      (''length'', enc_word (e_length e)),
      (''chunk_id'', enc_chunk_id (e_chunk_id e)),
      (''chunk_offset'', enc_word (e_chunk_offset e))]"

definition dec_ManifestEntry :: "WireEnv \<Rightarrow> Doc \<Rightarrow> ManifestEntry option" where
  "dec_ManifestEntry we d = do {
     field \<leftarrow> read_fields (we_seq_ok we) False [''logical_offset'', ''length'', ''chunk_id'', ''chunk_offset''] d;
     at \<leftarrow> required dec_word (field ''logical_offset'');
     n \<leftarrow> required dec_word (field ''length'');
     i \<leftarrow> required dec_chunk_id (field ''chunk_id'');
     start \<leftarrow> required dec_word (field ''chunk_offset'');
     Some \<lparr>e_logical_offset = at, e_length = n, e_chunk_id = i, e_chunk_offset = start\<rparr> }"

definition enc_Manifest :: "WireEnv \<Rightarrow> Manifest \<Rightarrow> Doc" where
  "enc_Manifest we m = DMap
     [(''manifest_id'', enc_id we (m_manifest_id m)),
      (''total_size'', enc_word (m_total_size m)),
      (''chunk_count'', enc_word (m_chunk_count m)),
      (''entries'', enc_list enc_ManifestEntry (m_entries m)),
      (''chunks'', enc_list enc_Chunk (m_chunks m))]"

definition dec_Manifest :: "WireEnv \<Rightarrow> Doc \<Rightarrow> Manifest option" where
  "dec_Manifest we d = do {
     field \<leftarrow> read_fields (we_seq_ok we) False
       [''manifest_id'', ''total_size'', ''chunk_count'', ''entries'', ''chunks''] d;
     mid \<leftarrow> required (dec_id we) (field ''manifest_id'');
     total \<leftarrow> required dec_word (field ''total_size'');
     count \<leftarrow> required dec_word (field ''chunk_count'');
     entries \<leftarrow> required (dec_list (dec_ManifestEntry we)) (field ''entries'');
     chunks \<leftarrow> required (dec_list (dec_Chunk we)) (field ''chunks'');
     Some \<lparr>m_manifest_id = mid, m_total_size = total, m_chunk_count = count, m_entries = entries,
           m_chunks = chunks\<rparr> }"

section \<open>Errors\<close>

text \<open>\<^verbatim>\<open>skip_serializing_if = "Option::is_none"\<close>: an absent part is left out, and read back as absent.\<close>

definition present :: "string \<Rightarrow> Doc option \<Rightarrow> (string \<times> Doc) list" where
  "present k x = (case x of None \<Rightarrow> [] | Some d \<Rightarrow> [(k, d)])"

fun enc_error :: "WireEnv \<Rightarrow> SpaceError \<Rightarrow> Doc" where
  "enc_error we (SpaceError c msg oi ri src) = DMap
     ([(''code'', enc_code c), (''message'', DStr msg)]
      @ present ''operation_id'' (map_option (enc_id we) oi)
      @ present ''request_id'' (map_option (enc_id we) ri)
      @ present ''source'' (map_option (enc_error we) src))"

function dec_error :: "WireEnv \<Rightarrow> Doc \<Rightarrow> SpaceError option" where
  "dec_error we d = do {
     field \<leftarrow> read_fields (we_seq_ok we) False [''code'', ''message'', ''operation_id'', ''request_id'', ''source''] d;
     c \<leftarrow> required (dec_code we) (field ''code'');
     msg \<leftarrow> required dec_string (field ''message'');
     oi \<leftarrow> optional (dec_id we) (field ''operation_id'');
     ri \<leftarrow> optional (dec_id we) (field ''request_id'');
     src \<leftarrow> (case field ''source'' of
         Given s \<Rightarrow> if s = DNull then Some None else map_option Some (dec_error we s)
       | Missing \<Rightarrow> Some None
       | CutOff \<Rightarrow> None);
     Some (SpaceError c msg oi ri src) }"
  by pat_completeness auto
termination by (relation "measure (\<lambda>(we, d). size d)") (auto dest: read_fields_smaller)

declare dec_error.simps [simp del]

section \<open>Requests\<close>

text \<open>\<^verbatim>\<open>#[serde(deny_unknown_fields)]\<close> on each.\<close>

definition enc_CreateFileRequest :: "WireEnv \<Rightarrow> CreateFileRequest \<Rightarrow> Doc" where
  "enc_CreateFileRequest we r = DMap
     [(''parent_id'', enc_id we (cfr_parent_id r)),
      (''name'', DStr (cfr_name r)),
      (''idempotency_key'', DStr (cfr_idempotency_key r))]"

definition dec_CreateFileRequest :: "WireEnv \<Rightarrow> Doc \<Rightarrow> CreateFileRequest option" where
  "dec_CreateFileRequest we d = do {
     field \<leftarrow> read_fields (we_seq_ok we) True [''parent_id'', ''name'', ''idempotency_key''] d;
     parent \<leftarrow> required (dec_id we) (field ''parent_id'');
     name \<leftarrow> required dec_string (field ''name'');
     key \<leftarrow> required dec_string (field ''idempotency_key'');
     Some \<lparr>cfr_parent_id = parent, cfr_name = name, cfr_idempotency_key = key\<rparr> }"

definition enc_CreateVersionRequest :: "WireEnv \<Rightarrow> CreateVersionRequest \<Rightarrow> Doc" where
  "enc_CreateVersionRequest we r = DMap
     [(''version_id'', enc_id we (cvr_version_id r)),
      (''parent_version_id'', enc_option (enc_id we) (cvr_parent_version_id r)),
      (''manifest_id'', enc_id we (cvr_manifest_id r))]"

definition dec_CreateVersionRequest :: "WireEnv \<Rightarrow> Doc \<Rightarrow> CreateVersionRequest option" where
  "dec_CreateVersionRequest we d = do {
     field \<leftarrow> read_fields (we_seq_ok we) True [''version_id'', ''parent_version_id'', ''manifest_id''] d;
     vid \<leftarrow> required (dec_id we) (field ''version_id'');
     parent \<leftarrow> optional (dec_id we) (field ''parent_version_id'');
     mid \<leftarrow> required (dec_id we) (field ''manifest_id'');
     Some \<lparr>cvr_version_id = vid, cvr_parent_version_id = parent, cvr_manifest_id = mid\<rparr> }"

definition enc_CommitVersionRequest :: "CommitVersionRequest \<Rightarrow> Doc" where
  "enc_CommitVersionRequest r = DMap []"

definition dec_CommitVersionRequest :: "WireEnv \<Rightarrow> Doc \<Rightarrow> CommitVersionRequest option" where
  "dec_CommitVersionRequest we d = do {
     field \<leftarrow> read_fields (we_seq_ok we) True [] d;
     Some CommitVersionRequest }"

definition enc_PutManifestRequest :: "WireEnv \<Rightarrow> PutManifestRequest \<Rightarrow> Doc" where
  "enc_PutManifestRequest we r = DMap [(''manifest'', enc_Manifest we (pmr_manifest r))]"

definition dec_PutManifestRequest :: "WireEnv \<Rightarrow> Doc \<Rightarrow> PutManifestRequest option" where
  "dec_PutManifestRequest we d = do {
     field \<leftarrow> read_fields (we_seq_ok we) True [''manifest''] d;
     m \<leftarrow> required (dec_Manifest we) (field ''manifest'');
     Some \<lparr>pmr_manifest = m\<rparr> }"

definition enc_RegisterChunkRequest :: "RegisterChunkRequest \<Rightarrow> Doc" where
  "enc_RegisterChunkRequest r = DMap
     [(''chunk_id'', enc_chunk_id (rcr_chunk_id r)), (''size'', enc_word (rcr_size r))]"

definition dec_RegisterChunkRequest :: "WireEnv \<Rightarrow> Doc \<Rightarrow> RegisterChunkRequest option" where
  "dec_RegisterChunkRequest we d = do {
     field \<leftarrow> read_fields (we_seq_ok we) True [''chunk_id'', ''size''] d;
     i \<leftarrow> required dec_chunk_id (field ''chunk_id'');
     n \<leftarrow> required dec_word (field ''size'');
     Some \<lparr>rcr_chunk_id = i, rcr_size = n\<rparr> }"

section \<open>Responses\<close>

text \<open>The macro \<^verbatim>\<open>response!\<close> with one field: \<^verbatim>\<open>contract_version\<close> has a default.\<close>

definition enc_response :: "string \<Rightarrow> ('a \<Rightarrow> Doc) \<Rightarrow> u32 \<Rightarrow> 'a \<Rightarrow> Doc" where
  "enc_response name enc cv x = DMap [(''contract_version'', enc_word cv), (name, enc x)]"

definition dec_response :: "WireEnv \<Rightarrow> string \<Rightarrow> (Doc \<Rightarrow> 'a option) \<Rightarrow> Doc \<Rightarrow> (u32 \<times> 'a) option" where
  "dec_response we name dec d = do {
     field \<leftarrow> read_fields (we_seq_ok we) False [''contract_version'', name] d;
     cv \<leftarrow> defaulted CONTRACT_VERSION dec_word (field ''contract_version'');
     x \<leftarrow> required dec (field name);
     Some (cv, x) }"

definition enc_FileResponse :: "WireEnv \<Rightarrow> FileResponse \<Rightarrow> Doc" where
  "enc_FileResponse we r = enc_response ''file'' (enc_File we) (fr_contract_version r) (fr_file r)"

definition dec_FileResponse :: "WireEnv \<Rightarrow> Doc \<Rightarrow> FileResponse option" where
  "dec_FileResponse we d = do {
     (cv, f) \<leftarrow> dec_response we ''file'' (dec_File we) d;
     Some \<lparr>fr_contract_version = cv, fr_file = f\<rparr> }"

definition enc_ListChildrenResponse :: "WireEnv \<Rightarrow> ListChildrenResponse \<Rightarrow> Doc" where
  "enc_ListChildrenResponse we r =
     enc_response ''files'' (enc_list (enc_File we)) (lcr_contract_version r) (lcr_files r)"

definition dec_ListChildrenResponse :: "WireEnv \<Rightarrow> Doc \<Rightarrow> ListChildrenResponse option" where
  "dec_ListChildrenResponse we d = do {
     (cv, fs) \<leftarrow> dec_response we ''files'' (dec_list (dec_File we)) d;
     Some \<lparr>lcr_contract_version = cv, lcr_files = fs\<rparr> }"

definition enc_VersionResponse :: "WireEnv \<Rightarrow> VersionResponse \<Rightarrow> Doc" where
  "enc_VersionResponse we r = enc_response ''version'' (enc_Version we) (vr_contract_version r) (vr_version r)"

definition dec_VersionResponse :: "WireEnv \<Rightarrow> Doc \<Rightarrow> VersionResponse option" where
  "dec_VersionResponse we d = do {
     (cv, v) \<leftarrow> dec_response we ''version'' (dec_Version we) d;
     Some \<lparr>vr_contract_version = cv, vr_version = v\<rparr> }"

definition enc_ManifestResponse :: "WireEnv \<Rightarrow> ManifestResponse \<Rightarrow> Doc" where
  "enc_ManifestResponse we r = enc_response ''manifest'' (enc_Manifest we) (mr_contract_version r) (mr_manifest r)"

definition dec_ManifestResponse :: "WireEnv \<Rightarrow> Doc \<Rightarrow> ManifestResponse option" where
  "dec_ManifestResponse we d = do {
     (cv, m) \<leftarrow> dec_response we ''manifest'' (dec_Manifest we) d;
     Some \<lparr>mr_contract_version = cv, mr_manifest = m\<rparr> }"

definition enc_ChunkResponse :: "ChunkResponse \<Rightarrow> Doc" where
  "enc_ChunkResponse r = enc_response ''chunk'' enc_Chunk (cr_contract_version r) (cr_chunk r)"

definition dec_ChunkResponse :: "WireEnv \<Rightarrow> Doc \<Rightarrow> ChunkResponse option" where
  "dec_ChunkResponse we d = do {
     (cv, c) \<leftarrow> dec_response we ''chunk'' (dec_Chunk we) d;
     Some \<lparr>cr_contract_version = cv, cr_chunk = c\<rparr> }"

definition enc_ErrorResponse :: "WireEnv \<Rightarrow> ErrorResponse \<Rightarrow> Doc" where
  "enc_ErrorResponse we r = enc_response ''error'' (enc_error we) (er_contract_version r) (er_error r)"

definition dec_ErrorResponse :: "WireEnv \<Rightarrow> Doc \<Rightarrow> ErrorResponse option" where
  "dec_ErrorResponse we d = do {
     (cv, e) \<leftarrow> dec_response we ''error'' (dec_error we) d;
     Some \<lparr>er_contract_version = cv, er_error = e\<rparr> }"

definition enc_HealthResponse :: "HealthResponse \<Rightarrow> Doc" where
  "enc_HealthResponse r = DMap
     [(''status'', DStr (hr_status r)), (''service'', DStr (hr_service r)), (''version'', DStr (hr_version r)),
      (''contract_version'', enc_word (hr_contract_version r))]"

definition dec_HealthResponse :: "WireEnv \<Rightarrow> Doc \<Rightarrow> HealthResponse option" where
  "dec_HealthResponse we d = do {
     field \<leftarrow> read_fields (we_seq_ok we) False [''status'', ''service'', ''version'', ''contract_version''] d;
     status \<leftarrow> required dec_string (field ''status'');
     service \<leftarrow> required dec_string (field ''service'');
     version \<leftarrow> required dec_string (field ''version'');
     cv \<leftarrow> required dec_word (field ''contract_version'');
     Some \<lparr>hr_status = status, hr_service = service, hr_version = version, hr_contract_version = cv\<rparr> }"

text \<open>\<^verbatim>\<open>ChunkRangeResponse\<close>, which no handler sends, has three fields.\<close>

definition enc_ChunkRangeResponse :: "ChunkRangeResponse \<Rightarrow> Doc" where
  "enc_ChunkRangeResponse r = DMap
     [(''contract_version'', enc_word (crr_contract_version r)), (''chunk_id'', enc_chunk_id (crr_chunk_id r)),
      (''offset'', enc_word (crr_offset r)), (''length'', enc_word (crr_length r))]"

definition dec_ChunkRangeResponse :: "WireEnv \<Rightarrow> Doc \<Rightarrow> ChunkRangeResponse option" where
  "dec_ChunkRangeResponse we d = do {
     field \<leftarrow> read_fields (we_seq_ok we) False [''contract_version'', ''chunk_id'', ''offset'', ''length''] d;
     cv \<leftarrow> defaulted CONTRACT_VERSION dec_word (field ''contract_version'');
     i \<leftarrow> required dec_chunk_id (field ''chunk_id'');
     off \<leftarrow> required dec_word (field ''offset'');
     n \<leftarrow> required dec_word (field ''length'');
     Some \<lparr>crr_contract_version = cv, crr_chunk_id = i, crr_offset = off, crr_length = n\<rparr> }"

section \<open>Reading back\<close>

lemma screaming_codes: "screaming_snake (debug_code c) = wire_code c"
  by (cases c; hypsubst; code_simp)

lemma screaming_states: "screaming_snake ''Candidate'' = ''CANDIDATE''" "screaming_snake ''Committed'' = ''COMMITTED''"
  by code_simp+

lemma id_round_trips:
  assumes "wire_ok we"
  shows "dec_id we (enc_id we i) = Some i"
  using assms by (simp add: dec_id_def enc_id_def dec_string_def wire_ok_def uuid_text_def)

interpretation id_codec: codec "wire_ok we" "enc_id we" "dec_id we" for we
  by (rule codec.intro) (rule id_round_trips, simp_all add: enc_id_def)

interpretation chunk_id_codec: codec True enc_chunk_id dec_chunk_id
  by (rule codec.intro) (simp_all add: enc_chunk_id_def dec_chunk_id_def dec_string_def)

interpretation time_codec: codec "wire_ok we" "enc_time we" "dec_time we" for we
  by (rule codec.intro) (simp_all add: enc_time_def dec_time_def dec_string_def wire_ok_def)

interpretation code_codec: codec True enc_code "dec_code we" for we
proof (rule codec.intro)
  show "dec_code we (enc_code c) = Some c" for c
    unfolding dec_code_def enc_code_def screaming_codes
    by (cases c) (simp_all add: variant_name_def ALL_CODES_def)
qed (simp add: enc_code_def)

interpretation state_codec: codec True enc_state "dec_state we" for we
proof (rule codec.intro)
  show "dec_state we (enc_state s) = Some s" for s
    unfolding dec_state_def enc_state_def by (cases s) (simp_all add: variant_name_def screaming_states)
qed (simp add: enc_state_def)

lemmas round_trips = id_codec.round_trip id_codec.option_round_trip chunk_id_codec.round_trip [OF TrueI]
  time_codec.round_trip code_codec.round_trip [OF TrueI] state_codec.round_trip [OF TrueI]

lemma File_round_trip: "wire_ok we \<Longrightarrow> dec_File we (enc_File we f) = Some f"
  by (simp add: dec_File_def enc_File_def read_fields_map serde_simps round_trips)

lemma Version_round_trip: "wire_ok we \<Longrightarrow> dec_Version we (enc_Version we v) = Some v"
  by (simp add: dec_Version_def enc_Version_def read_fields_map serde_simps round_trips)

lemma Chunk_round_trip: "dec_Chunk we (enc_Chunk c) = Some c"
  by (simp add: dec_Chunk_def enc_Chunk_def read_fields_map serde_simps round_trips)

lemma ManifestEntry_round_trip: "dec_ManifestEntry we (enc_ManifestEntry e) = Some e"
  by (simp add: dec_ManifestEntry_def enc_ManifestEntry_def read_fields_map serde_simps round_trips)

interpretation file_codec: codec "wire_ok we" "enc_File we" "dec_File we" for we
  by (rule codec.intro) (rule File_round_trip, simp_all add: enc_File_def)

interpretation chunk_codec: codec True enc_Chunk "dec_Chunk we" for we
  by (rule codec.intro) (simp_all add: Chunk_round_trip, simp add: enc_Chunk_def)

interpretation entry_codec: codec True enc_ManifestEntry "dec_ManifestEntry we" for we
  by (rule codec.intro) (simp_all add: ManifestEntry_round_trip, simp add: enc_ManifestEntry_def)

lemma Manifest_round_trip: "wire_ok we \<Longrightarrow> dec_Manifest we (enc_Manifest we m) = Some m"
  by (simp add: dec_Manifest_def enc_Manifest_def read_fields_map serde_simps round_trips
      entry_codec.list_round_trip [OF TrueI] chunk_codec.list_round_trip [OF TrueI])

text \<open>The error and its chain of causes.\<close>

lemma enc_error_not_null: "enc_error we e \<noteq> DNull"
  by (cases e) simp

lemma error_round_trip: "wire_ok we \<Longrightarrow> dec_error we (enc_error we e) = Some e"
proof (induction e)
  case (SpaceError c msg oi ri src)
  have "dec_error we (enc_error we s) = Some s" if "src = Some s" for s
    using SpaceError that by simp
  then show ?case
    using SpaceError.prems
    by (cases oi; cases ri; cases src)
      (simp_all add: dec_error.simps [of we "DMap kvs" for kvs] read_fields_map serde_simps round_trips present_def
        dec_option_def enc_error_not_null, simp_all add: enc_id_def)
qed

interpretation error_codec: codec "wire_ok we" "enc_error we" "dec_error we" for we
  by (rule codec.intro) (rule error_round_trip, simp_all add: enc_error_not_null)

lemma request_round_trips:
  assumes "wire_ok we"
  shows "dec_CreateFileRequest we (enc_CreateFileRequest we r1) = Some r1"
    and "dec_CreateVersionRequest we (enc_CreateVersionRequest we r2) = Some r2"
    and "dec_CommitVersionRequest we (enc_CommitVersionRequest r3) = Some r3"
    and "dec_PutManifestRequest we (enc_PutManifestRequest we r4) = Some r4"
    and "dec_RegisterChunkRequest we (enc_RegisterChunkRequest r5) = Some r5"
  using assms
  by (simp_all add: dec_CreateFileRequest_def enc_CreateFileRequest_def dec_CreateVersionRequest_def
      enc_CreateVersionRequest_def dec_CommitVersionRequest_def enc_CommitVersionRequest_def
      dec_PutManifestRequest_def enc_PutManifestRequest_def dec_RegisterChunkRequest_def enc_RegisterChunkRequest_def
      read_fields_map serde_simps round_trips Manifest_round_trip)
    (cases r3, simp)

text \<open>A response reads back; a document with another field in place of the expected one does not.\<close>

lemma response_round_trip:
  "name \<noteq> ''contract_version'' \<Longrightarrow> dec (enc x) = Some x \<Longrightarrow>
   dec_response we name dec (enc_response name enc cv x) = Some (cv, x)"
  by (simp add: dec_response_def enc_response_def read_fields_map serde_simps)

lemma response_other:
  "name \<noteq> ''contract_version'' \<Longrightarrow> name \<noteq> name' \<Longrightarrow>
   dec_response we name dec (enc_response name' enc cv x) = None"
  by (auto simp: dec_response_def enc_response_def read_fields_map serde_simps split: bind_splits)

lemma response_round_trips:
  assumes "wire_ok we"
  shows "dec_FileResponse we (enc_FileResponse we r1) = Some r1"
    and "dec_ListChildrenResponse we (enc_ListChildrenResponse we r2) = Some r2"
    and "dec_VersionResponse we (enc_VersionResponse we r3) = Some r3"
    and "dec_ManifestResponse we (enc_ManifestResponse we r4) = Some r4"
    and "dec_ChunkResponse we (enc_ChunkResponse r5) = Some r5"
    and "dec_ErrorResponse we (enc_ErrorResponse we r6) = Some r6"
    and "dec_HealthResponse we (enc_HealthResponse r7) = Some r7"
    and "dec_ChunkRangeResponse we (enc_ChunkRangeResponse r8) = Some r8"
  using assms
  by (simp_all add: dec_FileResponse_def enc_FileResponse_def dec_ListChildrenResponse_def enc_ListChildrenResponse_def
      dec_VersionResponse_def enc_VersionResponse_def dec_ManifestResponse_def enc_ManifestResponse_def
      dec_ChunkResponse_def enc_ChunkResponse_def dec_ErrorResponse_def enc_ErrorResponse_def
      response_round_trip File_round_trip Version_round_trip Manifest_round_trip Chunk_round_trip
      error_round_trip file_codec.list_round_trip)
    (simp_all add: dec_HealthResponse_def enc_HealthResponse_def dec_ChunkRangeResponse_def
      enc_ChunkRangeResponse_def read_fields_map serde_simps round_trips)

section \<open>Bodies\<close>

text \<open>The document a body is sent as; octets and plain texts are no documents.\<close>

fun enc_body :: "WireEnv \<Rightarrow> Body \<Rightarrow> Doc option" where
  "enc_body we (JHealth r) = Some (enc_HealthResponse r)"
| "enc_body we (JFile r) = Some (enc_FileResponse we r)"
| "enc_body we (JChildren r) = Some (enc_ListChildrenResponse we r)"
| "enc_body we (JVersion r) = Some (enc_VersionResponse we r)"
| "enc_body we (JManifest r) = Some (enc_ManifestResponse we r)"
| "enc_body we (JChunk r) = Some (enc_ChunkResponse r)"
| "enc_body we (JError r) = Some (enc_ErrorResponse we r)"
| "enc_body we (Octets bs) = None"
| "enc_body we (Plain t) = None"

fun enc_request :: "WireEnv \<Rightarrow> ReqBody \<Rightarrow> Doc option" where
  "enc_request we (JCreateFile r) = Some (enc_CreateFileRequest we r)"
| "enc_request we (JCreateVersion r) = Some (enc_CreateVersionRequest we r)"
| "enc_request we (JPutManifest r) = Some (enc_PutManifestRequest we r)"
| "enc_request we JEmptyObject = Some (enc_CommitVersionRequest CommitVersionRequest)"
| "enc_request we NoBody = None"
| "enc_request we (RawBytes bs) = None"

lemmas responses_foreign = dec_FileResponse_def dec_ListChildrenResponse_def dec_VersionResponse_def
  dec_ManifestResponse_def dec_ChunkResponse_def dec_ErrorResponse_def

lemma health_other:
  "name \<notin> {''status'', ''service''} \<Longrightarrow> dec_HealthResponse we (enc_response name enc cv x) = None"
  by (auto simp: dec_HealthResponse_def enc_response_def read_fields_map serde_simps split: bind_splits)

lemma response_of_health:
  "name \<notin> {''status'', ''service'', ''version'', ''contract_version''} \<Longrightarrow>
   dec_response we name dec (enc_HealthResponse r) = None"
  by (auto simp: dec_response_def enc_HealthResponse_def read_fields_map serde_simps split: bind_splits)

lemma version_of_health: "dec_response we ''version'' (dec_Version we) (enc_HealthResponse r) = None"
  by (auto simp: dec_response_def enc_HealthResponse_def read_fields_map serde_simps dec_Version_def
      read_fields_def split: bind_splits)

lemmas enc_responses = enc_FileResponse_def enc_ListChildrenResponse_def enc_VersionResponse_def
  enc_ManifestResponse_def enc_ChunkResponse_def enc_ErrorResponse_def

lemmas as_defs = as_health_def as_file_def as_children_def as_version_def as_manifest_def as_chunk_def as_error_def

text \<open>What the client takes a response body to be is what its reader makes of the document.\<close>

lemma health_reads:
  "wire_ok we \<Longrightarrow> enc_body we b = Some d \<Longrightarrow> as_health b = dec_HealthResponse we d"
  by (cases b) (auto simp: as_health_def response_round_trips, simp_all add: enc_responses health_other)

lemma file_reads:
  "wire_ok we \<Longrightarrow> enc_body we b = Some d \<Longrightarrow> as_file b = map_option fr_file (dec_FileResponse we d)"
  by (cases b) (auto simp: as_file_def response_round_trips,
      simp_all add: enc_responses responses_foreign response_other response_of_health)

lemma children_reads:
  "wire_ok we \<Longrightarrow> enc_body we b = Some d \<Longrightarrow> as_children b = map_option lcr_files (dec_ListChildrenResponse we d)"
  by (cases b) (auto simp: as_children_def response_round_trips,
      simp_all add: enc_responses responses_foreign response_other response_of_health)

lemma version_reads:
  "wire_ok we \<Longrightarrow> enc_body we b = Some d \<Longrightarrow> as_version b = map_option vr_version (dec_VersionResponse we d)"
  by (cases b) (auto simp: as_version_def response_round_trips,
      simp_all add: enc_responses responses_foreign response_other version_of_health)

lemma manifest_reads:
  "wire_ok we \<Longrightarrow> enc_body we b = Some d \<Longrightarrow> as_manifest b = map_option mr_manifest (dec_ManifestResponse we d)"
  by (cases b) (auto simp: as_manifest_def response_round_trips,
      simp_all add: enc_responses responses_foreign response_other response_of_health)

lemma chunk_reads:
  "wire_ok we \<Longrightarrow> enc_body we b = Some d \<Longrightarrow> as_chunk b = dec_ChunkResponse we d"
  by (cases b) (auto simp: as_chunk_def response_round_trips,
      simp_all add: enc_responses responses_foreign response_other response_of_health)

lemma error_reads:
  "wire_ok we \<Longrightarrow> enc_body we b = Some d \<Longrightarrow> as_error b = map_option er_error (dec_ErrorResponse we d)"
  by (cases b) (auto simp: as_error_def response_round_trips,
      simp_all add: enc_responses responses_foreign response_other response_of_health)

text \<open>What a handler's extractor takes a request body to be is what its reader makes of the document.\<close>

lemmas enc_requests = enc_CreateFileRequest_def enc_CreateVersionRequest_def enc_PutManifestRequest_def
  enc_CommitVersionRequest_def

lemma create_file_reads:
  "wire_ok we \<Longrightarrow> enc_request we b = Some d \<Longrightarrow> as_create_file b = dec_CreateFileRequest we d"
  by (cases b) (auto simp: as_create_file_def request_round_trips,
      simp_all add: enc_requests dec_CreateFileRequest_def read_fields_map serde_simps)

lemma create_version_reads:
  "wire_ok we \<Longrightarrow> enc_request we b = Some d \<Longrightarrow> as_create_version b = dec_CreateVersionRequest we d"
  by (cases b) (auto simp: as_create_version_def request_round_trips,
      simp_all add: enc_requests dec_CreateVersionRequest_def read_fields_map serde_simps)

lemma put_manifest_reads:
  "wire_ok we \<Longrightarrow> enc_request we b = Some d \<Longrightarrow> as_put_manifest b = dec_PutManifestRequest we d"
  by (cases b) (auto simp: as_put_manifest_def request_round_trips,
      simp_all add: enc_requests dec_PutManifestRequest_def read_fields_map serde_simps)

text \<open>Unknown fields of a request are refused, wherever they stand; those of a response are ignored.\<close>

lemma request_unknown_field:
  assumes "k \<in> set (map fst kvs)"
  shows "k \<notin> {''parent_id'', ''name'', ''idempotency_key''} \<Longrightarrow> dec_CreateFileRequest we (DMap kvs) = None"
    and "k \<notin> {''version_id'', ''parent_version_id'', ''manifest_id''} \<Longrightarrow> dec_CreateVersionRequest we (DMap kvs) = None"
    and "k \<noteq> ''manifest'' \<Longrightarrow> dec_PutManifestRequest we (DMap kvs) = None"
    and "k \<notin> {''chunk_id'', ''size''} \<Longrightarrow> dec_RegisterChunkRequest we (DMap kvs) = None"
    and "dec_CommitVersionRequest we (DMap kvs) = None"
  using assms
  by (simp_all add: dec_CreateFileRequest_def dec_CreateVersionRequest_def dec_PutManifestRequest_def
      dec_RegisterChunkRequest_def dec_CommitVersionRequest_def read_fields_unknown [of k])

end
