(* ===== verification/Wire_Properties.thy ===== *)
theory Wire_Properties
  imports Wire_Format Samples
begin

text \<open>
  The properties of the JSON contract: the readers undo the writers, the model's bodies are what the
  readers make of the documents, and requests are read strictly.
\<close>

section \<open>A library for the instances\<close>

text \<open>UUIDs and times in unary, the sign of a time by its letter.\<close>

definition unary_env :: WireEnv where
  "unary_env = \<lparr>we_uuid_show = unary_show, we_uuid_parse = unary_parse,
     we_time_show = (\<lambda>t. replicate (nat \<bar>t\<bar>) (if t < 0 then CHR ''-'' else CHR ''+'')),
     we_time_parse = (\<lambda>s. Some (if CHR ''-'' \<in> set s then - int (length s) else int (length s))),
     we_seq_ok = (\<lambda>n k. False), we_variant = (\<lambda>d. None)\<rparr>"

lemma unary_env_ok: "wire_ok unary_env"
  by (auto simp: wire_ok_def unary_env_def unary_uuid_text)

section \<open>Reading what was written\<close>

text \<open>C32: Nothing is lost on the wire: with a library that parses back the UUIDs and the times it prints,
  every value of the domain model, every error with its whole chain of causes, every request and every
  response is read back from the document it is written as.\<close>

theorem wire_round_trips:
  assumes "wire_ok we"
  shows "dec_File we (enc_File we f) = Some f \<and> dec_Version we (enc_Version we v) = Some v \<and>
    dec_Chunk we (enc_Chunk c) = Some c \<and> dec_Manifest we (enc_Manifest we m) = Some m \<and>
    dec_error we (enc_error we e) = Some e \<and>
    dec_CreateFileRequest we (enc_CreateFileRequest we q1) = Some q1 \<and>
    dec_CreateVersionRequest we (enc_CreateVersionRequest we q2) = Some q2 \<and>
    dec_CommitVersionRequest we (enc_CommitVersionRequest q3) = Some q3 \<and>
    dec_PutManifestRequest we (enc_PutManifestRequest we q4) = Some q4 \<and>
    dec_RegisterChunkRequest we (enc_RegisterChunkRequest q5) = Some q5 \<and>
    dec_FileResponse we (enc_FileResponse we r1) = Some r1 \<and>
    dec_ListChildrenResponse we (enc_ListChildrenResponse we r2) = Some r2 \<and>
    dec_VersionResponse we (enc_VersionResponse we r3) = Some r3 \<and>
    dec_ManifestResponse we (enc_ManifestResponse we r4) = Some r4 \<and>
    dec_ChunkResponse we (enc_ChunkResponse r5) = Some r5 \<and>
    dec_ErrorResponse we (enc_ErrorResponse we r6) = Some r6 \<and>
    dec_HealthResponse we (enc_HealthResponse r7) = Some r7 \<and>
    dec_ChunkRangeResponse we (enc_ChunkRangeResponse r8) = Some r8"
  using assms
  by (simp add: File_round_trip Version_round_trip Chunk_round_trip Manifest_round_trip error_round_trip
      request_round_trips response_round_trips)

theorem wire_round_trips_witness:
  "dec_error unary_env (enc_error unary_env
     (SpaceError StorageError ''outer'' None (Some (UuidId 2)) (Some (new_error ChunkNotFound ''inner''))))
   = Some (SpaceError StorageError ''outer'' None (Some (UuidId 2)) (Some (new_error ChunkNotFound ''inner'')))"
  using wire_round_trips [OF unary_env_ok] by blast

section \<open>The bodies of the model are the documents\<close>

text \<open>C31: What the model of client and server takes a JSON body to be is what the derived reader makes of
  the document sent, whatever type the body was written from and whatever type is expected: in
  particular a body of the wrong kind is never mistaken for the expected one.\<close>

theorem wire_codec_faithful:
  assumes "wire_ok we"
  shows "(\<forall>b d. enc_body we b = Some d \<longrightarrow>
      as_health b = dec_HealthResponse we d \<and>
      as_file b = map_option fr_file (dec_FileResponse we d) \<and>
      as_children b = map_option lcr_files (dec_ListChildrenResponse we d) \<and>
      as_version b = map_option vr_version (dec_VersionResponse we d) \<and>
      as_manifest b = map_option mr_manifest (dec_ManifestResponse we d) \<and>
      as_chunk b = dec_ChunkResponse we d \<and>
      as_error b = map_option er_error (dec_ErrorResponse we d)) \<and>
    (\<forall>q d. enc_request we q = Some d \<longrightarrow>
      as_create_file q = dec_CreateFileRequest we d \<and>
      as_create_version q = dec_CreateVersionRequest we d \<and>
      as_put_manifest q = dec_PutManifestRequest we d)"
  by (intro conjI allI impI;
      rule health_reads [OF assms] file_reads [OF assms] children_reads [OF assms] version_reads [OF assms]
        manifest_reads [OF assms] chunk_reads [OF assms] error_reads [OF assms] create_file_reads [OF assms]
        create_version_reads [OF assms] put_manifest_reads [OF assms]; assumption)

theorem wire_codec_faithful_witness:
  "dec_FileResponse unary_env (enc_ErrorResponse unary_env (ErrorResponse_from (new_error FileNotFound ''x''))) = None"
proof -
  have "enc_body unary_env (JError (ErrorResponse_from (new_error FileNotFound ''x'')))
      = Some (enc_ErrorResponse unary_env (ErrorResponse_from (new_error FileNotFound ''x'')))"
    by simp
  then have "as_file (JError (ErrorResponse_from (new_error FileNotFound ''x''))) =
      map_option fr_file (dec_FileResponse unary_env
        (enc_ErrorResponse unary_env (ErrorResponse_from (new_error FileNotFound ''x''))))"
    using wire_codec_faithful [OF unary_env_ok] by blast
  then show ?thesis by (simp add: as_file_def)
qed

section \<open>Strict requests\<close>

definition id_text :: "WireEnv \<Rightarrow> 'k uuid_id \<Rightarrow> Doc \<Rightarrow> bool" where
  "id_text we i d \<longleftrightarrow> (\<exists>t. d = DStr t \<and> we_uuid_parse we t = Some (as_uuid i))"

lemma dec_id_Some_iff: "dec_id we d = Some i \<longleftrightarrow> id_text we i d"
  by (cases i) (auto simp: dec_id_def id_text_def bind_eq_Some_conv dec_string_Some_iff)

lemma dec_chunk_id_Some_iff: "dec_chunk_id d = Some i \<longleftrightarrow> d = DStr (as_str i)"
  by (cases i) (auto simp: dec_chunk_id_def bind_eq_Some_conv dec_string_Some_iff)

lemmas exact_fields = bind_eq_Some_conv required_Some_iff dec_string_Some_iff dec_word_Some_iff dec_id_Some_iff
  dec_chunk_id_Some_iff

lemma create_file_reads_exactly:
  "dec_CreateFileRequest we d = Some r \<longleftrightarrow>
     (\<exists>parent. id_text we (cfr_parent_id r) parent \<and>
       struct_doc (we_seq_ok we)
         [(''parent_id'', parent), (''name'', DStr (cfr_name r)),
          (''idempotency_key'', DStr (cfr_idempotency_key r))] d)"
proof -
  have top: "struct_doc (we_seq_ok we) [(''parent_id'', p), (''name'', n), (''idempotency_key'', k)] d
    \<longleftrightarrow> (\<exists>field. read_fields (we_seq_ok we) True [''parent_id'', ''name'', ''idempotency_key''] d = Some field \<and>
       field ''parent_id'' = Given p \<and> field ''name'' = Given n \<and> field ''idempotency_key'' = Given k)" for p n k
    using read_fields_exact [of "[(''parent_id'', p), (''name'', n), (''idempotency_key'', k)]" "we_seq_ok we" d]
    by simp
  show ?thesis unfolding top by (cases r) (auto simp: dec_CreateFileRequest_def exact_fields)
qed

lemma create_version_reads_exactly:
  "dec_CreateVersionRequest we d = Some r \<longleftrightarrow>
     (\<exists>vid mid. id_text we (cvr_version_id r) vid \<and> id_text we (cvr_manifest_id r) mid \<and>
       ((\<exists>parent. (case cvr_parent_version_id r of None \<Rightarrow> parent = DNull | Some i \<Rightarrow> id_text we i parent) \<and>
           struct_doc (we_seq_ok we)
             [(''version_id'', vid), (''parent_version_id'', parent), (''manifest_id'', mid)] d)
        \<or> cvr_parent_version_id r = None \<and>
          (\<exists>kvs. d = DMap kvs \<and> mset kvs = mset [(''version_id'', vid), (''manifest_id'', mid)])))"
proof -
  let ?names = "[''version_id'', ''parent_version_id'', ''manifest_id'']"
  have given: "struct_doc (we_seq_ok we) [(''version_id'', v), (''parent_version_id'', p), (''manifest_id'', m)] d
    \<longleftrightarrow> (\<exists>field. read_fields (we_seq_ok we) True ?names d = Some field \<and>
       field ''version_id'' = Given v \<and> field ''parent_version_id'' = Given p \<and> field ''manifest_id'' = Given m)" for v p m
    using read_fields_exact [of "[(''version_id'', v), (''parent_version_id'', p), (''manifest_id'', m)]"
        "we_seq_ok we" d] by simp
  have missing: "(\<exists>kvs. d = DMap kvs \<and> mset kvs = mset [(''version_id'', v), (''manifest_id'', m)])
    \<longleftrightarrow> (\<exists>field. read_fields (we_seq_ok we) True ?names d = Some field \<and>
       field ''version_id'' = Given v \<and> field ''manifest_id'' = Given m \<and> field ''parent_version_id'' = Missing)" for v m
    using read_fields_missing [of "[(''version_id'', v), (''manifest_id'', m)]" ?names "''parent_version_id''"
        "we_seq_ok we" d] by auto
  have parent: "optional (dec_id we) s = Some x \<longleftrightarrow>
      s = Missing \<and> x = None \<or>
      (\<exists>p. s = Given p \<and> (case x of None \<Rightarrow> p = DNull | Some i \<Rightarrow> id_text we i p))" for s and x :: "VersionId option"
    by (cases x) (auto simp: optional_def dec_option_def dec_id_Some_iff id_text_def split: Slot.splits)
  have "dec_CreateVersionRequest we d = Some r \<longleftrightarrow>
      (\<exists>field vid mid. read_fields (we_seq_ok we) True ?names d = Some field \<and>
        field ''version_id'' = Given vid \<and> id_text we (cvr_version_id r) vid \<and>
        optional (dec_id we) (field ''parent_version_id'') = Some (cvr_parent_version_id r) \<and>
        field ''manifest_id'' = Given mid \<and> id_text we (cvr_manifest_id r) mid)"
    by (cases r) (auto simp: dec_CreateVersionRequest_def exact_fields)
  then show ?thesis unfolding given missing parent by blast
qed

lemma single_requests_read_exactly:
  "dec_CommitVersionRequest we d = Some r1 \<longleftrightarrow> struct_doc (we_seq_ok we) [] d"
  "dec_PutManifestRequest we d = Some r2 \<longleftrightarrow>
     (\<exists>m. dec_Manifest we m = Some (pmr_manifest r2) \<and> struct_doc (we_seq_ok we) [(''manifest'', m)] d)"
  "dec_RegisterChunkRequest we d = Some r3 \<longleftrightarrow>
     struct_doc (we_seq_ok we)
       [(''chunk_id'', DStr (as_str (rcr_chunk_id r3))), (''size'', enc_word (rcr_size r3))] d"
proof -
  show "dec_CommitVersionRequest we d = Some r1 \<longleftrightarrow> struct_doc (we_seq_ok we) [] d"
    using read_fields_exact [of "[]" "we_seq_ok we" d]
    by (cases r1) (auto simp: dec_CommitVersionRequest_def bind_eq_Some_conv)
  have "struct_doc (we_seq_ok we) [(''manifest'', m)] d \<longleftrightarrow>
      (\<exists>field. read_fields (we_seq_ok we) True [''manifest''] d = Some field \<and> field ''manifest'' = Given m)" for m
    using read_fields_exact [of "[(''manifest'', m)]" "we_seq_ok we" d] by simp
  then show "dec_PutManifestRequest we d = Some r2 \<longleftrightarrow>
     (\<exists>m. dec_Manifest we m = Some (pmr_manifest r2) \<and> struct_doc (we_seq_ok we) [(''manifest'', m)] d)"
    by (cases r2) (auto simp: dec_PutManifestRequest_def exact_fields)
  show "dec_RegisterChunkRequest we d = Some r3 \<longleftrightarrow>
     struct_doc (we_seq_ok we)
       [(''chunk_id'', DStr (as_str (rcr_chunk_id r3))), (''size'', enc_word (rcr_size r3))] d"
    using read_fields_exact [of "[(''chunk_id'', DStr (as_str (rcr_chunk_id r3))), (''size'', enc_word (rcr_size r3))]"
        "we_seq_ok we" d]
    by (cases r3) (auto simp: dec_RegisterChunkRequest_def exact_fields enc_word_def)
qed

text \<open>C33: Requests are read strictly: a document is accepted exactly when it has every field of the request
  with a value of its type, no field twice and no other field, and its values are the request's.  Only the
  parent of a version may be null or left out.\<close>

theorem requests_are_strict:
  shows "(dec_CreateFileRequest we d = Some q1 \<longleftrightarrow>
     (\<exists>parent. id_text we (cfr_parent_id q1) parent \<and>
       struct_doc (we_seq_ok we)
         [(''parent_id'', parent), (''name'', DStr (cfr_name q1)),
          (''idempotency_key'', DStr (cfr_idempotency_key q1))] d)) \<and>
    (dec_CreateVersionRequest we d = Some q2 \<longleftrightarrow>
     (\<exists>vid mid. id_text we (cvr_version_id q2) vid \<and> id_text we (cvr_manifest_id q2) mid \<and>
       ((\<exists>parent. (case cvr_parent_version_id q2 of None \<Rightarrow> parent = DNull | Some i \<Rightarrow> id_text we i parent) \<and>
           struct_doc (we_seq_ok we)
             [(''version_id'', vid), (''parent_version_id'', parent), (''manifest_id'', mid)] d)
        \<or> cvr_parent_version_id q2 = None \<and>
          (\<exists>kvs. d = DMap kvs \<and> mset kvs = mset [(''version_id'', vid), (''manifest_id'', mid)])))) \<and>
    (dec_CommitVersionRequest we d = Some q3 \<longleftrightarrow> struct_doc (we_seq_ok we) [] d) \<and>
    (dec_PutManifestRequest we d = Some q4 \<longleftrightarrow>
     (\<exists>m. dec_Manifest we m = Some (pmr_manifest q4) \<and> struct_doc (we_seq_ok we) [(''manifest'', m)] d)) \<and>
    (dec_RegisterChunkRequest we d = Some q5 \<longleftrightarrow>
     struct_doc (we_seq_ok we)
       [(''chunk_id'', DStr (as_str (rcr_chunk_id q5))), (''size'', enc_word (rcr_size q5))] d)"
  by (intro conjI create_file_reads_exactly create_version_reads_exactly single_requests_read_exactly)

end
