(* ===== verification/Metadata_Contract.thy ===== *)
theory Metadata_Contract
  imports Metadata_Invariants
begin

text \<open>
  The trait \<^verbatim>\<open>MetadataStore\<close> of \<^verbatim>\<open>cloud/metadata/src/lib.rs\<close>: a record of its nine methods, of which the
  in-memory store is an instance, and the promise the service relies on, as a locale over any such record:
  what a commit makes visible stays visible, with its content, through every further call.
\<close>

section \<open>The trait\<close>

text \<open>What a call takes from outside: a fresh file id, the time, the order of a map's keys.\<close>

record MetaEnv =
  me_fresh :: FileId
  me_now :: DateTime
  me_order :: "FileId list"

record 's MetadataStore =
  ms_create_file :: "MetaEnv \<Rightarrow> 's \<Rightarrow> DirectoryId \<Rightarrow> string \<Rightarrow> string \<Rightarrow> File space_result \<times> 's"
  ms_get_file :: "'s \<Rightarrow> FileId \<Rightarrow> File space_result"
  ms_list_children :: "MetaEnv \<Rightarrow> 's \<Rightarrow> DirectoryId \<Rightarrow> File list space_result"
  ms_register_chunk :: "'s \<Rightarrow> ChunkId \<Rightarrow> u64 \<Rightarrow> Chunk space_result \<times> 's"
  ms_put_manifest :: "'s \<Rightarrow> Manifest \<Rightarrow> Manifest space_result \<times> 's"
  ms_get_manifest :: "'s \<Rightarrow> ManifestId \<Rightarrow> Manifest space_result"
  ms_create_version ::
    "MetaEnv \<Rightarrow> 's \<Rightarrow> FileId \<Rightarrow> VersionId \<Rightarrow> VersionId option \<Rightarrow> ManifestId \<Rightarrow> Version space_result \<times> 's"
  ms_commit_version :: "MetaEnv \<Rightarrow> 's \<Rightarrow> VersionId \<Rightarrow> Version space_result \<times> 's"
  ms_get_current_version :: "'s \<Rightarrow> VersionId \<Rightarrow> Version space_result"

definition in_memory_store :: "Inner MetadataStore" where
  "in_memory_store =
     \<lparr>ms_create_file = (\<lambda>env. create_file (me_fresh env) (me_now env)), ms_get_file = get_file,
      ms_list_children = (\<lambda>env. list_children (me_order env)), ms_register_chunk = register_chunk,
      ms_put_manifest = put_manifest, ms_get_manifest = get_manifest,
      ms_create_version = (\<lambda>env. create_version (me_now env)),
      ms_commit_version = (\<lambda>env. commit_version (me_now env)), ms_get_current_version = get_current_version\<rparr>"

section \<open>Calls\<close>

datatype MetaCall =
    CallCreateFile DirectoryId string string
  | CallRegisterChunk ChunkId u64
  | CallPutManifest Manifest
  | CallCreateVersion FileId VersionId "VersionId option" ManifestId
  | CallCommitVersion VersionId

fun call_effect :: "'s MetadataStore \<Rightarrow> MetaEnv \<Rightarrow> MetaCall \<Rightarrow> 's \<Rightarrow> 's" where
  "call_effect S env (CallCreateFile parent name key) s = snd (ms_create_file S env s parent name key)"
| "call_effect S env (CallRegisterChunk i n) s = snd (ms_register_chunk S s i n)"
| "call_effect S env (CallPutManifest m) s = snd (ms_put_manifest S s m)"
| "call_effect S env (CallCreateVersion f v p m) s = snd (ms_create_version S env s f v p m)"
| "call_effect S env (CallCommitVersion v) s = snd (ms_commit_version S env s v)"

text \<open>A run of calls, each with an environment that suits the state it meets.\<close>

inductive calls :: "('s \<Rightarrow> MetaEnv \<Rightarrow> bool) \<Rightarrow> 's MetadataStore \<Rightarrow> 's \<Rightarrow> 's \<Rightarrow> bool"
  for env_ok :: "'s \<Rightarrow> MetaEnv \<Rightarrow> bool" and S :: "'s MetadataStore" where
  calls_none: "calls env_ok S s s"
| calls_more: "calls env_ok S s s' \<Longrightarrow> env_ok s' env \<Longrightarrow> calls env_ok S s (call_effect S env c s')"

section \<open>The promise\<close>

definition published :: "'s MetadataStore \<Rightarrow> 's \<Rightarrow> Version \<Rightarrow> Manifest \<Rightarrow> bool" where
  "published S s v m \<longleftrightarrow>
     ms_get_current_version S s (v_version_id v) = Ok v \<and> ms_get_manifest S s (v_manifest_id v) = Ok m"

locale publishing_store =
  fixes S :: "'s MetadataStore" and ok :: "'s \<Rightarrow> bool" and env_ok :: "'s \<Rightarrow> MetaEnv \<Rightarrow> bool"
  assumes effect_ok: "ok s \<Longrightarrow> env_ok s env \<Longrightarrow> ok (call_effect S env c s)"
    and commit_publishes: "ok s \<Longrightarrow> ms_commit_version S env s i = (Ok v, s') \<Longrightarrow>
      v_version_id v = i \<and> v_state v = Committed \<and> (\<exists>m. validate_manifest m = Ok () \<and> published S s' v m)"
    and published_effect: "ok s \<Longrightarrow> env_ok s env \<Longrightarrow> published S s v m \<Longrightarrow> published S (call_effect S env c s) v m"
begin

lemma calls_ok: "calls env_ok S s s' \<Longrightarrow> ok s \<Longrightarrow> ok s'"
  by (induction rule: calls.induct) (auto intro: effect_ok)

lemma published_stays: "calls env_ok S s s' \<Longrightarrow> ok s \<Longrightarrow> published S s v m \<Longrightarrow> published S s' v m"
  by (induction rule: calls.induct) (auto intro: published_effect calls_ok)

text \<open>After a commit that succeeded, whatever is called: the version and its valid content can be read.\<close>

lemma committed_is_readable:
  assumes "ok s" "env_ok s env" "ms_commit_version S env s i = (Ok v, s')" "calls env_ok S s' s''"
  shows "v_version_id v = i \<and> v_state v = Committed \<and> (\<exists>m. validate_manifest m = Ok () \<and> published S s'' v m)"
proof -
  have "ok s'" using effect_ok [OF assms(1,2), of "CallCommitVersion i"] assms(3) by simp
  with commit_publishes [OF assms(1,3)] published_stays [OF assms(4)] show ?thesis by blast
qed

end

section \<open>The in-memory store keeps it\<close>

definition fresh_env :: "Inner \<Rightarrow> MetaEnv \<Rightarrow> bool" where
  "fresh_env g env \<longleftrightarrow> s_files g (me_fresh env) = None"

lemma call_is_step: "fresh_env g env \<Longrightarrow> meta_step g (call_effect in_memory_store env c g)"
  by (cases c) (simp_all add: in_memory_store_def fresh_env_def meta_step.intros)

lemma published_view:
  "store_inv g \<Longrightarrow> published in_memory_store g v m \<longleftrightarrow>
     rv_version (readers_view g) (v_version_id v) = Some v \<and> rv_content (readers_view g) (v_version_id v) = Some m"
  by (auto simp: published_def in_memory_store_def get_current_version_visible get_manifest_def outcome_simps)

interpretation in_memory: publishing_store in_memory_store store_inv fresh_env
proof
  show inv: "store_inv (call_effect in_memory_store env c g)" if "store_inv g" "fresh_env g env" for g env c
    using that by (blast intro: meta_step_inv call_is_step)
  show "v_version_id v = i \<and> v_state v = Committed \<and> (\<exists>m. validate_manifest m = Ok () \<and> published in_memory_store g' v m)"
    if g: "store_inv g" and c: "ms_commit_version in_memory_store env g i = (Ok v, g')" for g env i v g'
  proof -
    have commit: "commit_version (me_now env) g i = (Ok v, g')" using c by (simp add: in_memory_store_def)
    have "store_inv g'"
      using g commit meta_step_inv [OF g step_commit_version [of g "me_now env" i]] by simp
    moreover have "visible g' i = Some v"
      using commit by (auto simp: commit_version_def visible_def Let_def split: option.splits if_splits outcome.splits)
    moreover have "v_version_id v = i" "v_state v = Committed"
      using calculation by (fastforce simp: visible_def store_inv_def versions_inv_def split: option.splits if_splits)+
    ultimately show ?thesis
      using visible_manifest [of g' i v] by (auto simp: published_view manifest_ok_validates [symmetric])
  qed
  show "published in_memory_store (call_effect in_memory_store env c g) v m"
    if g: "store_inv g" "fresh_env g env" and p: "published in_memory_store g v m" for g env c v m
  proof -
    have "view_step (readers_view g) (readers_view (call_effect in_memory_store env c g))"
      by (rule meta_step_view [OF g(1) call_is_step [OF g(2)]])
    then show ?thesis
      using p view_version_stable view_content_stable
      by (simp add: published_view g(1) inv [OF g] del: rv_sel)
  qed
qed

lemma committed_is_readable_in_memory:
  fixes env :: MetaEnv
  assumes "store_inv g" "s_files g (me_fresh env) = None"
    "commit_version (me_now env) g i = (Ok v, g')" "calls fresh_env in_memory_store g' g''"
  shows "get_current_version g'' i = Ok v \<and>
    (\<exists>m. validate_manifest m = Ok () \<and> get_manifest g'' (v_manifest_id v) = Ok m)"
  using in_memory.committed_is_readable [of g env i v g' g''] assms
  by (auto simp: fresh_env_def published_def in_memory_store_def)

end
