(* ===== verification/Generator_Tests.thy ===== *)
theory Generator_Tests
  imports Generators
begin

text \<open>
  The rest of \<^verbatim>\<open>tests/generators/src/lib.rs\<close>: \<^verbatim>\<open>with_seed\<close> over the process-wide panic hook, and the unit
  tests of the generators as programs.  What the tests need of the random number generator, that two
  seeds give different files, is a hypothesis of the one test that asserts it.
\<close>

section \<open>The panic hook\<close>

text \<open>The hook of the standard library, one of the program, and the one \<^verbatim>\<open>with_seed\<close> puts around another.\<close>

datatype Hook = DefaultHook | ProgramHook string | SeedHook u64 Hook

fun hook_lines :: "Hook \<Rightarrow> string \<Rightarrow> string list" where
  "hook_lines DefaultHook info = [info]"
| "hook_lines (ProgramHook name) info = [name @ info]"
| "hook_lines (SeedHook seed hook) info = (''FAILING SEED = '' @ show_u64 seed) # hook_lines hook info"

text \<open>\<^verbatim>\<open>std::panic::take_hook\<close> hands out the hook and registers the default one.\<close>

definition take_hook :: "Hook \<Rightarrow> Hook \<times> Hook" where
  "take_hook current = (current, DefaultHook)"

text \<open>
  The test body gets the seed and runs with the hook installed, which it may replace; if it panics, the
  rest of \<^verbatim>\<open>with_seed\<close> does not run.
\<close>

definition with_seed :: "u64 \<Rightarrow> (u64 \<Rightarrow> Hook \<Rightarrow> unit space_result \<times> Hook) \<Rightarrow> Hook \<Rightarrow> unit space_result \<times> Hook" where
  "with_seed seed f current =
     (let (hook, _) = take_hook current in
      and_then_st (f seed (SeedHook seed hook)) (\<lambda>_ h. (Ok (), snd (take_hook h))))"

text \<open>A panic names the seed first and then does what the former hook did.\<close>

lemma with_seed_reports:
  assumes "f seed (SeedHook seed hook) = (Panic, SeedHook seed hook)"
  shows "with_seed seed f hook = (Panic, SeedHook seed hook)"
    and "hook_lines (snd (with_seed seed f hook)) info = (''FAILING SEED = '' @ show_u64 seed) # hook_lines hook info"
  using assms by (simp_all add: with_seed_def take_hook_def)

text \<open>After a test that passed the default hook is registered, whatever hook was there before.\<close>

lemma with_seed_forgets_the_hook:
  assumes "f seed (SeedHook seed hook) = (Ok (), h)"
  shows "with_seed seed f hook = (Ok (), DefaultHook)"
  using assms by (simp add: with_seed_def take_hook_def)

section \<open>The tests\<close>

definition same_seed_same_bytes_and_ids :: "'r Rng \<Rightarrow> (bytes \<Rightarrow> string) \<Rightarrow> bool" where
  "same_seed_same_bytes_and_ids R b3hex \<longleftrightarrow>
     (case (generate_file_bytes R 10000 42, generate_file_bytes R 10000 42, generate_file_bytes R 10000 43) of
        (Ok a, Ok b, Ok c) \<Rightarrow> a = b \<and> ChunkId_from_bytes b3hex a = ChunkId_from_bytes b3hex b \<and> c \<noteq> a
      | _ \<Rightarrow> False)"

definition never_emits_a_zero_byte :: "'r Rng \<Rightarrow> bool" where
  "never_emits_a_zero_byte R \<longleftrightarrow>
     (case generate_file_bytes R 50000 7 of Ok bs \<Rightarrow> 0 \<notin> set bs | _ \<Rightarrow> False)"

definition streaming_matches_in_memory_for_the_same_seed :: "'r Rng \<Rightarrow> bool" where
  "streaming_matches_in_memory_for_the_same_seed R \<longleftrightarrow>
     list_all (\<lambda>block. case (generate_file_streaming R 100003 99 block, generate_file_bytes R 100003 99) of
         (Ok pieces, Ok whole) \<Rightarrow> concat pieces = whole
       | _ \<Rightarrow> False) [1, 7, 4096, push_bit 20 1]"

definition div_ceil :: "u64 \<Rightarrow> u64 \<Rightarrow> u64" where
  "div_ceil a b = of_nat ((unat a + unat b - 1) div unat b)"

definition each_boundary_size_produces_the_expected_chunk_count :: bool where
  "each_boundary_size_produces_the_expected_chunk_count \<longleftrightarrow>
     list_all (\<lambda>size'. chunk_count size' CHUNK = Ok (if size' = 0 then 0 else div_ceil size' CHUNK)) BOUNDARY_SIZES"

definition manifest_test_sizes :: "u64 list" where
  "manifest_test_sizes = [0, 1, 4095, 4096, 4097, 3 * 4096, 3 * 4096 + 1]"

definition generated_manifests_are_valid_across_boundary_sizes ::
  "'r Rng \<Rightarrow> (bytes \<Rightarrow> string) \<Rightarrow> profile \<Rightarrow> ManifestId \<Rightarrow> bool" where
  "generated_manifests_are_valid_across_boundary_sizes R b3hex p mid \<longleftrightarrow>
     list_all (\<lambda>size'. case generate_manifest R b3hex p mid size' 4096 1 of
         Ok (m, bodies) \<Rightarrow>
           validate_manifest m = Ok () \<and> sum_list (map (c_size \<circ> fst) bodies) = size' \<and>
           list_all (\<lambda>(c, body). ChunkId_verify b3hex (c_chunk_id c) body) bodies
       | _ \<Rightarrow> False) manifest_test_sizes"

text \<open>The sink: the largest piece so far and the bytes counted.\<close>

definition count_piece :: "bytes \<Rightarrow> usize \<times> u64 \<Rightarrow> usize \<times> u64" where
  "count_piece piece acc = (max (fst acc) (len_u64 piece), snd acc + len_u64 piece)"

definition assert_streams_without_accumulating :: "'r Rng \<Rightarrow> u64 \<Rightarrow> bool" where
  "assert_streams_without_accumulating R size' \<longleftrightarrow>
     (let block = push_bit 20 8 in
      case generate_file_streaming R size' 5 block of
        Ok pieces \<Rightarrow>
          (let (max_seen, count) = fold count_piece pieces (0, 0) in count = size' \<and> max_seen \<le> block)
      | _ \<Rightarrow> False)"

definition streaming_does_not_accumulate :: "'r Rng \<Rightarrow> bool" where
  "streaming_does_not_accumulate R \<longleftrightarrow> assert_streams_without_accumulating R (push_bit 20 128)"

definition streaming_full_gib :: "'r Rng \<Rightarrow> bool" where
  "streaming_full_gib R \<longleftrightarrow> assert_streams_without_accumulating R (push_bit 30 1)"

definition with_seed_restores_the_panic_hook :: "Hook \<Rightarrow> bool" where
  "with_seed_restores_the_panic_hook hook \<longleftrightarrow>
     fst (with_seed 123 (\<lambda>s h. (if s = 123 then Ok () else Panic, h)) hook) = Ok ()"

definition generate_tree_shapes :: "'r Rng \<Rightarrow> (nat \<Rightarrow> Uuid) \<Rightarrow> DateTime \<Rightarrow> bool" where
  "generate_tree_shapes R fresh now \<longleftrightarrow> length (generate_tree R fresh now 3 2 1) = 2 + 4 + 8"

section \<open>They pass\<close>

lemma tree_children_lengths:
  "tree_children R fresh now parent is s = (files, dirs, s') \<Longrightarrow> length files = length is \<and> length dirs = length is"
  by (induction R fresh now parent "is" s arbitrary: files dirs s' rule: tree_children.induct)
     (auto simp: Let_def split: prod.splits)

lemma tree_frontier_lengths:
  "tree_frontier R fresh now breadth parents s = (files, dirs, s') \<Longrightarrow>
   length files = breadth * length parents \<and> length dirs = breadth * length parents"
  by (induction R fresh now breadth parents s arbitrary: files dirs s' rule: tree_frontier.induct)
     (auto simp: Let_def dest: tree_children_lengths split: prod.splits)

lemma tree_levels_length:
  "length (tree_levels R fresh now breadth depth frontier s) = length frontier * (\<Sum>i<depth. breadth ^ Suc i)"
proof (induction R fresh now breadth depth frontier s rule: tree_levels.induct)
  case (2 R fresh now breadth depth frontier s)
  obtain files dirs s' where f: "tree_frontier R fresh now breadth frontier s = (files, dirs, s')"
    by (metis prod_cases3)
  have "(\<Sum>i<Suc depth. breadth ^ Suc i) = breadth + breadth * (\<Sum>i<depth. breadth ^ Suc i)"
    by (simp only: sum.lessThan_Suc_shift sum_distrib_left) simp
  then show ?case
    using 2 [OF f [symmetric] refl refl] tree_frontier_lengths [OF f] f by (simp add: algebra_simps)
qed simp

lemma count_pieces:
  assumes "length (concat pieces) < 2 ^ 63" "\<forall>p\<in>set pieces. len_u64 p \<le> block" "largest \<le> block"
  shows "snd (fold count_piece pieces (largest, sofar)) = sofar + len_u64 (concat pieces)"
    and "fst (fold count_piece pieces (largest, sofar)) \<le> block"
  using assms
proof (induction pieces arbitrary: largest sofar)
  case (Cons p ps)
  { case 1 then show ?case using Cons.IH(1) [of "max largest (len_u64 p)"]
      by (simp add: count_piece_def len_u64_def algebra_simps)
  next
    case 2 then show ?case using Cons.IH(2) [of "max largest (len_u64 p)"]
      by (simp add: count_piece_def) }
qed (simp_all add: len_u64_def)

lemma streaming_total:
  assumes "rng_ok R" "block \<noteq> 0" "unat block < 2 ^ 63" "unat size' < 2 ^ 63"
  obtains pieces where "generate_file_streaming R size' seed block = Ok pieces"
    "generate_file_bytes R size' seed = Ok (concat pieces)" "length (concat pieces) = unat size'"
    "\<forall>p\<in>set pieces. length p \<le> unat block"
proof -
  have pos: "0 < unat block" using assms(2) by (simp add: unat_gt_0)
  obtain pieces st' where p: "streaming_loop R (unat block) (unat size') (ByteStream_new R seed) = Ok pieces"
      "fill R (unat size') (ByteStream_new R seed) = Ok (concat pieces, st')"
      "map length pieces = cut_sizes (unat size') (unat block)"
    using streaming_loop_spec [OF assms(1) pos stream_ok_new] by blast
  obtain bs where bs: "generate_file_bytes R size' seed = Ok bs" "length bs = unat size'" "bs = concat pieces"
    using generate_file_bytes_Ok [OF assms(1,4), of seed] p(2) by auto
  have "\<forall>n\<in>set (map length pieces). n \<le> unat block"
    unfolding p(3) using pos by (auto simp: cut_sizes_def intro: less_imp_le split: if_splits)
  then show ?thesis
    using that [of pieces] p(1) bs assms(2,3) by (simp add: generate_file_streaming_def zeroed_def)
qed

lemma stream_tests_pass:
  assumes "rng_ok R"
  shows "generate_file_bytes R 10000 42 \<noteq> generate_file_bytes R 10000 43 \<Longrightarrow> same_seed_same_bytes_and_ids R b3hex"
    and "never_emits_a_zero_byte R" and "streaming_matches_in_memory_for_the_same_seed R"
    and "streaming_does_not_accumulate R" and "streaming_full_gib R"
proof -
  have whole: "\<exists>bs. generate_file_bytes R n seed = Ok bs \<and> 0 \<notin> set bs" if "unat n < 2 ^ 63" for n seed
    using generate_file_bytes_Ok [OF assms that, of seed] by blast
  show "same_seed_same_bytes_and_ids R b3hex" if "generate_file_bytes R 10000 42 \<noteq> generate_file_bytes R 10000 43"
    using that whole [of 10000 42] whole [of 10000 43] by (auto simp: same_seed_same_bytes_and_ids_def)
  show "never_emits_a_zero_byte R" using whole [of 50000 7] by (auto simp: never_emits_a_zero_byte_def)
  have "case (generate_file_streaming R 100003 99 block, generate_file_bytes R 100003 99) of
      (Ok pieces, Ok whole) \<Rightarrow> concat pieces = whole | _ \<Rightarrow> False"
    if "block \<noteq> 0" "unat block < 2 ^ 63" for block
    by (rule streaming_total [OF assms that, of 100003 99]) simp_all
  then show "streaming_matches_in_memory_for_the_same_seed R"
    by (simp add: streaming_matches_in_memory_for_the_same_seed_def)
  have "assert_streams_without_accumulating R n" if n: "unat n < 2 ^ 63" for n
  proof -
    have block: "push_bit 20 8 = (8388608 :: u64)" by simp
    obtain pieces where p: "generate_file_streaming R n 5 8388608 = Ok pieces"
        "generate_file_bytes R n 5 = Ok (concat pieces)"
        "length (concat pieces) = unat n" "\<forall>p\<in>set pieces. length p \<le> unat (8388608 :: u64)"
      by (rule streaming_total [OF assms _ _ n, of 8388608 5]) simp_all
    have "\<forall>p\<in>set pieces. len_u64 p \<le> (8388608 :: u64)"
      using p(4) by (auto simp: word_le_nat_alt unat_len_u64)
    from count_pieces [OF _ this, of 0 0] show ?thesis
      using p(1,3) n unfolding assert_streams_without_accumulating_def Let_def block
      by (simp add: split_beta len_u64_def)
  qed
  then show "streaming_does_not_accumulate R" "streaming_full_gib R"
    by (simp_all add: streaming_does_not_accumulate_def streaming_full_gib_def)
qed

lemma chunk_count_test_passes: "each_boundary_size_produces_the_expected_chunk_count"
  by (simp add: each_boundary_size_produces_the_expected_chunk_count_def BOUNDARY_SIZES_def CHUNK_def
      chunk_count_def div_ceil_def)

lemma manifest_test_passes:
  assumes R: "rng_ok R" and hex: "hex_digest b3hex"
    and apart: "\<And>size' m bodies. size' \<in> set manifest_test_sizes \<Longrightarrow>
      generate_manifest R b3hex p mid size' 4096 1 = Ok (m, bodies) \<Longrightarrow> inj_on b3hex (snd ` set bodies)"
  shows "generated_manifests_are_valid_across_boundary_sizes R b3hex p mid"
  unfolding generated_manifests_are_valid_across_boundary_sizes_def list_all_iff
proof
  fix size' assume s: "size' \<in> set manifest_test_sizes"
  then have fs: "unat size' < 2 ^ 63" by (auto simp: manifest_test_sizes_def)
  obtain g where g: "generate_manifest R b3hex p mid size' 4096 1 =
        Ok (\<lparr>m_manifest_id = mid, m_total_size = size', m_chunk_count = len_u64 (g_entries g),
             m_entries = g_entries g, m_chunks = g_chunks g\<rparr>, g_bodies g)"
      "generated_ok b3hex g" "g_offset g = size'" "generate_file_bytes R size' 1 = Ok (concat (map snd (g_bodies g)))"
    by (rule generate_manifest_Ok [OF R fs, of 4096 b3hex p mid 1]) auto
  have "manifest_ok \<lparr>m_manifest_id = mid, m_total_size = g_offset g, m_chunk_count = len_u64 (g_entries g),
      m_entries = g_entries g, m_chunks = g_chunks g\<rparr>"
    using generated_manifest_ok [OF g(2) _ hex apart [OF s g(1)]] g(3) fs by simp
  moreover have "sum_list (map (c_size \<circ> fst) (g_bodies g)) = size'"
  proof -
    have sizes: "c_size (fst cb) = len_u64 (snd cb)" if "cb \<in> set (g_bodies g)" for cb
      using generated_bodies(2) [OF g(2), of "fst cb" "snd cb"] that by (simp add: len_u64_def) (metis of_nat_unat ucast_id)
    have "sum_list (map (c_size \<circ> fst) cbs) = len_u64 (concat (map snd cbs))"
      if "set cbs \<subseteq> set (g_bodies g)" for cbs
      using that by (induction cbs) (simp_all add: sizes len_u64_def)
    then show ?thesis using generate_file_bytes_Ok [OF R fs, of 1] g(4) by (auto simp: len_u64_def)
  qed
  moreover have "list_all (\<lambda>(c, body). ChunkId_verify b3hex (c_chunk_id c) body) (g_bodies g)"
    using generated_bodies(1) [OF g(2)] by (auto simp: list_all_iff ChunkId_verify_def)
  ultimately show "case generate_manifest R b3hex p mid size' 4096 1 of
      Ok (m, bodies) \<Rightarrow> validate_manifest m = Ok () \<and> sum_list (map (c_size \<circ> fst) bodies) = size' \<and>
        (\<forall>x\<in>set bodies. case x of (c, body) \<Rightarrow> ChunkId_verify b3hex (c_chunk_id c) body)
    | _ \<Rightarrow> False"
    using g(1,3) by (simp add: manifest_ok_validates list_all_iff)
qed

lemma other_generator_tests_pass:
  "with_seed_restores_the_panic_hook hook" "generate_tree_shapes R fresh now"
proof -
  have "unat (3 :: u32) = 3" "unat (2 :: u32) = 2" by simp_all
  moreover have "(\<Sum>i<3. 2 ^ Suc i) = (14 :: nat)" by (simp add: eval_nat_numeral)
  ultimately show "generate_tree_shapes R fresh now"
    by (simp only: generate_tree_shapes_def generate_tree_def tree_levels_length) simp
qed (simp add: with_seed_restores_the_panic_hook_def with_seed_def take_hook_def)

end
