(* ===== verification/Logging_Tests.thy ===== *)
theory Logging_Tests
  imports Logging Redaction Errors
begin

text \<open>
  The scenario of \<^verbatim>\<open>tests/suites/tests/logging.rs\<close>: two events inside a span, written to the memory sink,
  and what the test asserts of each line.  A line is the map its JSON object holds; the request id and
  the time stamps are parameters.
\<close>

definition test_secret :: string where
  "test_secret = ''wJalrXUtnFEMI''"

definition test_token :: Token where
  "test_token = Secret_new (test_secret @ ''-super-secret'')"

definition test_span :: "string \<Rightarrow> Spans" where
  "test_span rid = on_new_span 1 [(''request_id'', record_debug rid), (''file_id'', record_str ''f_demo'')] Map.empty"

definition info_event :: "(string \<times> Recorded) list" where
  "info_event = [(''operation'', record_str ''read_chunk''), (''duration_ms'', record_u64 12),
     (''result'', record_str ''ok''), (''chunk_id'', record_str ''b3:00''), (''msg'', record_str ''completed'')]"

definition error_event :: "(string \<times> Recorded) list" where
  "error_event = [(''operation'', record_str ''commit''), (''result'', record_str ''error''),
     (''error_code'', record_str ''INTEGRITY_MANIFEST_INVALID''),
     (''secret'', record_debug (Secret_display test_token)), (''msg'', record_str ''commit rejected'')]"

definition suite_lines :: "string \<Rightarrow> string \<Rightarrow> string \<Rightarrow> FieldBag list" where
  "suite_lines rid ts1 ts2 =
     [on_event \<lparr>le_ts = ts1, le_level = ''INFO'', le_component = ''space-test''\<rparr> (test_span rid) [1] info_event,
      on_event \<lparr>le_ts = ts2, le_level = ''ERROR'', le_component = ''space-test''\<rparr> (test_span rid) [1] error_event]"

text \<open>The keys a line of the suite can have.\<close>

definition suite_keys :: "string list" where
  "suite_keys = REQUIRED_FIELDS @ [''secret'']"

definition shows_secret :: "Value option \<Rightarrow> bool" where
  "shows_secret v = (case v of Some (VString s) \<Rightarrow> sublist test_secret s | _ \<Rightarrow> False)"

definition line_asserts :: "string \<Rightarrow> FieldBag \<Rightarrow> bool" where
  "line_asserts rid v \<longleftrightarrow>
     list_all (\<lambda>key. v key \<noteq> None) REQUIRED_FIELDS \<and>
     v ''component'' = Some (VString ''space-test'') \<and> \<not> list_ex (\<lambda>k. shows_secret (v k)) suite_keys \<and>
     (v ''result'' = Some (VString ''ok'') \<longrightarrow>
        v ''request_id'' = Some (VString rid) \<and> v ''file_id'' = Some (VString ''f_demo'') \<and>
        v ''operation'' = Some (VString ''read_chunk'') \<and> v ''duration_ms'' = Some (VNumber 12) \<and>
        v ''msg'' = Some (VString ''completed'')) \<and>
     (v ''result'' = Some (VString ''error'') \<longrightarrow>
        v ''error_code'' = Some (VString ''INTEGRITY_MANIFEST_INVALID'') \<and> v ''request_id'' = Some (VString rid))"

definition every_line_is_json_with_all_required_keys_and_redaction_holds ::
  "(string \<Rightarrow> bool) \<Rightarrow> string \<Rightarrow> string \<Rightarrow> string \<Rightarrow> bool" where
  "every_line_is_json_with_all_required_keys_and_redaction_holds builds rid ts1 ts2 \<longleftrightarrow>
     (case (init builds ''space-test'' (fst memory_sink) no_logging :: unit space_result \<times> LogGlobals) of
        (Ok u, g) \<Rightarrow>
          lg_subscriber g = Some \<lparr>jl_component = ''space-test'', jl_writer = Buffer\<rparr> \<and>
          Secret_display test_token = ''[redacted]'' \<and> Secret_debug test_token = ''[redacted]'' \<and>
          sanitize_url ''https://s3/obj?X-Amz-Signature=deadbeef'' = ''https://s3/obj?[redacted]'' \<and>
          list_all (line_asserts rid) (suite_lines rid ts1 ts2) \<and>
          list_ex (\<lambda>v. v ''result'' = Some (VString ''ok'')) (suite_lines rid ts1 ts2) \<and>
          list_ex (\<lambda>v. v ''result'' = Some (VString ''error'')) (suite_lines rid ts1 ts2)
      | _ \<Rightarrow> False)"

definition space_error_display_never_prints_a_secret :: bool where
  "space_error_display_never_prints_a_secret \<longleftrightarrow>
     (let s = show_error (new_error AuthFailed ''credential rejected'')
      in sublist ''AuthFailed'' s \<and> \<not> sublist test_secret s)"

section \<open>It passes\<close>

lemma suite_values:
  "take_msg (merged_fields (test_span rid) [1] info_event) = (VString ''completed'',
     [''request_id'' \<mapsto> VString rid, ''file_id'' \<mapsto> VString ''f_demo'', ''operation'' \<mapsto> VString ''read_chunk'',
      ''duration_ms'' \<mapsto> VNumber 12, ''result'' \<mapsto> VString ''ok'', ''chunk_id'' \<mapsto> VString ''b3:00''])"
  "take_msg (merged_fields (test_span rid) [1] error_event) = (VString ''commit rejected'',
     [''request_id'' \<mapsto> VString rid, ''file_id'' \<mapsto> VString ''f_demo'', ''operation'' \<mapsto> VString ''commit'',
      ''result'' \<mapsto> VString ''error'', ''error_code'' \<mapsto> VString ''INTEGRITY_MANIFEST_INVALID'',
      ''secret'' \<mapsto> VString ''[redacted]''])"
  by (simp_all add: merged_fields_def merge_bag_def test_span_def on_new_span_def record_fields_def map_add_def
      take_msg_def info_event_def error_event_def Secret_display_def fun_eq_iff)

lemma no_secret: "length s < 13 \<Longrightarrow> \<not> sublist test_secret s"
  by (auto simp: test_secret_def dest: sublist_length_le)

lemma logging_suite_passes:
  assumes "\<not> sublist test_secret rid" "\<not> sublist test_secret ts1" "\<not> sublist test_secret ts2"
  shows "every_line_is_json_with_all_required_keys_and_redaction_holds builds rid ts1 ts2"
    and "space_error_display_never_prints_a_secret"
proof -
  show "every_line_is_json_with_all_required_keys_and_redaction_holds builds rid ts1 ts2"
    using assms sanitize_url_query [of "''https://s3/obj''" "''X-Amz-Signature=deadbeef''"]
    by (simp add: every_line_is_json_with_all_required_keys_and_redaction_holds_def memory_sink_def init_fresh
        sink_opens_def Secret_display_def Secret_debug_def suite_lines_def line_asserts_def suite_keys_def
        on_event_value [OF suite_values(1)] on_event_value [OF suite_values(2)] schema_value_def REQUIRED_FIELDS_def
        shows_secret_def no_secret)
       (simp add: test_secret_def sublist_Cons_right)
  show "space_error_display_never_prints_a_secret"
    by (simp add: space_error_display_never_prints_a_secret_def new_error_def test_secret_def sublist_Cons_right)
qed

end
