(* ===== verification/Server_Main.thy ===== *)
theory Server_Main
  imports Cloud_Runs Logging
begin

text \<open>
  The server binary (\<^verbatim>\<open>cloud/api/src/main.rs\<close>): the variables it reads, the log sink, the bind, the lines
  it prints and logs, and the requests it serves until the signal.  \<open>ServerHost\<close> is the surrounding
  system: the two environment variables, the directories in which a log file can be opened, what binding
  an address gives (the bound address, or nothing when it fails), and the requests that arrive, each with
  its environment, in the order in which they are handled.  Serving does not fail by itself, as the
  documentation of \<^verbatim>\<open>axum::serve\<close> states.
\<close>

record ServerHost =
  sh_addr :: "string option"
  sh_log_dir :: "string option"
  sh_appender_builds :: "string \<Rightarrow> bool"
  sh_bind :: "string \<Rightarrow> string option"
  sh_requests :: "(Env \<times> HttpRequest) list"

record ServerIo =
  so_stdout :: "string list"
  so_log :: "LogEvent list"
  so_logging :: LogGlobals
  so_responses :: "HttpResponse option list"

definition server_addr :: "ServerHost \<Rightarrow> string" where
  "server_addr host = (case sh_addr host of Some a \<Rightarrow> a | None \<Rightarrow> ''127.0.0.1:8080'')"

definition server_sink :: "ServerHost \<Rightarrow> LogSink" where
  "server_sink host = (case sh_log_dir host of Some dir \<Rightarrow> Directory dir | None \<Rightarrow> Stderr)"

definition server_event :: "string \<Rightarrow> string \<Rightarrow> LogEvent" where
  "server_event operation msg =
     (''INFO'', [(''operation'', record_str operation), (''result'', record_str ''ok''), (''msg'', record_str msg)])"

definition listening_event :: LogEvent where
  "listening_event = server_event ''startup'' ''space-cloud listening''"

definition stopped_event :: LogEvent where
  "stopped_event = server_event ''shutdown'' ''space-cloud stopped''"

definition shutdown_signal :: LogEvent where
  "shutdown_signal = server_event ''shutdown'' ''signal received, draining''"

fun serve :: "AppState \<Rightarrow> (Env \<times> HttpRequest) list \<Rightarrow> HttpResponse option list \<times> AppState" where
  "serve st [] = ([], st)"
| "serve st ((env, q) # rest) =
     (let (r, st') = request_id_layer env st q; (rs, st'') = serve st' rest in (r # rs, st''))"

text \<open>The state is created after the log sink and before the bind; an error ends the process with it.\<close>

definition server_main :: "ServerHost \<Rightarrow> (unit, unit) outcome \<times> ServerIo \<times> AppState" where
  "server_main host =
     (let io = \<lparr>so_stdout = [], so_log = [], so_logging = no_logging, so_responses = []\<rparr> in
      case init (sh_appender_builds host) ''space-cloud'' (server_sink host) no_logging of
        (Ok u, g) \<Rightarrow>
          (case sh_bind host (server_addr host) of
             None \<Rightarrow> (Err (), io\<lparr>so_logging := g\<rparr>, AppState_default)
           | Some bound \<Rightarrow>
               (let (rs, st) = serve AppState_default (sh_requests host)
                in (Ok (),
                    \<lparr>so_stdout = [''space-cloud listening on http://'' @ bound],
                     so_log = [listening_event, shutdown_signal, stopped_event],
                     so_logging = g, so_responses = rs\<rparr>, st)))
      | (Err e, g) \<Rightarrow> (Err e, io, AppState_default)
      | (Panic, g) \<Rightarrow> (Panic, io, AppState_default))"

section \<open>What the process serves\<close>

text \<open>Each request meets a fresh file id and a body that fits, in the state it is served in.\<close>

fun serving_ok :: "(bytes \<Rightarrow> string) \<Rightarrow> AppState \<Rightarrow> (Env \<times> HttpRequest) list \<Rightarrow> bool" where
  "serving_ok b3hex st [] = True"
| "serving_ok b3hex st ((env, q) # rest) =
     (env_b3hex env = b3hex \<and> env_ok env st \<and> serving_ok b3hex (snd (request_id_layer env st q)) rest)"

lemma serve_run: "serving_ok b3hex st reqs \<Longrightarrow> (server_step b3hex)\<^sup>*\<^sup>* st (snd (serve st reqs))"
proof (induction reqs arbitrary: st)
  case (Cons r reqs)
  obtain env q where r: "r = (env, q)" by (cases r)
  have "(server_step b3hex)\<^sup>*\<^sup>* st (snd (request_id_layer env st q))"
    using Cons.prems r request_run [of env st q] by auto
  moreover have "(server_step b3hex)\<^sup>*\<^sup>* (snd (request_id_layer env st q))
      (snd (serve (snd (request_id_layer env st q)) reqs))"
    using Cons r by auto
  ultimately show ?case using r by (simp add: split_beta Let_def)
qed simp

lemma length_serve: "length (fst (serve st reqs)) = length reqs"
  by (induction reqs arbitrary: st) (auto simp: split_beta Let_def)

text \<open>
  A process whose log sink opens and whose address binds announces itself once, logs its start and its
  two shutdown lines under its own component, answers as many requests as arrived, and ends in a state
  that is reached by locked sections, so that every invariant of the running server holds in it.
\<close>

lemma server_main_serves:
  assumes "sink_opens (sh_appender_builds host) (server_sink host)"
    and "sh_bind host (server_addr host) = Some bound"
    and "serving_ok b3hex AppState_default (sh_requests host)"
  shows "\<exists>io st. server_main host = (Ok (), io, st) \<and>
    so_stdout io = [''space-cloud listening on http://'' @ bound] \<and>
    so_log io = [listening_event, shutdown_signal, stopped_event] \<and>
    map_option jl_component (lg_subscriber (so_logging io)) = Some ''space-cloud'' \<and>
    length (so_responses io) = length (sh_requests host) \<and>
    (server_step b3hex)\<^sup>*\<^sup>* AppState_default st \<and> app_inv b3hex st"
proof -
  obtain rs st where s: "serve AppState_default (sh_requests host) = (rs, st)" by fastforce
  then have run: "(server_step b3hex)\<^sup>*\<^sup>* AppState_default st" using serve_run [OF assms(3)] by simp
  have "length rs = length (sh_requests host)" using length_serve [of AppState_default "sh_requests host"] s by simp
  moreover have "server_main host = (Ok (),
      \<lparr>so_stdout = [''space-cloud listening on http://'' @ bound],
       so_log = [listening_event, shutdown_signal, stopped_event],
       so_logging = \<lparr>lg_guard = Some (\<exists>dir. server_sink host = Directory dir),
         lg_subscriber = Some \<lparr>jl_component = ''space-cloud'', jl_writer = server_sink host\<rparr>\<rparr>,
       so_responses = rs\<rparr>, st)"
    using assms(2) s by (simp add: server_main_def Let_def init_fresh [OF assms(1)])
  ultimately show ?thesis using run server.reachable_inv [OF run] by simp
qed

lemma server_main_fails:
  "\<not> sink_opens (sh_appender_builds host) (server_sink host) \<Longrightarrow> fst (server_main host) = Panic"
  "sink_opens (sh_appender_builds host) (server_sink host) \<Longrightarrow> sh_bind host (server_addr host) = None \<Longrightarrow>
   fst (server_main host) = Err () \<and> so_stdout (fst (snd (server_main host))) = []"
  by (simp_all add: server_main_def init_closed init_fresh Let_def)

end
