(* ===== verification/Contract_Tests.thy ===== *)
theory Contract_Tests
  imports Validate Redaction
begin

text \<open>
  The unit tests of the contract crate (the \<^verbatim>\<open>tests\<close> modules of \<^verbatim>\<open>errors.rs\<close>, \<^verbatim>\<open>model.rs\<close>,
  \<^verbatim>\<open>redaction.rs\<close> and \<^verbatim>\<open>validate.rs\<close>) as programs over the model: a test is true when all its assertions
  hold.  They are proved to pass, which ties the model to what the code is tested to do.  Tests of the
  UUID, BLAKE3 and serde libraries are left out.  Fresh identities and the clock are parameters.
\<close>

unbundle bit_operations_syntax

section \<open>Errors\<close>

definition all_slice_covers_every_variant :: bool where
  "all_slice_covers_every_variant \<longleftrightarrow> length ALL_CODES = 26"

definition every_error_code_is_fully_classified :: bool where
  "every_error_code_is_fully_classified \<longleftrightarrow>
     list_all (\<lambda>c. (code_ntstatus c = None) = is_startup_only c) ALL_CODES"

definition retryable_is_exactly_the_three_network_resource_codes :: bool where
  "retryable_is_exactly_the_three_network_resource_codes \<longleftrightarrow>
     filter code_retryable ALL_CODES = [NetworkTimeout, NetworkUnavailable, ResourceExhausted]"

definition error_chaining_preserves_root_cause_through_three_levels :: bool where
  "error_chaining_preserves_root_cause_through_three_levels \<longleftrightarrow>
     (let root = new_error DiskFull ''no space on device'';
          mid = caused_by (new_error StorageError ''chunk publish failed'') root;
          top = caused_by (new_error InternalError ''commit aborted'') mid
      in se_code (root_cause top) = DiskFull)"

definition display_contains_code_and_message_but_no_secret :: bool where
  "display_contains_code_and_message_but_no_secret \<longleftrightarrow>
     (let s = show_error (new_error AuthFailed ''token rejected'')
      in sublist ''AuthFailed'' s \<and> sublist ''token rejected'' s \<and>
         \<not> sublist ''wJalrXUtnFEMI'' s)"

section \<open>Content addresses\<close>

definition quick_brown_fox :: bytes where
  "quick_brown_fox = map of_char ''the quick brown fox''"

definition flipped_fox :: bytes where
  "flipped_fox = quick_brown_fox[0 := (quick_brown_fox ! 0) XOR 1]"

definition chunk_id_verify_detects_a_single_flipped_byte :: "(bytes \<Rightarrow> string) \<Rightarrow> bool" where
  "chunk_id_verify_detects_a_single_flipped_byte b3hex \<longleftrightarrow>
     (let i = ChunkId_from_bytes b3hex quick_brown_fox
      in ChunkId_verify b3hex i quick_brown_fox \<and> \<not> ChunkId_verify b3hex i flipped_fox)"

section \<open>The version states and redaction\<close>

definition version_state_machine_only_allows_candidate_to_committed :: bool where
  "version_state_machine_only_allows_candidate_to_committed \<longleftrightarrow>
     can_transition_to Candidate Committed \<and> \<not> can_transition_to Committed Candidate \<and>
     \<not> can_transition_to Committed Committed \<and> \<not> can_transition_to Candidate Candidate"

definition secret_never_renders_its_value :: bool where
  "secret_never_renders_its_value \<longleftrightarrow>
     (let t = Secret_new ''wJalrXUtnFEMI/K7MDENG''
      in Secret_display t = ''[redacted]'' \<and> Secret_debug t = ''[redacted]'' \<and>
         Secret_expose t = ''wJalrXUtnFEMI/K7MDENG'')"

definition sanitize_url_strips_query_string :: bool where
  "sanitize_url_strips_query_string \<longleftrightarrow>
     sanitize_url ''https://s3.example.com/chunk?X-Amz-Signature=abcdef''
       = ''https://s3.example.com/chunk?[redacted]'' \<and>
     sanitize_url ''https://s3.example.com/chunk'' = ''https://s3.example.com/chunk''"

section \<open>The validators\<close>

definition le_bytes :: "u32 \<Rightarrow> bytes" where
  "le_bytes w = map (\<lambda>k. ucast (drop_bit (8 * k) w)) [0..<4]"

text \<open>The counts the tests use are small, so that the product does not overflow.\<close>

definition test_entry :: "(bytes \<Rightarrow> string) \<Rightarrow> nat \<Rightarrow> ManifestEntry" where
  "test_entry b3hex i =
     \<lparr>e_logical_offset = of_nat i * 4, e_length = 4,
      e_chunk_id = ChunkId_from_bytes b3hex (le_bytes (of_nat i)), e_chunk_offset = 0\<rparr>"

definition test_chunk :: "(bytes \<Rightarrow> string) \<Rightarrow> nat \<Rightarrow> Chunk" where
  "test_chunk b3hex i = \<lparr>c_chunk_id = ChunkId_from_bytes b3hex (le_bytes (of_nat i)), c_size = 4\<rparr>"

definition valid_manifest :: "(bytes \<Rightarrow> string) \<Rightarrow> ManifestId \<Rightarrow> nat \<Rightarrow> Manifest" where
  "valid_manifest b3hex mid n =
     \<lparr>m_manifest_id = mid, m_total_size = of_nat n * 4, m_chunk_count = of_nat n,
      m_entries = map (test_entry b3hex) [0..<n], m_chunks = map (test_chunk b3hex) [0..<n]\<rparr>"

definition on_entry :: "nat \<Rightarrow> (ManifestEntry \<Rightarrow> ManifestEntry) \<Rightarrow> Manifest \<Rightarrow> Manifest" where
  "on_entry k f m = m\<lparr>m_entries := (m_entries m)[k := f (m_entries m ! k)]\<rparr>"

definition valid_manifests_pass :: "(bytes \<Rightarrow> string) \<Rightarrow> ManifestId \<Rightarrow> bool" where
  "valid_manifests_pass b3hex mid \<longleftrightarrow>
     list_all (\<lambda>n. validate_manifest (valid_manifest b3hex mid n) = Ok ()) [1, 2, 3, 8]"

definition empty_manifest_is_valid :: "ManifestId \<Rightarrow> bool" where
  "empty_manifest_is_valid mid \<longleftrightarrow>
     validate_manifest \<lparr>m_manifest_id = mid, m_total_size = 0, m_chunk_count = 0, m_entries = [],
       m_chunks = []\<rparr> = Ok ()"

definition fails_code :: "ErrorCode \<Rightarrow> 'a space_result \<Rightarrow> bool" where
  "fails_code c r = (case r of Err e \<Rightarrow> se_code e = c | _ \<Rightarrow> False)"

definition inv01_swap_two_entries_fails :: "(bytes \<Rightarrow> string) \<Rightarrow> ManifestId \<Rightarrow> bool" where
  "inv01_swap_two_entries_fails b3hex mid \<longleftrightarrow>
     (let m = valid_manifest b3hex mid 3; es = m_entries m
      in fails_code IntegrityManifestInvalid
           (validate_manifest (m\<lparr>m_entries := es[0 := es ! 2, 2 := es ! 0]\<rparr>)))"

definition inv02_gap_fails :: "(bytes \<Rightarrow> string) \<Rightarrow> ManifestId \<Rightarrow> bool" where
  "inv02_gap_fails b3hex mid \<longleftrightarrow>
     is_err (validate_manifest
       (on_entry 2 (\<lambda>e. e\<lparr>e_logical_offset := e_logical_offset e + 1\<rparr>)
         (on_entry 1 (\<lambda>e. e\<lparr>e_logical_offset := e_logical_offset e + 1\<rparr>) (valid_manifest b3hex mid 3))))"

definition inv03_overlap_fails :: "(bytes \<Rightarrow> string) \<Rightarrow> ManifestId \<Rightarrow> bool" where
  "inv03_overlap_fails b3hex mid \<longleftrightarrow>
     is_err (validate_manifest
       (on_entry 1 (\<lambda>e. e\<lparr>e_logical_offset := e_logical_offset e - 1\<rparr>) (valid_manifest b3hex mid 3)))"

definition inv04_first_offset_one_fails :: "(bytes \<Rightarrow> string) \<Rightarrow> ManifestId \<Rightarrow> bool" where
  "inv04_first_offset_one_fails b3hex mid \<longleftrightarrow>
     is_err (validate_manifest
       (on_entry 1 (\<lambda>e. e\<lparr>e_logical_offset := 5\<rparr>)
         (on_entry 0 (\<lambda>e. e\<lparr>e_logical_offset := 1\<rparr>) (valid_manifest b3hex mid 2))))"

definition inv05_total_size_off_by_one_fails :: "(bytes \<Rightarrow> string) \<Rightarrow> ManifestId \<Rightarrow> bool" where
  "inv05_total_size_off_by_one_fails b3hex mid \<longleftrightarrow>
     (let m = valid_manifest b3hex mid 3
      in is_err (validate_manifest (m\<lparr>m_total_size := m_total_size m + 1\<rparr>)))"

definition inv05_length_overflow_does_not_panic :: "(bytes \<Rightarrow> string) \<Rightarrow> ManifestId \<Rightarrow> bool" where
  "inv05_length_overflow_does_not_panic b3hex mid \<longleftrightarrow>
     fails_code IntegrityManifestInvalid (validate_manifest
       (on_entry 1 (\<lambda>e. e\<lparr>e_length := -1\<rparr>)
         (on_entry 0 (\<lambda>e. e\<lparr>e_length := -1\<rparr>) (valid_manifest b3hex mid 2))))"

definition inv06_chunk_count_off_by_one_fails :: "(bytes \<Rightarrow> string) \<Rightarrow> ManifestId \<Rightarrow> bool" where
  "inv06_chunk_count_off_by_one_fails b3hex mid \<longleftrightarrow>
     (let m = valid_manifest b3hex mid 3
      in is_err (validate_manifest (m\<lparr>m_chunk_count := m_chunk_count m + 1\<rparr>)))"

definition inv07_zero_length_entry_fails :: "(bytes \<Rightarrow> string) \<Rightarrow> ManifestId \<Rightarrow> bool" where
  "inv07_zero_length_entry_fails b3hex mid \<longleftrightarrow>
     is_err (validate_manifest (on_entry 0 (\<lambda>e. e\<lparr>e_length := 0\<rparr>) (valid_manifest b3hex mid 2)))"

definition inv08_chunk_offset_plus_length_exceeds_chunk_size_fails ::
  "(bytes \<Rightarrow> string) \<Rightarrow> ManifestId \<Rightarrow> bool" where
  "inv08_chunk_offset_plus_length_exceeds_chunk_size_fails b3hex mid \<longleftrightarrow>
     is_err (validate_manifest (on_entry 0 (\<lambda>e. e\<lparr>e_chunk_offset := 2\<rparr>) (valid_manifest b3hex mid 2)))"

definition unreferenced :: bytes where
  "unreferenced = map of_char ''unreferenced''"

definition inv09_corrupt_chunk_id_string_fails :: "(bytes \<Rightarrow> string) \<Rightarrow> ManifestId \<Rightarrow> bool" where
  "inv09_corrupt_chunk_id_string_fails b3hex mid \<longleftrightarrow>
     (let m = valid_manifest b3hex mid 2; cs = m_chunks m;
          i = ChunkId_from_bytes b3hex unreferenced
      in is_err (validate_manifest (m\<lparr>m_chunks := cs[0 := (cs ! 0)\<lparr>c_chunk_id := i\<rparr>]\<rparr>)))"

definition within_file_dedup_is_legal :: "(bytes \<Rightarrow> string) \<Rightarrow> ManifestId \<Rightarrow> bool" where
  "within_file_dedup_is_legal b3hex mid \<longleftrightarrow>
     (let i = ChunkId_from_bytes b3hex (map of_char ''AB'')
      in validate_manifest
           \<lparr>m_manifest_id = mid, m_total_size = 4, m_chunk_count = 2,
            m_entries = [\<lparr>e_logical_offset = 0, e_length = 2, e_chunk_id = i, e_chunk_offset = 0\<rparr>,
                         \<lparr>e_logical_offset = 2, e_length = 2, e_chunk_id = i, e_chunk_offset = 0\<rparr>],
            m_chunks = [\<lparr>c_chunk_id = i, c_size = 2\<rparr>]\<rparr> = Ok ())"

definition inv10_state_transitions :: bool where
  "inv10_state_transitions \<longleftrightarrow>
     validate_version_transition Candidate Committed = Ok () \<and>
     is_err (validate_version_transition Committed Candidate)"

definition inv11_current_version_must_be_committed ::
  "FileId \<Rightarrow> VersionId \<Rightarrow> VersionId \<Rightarrow> DirectoryId \<Rightarrow> ManifestId \<Rightarrow> DateTime \<Rightarrow> bool" where
  "inv11_current_version_must_be_committed fid vid vid' dir mid now \<longleftrightarrow>
     (let file = \<lparr>f_file_id = fid, f_parent_id = dir, f_name = ''a.txt'',
                  f_current_version_id = Some vid, f_created_at = now, f_modified_at = now\<rparr>;
          version = \<lparr>v_version_id = vid, v_file_id = fid, v_parent_version_id = None,
                     v_manifest_id = mid, v_state = Candidate, v_created_at = now\<rparr>;
          committed = version\<lparr>v_state := Committed\<rparr>
      in is_err (validate_file_current_version file version) \<and>
         validate_file_current_version file committed = Ok () \<and>
         is_err (validate_file_current_version (file\<lparr>f_current_version_id := Some vid'\<rparr>) committed))"

definition inv12_parent_must_be_same_file ::
  "FileId \<Rightarrow> FileId \<Rightarrow> VersionId \<Rightarrow> VersionId \<Rightarrow> ManifestId \<Rightarrow> ManifestId \<Rightarrow> DateTime \<Rightarrow> bool" where
  "inv12_parent_must_be_same_file fid fid' vid vid' mid mid' now \<longleftrightarrow>
     (let parent = \<lparr>v_version_id = vid, v_file_id = fid, v_parent_version_id = None,
                    v_manifest_id = mid, v_state = Committed, v_created_at = now\<rparr>;
          child = \<lparr>v_version_id = vid', v_file_id = fid, v_parent_version_id = Some (v_version_id parent),
                   v_manifest_id = mid', v_state = Candidate, v_created_at = now\<rparr>
      in validate_version_parent child parent = Ok () \<and>
         is_err (validate_version_parent (child\<lparr>v_file_id := fid'\<rparr>) parent))"

section \<open>All of them pass\<close>

lemma error_tests_pass:
  "all_slice_covers_every_variant" "every_error_code_is_fully_classified"
  "retryable_is_exactly_the_three_network_resource_codes"
  "error_chaining_preserves_root_cause_through_three_levels"
  by (simp_all add: all_slice_covers_every_variant_def every_error_code_is_fully_classified_def
      retryable_is_exactly_the_three_network_resource_codes_def ALL_CODES_def is_startup_only_def
      code_retryable_def error_chaining_preserves_root_cause_through_three_levels_def caused_by_def
      new_error_def Let_def)

lemma address_test_passes:
  "b3hex flipped_fox \<noteq> b3hex quick_brown_fox \<Longrightarrow> chunk_id_verify_detects_a_single_flipped_byte b3hex"
  by (simp add: chunk_id_verify_detects_a_single_flipped_byte_def ChunkId_verify_def ChunkId_from_bytes_def Let_def
      eq_commute)

lemma display_test_passes: "display_contains_code_and_message_but_no_secret"
  by (simp add: display_contains_code_and_message_but_no_secret_def new_error_def Let_def sublist_Cons_right)

lemma model_and_redaction_tests_pass:
  "version_state_machine_only_allows_candidate_to_committed" "secret_never_renders_its_value"
  "sanitize_url_strips_query_string"
  by (simp_all add: version_state_machine_only_allows_candidate_to_committed_def
      secret_never_renders_its_value_def Secret_new_def Secret_display_def Secret_debug_def
      sanitize_url_strips_query_string_def sanitize_url_def strip_prefix_def Let_def)

text \<open>The validator is decided by \<open>manifest_ok\<close>, which the simplifier evaluates on a concrete manifest.\<close>

lemma rejected_iff: "is_err (validate_manifest m) \<longleftrightarrow> \<not> manifest_ok m"
  using validate_manifest_not_Panic [of m]
  by (cases "validate_manifest m") (auto simp: is_err_def manifest_ok_validates [symmetric])

lemma fails_code_iff: "fails_code IntegrityManifestInvalid (validate_manifest m) \<longleftrightarrow> \<not> manifest_ok m"
  using validate_manifest_fails_with [of m] validate_manifest_not_Panic [of m]
  by (cases "validate_manifest m") (auto simp: fails_code_def manifest_ok_validates [symmetric])

lemma test_entry_sel [simp]:
  "e_logical_offset (test_entry b3hex i) = of_nat i * 4" "e_length (test_entry b3hex i) = 4"
  "e_chunk_id (test_entry b3hex i) = ChunkId_from_bytes b3hex (le_bytes (of_nat i))"
  "e_chunk_offset (test_entry b3hex i) = 0"
  by (simp_all add: test_entry_def)

lemma tiles_test_entries:
  "k + n \<le> 8 \<Longrightarrow> tiles (4 * k) (map (test_entry b3hex) [k..<k + n])"
proof (induction n arbitrary: k)
  case (Suc n)
  have "unat (of_nat k * 4 :: u64) = 4 * k"
    using Suc.prems by (simp add: unat_word_ariths unat_of_nat)
  moreover have "[k..<k + Suc n] = k # [Suc k..<Suc k + n]" by (simp add: upt_conv_Cons del: upt_Suc)
  moreover have "4 * k + unat (4 :: u64) = 4 * Suc k" by simp
  moreover have "tiles (4 * Suc k) (map (test_entry b3hex) [Suc k..<Suc k + n])"
    using Suc.IH [of "Suc k"] Suc.prems by simp
  ultimately show ?case by (simp only: list.map tiles.simps test_entry_sel simp_thms)
qed simp

lemma total_test_entries: "total_length (map (test_entry b3hex) is) = 4 * length is"
  by (induction "is") simp_all

lemma valid_manifest_ok:
  assumes hex: "hex_digest b3hex" and n: "n \<le> 8"
  shows "manifest_ok (valid_manifest b3hex mid n)"
proof -
  let ?m = "valid_manifest b3hex mid n"
  have size': "chunk_size ?m (e_chunk_id (test_entry b3hex i)) = Some 4" if "i < n" for i
  proof -
    have "e_chunk_id (test_entry b3hex i) \<in> c_chunk_id ` set (m_chunks ?m)"
      using that by (force simp: valid_manifest_def test_chunk_def)
    then obtain s where "chunk_size ?m (e_chunk_id (test_entry b3hex i)) = Some s"
      by (metis chunk_size_None_iff not_None_eq)
    with chunk_size_Some_in [OF this] show ?thesis by (auto simp: valid_manifest_def test_chunk_def)
  qed
  have "unat (of_nat n * 4 :: u64) = 4 * n" "unat (of_nat n :: u64) = n"
    using n by (simp_all add: unat_word_ariths unat_of_nat)
  then show ?thesis
    using tiles_test_entries [of 0 n b3hex] size' n hex
    by (auto simp: manifest_ok_def valid_manifest_def total_test_entries entry_in_chunk_def wf_from_bytes
        test_chunk_def)
qed

lemma valid_manifests_pass_holds: "hex_digest b3hex \<Longrightarrow> valid_manifests_pass b3hex mid"
  by (simp add: valid_manifests_pass_def manifest_ok_validates valid_manifest_ok)

lemma empty_manifest_is_valid_holds: "empty_manifest_is_valid mid"
  by (simp add: empty_manifest_is_valid_def manifest_ok_validates manifest_ok_def)

lemma short_lists:
  "[0..<2] = [0, 1 :: nat]" "[0..<3] = [0, 1, 2 :: nat]" "[a, b, c][2 := x] = [a, b, x]"
  by (simp_all add: upt_rec numeral_2_eq_2 numeral_3_eq_3)

lemmas test_defs = short_lists Let_def rejected_iff fails_code_iff manifest_ok_def valid_manifest_def on_entry_def

lemma rejection_tests_pass:
  "inv01_swap_two_entries_fails b3hex mid" "inv02_gap_fails b3hex mid" "inv03_overlap_fails b3hex mid"
  "inv04_first_offset_one_fails b3hex mid" "inv05_total_size_off_by_one_fails b3hex mid"
  "inv05_length_overflow_does_not_panic b3hex mid" "inv06_chunk_count_off_by_one_fails b3hex mid"
  "inv07_zero_length_entry_fails b3hex mid"
  by (simp_all add: test_defs inv01_swap_two_entries_fails_def inv02_gap_fails_def inv03_overlap_fails_def
      inv04_first_offset_one_fails_def inv05_total_size_off_by_one_fails_def
      inv05_length_overflow_does_not_panic_def inv06_chunk_count_off_by_one_fails_def
      inv07_zero_length_entry_fails_def unsigned_minus_1_eq_mask mask_eq_exp_minus_1)

lemma chunk_tests_pass:
  "inv08_chunk_offset_plus_length_exceeds_chunk_size_fails b3hex mid"
  "b3hex unreferenced \<notin> {b3hex (le_bytes 0), b3hex (le_bytes 1)} \<Longrightarrow>
   inv09_corrupt_chunk_id_string_fails b3hex mid"
  "hex_digest b3hex \<Longrightarrow> within_file_dedup_is_legal b3hex mid"
proof -
  show "inv08_chunk_offset_plus_length_exceeds_chunk_size_fails b3hex mid"
    by (simp add: test_defs inv08_chunk_offset_plus_length_exceeds_chunk_size_fails_def entry_in_chunk_def
        chunk_size_def test_chunk_def)
  show "inv09_corrupt_chunk_id_string_fails b3hex mid"
    if "b3hex unreferenced \<notin> {b3hex (le_bytes 0), b3hex (le_bytes 1)}"
  proof -
    have "b3hex unreferenced \<noteq> b3hex (le_bytes 0)"
      "b3hex unreferenced \<noteq> b3hex (le_bytes 1)" using that by simp_all
    note differ = this this [symmetric]
    show ?thesis
      by (simp add: test_defs inv09_corrupt_chunk_id_string_fails_def test_chunk_def ChunkId_from_bytes_def
          differ)
  qed
  show "within_file_dedup_is_legal b3hex mid" if "hex_digest b3hex"
    using that wf_from_bytes [OF that]
    by (simp add: within_file_dedup_is_legal_def Let_def manifest_ok_validates manifest_ok_def
        entry_in_chunk_def chunk_size_def)
qed

lemma version_tests_pass:
  "inv10_state_transitions"
  "vid' \<noteq> vid \<Longrightarrow> inv11_current_version_must_be_committed fid vid vid' dir mid now"
  "fid' \<noteq> fid \<Longrightarrow> inv12_parent_must_be_same_file fid fid' vid1 vid2 mid1 mid2 now"
  by (simp_all add: inv10_state_transitions_def inv11_current_version_must_be_committed_def
      inv12_parent_must_be_same_file_def validate_version_transition_def validate_file_current_version_def
      validate_version_parent_def fail_if_def is_err_def Let_def)

end
