(* ===== verification/Client_Tests.thy ===== *)
theory Client_Tests
  imports Contract_Tests Startup Faults
begin

text \<open>
  The unit tests of the configuration crate, of the client's startup, of the log layer and of the fault
  points, as programs over the model.  A configuration test rewrites a line of \<^verbatim>\<open>config.example.toml\<close> and
  loads the text; here the text is represented by the document the TOML library makes of it.  The temporary directory is a directory \<open>tmp\<close> of a disk.
\<close>

section \<open>Configuration\<close>

definition good :: "string \<Rightarrow> Config" where
  "good tmp =
     \<lparr>config_version = 1,
      cfg_client = \<lparr>worker_threads = 4, callback_timeout_ms = 30000, shutdown_deadline_ms = 10000,
        mount_drive_letter = ''S''\<rparr>,
      cfg_paths = \<lparr>runtime_dir = tmp, cache_dir = tmp @ ''/cache'', durable_dir = tmp @ ''/durable'',
        log_dir = tmp @ ''/logs''\<rparr>,
      cfg_chunking = \<lparr>chunk_size_bytes = 33554432, hash_algorithm = ''blake3''\<rparr>,
      cfg_cache = \<lparr>max_bytes = 10737418240, eviction_policy = ''slru''\<rparr>,
      cfg_transfer = \<lparr>max_concurrent_requests = 16, connect_timeout_ms = 10000,
        request_timeout_ms = 60000, max_retries = 5, backoff_base_ms = 200\<rparr>,
      cfg_write = \<lparr>max_dirty_bytes = 1073741824, wal_fsync_policy = ''always''\<rparr>,
      cfg_scheduler = \<lparr>foreground_priority = 10, background_priority = 1, max_prefetch_requests = 4\<rparr>,
      cfg_cloud = \<lparr>base_url = ''http://127.0.0.1:8080'', auth_mode = ''token''\<rparr>,
      cfg_logging = \<lparr>log_level = ''info'', log_format = ''json''\<rparr>\<rparr>"

text \<open>A loader whose text parses to these keys, and loading the text of a configuration.\<close>

definition reads_as :: "(string \<times> Doc) list \<Rightarrow> Loader \<Rightarrow> Loader" where
  "reads_as kvs ld = ld\<lparr>ld_toml := \<lambda>t. Inr (DMap kvs)\<rparr>"

definition load_text :: "Loader \<Rightarrow> Disk \<Rightarrow> Config \<Rightarrow> Config space_result" where
  "load_text ld d cfg = fst (from_str_validated (reads_as (enc_Config cfg) ld) [] d)"

definition is_ok :: "'a space_result \<Rightarrow> bool" where
  "is_ok r = (case r of Ok a \<Rightarrow> True | _ \<Rightarrow> False)"

definition example_config_loads :: "Loader \<Rightarrow> Disk \<Rightarrow> string \<Rightarrow> bool" where
  "example_config_loads ld d tmp \<longleftrightarrow>
     (case load_text ld d (good tmp) of
        Ok cfg \<Rightarrow> config_version cfg = 1 \<and> chunk_size_bytes (cfg_chunking cfg) = 32 * 1024 * 1024
      | _ \<Rightarrow> False)"

definition missing_file_is_config_missing :: "Loader \<Rightarrow> Disk \<Rightarrow> bool" where
  "missing_file_is_config_missing ld d \<longleftrightarrow>
     fails_code ConfigMissing (fst (load ld ''does/not/exist.toml'' d))"

definition invalid_toml_is_config_invalid :: "Loader \<Rightarrow> Disk \<Rightarrow> bool" where
  "invalid_toml_is_config_invalid ld d \<longleftrightarrow>
     fails_code ConfigInvalid (fst (from_str_validated ld ''this is not = toml [[['' d))"

definition truncated_mid_table_is_config_invalid :: "Loader \<Rightarrow> Disk \<Rightarrow> bool" where
  "truncated_mid_table_is_config_invalid ld d \<longleftrightarrow>
     fails_code ConfigInvalid
       (fst (from_str_validated ld (''[client]'' @ [CHR 0x0A] @ ''worker_threads ='') d))"

definition wrong_version_is_unsupported :: "Loader \<Rightarrow> Disk \<Rightarrow> string \<Rightarrow> bool" where
  "wrong_version_is_unsupported ld d tmp \<longleftrightarrow>
     fails_code ConfigUnsupportedVersion (load_text ld d ((good tmp)\<lparr>config_version := 999\<rparr>))"

text \<open>\<open>wrker_threads = 4\<close> on a line before \<open>worker_threads = 4\<close>, in the second of the tables.\<close>

definition misspelt :: "(string \<times> Doc) list \<Rightarrow> (string \<times> Doc) list" where
  "misspelt kvs = map (\<lambda>(k, v). (k,
     case v of DMap table \<Rightarrow> if k = ''client'' then DMap ((''wrker_threads'', DInt 4) # table) else v | _ \<Rightarrow> v)) kvs"

definition unknown_key_is_rejected :: "Loader \<Rightarrow> Disk \<Rightarrow> string \<Rightarrow> bool" where
  "unknown_key_is_rejected ld d tmp \<longleftrightarrow>
     fails_code ConfigInvalid
       (fst (from_str_validated (reads_as (misspelt (enc_Config (good tmp))) ld) [] d))"

definition worker_threads_bounds :: "Loader \<Rightarrow> Disk \<Rightarrow> string \<Rightarrow> bool" where
  "worker_threads_bounds ld d tmp \<longleftrightarrow>
     list_all (\<lambda>(v, ok). is_ok (load_text ld d
         ((good tmp)\<lparr>cfg_client := (cfg_client (good tmp))\<lparr>worker_threads := v\<rparr>\<rparr>)) = ok)
       [(0, False), (1, True), (64, True), (65, False)]"

definition callback_timeout_bounds :: "Loader \<Rightarrow> Disk \<Rightarrow> string \<Rightarrow> bool" where
  "callback_timeout_bounds ld d tmp \<longleftrightarrow>
     list_all (\<lambda>(v, ok). is_ok (load_text ld d
         ((good tmp)\<lparr>cfg_client := (cfg_client (good tmp))\<lparr>callback_timeout_ms := v\<rparr>\<rparr>)) = ok)
       [(99, False), (100, True), (300000, True), (300001, False)]"

definition hash_algorithm_must_be_blake3 :: "Loader \<Rightarrow> Disk \<Rightarrow> string \<Rightarrow> bool" where
  "hash_algorithm_must_be_blake3 ld d tmp \<longleftrightarrow>
     fails_code ConfigInvalid (load_text ld d
       ((good tmp)\<lparr>cfg_chunking := (cfg_chunking (good tmp))\<lparr>hash_algorithm := ''sha256''\<rparr>\<rparr>))"

definition eviction_policy_rejects_random :: "Loader \<Rightarrow> Disk \<Rightarrow> string \<Rightarrow> bool" where
  "eviction_policy_rejects_random ld d tmp \<longleftrightarrow>
     fails_code ConfigInvalid (load_text ld d
       ((good tmp)\<lparr>cfg_cache := (cfg_cache (good tmp))\<lparr>eviction_policy := ''random''\<rparr>\<rparr>))"

definition nonexistent_runtime_dir_fails_at_startup :: "Loader \<Rightarrow> Disk \<Rightarrow> bool" where
  "nonexistent_runtime_dir_fails_at_startup ld d \<longleftrightarrow>
     fails_code ConfigInvalid (load_text ld d (good ''C:/SPACE/definitely/not/here/xyz''))"

definition config_with_a_token_key_is_rejected :: "Loader \<Rightarrow> Disk \<Rightarrow> string \<Rightarrow> bool" where
  "config_with_a_token_key_is_rejected ld d tmp \<longleftrightarrow>
     (case fst (from_str_validated (reads_as (enc_Config (good tmp) @ [(''extra'', DMap [(''api_token'', DStr ''x'')])]) ld) [] d) of
        Err e \<Rightarrow> se_code e = ConfigInvalid \<and> sublist ''credential-like'' (se_message e)
      | _ \<Rightarrow> False)"

definition release_build_rejects_wal_fsync_never :: "Loader \<Rightarrow> Disk \<Rightarrow> string \<Rightarrow> bool" where
  "release_build_rejects_wal_fsync_never ld d tmp \<longleftrightarrow>
     fails_code ConfigInvalid (load_text (ld\<lparr>ld_profile := Release\<rparr>) d
       ((good tmp)\<lparr>cfg_write := (cfg_write (good tmp))\<lparr>wal_fsync_policy := ''never''\<rparr>\<rparr>))"

text \<open>No probe file is left in the directory after a successful load.\<close>

definition writing_a_probe_file_actually_happens :: "Loader \<Rightarrow> Disk \<Rightarrow> string \<Rightarrow> bool" where
  "writing_a_probe_file_actually_happens ld d tmp \<longleftrightarrow>
     (case from_str_validated (reads_as (enc_Config (good tmp)) ld) [] d of
        (Ok cfg, d') \<Rightarrow> dk_files d' (ld_join ld tmp probe_name) = None
      | _ \<Rightarrow> False)"

section \<open>Startup, the log layer and fault points\<close>

definition parse_args_handles_the_supported_flags :: bool where
  "parse_args_handles_the_supported_flags \<longleftrightarrow>
     (case parse_args [''--version''] of Ok a \<Rightarrow> a_print_version a | _ \<Rightarrow> False) \<and>
     (case parse_args [''--config'', ''x.toml''] of Ok a \<Rightarrow> a_config a = ''x.toml'' | _ \<Rightarrow> False) \<and>
     is_err (parse_args [''--bogus'']) \<and> is_err (parse_args [''--config''])"

definition missing_config_is_reported_with_its_code :: "Host \<Rightarrow> Disk \<Rightarrow> bool" where
  "missing_config_is_reported_with_its_code host d \<longleftrightarrow>
     (case fst (prepare host \<lparr>a_config = ''no/such/config.toml'', a_print_version = False\<rparr> Stderr d) of
        Ok (ConfigRejected e) \<Rightarrow> se_code e = ConfigMissing
      | _ \<Rightarrow> False)"

definition required_field_list_is_the_documented_thirteen :: bool where
  "required_field_list_is_the_documented_thirteen \<longleftrightarrow>
     length REQUIRED_FIELDS = 13 \<and> ''request_id'' \<in> set REQUIRED_FIELDS \<and>
     ''error_code'' \<in> set REQUIRED_FIELDS"

definition every_name_is_unique_and_documented_count_is_twelve :: bool where
  "every_name_is_unique_and_documented_count_is_twelve \<longleftrightarrow>
     length (remdups_adj (sort FAULT_POINTS)) = length FAULT_POINTS \<and> length FAULT_POINTS = 12"

definition release_build_fault_point_is_a_no_op :: bool where
  "release_build_fault_point_is_a_no_op \<longleftrightarrow> list_all (\<lambda>n. fault_point_off n = FaultNone) FAULT_POINTS"

definition armed_point_returns_its_action_then_disarms :: "Registry \<Rightarrow> bool" where
  "armed_point_returns_its_action_then_disarms reg \<longleftrightarrow>
     (case arm ''mid_upload'' (FaultError NetworkTimeout) reg of
        (Ok u, reg') \<Rightarrow>
          fault_point reg' ''mid_upload'' = FaultError NetworkTimeout \<and>
          fault_point (disarm_all reg') ''mid_upload'' = FaultNone
      | _ \<Rightarrow> False)"

section \<open>They pass\<close>

text \<open>The world of the tests: the four directories exist and are writable, and no probe is left over.\<close>

definition test_disk :: "Loader \<Rightarrow> Disk \<Rightarrow> string \<Rightarrow> bool" where
  "test_disk ld d tmp \<longleftrightarrow>
     probes_clear ld d \<and> (\<forall>np\<in>set (all_paths (cfg_paths (good tmp))). usable ld d np)"

lemma probes_clear_cong:
  "ld_join ld' = ld_join ld \<Longrightarrow> probes_clear ld' d = probes_clear ld d"
  "ld_join ld' = ld_join ld \<Longrightarrow> usable ld' d = usable ld d"
  by (simp_all add: probes_clear_def usable_def fun_eq_iff)

lemma example_no_secrets: "reject_secret_keys (reads_as (enc_Config cfg) ld) t = Ok ()"
  by (simp add: reads_as_def enc_Config_no_secrets)

lemma example_reads: "deserialise (reads_as (enc_Config cfg) ld) t = Inr cfg"
  by (simp add: deserialise_def reads_as_def dec_enc_Config)

lemma load_text_Ok_iff:
  assumes "test_disk ld d tmp" "cfg_paths cfg = cfg_paths (good tmp)"
  shows "is_ok (load_text ld d cfg) \<longleftrightarrow> config_ok cfg \<and> release_ok (ld_profile ld) cfg"
    and "load_text ld d cfg = Ok c \<longleftrightarrow> c = cfg \<and> config_ok cfg \<and> release_ok (ld_profile ld) cfg"
proof -
  let ?ld = "reads_as (enc_Config cfg) ld"
  have clear: "probes_clear ?ld d" "usable ?ld d = usable ld d"
    using assms(1) probes_clear_cong [of ?ld ld d] by (simp_all add: test_disk_def reads_as_def)
  have iff: "load_text ld d cfg = Ok c \<longleftrightarrow> c = cfg \<and> config_ok cfg \<and> release_ok (ld_profile ld) cfg" for c
  proof -
    have "load_text ld d cfg = Ok c \<longleftrightarrow> (\<exists>d'. from_str_validated ?ld [] d = (Ok c, d'))"
      by (cases "from_str_validated ?ld [] d") (simp add: load_text_def)
    then show ?thesis
      using assms clear(2)
      by (auto simp: from_str_Ok_iff [OF clear(1)] test_disk_def example_no_secrets example_reads)
         (auto simp: reads_as_def)
  qed
  then show "load_text ld d cfg = Ok c \<longleftrightarrow> c = cfg \<and> config_ok cfg \<and> release_ok (ld_profile ld) cfg" .
  show "is_ok (load_text ld d cfg) \<longleftrightarrow> config_ok cfg \<and> release_ok (ld_profile ld) cfg"
    using iff by (cases "load_text ld d cfg") (auto simp: is_ok_def)
qed

text \<open>With version 1 every failure past the parser is \<open>ConfigInvalid\<close>.\<close>

lemma checks_invalid:
  "fails_with (\<lambda>e. se_code e = ConfigInvalid) (range_check name v lo hi)"
  "fails_with (\<lambda>e. se_code e = ConfigInvalid) (one_of ld name s allowed)"
  by (simp_all add: range_check_def one_of_def)

lemma check_values_invalid:
  assumes "config_version cfg = 1"
  shows "fails_with (\<lambda>e. se_code e = ConfigInvalid) (check_values ld cfg)"
  unfolding check_values_def check_version_def check_client_def check_storage_def check_transfer_def
    check_write_def check_scheduler_def check_cloud_def check_logging_def Let_def
  by (intro fails_with_and_then checks_invalid)
     (auto simp: assms split: list.splits intro: checks_invalid)

lemma check_paths_invalid:
  "fails_with (\<lambda>e. se_code e = ConfigInvalid) (fst (check_paths ld nps d))"
proof (induction nps arbitrary: d)
  case (Cons np nps)
  obtain r d' where r: "check_path ld np d = (r, d')" by fastforce
  have "fails_with (\<lambda>e. se_code e = ConfigInvalid) r"
    using r by (auto simp: check_path_def Let_def split_beta split: if_splits)
  with r Cons.IH [of d'] show ?case by (cases r) simp_all
qed simp

lemma load_text_invalid:
  assumes "config_version cfg = 1"
  shows "fails_with (\<lambda>e. se_code e = ConfigInvalid) (load_text ld d cfg)"
proof -
  let ?ld = "reads_as (enc_Config cfg) ld"
  have load: "load_text ld d cfg = map_ok (\<lambda>_. cfg) (fst (validate_config ?ld cfg d))"
    by (cases "validate_config ?ld cfg d"; cases "fst (validate_config ?ld cfg d)")
       (simp_all add: load_text_def from_str_validated_def map_ok_def example_no_secrets example_reads)
  have release: "fails_with (\<lambda>e. se_code e = ConfigInvalid) (check_release_only_rules p cfg)" for p
    by (cases p) (auto simp: check_release_only_rules_def)
  obtain r d' where p: "check_paths ?ld (all_paths (cfg_paths cfg)) d = (r, d')" by fastforce
  then have "fails_with (\<lambda>e. se_code e = ConfigInvalid) r"
    using check_paths_invalid [of ?ld "all_paths (cfg_paths cfg)" d] by simp
  with p check_values_invalid [OF assms, of ?ld] release show ?thesis
    by (cases "check_values ?ld cfg"; cases r)
       (auto simp: load map_ok_def validate_config_def check_paths_writable_def)
qed

lemma rejected_text:
  assumes "test_disk ld d tmp" "cfg_paths cfg = cfg_paths (good tmp)" "config_version cfg = 1"
  shows "fails_code ConfigInvalid (load_text ld d cfg) \<longleftrightarrow> \<not> (config_ok cfg \<and> release_ok (ld_profile ld) cfg)"
  using load_text_Ok_iff [OF assms(1,2)] load_text_invalid [OF assms(3), of ld d]
  by (cases "load_text ld d cfg") (auto simp: fails_code_def is_ok_def)

lemma good_version: "config_version (good tmp) = 1"
  by (simp add: good_def)

lemma good_url: "sublist ''://'' ''http://127.0.0.1:8080''"
  by (simp add: sublist_Cons_right)

lemmas config_ok_defs = config_ok_def client_ok_def storage_ok_def transfer_ok_def scheduler_ok_def
  services_ok_def good_def between_def is_ascii_alphabetic_def good_url release_ok_def

lemma config_bounds_pass:
  assumes "test_disk ld d tmp"
  shows "example_config_loads ld d tmp" "worker_threads_bounds ld d tmp" "callback_timeout_bounds ld d tmp"
    "hash_algorithm_must_be_blake3 ld d tmp" "eviction_policy_rejects_random ld d tmp"
    "release_build_rejects_wal_fsync_never ld d tmp"
proof -
  have release: "test_disk (ld\<lparr>ld_profile := Release\<rparr>) d tmp"
    using assms probes_clear_cong [of "ld\<lparr>ld_profile := Release\<rparr>" ld d] by (simp add: test_disk_def)
  note ok = load_text_Ok_iff [OF assms] and rej = rejected_text [OF assms]
  have "load_text ld d (good tmp) = Ok (good tmp)" by (simp add: ok(2) config_ok_defs)
  then show "example_config_loads ld d tmp" by (simp add: example_config_loads_def) (simp add: good_def)
  show "worker_threads_bounds ld d tmp" by (simp add: worker_threads_bounds_def ok(1) config_ok_defs)
  show "callback_timeout_bounds ld d tmp" by (simp add: callback_timeout_bounds_def ok(1) config_ok_defs)
  show "hash_algorithm_must_be_blake3 ld d tmp"
    unfolding hash_algorithm_must_be_blake3_def by (subst rej) (simp_all add: good_version, simp add: config_ok_def storage_ok_def good_def)
  show "eviction_policy_rejects_random ld d tmp"
    unfolding eviction_policy_rejects_random_def by (subst rej) (simp_all add: good_version, simp add: config_ok_def storage_ok_def good_def)
  show "release_build_rejects_wal_fsync_never ld d tmp"
    unfolding release_build_rejects_wal_fsync_never_def
    by (subst rejected_text [OF release]) (simp_all add: good_version, simp add: release_ok_def)
qed

lemma from_str_rejects:
  "ld_toml ld t = Inl msg \<Longrightarrow> from_str_validated ld t d = (Err (config_invalid msg), d)"
  "reject_secret_keys ld t = Ok () \<Longrightarrow> deserialise ld t = Inl msg \<Longrightarrow>
   from_str_validated ld t d = (Err (config_invalid msg), d)"
  by (simp_all add: from_str_validated_def reject_secret_keys_def)

lemma config_failures_pass:
  "Option.bind (dk_files d ''does/not/exist.toml'') (dk_utf8 d) = None \<Longrightarrow> missing_file_is_config_missing ld d"
  "ld_toml ld ''this is not = toml [[['' = Inl msg \<Longrightarrow> invalid_toml_is_config_invalid ld d"
  "ld_toml ld (''[client]'' @ [CHR 0x0A] @ ''worker_threads ='') = Inl msg \<Longrightarrow>
   truncated_mid_table_is_config_invalid ld d"
  "wrong_version_is_unsupported ld d tmp" "unknown_key_is_rejected ld d tmp"
proof -
  show "missing_file_is_config_missing ld d"
    if "Option.bind (dk_files d ''does/not/exist.toml'') (dk_utf8 d) = None"
    using that by (simp add: missing_file_is_config_missing_def load_def fails_code_def)
  show "invalid_toml_is_config_invalid ld d" if "ld_toml ld ''this is not = toml [[['' = Inl msg"
    using from_str_rejects(1) [OF that] by (simp add: invalid_toml_is_config_invalid_def fails_code_def)
  show "truncated_mid_table_is_config_invalid ld d"
    if "ld_toml ld (''[client]'' @ [CHR 0x0A] @ ''worker_threads ='') = Inl msg"
    using from_str_rejects(1) [OF that] by (simp add: truncated_mid_table_is_config_invalid_def fails_code_def)
  show "wrong_version_is_unsupported ld d tmp"
    by (simp add: wrong_version_is_unsupported_def load_text_def from_str_validated_def validate_config_def
        example_no_secrets example_reads check_values_def check_version_def fails_code_def fail_if_def)
  show "unknown_key_is_rejected ld d tmp"
  proof -
    let ?ld = "reads_as (misspelt (enc_Config (good tmp))) ld"
    have "reject_secret_keys ?ld [] = Ok ()"
      by (simp add: reject_secret_keys_def reads_as_def misspelt_def enc_config_defs enc_word_def Let_def
          is_secret_key_def SUFFIXES_def ends_with_def rsplit_first_def suffix_def)
    moreover have "deserialise ?ld [] = Inl (ld_misfit ld [])"
      by (simp add: deserialise_def reads_as_def misspelt_def enc_config_defs dec_config_defs read_fields_map
          serde_simps)
    ultimately show ?thesis
      using from_str_rejects(2) [of ?ld "[]" _ d] by (simp add: unknown_key_is_rejected_def fails_code_def)
  qed
qed

lemma config_worlds_pass:
  assumes "probes_clear ld d"
  shows "\<not> dk_is_dir d ''C:/SPACE/definitely/not/here/xyz'' \<Longrightarrow> nonexistent_runtime_dir_fails_at_startup ld d"
    and "config_with_a_token_key_is_rejected ld d tmp"
    and "test_disk ld d tmp \<Longrightarrow> release_ok (ld_profile ld) (good tmp) \<Longrightarrow>
      writing_a_probe_file_actually_happens ld d tmp"
proof -
  show "nonexistent_runtime_dir_fails_at_startup ld d"
    if "\<not> dk_is_dir d ''C:/SPACE/definitely/not/here/xyz''"
  proof -
    let ?cfg = "good ''C:/SPACE/definitely/not/here/xyz''"
    let ?ld = "reads_as (enc_Config ?cfg) ld"
    have clear: "probes_clear ?ld d" using assms probes_clear_cong(1) [of ?ld ld d] by (simp add: reads_as_def)
    have "runtime_dir (cfg_paths ?cfg) = ''C:/SPACE/definitely/not/here/xyz''" by (simp add: good_def)
    then have "\<not> (\<forall>np\<in>set (all_paths (cfg_paths ?cfg)). usable ?ld d np)"
      using that by (simp add: all_paths_def usable_def)
    moreover have "deserialise ?ld [] = Inr ?cfg" by (rule example_reads)
    ultimately have "from_str_validated ?ld [] d \<noteq> (Ok c, d')" for c d'
      unfolding from_str_Ok_iff [OF clear, of "[]" c d'] by (metis sum.inject(2))
    then have "load_text ld d ?cfg \<noteq> Ok c" for c
      by (cases "from_str_validated ?ld [] d") (auto simp: load_text_def)
    then show ?thesis
      using load_text_invalid [OF good_version [of "''C:/SPACE/definitely/not/here/xyz''"], of ld d]
      by (cases "load_text ld d ?cfg") (auto simp: nonexistent_runtime_dir_fails_at_startup_def fails_code_def)
  qed
  show "config_with_a_token_key_is_rejected ld d tmp"
  proof -
    let ?kvs = "enc_Config (good tmp) @ [(''extra'', DMap [(''api_token'', DStr ''x'')])]"
    have "filter is_secret_key (walk_keys (DMap ?kvs) []) = [''extra.api_token'']"
      by (simp add: enc_config_defs enc_word_def Let_def is_secret_key_def SUFFIXES_def ends_with_def
          rsplit_first_def suffix_def)
    moreover have "sublist ''credential-like'' (''config carries '' @ ''credential-like'' @ ss)" for ss
      by (rule sublist_appendI)
    ultimately show ?thesis
      by (simp add: config_with_a_token_key_is_rejected_def from_str_validated_def reject_secret_keys_def
          reads_as_def config_invalid_def new_error_def Let_def)
  qed
  show "writing_a_probe_file_actually_happens ld d tmp"
    if "test_disk ld d tmp" "release_ok (ld_profile ld) (good tmp)"
  proof -
    let ?ld = "reads_as (enc_Config (good tmp)) ld"
    have clear: "probes_clear ?ld d" "usable ?ld d = usable ld d"
      using assms probes_clear_cong [of ?ld ld d] by (simp_all add: reads_as_def)
    have "config_ok (good tmp)" by (simp add: config_ok_defs)
    then have "from_str_validated ?ld [] d = (Ok (good tmp), d)"
      using that clear(2)
      by (simp add: from_str_Ok_iff [OF clear(1)] test_disk_def example_no_secrets example_reads)
         (simp add: reads_as_def)
    then show ?thesis
      using assms by (simp add: writing_a_probe_file_actually_happens_def probes_clear_def)
  qed
qed

lemma startup_tests_pass:
  "parse_args_handles_the_supported_flags"
  "Option.bind (dk_files d ''no/such/config.toml'') (dk_utf8 d) = None \<Longrightarrow>
   missing_config_is_reported_with_its_code host d"
  "required_field_list_is_the_documented_thirteen"
  by (simp_all add: parse_args_handles_the_supported_flags_def parse_args_def is_err_def
      missing_config_is_reported_with_its_code_def prepare_def load_def
      required_field_list_is_the_documented_thirteen_def REQUIRED_FIELDS_def)

lemma fault_tests_pass:
  "every_name_is_unique_and_documented_count_is_twelve" "release_build_fault_point_is_a_no_op"
  "armed_point_returns_its_action_then_disarms reg"
proof -
  have "distinct FAULT_POINTS" "length FAULT_POINTS = 12" by (simp_all add: FAULT_POINTS_def)
  then show "every_name_is_unique_and_documented_count_is_twelve"
    by (simp add: every_name_is_unique_and_documented_count_is_twelve_def remdups_adj_distinct)
  show "release_build_fault_point_is_a_no_op"
    by (simp add: release_build_fault_point_is_a_no_op_def fault_point_off_def list_all_iff)
  have "''mid_upload'' \<in> set FAULT_POINTS" by (simp add: FAULT_POINTS_def)
  then show "armed_point_returns_its_action_then_disarms reg"
    by (simp add: armed_point_returns_its_action_then_disarms_def arm_def fault_point_def disarm_all_def Let_def)
qed

end
