(* ===== verification/Service_Tests.thy ===== *)
theory Service_Tests
  imports Contract_Tests Conformance Corruptor Happy_Chain
begin

text \<open>
  The unit tests of the object store, the corruption primitives, the metadata store, the service and the
  client, as programs over the model.  A failed \<^verbatim>\<open>unwrap\<close> or assertion is a panic (\<open>or_panic\<close>,
  \<open>assert_that\<close>); fresh identities, the clock, the digest and the generator are parameters.
\<close>

section \<open>The object store\<close>

definition fake_store_passes_the_conformance_suite :: "(bytes \<Rightarrow> string) \<Rightarrow> bool" where
  "fake_store_passes_the_conformance_suite b3hex \<longleftrightarrow>
     run_conformance_suite b3hex (fake_store b3hex) fake_new \<noteq> None"

definition corruption_case :: bytes where
  "corruption_case = literal ''conformance corruption case''"

definition corrupted_store_is_caught_on_read :: "(bytes \<Rightarrow> string) \<Rightarrow> bool" where
  "corrupted_store_is_caught_on_read b3hex \<longleftrightarrow>
     (let i = ChunkId_from_bytes b3hex corruption_case in
      case fake_put b3hex fake_new i corruption_case of
        (Ok u, g) \<Rightarrow> fails_code IntegrityHashMismatch (fake_get b3hex (corrupt_for_test g i 3) i)
      | _ \<Rightarrow> False)"

section \<open>The corruption primitives\<close>

definition corruptor_baseline ::
  "'r Rng \<Rightarrow> (bytes \<Rightarrow> string) \<Rightarrow> profile \<Rightarrow> ManifestId \<Rightarrow> Manifest space_result" where
  "corruptor_baseline R b3hex p mid = map_ok fst (generate_manifest R b3hex p mid (4096 * 4) 4096 3)"

definition baseline_is_valid :: "'r Rng \<Rightarrow> (bytes \<Rightarrow> string) \<Rightarrow> profile \<Rightarrow> ManifestId \<Rightarrow> bool" where
  "baseline_is_valid R b3hex p mid \<longleftrightarrow>
     (case corruptor_baseline R b3hex p mid of Ok m \<Rightarrow> validate_manifest m = Ok () | _ \<Rightarrow> False)"

definition rejected_after :: "(unit, Manifest) outcome \<Rightarrow> bool" where
  "rejected_after r = (case r of Ok m \<Rightarrow> is_err (validate_manifest m) | _ \<Rightarrow> False)"

definition each_corruption_is_rejected :: "'r Rng \<Rightarrow> (bytes \<Rightarrow> string) \<Rightarrow> profile \<Rightarrow> ManifestId \<Rightarrow> bool" where
  "each_corruption_is_rejected R b3hex p mid \<longleftrightarrow>
     (case corruptor_baseline R b3hex p mid of
        Ok m \<Rightarrow>
          rejected_after (swap_entries m 0 3) \<and>
          is_err (validate_manifest (alter_total_size m 1)) \<and>
          is_err (validate_manifest (alter_chunk_count m 1)) \<and>
          rejected_after (introduce_gap p m 0) \<and>
          rejected_after (introduce_overlap p m 0) \<and>
          is_err (validate_manifest (dangle_chunk_ref b3hex m 1)) \<and>
          rejected_after (insert_zero_length_entry p m) \<and>
          is_err (validate_manifest (drop_entry m 1))
      | _ \<Rightarrow> False)"

definition byte_corruption_helpers_work :: bool where
  "byte_corruption_helpers_work \<longleftrightarrow>
     (let v = flip_byte [1, 2, 3, 4] 1; w = Corruptor.truncate v 2; x = Corruptor.extend w 3
      in v ! 1 = 2 XOR 0xFF \<and> length w = 2 \<and> length x = 5 \<and> 0 \<notin> set (drop 2 x))"

section \<open>The metadata store\<close>

definition hi_bytes :: bytes where
  "hi_bytes = map of_char ''hi''"

definition candidate_version_is_invisible_until_committed ::
  "(bytes \<Rightarrow> string) \<Rightarrow> FileId \<Rightarrow> ManifestId \<Rightarrow> VersionId \<Rightarrow> DirectoryId \<Rightarrow> DateTime \<Rightarrow> unit space_result" where
  "candidate_version_is_invisible_until_committed b3hex fid mid vid dir now =
     (let i = ChunkId_from_bytes b3hex hi_bytes; chunk = \<lparr>c_chunk_id = i, c_size = 2\<rparr>;
          manifest = \<lparr>m_manifest_id = mid, m_total_size = 2, m_chunk_count = 1,
            m_entries = [\<lparr>e_logical_offset = 0, e_length = 2, e_chunk_id = i, e_chunk_offset = 0\<rparr>],
            m_chunks = [chunk]\<rparr>
      in fst
        (and_then_st (or_panic (create_file fid now store_new dir ''a.txt'' ''k1'')) (\<lambda>file g.
         and_then_st (or_panic (register_chunk g i 2)) (\<lambda>_ g.
         and_then_st (or_panic (put_manifest g manifest)) (\<lambda>manifest g.
         and_then_st (or_panic (create_version now g (f_file_id file) vid None (m_manifest_id manifest))) (\<lambda>_ g.
         and_then_st (assert_that (fails_code VersionNotFound (get_current_version g vid)) g) (\<lambda>_ g.
         and_then_st (or_panic (commit_version now g vid)) (\<lambda>committed g.
         and_then_st (assert_that (v_state committed = Committed) g) (\<lambda>_ g.
         and_then_st (or_panic (get_file g (f_file_id file), g)) (\<lambda>f g.
         and_then_st (assert_that (f_current_version_id f = Some vid) g) (\<lambda>_ g.
         and_then_st (or_panic (commit_version now g vid)) (\<lambda>_ g. (Ok (), g)))))))))))))"

definition create_file_is_idempotent_by_key ::
  "FileId \<Rightarrow> FileId \<Rightarrow> DirectoryId \<Rightarrow> DateTime \<Rightarrow> DateTime \<Rightarrow> unit space_result" where
  "create_file_is_idempotent_by_key fid fid' dir now now' =
     fst (and_then_st (or_panic (create_file fid now store_new dir ''a'' ''same'')) (\<lambda>a g.
          and_then_st (or_panic (create_file fid' now' g dir ''a'' ''same'')) (\<lambda>b g.
          assert_that (f_file_id a = f_file_id b) g)))"

section \<open>The service\<close>

definition test_get :: "string \<Rightarrow> string option \<Rightarrow> HttpRequest" where
  "test_get path rid = \<lparr>q_method = GET, q_path = path, q_range = None,
     q_request_id = map_option Some rid, q_body = NoBody\<rparr>"

definition test_request_id :: string where
  "test_request_id = ''r_00000000-0000-7000-8000-000000000001''"

definition health_has_exact_shape_and_echoes_request_id :: "Env \<Rightarrow> bool" where
  "health_has_exact_shape_and_echoes_request_id env \<longleftrightarrow>
     (case fst (request_id_layer env AppState_default (test_get ''/health'' (Some test_request_id))) of
        Some res \<Rightarrow> r_status res = 200 \<and> r_request_id res = Some test_request_id \<and>
          (case r_body res of
             JHealth h \<Rightarrow> hr_status h = ''ok'' \<and> hr_contract_version h = 1
           | _ \<Rightarrow> False)
      | None \<Rightarrow> False)"

definition malformed_request_id_is_replaced_not_rejected :: "Env \<Rightarrow> bool" where
  "malformed_request_id_is_replaced_not_rejected env \<longleftrightarrow>
     (case fst (request_id_layer env AppState_default (test_get ''/health'' (Some ''not-a-valid-id''))) of
        Some res \<Rightarrow> r_status res = 200 \<and>
          (case r_request_id res of
             Some got \<Rightarrow> prefix ''r_'' got \<and> got \<noteq> ''not-a-valid-id''
           | None \<Rightarrow> False)
      | None \<Rightarrow> False)"

definition unknown_route_is_structured_error :: "Env \<Rightarrow> bool" where
  "unknown_route_is_structured_error env \<longleftrightarrow>
     (case fst (request_id_layer env AppState_default (test_get ''/nope'' None)) of
        Some res \<Rightarrow> r_status res = 404 \<and>
          (case r_body res of
             JError er \<Rightarrow> wire_code (se_code (er_error er)) = ''FILE_NOT_FOUND'' \<and> er_contract_version er = 1
           | _ \<Rightarrow> False)
      | None \<Rightarrow> False)"

definition range_parsing :: bool where
  "range_parsing \<longleftrightarrow>
     parse_range ''bytes=0-9'' 100 = Some (0, 9) \<and> parse_range ''bytes=90-'' 100 = Some (90, 99) \<and>
     parse_range ''bytes=90-200'' 100 = Some (90, 200) \<and> parse_range ''bytes=9-2'' 100 = None \<and>
     parse_range ''0-9'' 100 = None"

text \<open>A transport over which nothing answers.\<close>

definition client_reports_network_unavailable_when_nothing_listens :: "ClientEnv \<Rightarrow> NetFailure \<Rightarrow> bool" where
  "client_reports_network_unavailable_when_nothing_listens ce failure \<longleftrightarrow>
     (case fst (c_health ce (\<lambda>w q. (Inl failure, w)) (CloudClient_new ''http://127.0.0.1:1'') ()) of
        Err e \<Rightarrow> se_code e = NetworkUnavailable \<or> se_code e = NetworkTimeout
      | _ \<Rightarrow> False)"

section \<open>They pass\<close>

lemma store_tests_pass:
  "distinct (map (id_for b3hex) suite_contents) \<Longrightarrow> fake_store_passes_the_conformance_suite b3hex"
  "b3hex (corruption_case[3 := (corruption_case ! 3) XOR 0xFF]) \<noteq> b3hex corruption_case \<Longrightarrow>
   corrupted_store_is_caught_on_read b3hex"
proof -
  show "fake_store_passes_the_conformance_suite b3hex" if "distinct (map (id_for b3hex) suite_contents)"
    using suite.suite_passes [of fake_new b3hex, OF _ that]
    by (auto simp: fake_store_passes_the_conformance_suite_def passes_def fake_inv_def fake_new_def)
  show "corrupted_store_is_caught_on_read b3hex"
    if "b3hex (corruption_case[3 := (corruption_case ! 3) XOR 0xFF]) \<noteq> b3hex corruption_case"
  proof -
    have "length corruption_case = 27" by (simp add: corruption_case_def)
    then show ?thesis
      using that
      by (auto simp: corrupted_store_is_caught_on_read_def fake_put_def fake_new_def corrupt_for_test_def
          fake_get_def ChunkId_verify_def ChunkId_from_bytes_def fails_code_def Let_def)
  qed
qed

lemma helpers_test_passes: "byte_corruption_helpers_work"
proof -
  have "replicate 3 b = [b, b, b]" for b :: u8 by (simp add: numeral_3_eq_3)
  then show ?thesis
    by (simp add: byte_corruption_helpers_work_def flip_byte_def Corruptor.truncate_def Corruptor.extend_def
        Let_def take_Cons' drop_Cons')
qed

lemma route_tests: "route GET ''/health'' = EHealth" "route GET ''/nope'' = ENotFound"
  by (simp_all add: route_def pick_def)

lemma service_tests_pass:
  "RequestId_parse (env_uuid_parse env) test_request_id = Ok i \<Longrightarrow> env_header_value_ok env test_request_id \<Longrightarrow>
   health_has_exact_shape_and_echoes_request_id env"
  "\<forall>s. env_header_value_ok env s \<Longrightarrow> malformed_request_id_is_replaced_not_rejected env"
  "unknown_route_is_structured_error env" "range_parsing"
  "client_reports_network_unavailable_when_nothing_listens ce failure"
proof -
  show "health_has_exact_shape_and_echoes_request_id env"
    if "RequestId_parse (env_uuid_parse env) test_request_id = Ok i" "env_header_value_ok env test_request_id"
    using that
    by (simp add: health_has_exact_shape_and_echoes_request_id_def request_id_layer_def handle_def test_get_def
        route_tests request_id_of_def json_response_def HealthResponse_ok_def CONTRACT_VERSION_def)
  have "RequestId_parse (env_uuid_parse env) ''not-a-valid-id''
      = Err (invalid_param (''expected '' @ ''r_'' @ '' prefix''))"
    by (simp add: RequestId_parse_def parse_uuid_id_def strip_prefix_def)
  then show "malformed_request_id_is_replaced_not_rejected env" if "\<forall>s. env_header_value_ok env s"
    using that
    by (simp add: malformed_request_id_is_replaced_not_rejected_def request_id_layer_def handle_def test_get_def
        route_tests request_id_of_def json_response_def Let_def RequestId_show_def show_uuid_id_def)
  show "unknown_route_is_structured_error env"
    by (simp add: unknown_route_is_structured_error_def request_id_layer_def handle_def test_get_def route_tests
        h_not_found_def error_response_def json_response_def ErrorResponse_from_def CONTRACT_VERSION_def Let_def)
  have "max (100 :: u64) 1 = 100" by (simp add: max_def word_le_nat_alt)
  then show "range_parsing"
    by (simp add: range_parsing_def parse_range_def strip_prefix_def parse_u64_def digit_val_def)
  show "client_reports_network_unavailable_when_nothing_listens ce failure"
    by (simp add: client_reports_network_unavailable_when_nothing_listens_def c_health_def send_def
        exchange_def net_error_def)
qed

lemma create_file_is_idempotent_by_key_passes: "create_file_is_idempotent_by_key fid fid' dir now now' = Ok ()"
proof -
  let ?f = "new_file fid now dir ''a''"
  let ?g = "add_file store_new ''same'' ?f"
  have legal: "\<not> illegal_name ''a''" by (simp add: illegal_name_def)
  have "create_file fid now store_new dir ''a'' ''same'' = (Ok ?f, ?g)"
    using legal by (simp add: create_file_fresh store_new_def)
  moreover have "create_file fid' now' ?g dir ''a'' ''same'' = (Ok ?f, ?g)"
    using legal by (intro create_file_replay [of _ _ _ fid]) (simp_all add: add_file_def new_file_def)
  ultimately show ?thesis by (simp add: create_file_is_idempotent_by_key_def)
qed

lemma candidate_test_passes:
  assumes hex: "hex_digest b3hex"
  shows "candidate_version_is_invisible_until_committed b3hex fid mid vid dir now = Ok ()"
proof -
  define i where "i = ChunkId_from_bytes b3hex hi_bytes"
  define chunk where "chunk = \<lparr>c_chunk_id = i, c_size = 2\<rparr>"
  define m where "m = \<lparr>m_manifest_id = mid, m_total_size = 2, m_chunk_count = 1,
      m_entries = [\<lparr>e_logical_offset = 0, e_length = 2, e_chunk_id = i, e_chunk_offset = 0\<rparr>],
      m_chunks = [chunk]\<rparr>"
  define g1 where "g1 = add_file store_new ''k1'' (new_file fid now dir ''a.txt'')"
  define g2 where "g2 = add_chunk g1 chunk"
  have create: "create_file fid now store_new dir ''a.txt'' ''k1'' = (Ok (new_file fid now dir ''a.txt''), g1)"
    by (simp add: create_file_fresh g1_def illegal_name_def store_new_def)
  have wf: "wf_chunk_id i" using hex by (simp add: i_def wf_from_bytes)
  have register: "register_chunk g1 i 2 = (Ok chunk, g2)"
    using wf by (simp add: register_chunk_def ChunkId_parse_as_str [THEN iffD2] g1_def g2_def add_chunk_def
        add_file_def store_new_def chunk_def Let_def)
  have ok: "manifest_ok m"
    using wf by (simp add: m_def manifest_ok_def entry_in_chunk_def chunk_size_def chunk_def)
  have reg: "chunks_registered g2 m" by (simp add: chunks_registered_def m_def g2_def add_chunk_def chunk_def)
  have ids: "s_files g2 fid = Some (new_file fid now dir ''a.txt'')" "s_manifests g2 mid = None" "s_versions g2 vid = None"
    by (simp_all add: g2_def g1_def add_chunk_def add_file_def new_file_def store_new_def)
  have "m_manifest_id m = mid" by (simp add: m_def)
  then obtain g3 g4 where p: "put_manifest g2 m = (Ok m, add_manifest g2 m)"
      "create_version now (add_manifest g2 m) fid vid None mid = (Ok (candidate now fid vid None mid), g3)"
      "commit_version now g3 vid = (Ok ((candidate now fid vid None mid)\<lparr>v_state := Committed\<rparr>), g4)"
      "visible g3 vid = None" "s_files g4 fid = Some (point_file_at now vid (new_file fid now dir ''a.txt''))"
      "visible g4 vid = Some ((candidate now fid vid None mid)\<lparr>v_state := Committed\<rparr>)"
    using publish_calls [OF ok _ reg ids, of now now] by metis
  have "fails_code VersionNotFound (get_current_version g3 vid)"
    using p(4) by (auto simp: get_current_version_def visible_def not_found_def fails_code_def split: option.splits)
  moreover have "fst (commit_version now g4 vid) = Ok ((candidate now fid vid None mid)\<lparr>v_state := Committed\<rparr>)"
    using p(6) by (auto simp: commit_version_def visible_def split: option.splits if_splits)
  ultimately show ?thesis
    using create register p
    by (cases "commit_version now g4 vid")
      (simp add: candidate_version_is_invisible_until_committed_def Let_def
        i_def [symmetric] chunk_def [symmetric] m_def [symmetric] \<open>m_manifest_id m = mid\<close> get_file_def,
       simp add: candidate_def new_file_def point_file_at_def)
qed

text \<open>The corruptions of the baseline: none overflows, so each gives a manifest, which is rejected.\<close>

lemma rejected_after_corrupts: "r = Ok m' \<Longrightarrow> corrupts m m' \<Longrightarrow> manifest_ok m \<Longrightarrow> rejected_after r"
  using corrupts_not_ok by (simp add: rejected_after_def rejected_iff)

lemma is_err_corrupts: "corrupts m m' \<Longrightarrow> manifest_ok m \<Longrightarrow> is_err (validate_manifest m')"
  using corrupts_not_ok by (simp add: rejected_iff)

lemma corruptor_tests_pass:
  assumes R: "rng_ok R" and hex: "hex_digest b3hex"
    and gen: "generate_manifest R b3hex p mid (4096 * 4) 4096 3 = Ok (m, bodies)"
    and apart: "inj_on b3hex (snd ` set bodies)" "dangling_id b3hex \<notin> c_chunk_id ` set (m_chunks m)"
  shows "baseline_is_valid R b3hex p mid" "each_corruption_is_rejected R b3hex p mid"
proof -
  have base: "corruptor_baseline R b3hex p mid = Ok m" unfolding corruptor_baseline_def map_ok_def gen by simp
  obtain g where g: "m = \<lparr>m_manifest_id = mid, m_total_size = 4096 * 4, m_chunk_count = len_u64 (g_entries g),
        m_entries = g_entries g, m_chunks = g_chunks g\<rparr>" "bodies = g_bodies g" "generated_ok b3hex g"
      "g_offset g = 4096 * 4" "map (length \<circ> snd) (g_bodies g) = cut_sizes (unat (4096 * 4 :: u64)) (unat (4096 :: u64))"
    using generate_manifest_Ok [OF R, of "4096 * 4" 4096 b3hex p mid 3] gen by auto
  have ok: "manifest_ok m" using generated_manifest_ok [OF g(3) _ hex] apart(1) g by simp
  then show "baseline_is_valid R b3hex p mid"
    by (simp add: baseline_is_valid_def base manifest_ok_validates)
  have "length (g_bodies g) = 4" using arg_cong [OF g(5), of length] by (simp add: cut_sizes_def)
  moreover have "length (g_entries g) = length (g_bodies g)"
    using g(3) list_all2_lengthD by (auto simp: generated_ok_def)
  ultimately have len: "length (m_entries m) = 4" using g(1) by simp
  then have size': "m_total_size m = 16384" "m_chunk_count m = 4" using g(1) by (simp_all add: len_u64_def)
  have bound: "unat (e_logical_offset e) + unat (e_length e) \<le> 16384" if "e \<in> set (m_entries m)" for e
    using ok tiles_end [of 0 "m_entries m" e] that size' by (simp add: manifest_ok_def)
  have ne: "m_entries m \<noteq> []" using len by (cases "m_entries m") simp_all
  then have last: "last (m_entries m) \<in> set (m_entries m)" by simp
  have nudges: "nudge 16384 1 \<noteq> 16384" "nudge 4 1 \<noteq> 4" by (simp_all add: nudge_def)
  obtain m0 where "swap_entries m 0 3 = Ok m0" using len ne by (simp add: swap_entries_def Let_def)
  then have "rejected_after (swap_entries m 0 3)"
    using rejected_after_corrupts [OF _ corrupt_swap ok] by simp
  moreover obtain m1 where "introduce_gap p m 0 = Ok m1"
    using introduce_gap_total [OF ok] size' by auto
  then have "rejected_after (introduce_gap p m 0)" using rejected_after_corrupts corrupt_gap ok by blast
  moreover obtain m2 where "introduce_overlap p m 0 = Ok m2"
    using len by (auto simp: introduce_overlap_def plus_u64_exact Let_def)
  then have "rejected_after (introduce_overlap p m 0)"
    using rejected_after_corrupts [OF _ corrupt_overlap ok] len by simp
  moreover obtain m3 where "insert_zero_length_entry p m = Ok m3"
    using bound [OF last] ne size' by (auto simp: insert_zero_length_entry_def plus_u64_exact Let_def)
  then have "rejected_after (insert_zero_length_entry p m)"
    using rejected_after_corrupts [OF _ corrupt_zero ok] ne by simp
  moreover have "is_err (validate_manifest (alter_total_size m 1))" "is_err (validate_manifest (alter_chunk_count m 1))"
      "is_err (validate_manifest (dangle_chunk_ref b3hex m 1))" "is_err (validate_manifest (drop_entry m 1))"
    using is_err_corrupts [OF _ ok] corrupt_total corrupt_count corrupt_dangle corrupt_drop nudges size' len apart(2)
    by simp_all
  ultimately show "each_corruption_is_rejected R b3hex p mid"
    by (simp add: each_corruption_is_rejected_def base)
qed

end
