(* ===== verification/Wire_Tests.thy ===== *)
theory Wire_Tests
  imports Wire_Format Contract_Tests
begin

text \<open>
  The unit tests of the contract crate that concern texts: the tests of identities (\<^verbatim>\<open>ids.rs\<close>) and the
  tests that write and read JSON (\<^verbatim>\<open>errors.rs\<close>, \<^verbatim>\<open>api.rs\<close>).  A JSON text is represented by its document.
  Fresh identities and times are parameters; a test of what the UUID parser refuses passes for every
  parser that refuses it.
\<close>

section \<open>Identities\<close>

definition starts_with :: "string \<Rightarrow> string \<Rightarrow> bool" where
  "starts_with pre s \<longleftrightarrow> take (length pre) s = pre"

definition file_id_round_trips :: "(string \<Rightarrow> Uuid option) \<Rightarrow> (Uuid \<Rightarrow> string) \<Rightarrow> FileId \<Rightarrow> bool" where
  "file_id_round_trips uuid_parse uuid_show i \<longleftrightarrow>
     (let s = FileId_show uuid_show i in starts_with ''f_'' s \<and> FileId_parse uuid_parse s = Ok i)"

definition file_id_rejects_bad_input :: "(string \<Rightarrow> Uuid option) \<Rightarrow> (Uuid \<Rightarrow> string) \<Rightarrow> VersionId \<Rightarrow> bool" where
  "file_id_rejects_bad_input uuid_parse uuid_show v \<longleftrightarrow>
     list_all (\<lambda>s. is_err (FileId_parse uuid_parse s))
       [[], VersionId_show uuid_show v, ''01890a5d-ac96-774b-bcce-b302099a8057'', ''f_not-a-uuid'',
        ''f_'' @ uuid_show 0 @ '' '', ''f_01890a5d'' @ [CHR 0x00] @ ''ac96'']"

definition chunk_id_from_empty_is_stable :: "(bytes \<Rightarrow> string) \<Rightarrow> bool" where
  "chunk_id_from_empty_is_stable b3hex \<longleftrightarrow>
     ChunkId_from_bytes b3hex [] = ChunkId_from_bytes b3hex [] \<and>
     as_str (ChunkId_from_bytes b3hex [])
       = ''b3:af1349b9f5f9a1a6a0404dea36dcc9499bcb25c9adc112b7cc9a93cae41f3262''"

definition abc_bytes :: bytes where
  "abc_bytes = map of_char ''abc''"

definition chunk_id_matches_known_blake3_vector_for_abc :: "(bytes \<Rightarrow> string) \<Rightarrow> bool" where
  "chunk_id_matches_known_blake3_vector_for_abc b3hex \<longleftrightarrow>
     as_str (ChunkId_from_bytes b3hex abc_bytes)
       = ''b3:6437b3ac38465133ffb63b75273a8db548c558465d79db03fd359c6cd5bd9d85''"

text \<open>\<^verbatim>\<open>str::replace\<close> with a non-empty pattern, from the left.\<close>

function replace_all :: "string \<Rightarrow> string \<Rightarrow> string \<Rightarrow> string" where
  "replace_all pat rep [] = []"
| "replace_all pat rep (c # cs) =
     (if pat \<noteq> [] \<and> starts_with pat (c # cs) then rep @ replace_all pat rep (drop (length pat) (c # cs))
      else c # replace_all pat rep cs)"
  by pat_completeness auto
termination
proof (relation "measure (\<lambda>(pat, rep, s). length s)", goal_cases)
  case (2 pat rep c cs)
  then show ?case by (cases pat) auto
qed auto

definition chunk_id_parse_rejects_malformed :: "(bytes \<Rightarrow> string) \<Rightarrow> bool" where
  "chunk_id_parse_rejects_malformed b3hex \<longleftrightarrow>
     (let good = show_chunk_id (ChunkId_from_bytes b3hex abc_bytes) in
      \<not> is_err (ChunkId_parse good) \<and>
      list_all (\<lambda>s. is_err (ChunkId_parse s))
        [replace_all ''b3:'' [] good, map to_upper good, ''b3:6437b3ac'', good @ ''0'',
         ''b3:'' @ replicate 64 (CHR ''g'')])"

section \<open>JSON\<close>

text \<open>Indexing a JSON value by a key; what is not there is null.\<close>

definition at_key :: "Doc \<Rightarrow> string \<Rightarrow> Doc" where
  "at_key d k = (case d of DMap kvs \<Rightarrow> (case map_of kvs k of Some v \<Rightarrow> v | None \<Rightarrow> DNull) | _ \<Rightarrow> DNull)"

definition codes_round_trip_through_serde_with_screaming_snake_names :: "WireEnv \<Rightarrow> bool" where
  "codes_round_trip_through_serde_with_screaming_snake_names we \<longleftrightarrow>
     list_all (\<lambda>code. case enc_code code of
         DStr s \<Rightarrow> s = map to_upper s \<and> dec_code we (DStr s) = Some code
       | _ \<Rightarrow> False) ALL_CODES \<and>
     enc_code IntegrityHashMismatch = DStr ''INTEGRITY_HASH_MISMATCH''"

definition space_error_round_trips_through_json :: "WireEnv \<Rightarrow> bool" where
  "space_error_round_trips_through_json we \<longleftrightarrow>
     (let e = new_error ChunkNotFound ''b3:deadbeef missing'' in
      case dec_error we (enc_error we e) of
        Some back \<Rightarrow> se_code back = ChunkNotFound \<and> se_message back = se_message e
      | None \<Rightarrow> False)"

definition sample_parent_text :: string where
  "sample_parent_text = ''00000000-0000-7000-8000-000000000000''"

definition exact_create_fields :: "(string \<times> Doc) list" where
  "exact_create_fields =
     [(''parent_id'', DStr sample_parent_text), (''name'', DStr ''a''), (''idempotency_key'', DStr ''k'')]"

definition create_file_request_rejects_unknown_fields :: "WireEnv \<Rightarrow> bool" where
  "create_file_request_rejects_unknown_fields we \<longleftrightarrow>
     dec_CreateFileRequest we (DMap (exact_create_fields @ [(''wat'', DInt 1)])) = None"

definition create_file_request_accepts_the_exact_fields :: "WireEnv \<Rightarrow> bool" where
  "create_file_request_accepts_the_exact_fields we \<longleftrightarrow>
     dec_CreateFileRequest we (DMap exact_create_fields) \<noteq> None"

definition error_shape_is_identical_across_endpoints :: "WireEnv \<Rightarrow> bool" where
  "error_shape_is_identical_across_endpoints we \<longleftrightarrow>
     (let e = new_error InvalidParameter ''bad id'';
          a = enc_ErrorResponse we (ErrorResponse_from e);
          b = enc_ErrorResponse we (ErrorResponse_from e)
      in a = b \<and> at_key (at_key a ''error'') ''code'' = DStr ''INVALID_PARAMETER'' \<and>
         at_key a ''contract_version'' = DInt 1)"

definition responses_round_trip_and_carry_contract_version ::
  "WireEnv \<Rightarrow> FileId \<Rightarrow> DirectoryId \<Rightarrow> DateTime \<Rightarrow> DateTime \<Rightarrow> bool" where
  "responses_round_trip_and_carry_contract_version we fid dir created modified \<longleftrightarrow>
     (let f = \<lparr>f_file_id = fid, f_parent_id = dir, f_name = ''a.txt'', f_current_version_id = None,
                 f_created_at = created, f_modified_at = modified\<rparr>;
          r = FileResponse_new f;
          json = enc_FileResponse we r
      in at_key json ''contract_version'' = DInt 1 \<and> dec_FileResponse we json = Some r)"

definition health_has_the_exact_documented_shape :: bool where
  "health_has_the_exact_documented_shape \<longleftrightarrow>
     (let v = enc_HealthResponse HealthResponse_ok
      in at_key v ''status'' = DStr ''ok'' \<and> at_key v ''service'' = DStr ''space-cloud'' \<and>
         at_key v ''contract_version'' = DInt 1)"

definition commit_request_is_empty_object :: "WireEnv \<Rightarrow> bool" where
  "commit_request_is_empty_object we \<longleftrightarrow>
     dec_CommitVersionRequest we (DMap []) = Some CommitVersionRequest \<and>
     dec_CommitVersionRequest we (DMap [(''x'', DInt 1)]) = None"

section \<open>All of them pass\<close>

lemma is_err_ChunkId_parse: "is_err (ChunkId_parse s) \<longleftrightarrow> \<not> wf_chunk_id (ChunkId s)"
  using ChunkId_parse_Ok_iff [of s] ChunkId_parse_not_Panic [of s]
  by (cases "ChunkId_parse s") auto

lemma uuid_tests_pass:
  "uuid_text uuid_parse uuid_show \<Longrightarrow> file_id_round_trips uuid_parse uuid_show i"
  "\<forall>s\<in>{''not-a-uuid'', uuid_show 0 @ '' '', ''01890a5d'' @ [CHR 0x00] @ ''ac96''}. uuid_parse s = None \<Longrightarrow>
   file_id_rejects_bad_input uuid_parse uuid_show v"
proof -
  show "file_id_round_trips uuid_parse uuid_show i" if "uuid_text uuid_parse uuid_show"
  proof -
    have "starts_with ''f_'' (show_uuid_id ''f_'' uuid_show i)" by (simp add: starts_with_def show_uuid_id_def)
    then show ?thesis
      by (simp add: file_id_round_trips_def FileId_show_def FileId_parse_def Let_def parse_show_uuid_id [OF that])
  qed
  show "file_id_rejects_bad_input uuid_parse uuid_show v"
    if "\<forall>s\<in>{''not-a-uuid'', uuid_show 0 @ '' '', ''01890a5d'' @ [CHR 0x00] @ ''ac96''}. uuid_parse s = None"
    using that by (simp add: file_id_rejects_bad_input_def FileId_parse_def parse_uuid_id_def strip_prefix_def
        VersionId_show_def show_uuid_id_def)
qed

lemma vector_tests_pass:
  "b3hex [] = ''af1349b9f5f9a1a6a0404dea36dcc9499bcb25c9adc112b7cc9a93cae41f3262'' \<Longrightarrow>
   chunk_id_from_empty_is_stable b3hex"
  "b3hex abc_bytes = ''6437b3ac38465133ffb63b75273a8db548c558465d79db03fd359c6cd5bd9d85'' \<Longrightarrow>
   chunk_id_matches_known_blake3_vector_for_abc b3hex"
  by (simp_all add: chunk_id_from_empty_is_stable_def chunk_id_matches_known_blake3_vector_for_abc_def
      ChunkId_from_bytes_def)

lemma replace_absent: "CHR '':'' \<notin> set s \<Longrightarrow> replace_all ''b3:'' [] s = s"
proof (induction s)
  case (Cons c cs)
  then have "\<not> starts_with ''b3:'' (c # cs)"
    by (cases cs; cases "tl cs") (auto simp: starts_with_def)
  with Cons show ?case by simp
qed simp

lemma malformed_test_passes:
  assumes "hex_digest b3hex"
  shows "chunk_id_parse_rejects_malformed b3hex"
proof -
  let ?hex = "b3hex abc_bytes"
  have hex: "length ?hex = 64" "list_all is_lower_hex ?hex" using assms by (simp_all add: hex_digest_def)
  then have no_colon: "CHR '':'' \<notin> set ?hex" by (auto simp: list_all_iff is_lower_hex_def)
  have "replace_all ''b3:'' [] (''b3:'' @ ?hex) = ?hex"
    using replace_absent [OF no_colon] by (simp add: starts_with_def)
  moreover have "\<not> wf_chunk_id (ChunkId ?hex)" using no_colon by (auto simp: wf_chunk_id_def)
  moreover have "to_upper (CHR ''b'') = CHR ''B''" by code_simp
  then have "\<not> wf_chunk_id (ChunkId (map to_upper (''b3:'' @ ?hex)))" by (simp add: wf_chunk_id_def)
  moreover have "wf_chunk_id (ChunkId (''b3:'' @ ?hex))" using hex by (simp add: wf_chunk_id_def)
  moreover have "\<not> wf_chunk_id (ChunkId ''b3:6437b3ac'')"
    "\<not> wf_chunk_id (ChunkId ((''b3:'' @ ?hex) @ ''0''))" using hex(1) by (simp_all add: wf_chunk_id_def)
  moreover have "\<not> wf_chunk_id (ChunkId (''b3:'' @ replicate 64 (CHR ''g'')))"
    by (simp add: wf_chunk_id_def list_all_iff is_lower_hex_def)
  ultimately show ?thesis
    by (simp add: chunk_id_parse_rejects_malformed_def show_chunk_id_def ChunkId_from_bytes_def Let_def
        is_err_ChunkId_parse)
qed

lemma upper_code: "map to_upper (wire_code c) = wire_code c"
  by (cases c; hypsubst; code_simp)

lemma code_test_passes: "codes_round_trip_through_serde_with_screaming_snake_names we"
proof -
  have "dec_code we (DStr (wire_code c)) = Some c" for c
    using code_codec.round_trip [OF TrueI, of we c] by (simp add: enc_code_def screaming_codes)
  then show ?thesis
    unfolding codes_round_trip_through_serde_with_screaming_snake_names_def enc_code_def screaming_codes
    by (simp add: upper_code list_all_iff)
qed

lemma json_tests_pass:
  assumes "wire_ok we"
  shows "space_error_round_trips_through_json we"
    and "create_file_request_rejects_unknown_fields we"
    and "we_uuid_parse we sample_parent_text = Some u \<Longrightarrow> create_file_request_accepts_the_exact_fields we"
    and "error_shape_is_identical_across_endpoints we"
    and "responses_round_trip_and_carry_contract_version we fid dir created modified"
    and "health_has_the_exact_documented_shape"
    and "commit_request_is_empty_object we"
proof -
  show "space_error_round_trips_through_json we"
    using assms by (simp add: space_error_round_trips_through_json_def error_round_trip new_error_def Let_def)
  show "create_file_request_rejects_unknown_fields we"
    unfolding create_file_request_rejects_unknown_fields_def
    by (rule request_unknown_field(1) [of "''wat''"]) simp_all
  show "create_file_request_accepts_the_exact_fields we" if "we_uuid_parse we sample_parent_text = Some u"
    using that by (simp add: create_file_request_accepts_the_exact_fields_def exact_create_fields_def
        dec_CreateFileRequest_def read_fields_map serde_simps dec_id_def)
  show "error_shape_is_identical_across_endpoints we"
    by (simp add: error_shape_is_identical_across_endpoints_def enc_ErrorResponse_def enc_response_def at_key_def
        ErrorResponse_from_def new_error_def Let_def present_def enc_code_def screaming_codes [of InvalidParameter, simplified]
        enc_word_def CONTRACT_VERSION_def)
  show "responses_round_trip_and_carry_contract_version we fid dir created modified"
    using response_round_trips(1) [OF assms]
    by (simp add: responses_round_trip_and_carry_contract_version_def Let_def)
      (simp add: enc_FileResponse_def enc_response_def at_key_def FileResponse_new_def enc_word_def CONTRACT_VERSION_def)
  show "health_has_the_exact_documented_shape"
    by (simp add: health_has_the_exact_documented_shape_def enc_HealthResponse_def HealthResponse_ok_def at_key_def
        enc_word_def CONTRACT_VERSION_def Let_def)
  show "commit_request_is_empty_object we"
    by (simp add: commit_request_is_empty_object_def dec_CommitVersionRequest_def read_fields_map)
qed

end
