(* ===== verification/Spec2Isabelle.thy ===== *)
theory Spec2Isabelle
  imports Retry_Properties Busy_Server Busy_Chain Negative_Chain Happy_Suite Service_Properties Client_Properties Tool_Properties Damage_Properties
    Wire_Properties Metadata_Contract Generator_Tests Logging_Tests Happy_Chain Server_Main Contract_Tests Client_Tests Service_Tests Wire_Tests
begin

text \<open>
  SPACE, a cloud filesystem, at its Phase 0: a server that keeps files as versions, versions as
  manifests and manifests as lists of ranges of content-addressed chunks; a client that calls it over
  HTTP and puts files together again; and the contracts both share.  This library models the Rust
  crates of the repository and proves what makes them correct.

  The parts, in the order the code depends on them.

  \<^item> The contracts (\<^verbatim>\<open>contracts/src\<close>).  Theory Errors has the 26 error codes, their classification tables
    and the error value with its chain of causes (\<^verbatim>\<open>errors.rs\<close>).  Identities and Ids have the six kinds of
    UUID identity, kept apart by a phantom type as in the code, and the content address (\<^verbatim>\<open>ids.rs\<close>).
    Model has the records of \<^verbatim>\<open>model.rs\<close>.  Validate has the validators of \<^verbatim>\<open>validate.rs\<close>, one definition
    each, and the declarative form of an acceptable manifest (\<open>manifest_ok\<close>: its entries tile the file and
    each lies in its chunk) to which they are proved equivalent.  Api_Contract has the bodies of
    \<^verbatim>\<open>api.rs\<close>.  Serde models what serde's derives do over a tree of JSON values: reading a struct by its
    fields, strictly or not, defaults, options, lists and the shapes of an enum; Wire_Format has with it
    the reader and the writer of every type and body of the contract.  Redaction has the type of
    \<^verbatim>\<open>redaction.rs\<close>, Logging the sinks, their once-only installation and the assembly of a log line
    (\<^verbatim>\<open>logging.rs\<close>).
  \<^item> The object store (\<^verbatim>\<open>objectstore/src/lib.rs\<close>), in theory Object_Store: the two traits as the locales
    \<open>object_store\<close> and \<open>object_store_admin\<close>, whose laws are what callers rely on, and the in-memory store
    \<open>fake_put\<close>, \<open>fake_get\<close>, \<open>fake_get_range\<close> and so on, which interprets both.  Theory Conformance has the
    shared conformance suite (\<^verbatim>\<open>objectstore/src/conformance.rs\<close>) as a program over any store, proved to pass in
    an extension of the same locale.
  \<^item> The metadata store (\<^verbatim>\<open>cloud/metadata/src/lib.rs\<close>).  Metadata_Store has the record \<open>Inner\<close> with the maps
    of the struct (the file map, the idempotency keys, versions, manifests, chunks) and one definition
    per method.  Metadata_Contract has the trait as a record of methods, and what callers rely on (a version
    that was committed stays readable) as a locale that the in-memory store interprets.
    Metadata_Invariants has the step relation \<open>meta_step\<close> (one call of a method, the lock held
    throughout), the invariant \<open>store_inv\<close> with one preservation lemma per method, and the abstract
    machine \<open>view_step\<close> that readers see.  Transition_Systems holds the two locales this is an instance of.
  \<^item> The service (\<^verbatim>\<open>cloud/api/src/lib.rs\<close>).  Cloud_Api has the handlers \<open>h_...\<close>, the router \<open>route\<close>, the request-id
    layer and the mapping of codes to HTTP statuses.  A handler that takes both stores' locks does so one
    after the other; Cloud_Runs has the relation \<open>server_step\<close> of the single locked sections, so that its runs
    contain every interleaving of concurrent requests, and the invariant \<open>app_inv\<close> that ties the two stores.
    Server_Main is the process around it (\<^verbatim>\<open>cloud/api/src/main.rs\<close>): address and log sink from the
    environment, the lines logged, the requests served until the signal.
  \<^item> The client (\<^verbatim>\<open>client/core/src/lib.rs\<close>).  Cloud_Client has every call of \<open>CloudClient\<close> over a transport, a
    function from the state of the world and a request to a response or a network failure.  Reassembly has
    what reassembly means for the bytes and the locale \<open>chunk_source\<close> in which it is proved.  System and Rpc put
    client and server together: the transport \<open>over_http\<close> hands the request to the server's model.  Retry has
    the orders \<open>grows\<close> and \<open>server_grows\<close> in which every step moves up, what a call does when it is repeated
    in any later state, and a network that loses requests or responses; Busy_Server the network to a server that
    serves other clients between any two requests, and the two locked sections of a range read; Busy_Chain the
    end-to-end chain over that network.  Damage is
    the same composition over a store that was damaged behind the server's back: a range read over the
    network is the store's own range read, error included.
  \<^item> The client's start (\<^verbatim>\<open>client/config/src/lib.rs\<close>, \<^verbatim>\<open>client/core/src/startup.rs\<close>): Config_Format has the typed reading of a
    parsed TOML document section by section, Config every check of
    \<^verbatim>\<open>Config::load\<close> on a parsed file, the credential scan and the probe of the directories on an abstract
    disk; Startup has the arguments, the log sink, the exit code and what is printed and logged, and the
    client's \<^verbatim>\<open>main\<close>.
  \<^item> Tools for tests that are programs of their own: Faults (\<^verbatim>\<open>faults/src/lib.rs\<close>), Corruptor
    (\<^verbatim>\<open>tools/corruptor/src/lib.rs\<close>) and Generators (\<^verbatim>\<open>tests/generators/src/lib.rs\<close>), over a random
    number generator that is a parameter with its state explicit; Generator_Tests adds \<^verbatim>\<open>with_seed\<close> over the
    panic hook.
  \<^item> The tests the repository keeps beside the code, as programs over the model: Contract_Tests,
    Wire_Tests, Client_Tests, Service_Tests and Generator_Tests have the \<^verbatim>\<open>mod tests\<close> of the crates,
    Logging_Tests the scenario of \<^verbatim>\<open>tests/suites/tests/logging.rs\<close>.  Of the end-to-end suites, Happy_Chain has the chain
    for one size, Chain_Server the server started in the process (\<^verbatim>\<open>tests/suites/tests/common/mod.rs\<close>) and the life of
    a file on a server that has others, Happy_Suite the two tests of \<^verbatim>\<open>e2e_chain_happy.rs\<close> and Negative_Chain the
    eleven cases of \<^verbatim>\<open>e2e_chain_negative.rs\<close>.  Each is proved to pass, for every digest with the documented form
    where it needs one; a case with two contents assumes that the digest tells them apart.

  Prelude holds the outcome of a Rust call (\<open>Ok\<close>, \<open>Err\<close> or \<open>Panic\<close>), its combinators, the integer types with
  checked, saturating and plain arithmetic (plain \<open>+\<close> and \<open>-\<close> panic in a \<open>Debug\<close> profile and wrap in \<open>Release\<close>),
  slices and windows; Rust_Strings the string functions and the decimal printer and parser.  Samples has
  the concrete states that the witnesses of the properties evaluate.

  The properties stand in Contract_Properties (validator, corruption, identities, error model, redaction),
  Store_Properties (round trips, exact ranges, damage, invariants, idempotence, commit), Retry_Properties
  (a call repeated after a network failure), Wire_Properties (the documents of the contract are read back,
  agree with the bodies of the model and are read strictly where the contract says so), Service_Properties
  (the server's answers, ranges, uploads, reassembly, transparency of the client's calls), Client_Properties
  (configuration, exit code, log line, fault points), Tool_Properties (the conformance suite, the
  generators), Damage_Properties (damaged objects and bad manifests, seen by the client) and below (the running system as a whole).

  Parameters.  What is not code of the repository is an argument of the definitions that use it: the
  printing and parsing of UUIDs (assumed to be inverse to each other, and in a URL without slashes, where a
  property needs it), the BLAKE3 digest in hexadecimal (assumed to be 64 lower-case digits; that two
  contents have different digests is assumed only of the contents that a suite or a session names), the
  clock, fresh UUIDs, the order in which a hash map is traversed, the text a JSON rendering has, the limit
  on bodies and the extractors of the web framework (record \<open>Env\<close>), the TOML parser, the file system
  (records \<open>Loader\<close>, \<open>Disk\<close>, \<open>Host\<close>) and the network.  Between a text and its tree of values stands the JSON or
  TOML library; between the tree and the typed body stands the code's derives, which are modelled and proved
  lossless.  Whether a format reads a sequence as a struct and a non-string as the name of a variant are
  parameters too (\<open>we_seq_ok\<close>, \<open>ld_seq_ok\<close>, \<open>we_variant\<close>).

  Bounds.  An object in memory is shorter than \<open>2 ^ 63\<close> bytes, the most a Rust allocation holds, and
  reassembly panics beyond it as \<^verbatim>\<open>vec!\<close> does.  A range longer than \<open>2 ^ 32\<close> bytes is truncated by the server,
  which is shown, so that the properties of reading name the bound.  Recursions are structural or on
  a measure, what is left to read in the two loops of the generators; no fuel is used.

  Not modelled: the sockets and the accept loop (the address of a server started for a test is an
  argument), the delivery of signals, the rolling log file, the texts of JSON and TOML, the poisoning of
  locks by a panicking thread, which are the libraries' and appear as parameters or not at all.  Of the
  methods of HTTP a request of the model has the three that the router registers: the framework answers
  a HEAD request as the GET without its body, and every other method on a known path as the model
  answers a registered method on the wrong path, 405.  What a failed write leaves on the disk is a
  parameter (\<open>dk_partial\<close>).  A request that is cancelled stops between two locked sections, which the runs of
  \<open>server_step\<close> contain.  The process harness under \<^verbatim>\<open>tests/harness\<close> starts, polls and kills processes and copies
  log files; the suites \<^verbatim>\<open>integration\<close>, \<^verbatim>\<open>concurrency\<close>, \<^verbatim>\<open>crash\<close>, \<^verbatim>\<open>performance\<close> and \<^verbatim>\<open>security\<close> are placeholders.
  \<^verbatim>\<open>tools/fixturegen\<close> only names the generators again, and the crates \<^verbatim>\<open>cloud/auth\<close>, \<^verbatim>\<open>cloud/chunks\<close>,
  \<^verbatim>\<open>cloud/database\<close>, \<^verbatim>\<open>cloud/manifests\<close> and \<^verbatim>\<open>cloud/versions\<close> are empty.
\<close>

section \<open>The running system\<close>

text \<open>C1: End to end: in every state the server reaches, whatever requests interleaved before, a committed
  version has a valid stored manifest, and a client that reassembles it over the network gets exactly
  the bytes its entries name in the stored chunks, as many as the manifest announces (for files and
  entries within the sizes the client and the range read can carry).\<close>

theorem committed_version_is_readable:
  assumes "(server_step (ce_b3hex ce))\<^sup>*\<^sup>* AppState_default st" and "same_world ce envs"
    and "visible (st_meta st) v = Some ver"
  shows "\<exists>m. s_manifests (st_meta st) (v_manifest_id ver) = Some m \<and> validate_manifest m = Ok () \<and>
    (small_entries m \<longrightarrow>
      (fst (reassemble ce (over_http base envs) \<lparr>cc_base = base\<rparr> (n, st) m)
        = Ok (file_bytes (st_blobs st) m) \<and>
       length (file_bytes (st_blobs st) m) = unat (m_total_size m)))"
proof -
  have inv: "app_inv (ce_b3hex ce) st" using assms(1) by (rule server.reachable_inv)
  then obtain m where m: "s_manifests (st_meta st) (v_manifest_id ver) = Some m" "manifest_ok m"
    using visible_manifest [of "st_meta st" v ver] assms(3) by (auto simp: app_inv_def)
  have w: "world_ok ce envs (n, st)" using inv assms(2) by (simp add: world_ok_def)
  have "fst (reassemble ce (over_http base envs) \<lparr>cc_base = base\<rparr> (n, st) m) = Ok (file_bytes (st_blobs st) m)
      \<and> length (file_bytes (st_blobs st) m) = unat (m_total_size m)" if small: "small_entries m"
  proof -
    obtain w' where r: "reassemble ce (over_http base envs) \<lparr>cc_base = base\<rparr> (n, st) m
        = (Ok (file_bytes (st_blobs st) m), w')"
      using reassemble_over_http [OF w _ small, of "v_manifest_id ver" base] m(1) by auto
    from reassemble_result(2) [OF this] this show ?thesis by simp
  qed
  then show ?thesis using m by (auto simp: manifest_ok_validates)
qed

theorem committed_version_is_readable_witness:
  "\<exists>m. s_manifests (st_meta sample_app) (UuidId 7) = Some m \<and>
     fst (reassemble sample_client (over_http ''http://h'' sample_envs) \<lparr>cc_base = ''http://h''\<rparr> (0, sample_app) m)
       = Ok [20, 30, 40, 10, 20]"
proof -
  have "(server_step (ce_b3hex sample_client))\<^sup>*\<^sup>* AppState_default sample_app"
    using sample_app_reached by (simp add: sample_client_def)
  moreover have "visible (st_meta sample_app) (UuidId 9) = Some (sample_version\<lparr>v_state := Committed\<rparr>)"
    using sample_visible by (simp add: sample_app_def)
  moreover have "v_manifest_id (sample_version\<lparr>v_state := Committed\<rparr>) = UuidId 7"
    using sample_candidate_lookup by simp
  moreover have "s_manifests (st_meta sample_app) (UuidId 7) = Some sample_manifest"
    using sample_manifest_stored by (simp add: sample_app_def)
  moreover have "file_bytes (st_blobs sample_app) sample_manifest = [20, 30, 40, 10, 20]"
    by (simp add: file_bytes_def entry_bytes_def sample_app_def sample_manifest_def sample_bytes_def
        take_Cons' drop_Cons')
  ultimately show ?thesis
    using committed_version_is_readable [OF _ sample_world, of sample_app "UuidId 9" _ "''http://h''" 0]
      sample_small by fastforce
qed




text \<open>A whole working session goes through: on every state the server reaches, a client with fresh
  names that creates a file, uploads every chunk of a generated manifest twice, stores the manifest,
  creates and commits the version, reassembles the file and stats it, gets at each step what the
  end-to-end test asserts, the bytes read are the bytes generated, and the version ends up committed in
  a consistent server.\<close>

theorem happy_chain_passes:
  assumes "(server_step (ce_b3hex ce))\<^sup>*\<^sup>* AppState_default st" and "same_world ce envs"
    and "plain_uuids (ce_uuid_show ce)" and "hex_digest (ce_b3hex ce)" and "rng_ok R" and "unat size' < 2 ^ 63"
    and "generate_manifest R (ce_b3hex ce) (ce_profile ce) mid size' E2E_CHUNK seed = Ok (m, bodies)"
    and "inj_on (ce_b3hex ce) (snd ` set bodies \<union> ran (st_blobs st))"
    and "chain_new envs n (st_meta st) size' seed mid vid" and "chain_fits envs dir size' seed m bodies vid"
  shows "\<exists>n' st' ver. run_chain_for_size ce (over_http base envs) \<lparr>cc_base = base\<rparr> R dir mid vid size' seed (n, st)
      = (Ok (), (n', st')) \<and> app_inv (ce_b3hex ce) st' \<and> visible (st_meta st') vid = Some ver"
proof -
  have "world_ok ce envs (n, st)"
    using server.reachable_inv [OF assms(1)] assms(2) by (simp add: world_ok_def)
  from happy_chain_Ok [OF this assms(3,5,4,6-10), of base] show ?thesis by (auto simp: world_ok_def)
qed

theorem happy_chain_passes_witness:
  "\<exists>w'. run_chain_for_size sample_client (over_http ''http://h'' sample_envs) \<lparr>cc_base = ''http://h''\<rparr>
     zero_rng (UuidId 2) (UuidId 7) (UuidId 9) 5 1 (0, AppState_default) = (Ok (), w')"
proof -
  have c: "ce_b3hex sample_client = zero_hex" "ce_profile sample_client = Debug"
    by (simp_all add: sample_client_def)
  have "cut_sizes (unat (5 :: u64)) (unat E2E_CHUNK) = [5]" "0 < E2E_CHUNK"
    by (simp_all add: cut_sizes_def E2E_CHUNK_def)
  then obtain m bodies where m: "generate_manifest zero_rng zero_hex Debug (UuidId 7) 5 E2E_CHUNK 1 = Ok (m, bodies)"
      "map (length \<circ> snd) bodies = [5]"
    using generated_file_cut [OF zero_rng_ok, of 5 E2E_CHUNK zero_hex Debug "UuidId 7" 1] by auto
  then obtain ch bs where b: "bodies = [(ch, bs)]" "length bs = 5" by (auto simp: map_eq_Cons_conv)
  have "chain_new sample_envs 0 (st_meta AppState_default) 5 1 (UuidId 7) (UuidId 9)"
    by (simp add: chain_new_def AppState_default_def store_new_def)
  moreover have "chain_fits sample_envs (UuidId 2) 5 1 m bodies (UuidId 9)"
    using b by (simp add: chain_fits_def body_fits_def body_bytes_def sample_envs_def)
  moreover have "inj_on zero_hex (snd ` set bodies \<union> ran (st_blobs AppState_default))"
    using b by (simp add: AppState_default_def fake_new_def)
  ultimately show ?thesis
    using happy_chain_passes [of sample_client AppState_default sample_envs zero_rng 5 "UuidId 7" 1 m bodies 0
        "UuidId 9" "UuidId 2" "''http://h''"]
      sample_world sample_plain zero_hex_digest zero_rng_ok m(1) by (fastforce simp: c)
qed

text \<open>C2: The working session goes through beside other clients, too.  Between any two requests of the
  session, the one that reads the file back included, the server serves any requests of other clients; as
  long as they leave the session's own names alone and bring no content that collides with its chunks,
  every assertion of the end-to-end test still holds and the version ends up visible in a consistent server.\<close>

theorem session_beside_others:
  assumes "(server_step (ce_b3hex ce))\<^sup>*\<^sup>* AppState_default st" and "same_world ce envs"
    and "plain_uuids (ce_uuid_show ce)" and "hex_digest (ce_b3hex ce)" and "rng_ok R" and "unat size' < 2 ^ 63"
    and "generate_manifest R (ce_b3hex ce) (ce_profile ce) mid size' E2E_CHUNK seed = Ok (m, bodies)"
    and "inj_on (ce_b3hex ce) (snd ` set bodies \<union> ran (st_blobs st) \<union> theirs)"
    and "chain_new envs n (st_meta st) size' seed mid vid" and "chain_fits envs dir size' seed m bodies vid"
    and "only_requests (ce_b3hex ce) others"
    and "leave_alone others theirs (chain_key size' seed) (env_fresh_file (envs n)) mid vid"
  shows "\<exists>n' st' ver. run_chain_for_size ce (beside others base envs) \<lparr>cc_base = base\<rparr> R dir mid vid size' seed (n, st)
      = (Ok (), (n', st')) \<and> app_inv (ce_b3hex ce) st' \<and> visible (st_meta st') vid = Some ver"
proof -
  have "world_ok ce envs (n, st)"
    using server.reachable_inv [OF assms(1)] assms(2) by (simp add: world_ok_def)
  from chain_beside_Ok [OF assms(11,12) this assms(3,5,4,6-10), of base] show ?thesis by (auto simp: world_ok_def)
qed

text \<open>Beside a client that creates a file of its own under the key \<^verbatim>\<open>theirs\<close>, unless it is there.\<close>

definition create_theirs :: "nat \<Rightarrow> AppState \<Rightarrow> AppState" where
  "create_theirs n st =
     (if s_files (st_meta st) (UuidId 500) = None
      then snd (h_create_file (UuidId 500) (int n) st
        \<lparr>cfr_parent_id = UuidId 2, cfr_name = ''theirs'', cfr_idempotency_key = ''theirs''\<rparr>)
      else st)"

lemma create_theirs_requests: "only_requests b3hex create_theirs"
  by (auto simp: only_requests_def create_theirs_def intro: server_runs)

lemma create_theirs_apart: "leave_alone create_theirs {} (chain_key 5 1) (UuidId 100) (UuidId 7) (UuidId 9)"
proof -
  have "chain_key 5 1 \<noteq> ''theirs''" by (simp add: chain_key_def)
  moreover have "(UuidId 100 :: FileId) \<noteq> UuidId 500" by simp
  ultimately show ?thesis
    by (auto simp: leave_alone_def create_theirs_def h_create_file_snd create_file_def Let_def split: option.split)
qed

theorem session_beside_others_witness:
  "\<exists>w'. run_chain_for_size sample_client (beside create_theirs ''http://h'' sample_envs) \<lparr>cc_base = ''http://h''\<rparr>
     zero_rng (UuidId 2) (UuidId 7) (UuidId 9) 5 1 (0, AppState_default) = (Ok (), w')"
proof -
  have c: "ce_b3hex sample_client = zero_hex" "ce_profile sample_client = Debug" "env_fresh_file (sample_envs 0) = UuidId 100"
    by (simp_all add: sample_client_def sample_envs_def)
  have "cut_sizes (unat (5 :: u64)) (unat E2E_CHUNK) = [5]" "0 < E2E_CHUNK"
    by (simp_all add: cut_sizes_def E2E_CHUNK_def)
  then obtain m bodies where m: "generate_manifest zero_rng zero_hex Debug (UuidId 7) 5 E2E_CHUNK 1 = Ok (m, bodies)"
      "map (length \<circ> snd) bodies = [5]"
    using generated_file_cut [OF zero_rng_ok, of 5 E2E_CHUNK zero_hex Debug "UuidId 7" 1] by auto
  then obtain ch bs where b: "bodies = [(ch, bs)]" "length bs = 5" by (auto simp: map_eq_Cons_conv)
  have "chain_new sample_envs 0 (st_meta AppState_default) 5 1 (UuidId 7) (UuidId 9)"
    by (simp add: chain_new_def AppState_default_def store_new_def)
  moreover have "chain_fits sample_envs (UuidId 2) 5 1 m bodies (UuidId 9)"
    using b by (simp add: chain_fits_def body_fits_def body_bytes_def sample_envs_def)
  moreover have "inj_on zero_hex (snd ` set bodies \<union> ran (st_blobs AppState_default) \<union> {})"
    using b by (simp add: AppState_default_def fake_new_def)
  moreover have "leave_alone create_theirs {} (chain_key 5 1) (env_fresh_file (sample_envs 0)) (UuidId 7) (UuidId 9)"
    using create_theirs_apart c(3) by simp
  ultimately show ?thesis
    using session_beside_others [of sample_client AppState_default sample_envs zero_rng 5 "UuidId 7" 1 m bodies "{}" 0
        "UuidId 9" "UuidId 2" create_theirs "''http://h''"]
      sample_world sample_plain zero_hex_digest zero_rng_ok m(1) create_theirs_requests by (fastforce simp: c(1,2))
qed

text \<open>C4: What is committed never changes: along every further run of the server, a version that a reader
  has seen stays visible with the same record, the same manifest and the same bytes.\<close>

theorem committed_content_is_immutable:
  assumes "(server_step b3hex)\<^sup>*\<^sup>* AppState_default st" and "(server_step b3hex)\<^sup>*\<^sup>* st st'"
    and "visible (st_meta st) v = Some ver" and "s_manifests (st_meta st) (v_manifest_id ver) = Some m"
  shows "visible (st_meta st') v = Some ver \<and> s_manifests (st_meta st') (v_manifest_id ver) = Some m \<and>
    file_bytes (st_blobs st') m = file_bytes (st_blobs st) m"
proof -
  have inv: "app_inv b3hex st" using assms(1) by (rule server.reachable_inv)
  have vis: "visible (st_meta st') v = Some ver"
    using server.abstract_stable [of "\<lambda>r. rv_version r v = Some ver", OF _ assms(2) inv] assms(3)
      view_version_stable by auto
  have "Option.bind (visible (st_meta st') v) (\<lambda>w. s_manifests (st_meta st') (v_manifest_id w)) = Some m"
    using server.abstract_stable [of "\<lambda>r. rv_version r v \<noteq> None \<and> rv_content r v = Some m", OF _ assms(2) inv]
      assms(3,4) view_content_stable by auto
  moreover have "file_bytes (st_blobs st') m = file_bytes (st_blobs st) m"
    using stored_manifest [OF inv assms(4)] blob_stable_run [OF assms(2) inv]
    by (intro file_bytes_mono) (auto simp: map_le_def dom_def)
  ultimately show ?thesis using vis by simp
qed

theorem committed_content_is_immutable_witness:
  "visible (st_meta (snd (h_put_chunk zero_hex sample_app (as_str sample_id) sample_bytes))) (UuidId 9)
     = Some (sample_version\<lparr>v_state := Committed\<rparr>)"
proof -
  have "(server_step zero_hex)\<^sup>*\<^sup>* sample_app (snd (h_put_chunk zero_hex sample_app (as_str sample_id) sample_bytes))"
    by (rule h_put_chunk_run [OF sample_fits])
  moreover have "visible (st_meta sample_app) (UuidId 9) = Some (sample_version\<lparr>v_state := Committed\<rparr>)"
    using sample_visible by (simp add: sample_app_def)
  moreover have "s_manifests (st_meta sample_app) (v_manifest_id (sample_version\<lparr>v_state := Committed\<rparr>))
      = Some sample_manifest"
    using sample_manifest_stored sample_candidate_lookup by (simp add: sample_app_def)
  ultimately show ?thesis using committed_content_is_immutable [OF sample_app_reached] by blast
qed

text \<open>C6: The server refines the machine its readers see: whatever requests do and however they
  interleave, a reader observes only that nothing changes, that an empty file appears, or that a
  complete, valid version of an existing file appears under a new id and becomes the current one.\<close>

theorem server_refines_readers_view:
  assumes "(server_step b3hex)\<^sup>*\<^sup>* AppState_default st" and "(server_step b3hex)\<^sup>*\<^sup>* st st'"
  shows "view_step\<^sup>*\<^sup>* (readers_view (st_meta st)) (readers_view (st_meta st'))"
  using server.run_simulates [OF assms(2) server.reachable_inv [OF assms(1)]] .

theorem server_refines_readers_view_witness:
  "view_step\<^sup>*\<^sup>* (readers_view store_new) (readers_view sample_store)"
  using server_refines_readers_view [OF rtranclp.rtrancl_refl sample_app_reached]
  by (simp add: AppState_default_def sample_app_def)

text \<open>C7: Both stores stay consistent with each other under every interleaving of requests: a registered
  chunk has a stored body of the registered size, every stored body has the digest its address names,
  and the metadata store keeps its own invariant.\<close>

theorem stores_stay_consistent:
  assumes "(server_step b3hex)\<^sup>*\<^sup>* AppState_default st"
  shows "store_inv (st_meta st) \<and>
    (\<forall>i bs. st_blobs st i = Some bs \<longrightarrow> ChunkId_verify b3hex i bs \<and> fake_get b3hex (st_blobs st) i = Ok bs) \<and>
    (\<forall>i c. s_chunks (st_meta st) i = Some c \<longrightarrow>
      (\<exists>bs. st_blobs st i = Some bs \<and> unat (c_size c) = length bs))"
proof -
  have inv: "app_inv b3hex st" using assms by (rule server.reachable_inv)
  then have blobs: "fits_memory bs \<and> ChunkId_verify b3hex i bs" if "st_blobs st i = Some bs" for i bs
    using that by (auto simp: app_inv_def blobs_ok_def fake_inv_def)
  then have "fake_get b3hex (st_blobs st) i = Ok bs" if "st_blobs st i = Some bs" for i bs
    using that by (simp add: fake_get_def)
  moreover have "\<exists>bs. st_blobs st i = Some bs \<and> unat (c_size c) = length bs"
    if "s_chunks (st_meta st) i = Some c" for i c
  proof -
    have "backed st" using inv by (simp add: app_inv_def)
    then obtain bs where "st_blobs st i = Some bs" "c_size c = len_u64 bs"
      using \<open>s_chunks (st_meta st) i = Some c\<close> by (auto simp: backed_def)
    then show ?thesis using blobs by (auto simp: unat_len_fits)
  qed
  ultimately show ?thesis using inv blobs by (auto simp: app_inv_def)
qed

theorem stores_stay_consistent_witness: "fake_get zero_hex (st_blobs sample_app) sample_id = Ok sample_bytes"
  using stores_stay_consistent [OF sample_app_reached] sample_blobs_ok(2) by blast

text \<open>Serving one request is a run of locked sections, so that what holds along every run holds
  whatever sequence of requests is served.\<close>

theorem request_is_a_run:
  assumes "env_ok env st"
  shows "(server_step (env_b3hex env))\<^sup>*\<^sup>* st (snd (request_id_layer env st q))"
  using assms by (rule request_run)

theorem request_is_a_run_witness:
  "(server_step zero_hex)\<^sup>*\<^sup>* sample_app (snd (request_id_layer (sample_envs 0) sample_app sample_request))"
proof -
  have "s_files sample_store (UuidId 100) = None"
    by (simp add: sample_store_def sample_candidate_store_def sample_store2_def sample_store1_def
        publish_version_def add_version_def add_manifest_def add_chunk_def add_file_def new_file_def
        store_new_def sample_version_def candidate_def)
  then have "env_ok (sample_envs 0) sample_app"
    by (simp add: env_ok_def sample_envs_def sample_app_def)
  from request_is_a_run [OF this] show ?thesis by (simp add: sample_envs_def)
qed

end
